(* ===== verification/Prelude.thy ===== *)
theory Prelude
  imports Main "HOL-Library.Word" "HOL-Library.List_Lexorder" "HOL-Library.Char_ord"
begin

section \<open>Shared types, ordered maps and lemma collections\<close>

text \<open>
  What every component of the model shares: the machine integers, Rust strings, results,
  the ordered map that stands for \<open>BTreeMap\<close> (and for \<open>serde_json::Map\<close>, which
  is a \<open>BTreeMap\<close> in this build), the interface of a keyed store and its laws, decimal
  numerals and the byte level of UTF-8.
\<close>

named_theorems store_simps \<open>lookup laws of keyed stores\<close>
named_theorems frame_simps \<open>what an operation leaves unchanged\<close>
named_theorems wf_intros \<open>preservation of well-formedness\<close>

subsection \<open>Integers, strings, results\<close>

type_synonym u8 = "8 word"
type_synonym u16 = "16 word"
type_synonym u32 = "32 word"
type_synonym u64 = "64 word"

text \<open>A signed 64-bit integer is the same word, read with \<open>sint\<close>.\<close>
type_synonym i64 = "64 word"

text \<open>A Rust \<open>String\<close> is the list of its UTF-8 bytes.\<close>
type_synonym rstring = string

text \<open>A \<open>Result\<close> is a sum: the error on the left, the value on the right.\<close>

abbreviation Ok :: "'a \<Rightarrow> 'e + 'a" where "Ok \<equiv> Inr"
abbreviation Err :: "'e \<Rightarrow> 'e + 'a" where "Err \<equiv> Inl"

fun and_then :: "'e + 'a \<Rightarrow> ('a \<Rightarrow> 'e + 'b) \<Rightarrow> 'e + 'b" where
  "and_then (Inl e) f = Inl e"
| "and_then (Inr a) f = f a"

fun map_err :: "('e \<Rightarrow> 'f) \<Rightarrow> 'e + 'a \<Rightarrow> 'f + 'a" where
  "map_err f (Inl e) = Inl (f e)"
| "map_err f (Inr a) = Inr a"

fun ok_or :: "'e \<Rightarrow> 'a option \<Rightarrow> 'e + 'a" where
  "ok_or e None = Inl e"
| "ok_or e (Some a) = Inr a"

fun is_ok :: "'e + 'a \<Rightarrow> bool" where
  "is_ok (Inl _) = False"
| "is_ok (Inr _) = True"

text \<open>\<open>collect::<Result<Vec<_>, _>>()\<close>: the first error wins.\<close>

fun collect_results :: "('a \<Rightarrow> 'e + 'b) \<Rightarrow> 'a list \<Rightarrow> 'e + 'b list" where
  "collect_results f [] = Inr []"
| "collect_results f (x # xs) =
     and_then (f x) (\<lambda>y. and_then (collect_results f xs) (\<lambda>ys. Inr (y # ys)))"

text \<open>\<open>for x in xs { f(x, s)?; }\<close>\<close>

fun try_fold :: "('a \<Rightarrow> 's \<Rightarrow> 'e + 's) \<Rightarrow> 'a list \<Rightarrow> 's \<Rightarrow> 'e + 's" where
  "try_fold f [] s = Ok s"
| "try_fold f (x # xs) s = and_then (f x s) (try_fold f xs)"

text \<open>
  The \<open>?\<close> operator in a function that also threads a state: an error returns at once with
  the state reached so far.
\<close>

definition try_arg :: "'e + 'a \<Rightarrow> ('a \<Rightarrow> 's \<Rightarrow> ('e + 'b) \<times> 's) \<Rightarrow> 's \<Rightarrow> ('e + 'b) \<times> 's" where
  "try_arg r k s = (case r of Inl e \<Rightarrow> (Inl e, s) | Inr a \<Rightarrow> k a s)"

lemma try_fold_append: "try_fold f (xs @ ys) s = and_then (try_fold f xs s) (try_fold f ys)"
proof (induction xs arbitrary: s)
  case (Cons x xs)
  then show ?case by (cases "f x s") simp_all
qed simp

lemma try_fold_map: "try_fold f (map g xs) s = try_fold (\<lambda>x. f (g x)) xs s"
proof (induction xs arbitrary: s)
  case (Cons x xs)
  then show ?case by (cases "f (g x) s") simp_all
qed simp

lemma try_fold_cong: "(\<And>x s. x \<in> set xs \<Longrightarrow> f x s = g x s) \<Longrightarrow> try_fold f xs s = try_fold g xs s"
proof (induction xs arbitrary: s)
  case (Cons x xs)
  then show ?case by (cases "g x s") simp_all
qed simp

lemma try_fold_skip:
  "(\<And>x s. x \<in> set xs \<Longrightarrow> \<not> P x \<Longrightarrow> f x s = Inr s) \<Longrightarrow> try_fold f (filter P xs) s = try_fold f xs s"
proof (induction xs arbitrary: s)
  case (Cons x xs)
  then show ?case by (cases "P x"; cases "f x s") auto
qed simp

lemma try_fold_invariant:
  assumes "try_fold f xs s = Inr t" and "I s"
    and "\<And>x s t. x \<in> set xs \<Longrightarrow> I s \<Longrightarrow> f x s = Inr t \<Longrightarrow> I t"
  shows "I t"
  using assms
proof (induction xs arbitrary: s)
  case (Cons x xs)
  from Cons.prems(1) obtain u where u: "f x s = Inr u" "try_fold f xs u = Inr t"
    by (cases "f x s") simp_all
  have "I u" using Cons.prems(3)[OF _ Cons.prems(2) u(1)] by simp
  then show ?case using Cons.IH[OF u(2)] Cons.prems(3) by (meson list.set_intros(2))
qed simp

lemma unat_ucast_up:
  assumes "LENGTH('a) \<le> LENGTH('b)"
  shows "unat (ucast (w :: 'a::len word) :: 'b::len word) = unat w"
proof -
  have "unat w < 2 ^ LENGTH('a)" by simp
  also have "\<dots> \<le> (2 :: nat) ^ LENGTH('b)" using assms by (intro power_increasing) simp_all
  finally show ?thesis by (simp add: unsigned_ucast_eq take_bit_nat_eq_self)
qed

lemma try_arg_simps [simp]:
  "try_arg (Inl e) k s = (Inl e, s)"
  "try_arg (Inr a) k s = k a s"
  by (simp_all add: try_arg_def)

lemma try_arg_split:
  "P (try_arg r k s) \<longleftrightarrow>
     (\<forall>e. r = Inl e \<longrightarrow> P (Inl e, s)) \<and> (\<forall>a. r = Inr a \<longrightarrow> P (k a s))"
  by (cases r) simp_all

lemma and_then_Ok_iff: "and_then r f = Inr b \<longleftrightarrow> (\<exists>a. r = Inr a \<and> f a = Inr b)"
  by (cases r) simp_all

lemma map_err_Ok_iff [simp]: "map_err f r = Inr a \<longleftrightarrow> r = Inr a"
  by (cases r) simp_all

lemma ok_or_Ok_iff [simp]: "ok_or e x = Inr a \<longleftrightarrow> x = Some a"
  by (cases x) simp_all

lemma ok_or_Err_iff [simp]: "ok_or e x = Inl e' \<longleftrightarrow> x = None \<and> e' = e"
  by (cases x) auto

lemma is_ok_iff: "is_ok r \<longleftrightarrow> (\<exists>a. r = Inr a)"
  by (cases r) simp_all

lemma collect_results_Ok_iff:
  "collect_results f xs = Inr ys \<longleftrightarrow> list_all2 (\<lambda>x y. f x = Inr y) xs ys"
proof (induction xs arbitrary: ys)
  case Nil
  then show ?case by auto
next
  case (Cons x xs)
  then show ?case by (auto simp: and_then_Ok_iff list_all2_Cons1)
qed

subsection \<open>The interface of a keyed store\<close>

text \<open>
  Several components keep values under keys: the ordered map itself, the node registry, the
  node files on disk, the supervisor's per-node tables. Their shared contract is a lookup, an
  insertion, a removal and an invariant; the client lemmas are proved once.
\<close>

locale keyed_store =
  fixes lookup :: "'m \<Rightarrow> 'k \<Rightarrow> 'v option"
    and ins :: "'k \<Rightarrow> 'v \<Rightarrow> 'm \<Rightarrow> 'm"
    and del :: "'k \<Rightarrow> 'm \<Rightarrow> 'm"
    and ok :: "'m \<Rightarrow> bool"
  assumes lookup_ins: "ok m \<Longrightarrow> lookup (ins k v m) j = (if j = k then Some v else lookup m j)"
    and lookup_del: "ok m \<Longrightarrow> lookup (del k m) j = (if j = k then None else lookup m j)"
    and ok_ins: "ok m \<Longrightarrow> ok (ins k v m)"
    and ok_del: "ok m \<Longrightarrow> ok (del k m)"
begin

lemma get_after_ins: "ok m \<Longrightarrow> lookup (ins k v m) k = Some v"
  by (simp add: lookup_ins)

lemma get_other: "ok m \<Longrightarrow> j \<noteq> k \<Longrightarrow> lookup (ins k v m) j = lookup m j"
  by (simp add: lookup_ins)

lemma get_after_del: "ok m \<Longrightarrow> lookup (del k m) k = None"
  by (simp add: lookup_del)

lemma ins_overwrites: "ok m \<Longrightarrow> lookup (ins k w (ins k v m)) = lookup (ins k w m)"
  by (rule ext) (simp add: lookup_ins ok_ins)

lemma ins_commutes:
  "ok m \<Longrightarrow> j \<noteq> k \<Longrightarrow> lookup (ins j w (ins k v m)) = lookup (ins k v (ins j w m))"
  by (rule ext) (simp add: lookup_ins ok_ins)

lemma del_undoes_fresh_ins: "ok m \<Longrightarrow> lookup m k = None \<Longrightarrow> lookup (del k (ins k v m)) = lookup m"
  by (rule ext) (simp add: lookup_ins lookup_del ok_ins)

lemma ok_fold_ins: "ok m \<Longrightarrow> ok (fold (\<lambda>(k, v). ins k v) kvs m)"
  by (induction kvs arbitrary: m) (auto intro: ok_ins)

lemma lookup_fold_ins:
  "ok m \<Longrightarrow> lookup (fold (\<lambda>(k, v). ins k v) kvs m) j =
     (case map_of (rev kvs) j of Some v \<Rightarrow> Some v | None \<Rightarrow> lookup m j)"
proof (induction kvs arbitrary: m)
  case Nil
  then show ?case by simp
next
  case (Cons kv kvs)
  then show ?case
    by (cases kv) (auto simp: ok_ins lookup_ins map_add_def split: option.splits)
qed

end

subsection \<open>Ordered maps: \<open>BTreeMap\<close>\<close>

text \<open>
  A \<open>BTreeMap\<close> is the list of its bindings in ascending key order; that order is what
  iteration yields, so it is part of the model.
\<close>

type_synonym ('k, 'v) omap = "('k \<times> 'v) list"

definition om_ok :: "('k::linorder, 'v) omap \<Rightarrow> bool" where
  "om_ok m \<longleftrightarrow> sorted_wrt (<) (map fst m)"

definition om_get :: "('k, 'v) omap \<Rightarrow> 'k \<Rightarrow> 'v option" where
  "om_get m k = map_of m k"

fun om_insert :: "'k::linorder \<Rightarrow> 'v \<Rightarrow> ('k, 'v) omap \<Rightarrow> ('k, 'v) omap" where
  "om_insert k v [] = [(k, v)]"
| "om_insert k v ((j, w) # m) =
     (if k < j then (k, v) # (j, w) # m
      else if k = j then (k, v) # m
      else (j, w) # om_insert k v m)"

definition om_remove :: "'k \<Rightarrow> ('k, 'v) omap \<Rightarrow> ('k, 'v) omap" where
  "om_remove k m = filter (\<lambda>(j, _). j \<noteq> k) m"

definition om_keys :: "('k, 'v) omap \<Rightarrow> 'k list" where
  "om_keys m = map fst m"

definition om_values :: "('k, 'v) omap \<Rightarrow> 'v list" where
  "om_values m = map snd m"

definition om_contains :: "('k, 'v) omap \<Rightarrow> 'k \<Rightarrow> bool" where
  "om_contains m k \<longleftrightarrow> om_get m k \<noteq> None"

text \<open>\<open>into_iter().collect()\<close> into a map: insertion in order, so a later duplicate wins.\<close>

definition om_of_list :: "('k::linorder \<times> 'v) list \<Rightarrow> ('k, 'v) omap" where
  "om_of_list kvs = fold (\<lambda>(k, v) m. om_insert k v m) kvs []"

text \<open>\<open>get_mut(k).map(f)\<close>: an update of the value in place.\<close>

definition om_update :: "'k::linorder \<Rightarrow> ('v \<Rightarrow> 'v) \<Rightarrow> ('k, 'v) omap \<Rightarrow> ('k, 'v) omap" where
  "om_update k f m = map (\<lambda>(j, v). if j = k then (j, f v) else (j, v)) m"

lemma om_ok_Nil [simp]: "om_ok []"
  by (simp add: om_ok_def)

lemma om_get_Nil [simp]: "om_get [] k = None"
  by (simp add: om_get_def)

lemma om_get_Cons [simp]: "om_get ((j, v) # m) k = (if k = j then Some v else om_get m k)"
  by (simp add: om_get_def)

lemma om_get_insert [store_simps]:
  "om_get (om_insert k v m) j = (if j = k then Some v else om_get m j)"
  by (induction k v m rule: om_insert.induct) auto

lemma om_get_remove [store_simps]:
  "om_get (om_remove k m) j = (if j = k then None else om_get m j)"
  by (induction m) (auto simp: om_remove_def)

lemma om_get_update [store_simps]:
  "om_get (om_update k f m) j = (if j = k then map_option f (om_get m j) else om_get m j)"
  by (induction m) (auto simp: om_update_def)

lemma set_om_insert: "set (om_insert k v m) \<subseteq> insert (k, v) (set m)"
  by (induction k v m rule: om_insert.induct) auto

lemma set_om_insert_keys: "fst ` set (om_insert k v m) = insert k (fst ` set m)"
  by (induction k v m rule: om_insert.induct) auto

lemma om_ok_insert [wf_intros]: "om_ok m \<Longrightarrow> om_ok (om_insert k v m)"
proof (induction k v m rule: om_insert.induct)
  case (2 k v j w m)
  then show ?case
    using set_om_insert_keys[of k v m]
    by (auto simp: om_ok_def)
qed (simp add: om_ok_def)

lemma om_ok_remove [wf_intros]: "om_ok m \<Longrightarrow> om_ok (om_remove k m)"
  by (induction m) (auto simp: om_ok_def om_remove_def)

lemma om_keys_update [simp]: "map fst (om_update k f m) = map fst m"
  by (induction m) (auto simp: om_update_def)

lemma om_ok_update [wf_intros]: "om_ok m \<Longrightarrow> om_ok (om_update k f m)"
  by (simp add: om_ok_def)

interpretation om: keyed_store om_get om_insert om_remove om_ok
  by unfold_locales (auto simp: om_get_insert om_get_remove om_ok_insert om_ok_remove)

lemma om_ok_of_list [wf_intros]: "om_ok (om_of_list kvs)"
  unfolding om_of_list_def using om.ok_fold_ins[of "[]" kvs] by (simp add: case_prod_beta')

lemma om_get_of_list [store_simps]: "om_get (om_of_list kvs) k = map_of (rev kvs) k"
  unfolding om_of_list_def using om.lookup_fold_ins[of "[]" kvs k]
  by (simp add: case_prod_beta' split: option.splits)

lemma om_ok_distinct: "om_ok m \<Longrightarrow> distinct (map fst m)"
  by (simp add: om_ok_def strict_sorted_iff)

lemma om_ok_sorted: "om_ok m \<Longrightarrow> sorted (map fst m)"
  by (simp add: om_ok_def strict_sorted_imp_sorted)

lemma om_get_in_set: "om_ok m \<Longrightarrow> om_get m k = Some v \<longleftrightarrow> (k, v) \<in> set m"
  by (simp add: om_get_def om_ok_distinct)

lemma om_get_SomeD: "om_get m k = Some v \<Longrightarrow> (k, v) \<in> set m"
  by (simp add: om_get_def map_of_SomeD)

lemma om_get_None_iff: "om_get m k = None \<longleftrightarrow> k \<notin> fst ` set m"
  by (simp add: om_get_def map_of_eq_None_iff)

lemma om_eqI: "om_ok m \<Longrightarrow> om_ok n \<Longrightarrow> (\<And>k. om_get m k = om_get n k) \<Longrightarrow> m = n"
proof (rule map_sorted_distinct_set_unique[where f = fst])
  assume ok: "om_ok m" "om_ok n" and eq: "\<And>k. om_get m k = om_get n k"
  show "sorted (map fst m)" "sorted (map fst n)" using ok by (auto dest: om_ok_sorted)
  show "distinct (map fst m)" "distinct (map fst n)" using ok by (auto dest: om_ok_distinct)
  show sets: "set m = set n"
    using om_get_in_set[OF ok(1)] om_get_in_set[OF ok(2)] eq by auto
  show "inj_on fst (set m \<union> set n)"
    using om_ok_distinct[OF ok(1)] sets by (simp add: distinct_map)
qed

lemma om_insert_same: "om_ok m \<Longrightarrow> om_get m k = Some v \<Longrightarrow> om_insert k v m = m"
  by (rule om_eqI) (auto simp: store_simps intro: wf_intros)

lemma map_of_rev_distinct: "distinct (map fst m) \<Longrightarrow> map_of (rev m) = map_of m"
  by (subst map_of_inject_set) (simp_all flip: rev_map)

lemma om_of_list_ok_id: "om_ok m \<Longrightarrow> om_of_list m = m"
proof (rule om_eqI)
  fix k
  assume "om_ok m"
  then show "om_get (om_of_list m) k = om_get m k"
    by (simp add: om_get_of_list map_of_rev_distinct om_ok_distinct) (simp add: om_get_def)
qed (simp_all add: wf_intros)

end
