(* ===== verification/Strings.thy ===== *)
theory Strings
  imports Prelude
begin

section \<open>The string operations of the Rust standard library\<close>

text \<open>
  Byte-level models of the \<open>str\<close> and integer-parsing functions the source calls: decimal
  rendering (\<open>Display\<close>) and \<open>from_str\<close> of the unsigned integers, the splitting
  functions, ASCII case folding, and \<open>chars\<close> / \<open>trim\<close> on UTF-8. The lemmas are
  the round trips and the shape facts the components use.
\<close>

subsection \<open>Bytes and ASCII\<close>

definition byte :: "char \<Rightarrow> nat" where
  "byte c = of_char c"

lemma byte_inject [simp]: "byte c = byte d \<longleftrightarrow> c = d"
  by (simp add: byte_def)

lemma byte_lt_256: "byte c < 256"
  by (simp add: byte_def)

definition is_digit :: "char \<Rightarrow> bool" where
  "is_digit c \<longleftrightarrow> 48 \<le> byte c \<and> byte c \<le> 57"

text \<open>\<open>char::is_ascii_hexdigit\<close>\<close>

definition is_hexdigit :: "char \<Rightarrow> bool" where
  "is_hexdigit c \<longleftrightarrow>
     is_digit c \<or> (97 \<le> byte c \<and> byte c \<le> 102) \<or> (65 \<le> byte c \<and> byte c \<le> 70)"

definition lower_char :: "char \<Rightarrow> char" where
  "lower_char c = (if 65 \<le> byte c \<and> byte c \<le> 90 then char_of (byte c + 32) else c)"

text \<open>\<open>str::to_ascii_lowercase\<close> and \<open>eq_ignore_ascii_case\<close>\<close>

definition to_ascii_lowercase :: "rstring \<Rightarrow> rstring" where
  "to_ascii_lowercase s = map lower_char s"

definition eq_ignore_ascii_case :: "rstring \<Rightarrow> rstring \<Rightarrow> bool" where
  "eq_ignore_ascii_case s t \<longleftrightarrow> to_ascii_lowercase s = to_ascii_lowercase t"

lemma byte_char_of: "n < 256 \<Longrightarrow> byte (char_of n) = n"
  by (simp add: byte_def)

lemma lower_char_idem [simp]: "lower_char (lower_char c) = lower_char c"
  by (simp add: lower_char_def byte_char_of)

lemma to_ascii_lowercase_idem [simp]:
  "to_ascii_lowercase (to_ascii_lowercase s) = to_ascii_lowercase s"
  by (simp add: to_ascii_lowercase_def)

definition starts_with :: "rstring \<Rightarrow> rstring \<Rightarrow> bool" where
  "starts_with p s \<longleftrightarrow> take (length p) s = p"

definition ends_with :: "rstring \<Rightarrow> rstring \<Rightarrow> bool" where
  "ends_with p s \<longleftrightarrow> starts_with (rev p) (rev s)"

lemma starts_with_iff: "starts_with p s \<longleftrightarrow> (\<exists>t. s = p @ t)"
  unfolding starts_with_def by (metis append_eq_conv_conj append_take_drop_id)

lemma ends_with_iff: "ends_with p s \<longleftrightarrow> (\<exists>t. s = t @ p)"
  unfolding ends_with_def starts_with_iff by (metis rev_append rev_rev_ident)

subsection \<open>Decimal numerals\<close>

definition digit_char :: "nat \<Rightarrow> char" where
  "digit_char d = char_of (48 + d)"

fun dec_of_nat :: "nat \<Rightarrow> rstring" where
  "dec_of_nat n =
     (if n < 10 then [digit_char n] else dec_of_nat (n div 10) @ [digit_char (n mod 10)])"

declare dec_of_nat.simps [simp del]

text \<open>\<open>format!("{n}")\<close> of an unsigned integer\<close>

definition dec_of :: "'a::len word \<Rightarrow> rstring" where
  "dec_of w = dec_of_nat (unat w)"

definition hex_char :: "nat \<Rightarrow> char" where
  "hex_char d = (if d < 10 then char_of (48 + d) else char_of (87 + d))"

text \<open>\<open>{:0<n>x}\<close>, for numbers of at most \<open>n\<close> digits\<close>

definition hex_padded :: "nat \<Rightarrow> nat \<Rightarrow> rstring" where
  "hex_padded n v = map (\<lambda>k. hex_char (v div 16 ^ k mod 16)) (rev [0..<n])"

text \<open>\<open>{:016X}\<close>\<close>

definition hex_char_upper :: "nat \<Rightarrow> char" where
  "hex_char_upper d = (if d < 10 then char_of (48 + d) else char_of (55 + d))"

definition hex_padded_upper :: "nat \<Rightarrow> nat \<Rightarrow> rstring" where
  "hex_padded_upper n v = map (\<lambda>k. hex_char_upper (v div 16 ^ k mod 16)) (rev [0..<n])"

text \<open>
  \<open>uN::from_str\<close>: an optional leading \<open>+\<close>, then at least one digit and nothing else,
  with a value that fits. The limit is one past the largest value.
\<close>

definition digits_value :: "rstring \<Rightarrow> nat" where
  "digits_value s = fold (\<lambda>c n. 10 * n + (byte c - 48)) s 0"

definition parse_dec :: "nat \<Rightarrow> rstring \<Rightarrow> nat option" where
  "parse_dec lim s =
     (let ds = (case s of [] \<Rightarrow> [] | c # t \<Rightarrow> if c = CHR ''+'' then t else s)
      in if ds = [] \<or> \<not> list_all is_digit ds then None
         else if digits_value ds < lim then Some (digits_value ds) else None)"

definition parse_uint :: "rstring \<Rightarrow> 'a::len word option" where
  "parse_uint s = map_option of_nat (parse_dec (2 ^ LENGTH('a)) s)"

lemma byte_digit_char: "d < 10 \<Longrightarrow> byte (digit_char d) = 48 + d"
  by (simp add: digit_char_def byte_char_of)

lemma is_digit_digit_char: "d < 10 \<Longrightarrow> is_digit (digit_char d)"
  by (simp add: is_digit_def byte_digit_char)

lemma dec_of_nat_digits: "list_all is_digit (dec_of_nat n)"
proof (induction n rule: dec_of_nat.induct)
  case (1 n)
  then show ?case
    by (subst dec_of_nat.simps) (auto simp: is_digit_digit_char)
qed

lemma dec_of_nat_nonempty [simp]: "dec_of_nat n \<noteq> []"
  by (subst dec_of_nat.simps) simp

lemma digits_value_snoc: "digits_value (s @ [c]) = 10 * digits_value s + (byte c - 48)"
  by (simp add: digits_value_def)

lemma digits_value_dec_of_nat: "digits_value (dec_of_nat n) = n"
proof (induction n rule: dec_of_nat.induct)
  case (1 n)
  show ?case
  proof (cases "n < 10")
    case True
    then show ?thesis
      by (subst dec_of_nat.simps) (simp add: digits_value_def byte_digit_char)
  next
    case False
    with 1 show ?thesis
      by (subst dec_of_nat.simps) (simp add: digits_value_snoc byte_digit_char)
  qed
qed

lemma is_digit_plus: "\<not> is_digit (CHR ''+'')"
  by (simp add: is_digit_def byte_def)

lemma parse_dec_dec_of_nat: "n < lim \<Longrightarrow> parse_dec lim (dec_of_nat n) = Some n"
proof -
  assume lim: "n < lim"
  obtain c t where ct: "dec_of_nat n = c # t"
    by (cases "dec_of_nat n") auto
  with dec_of_nat_digits[of n] have "c \<noteq> CHR ''+''"
    using is_digit_plus by auto
  with ct lim dec_of_nat_digits[of n] digits_value_dec_of_nat[of n] show ?thesis
    by (simp add: parse_dec_def)
qed

lemma parse_dec_lt: "parse_dec lim s = Some n \<Longrightarrow> n < lim"
  by (auto simp: parse_dec_def Let_def split: if_splits)

lemma parse_uint_dec_of: "parse_uint (dec_of w) = Some w"
  by (simp add: parse_uint_def dec_of_def parse_dec_dec_of_nat)

lemma parse_uint_unat: "parse_uint s = Some (w :: 'a::len word) \<longleftrightarrow>
    parse_dec (2 ^ LENGTH('a)) s = Some (unat w)"
proof -
  have "unat (of_nat n :: 'a word) = n" if "parse_dec (2 ^ LENGTH('a)) s = Some n" for n
    using parse_dec_lt[OF that] by (simp add: unat_of_nat)
  then show ?thesis
    by (auto simp: parse_uint_def)
qed

lemma dec_of_nat_inject [simp]: "dec_of_nat m = dec_of_nat n \<longleftrightarrow> m = n"
  by (metis digits_value_dec_of_nat)

lemma dec_of_inject [simp]: "dec_of (v :: 'a::len word) = dec_of w \<longleftrightarrow> v = w"
  by (simp add: dec_of_def word_unat_eq_iff)

lemma dec_of_nonempty [simp]: "dec_of w \<noteq> []"
  by (simp add: dec_of_def)

lemma dec_of_no_char: "\<not> is_digit c \<Longrightarrow> c \<notin> set (dec_of w)"
  using dec_of_nat_digits[of "unat w"] by (auto simp: dec_of_def list_all_iff)

subsection \<open>Splitting\<close>

text \<open>\<open>str::split(c)\<close>: always at least one piece.\<close>

fun split_on :: "char \<Rightarrow> rstring \<Rightarrow> rstring list" where
  "split_on c [] = [[]]"
| "split_on c (x # xs) =
     (if x = c then [] # split_on c xs
      else (case split_on c xs of [] \<Rightarrow> [[x]] | p # ps \<Rightarrow> (x # p) # ps))"

text \<open>\<open>str::split_once(c)\<close> and \<open>str::rsplit_once(c)\<close>\<close>

fun split_once :: "char \<Rightarrow> rstring \<Rightarrow> (rstring \<times> rstring) option" where
  "split_once c [] = None"
| "split_once c (x # xs) =
     (if x = c then Some ([], xs) else map_option (\<lambda>(a, b). (x # a, b)) (split_once c xs))"

definition rsplit_once :: "char \<Rightarrow> rstring \<Rightarrow> (rstring \<times> rstring) option" where
  "rsplit_once c s = map_option (\<lambda>(a, b). (rev b, rev a)) (split_once c (rev s))"

definition strip_prefix_char :: "char \<Rightarrow> rstring \<Rightarrow> rstring option" where
  "strip_prefix_char c s = (case s of [] \<Rightarrow> None | x # xs \<Rightarrow> if x = c then Some xs else None)"

definition count_char :: "char \<Rightarrow> rstring \<Rightarrow> nat" where
  "count_char c s = length (filter (\<lambda>x. x = c) s)"

lemma split_once_Some_iff:
  "split_once c s = Some (a, b) \<longleftrightarrow> s = a @ c # b \<and> c \<notin> set a"
proof (induction s arbitrary: a)
  case (Cons x xs)
  show ?case by (cases a) (auto simp: Cons.IH)
qed simp

lemma split_once_None_iff: "split_once c s = None \<longleftrightarrow> c \<notin> set s"
  by (induction c s rule: split_once.induct) auto

lemma rsplit_once_Some_iff:
  "rsplit_once c s = Some (a, b) \<longleftrightarrow> s = a @ c # b \<and> c \<notin> set b"
proof -
  have "rsplit_once c s = Some (a, b) \<longleftrightarrow> split_once c (rev s) = Some (rev b, rev a)"
    by (cases "split_once c (rev s)") (auto simp: rsplit_once_def)
  also have "\<dots> \<longleftrightarrow> rev s = rev (a @ c # b) \<and> c \<notin> set b"
    by (simp add: split_once_Some_iff)
  finally show ?thesis by (simp only: rev_is_rev_conv)
qed

lemma rsplit_once_None_iff: "rsplit_once c s = None \<longleftrightarrow> c \<notin> set s"
  by (simp add: rsplit_once_def split_once_None_iff)

lemma split_on_nonempty [simp]: "split_on c s \<noteq> []"
  by (induction c s rule: split_on.induct) (auto split: list.splits)

lemma split_on_absent: "c \<notin> set s \<Longrightarrow> split_on c s = [s]"
  by (induction c s rule: split_on.induct) auto

lemma split_on_append: "c \<notin> set s \<Longrightarrow> split_on c (s @ c # t) = s # split_on c t"
  by (induction s) auto

lemma split_on_hd_no_sep: "c \<notin> set (hd (split_on c s))"
  by (induction c s rule: split_on.induct) (auto split: list.splits)

subsection \<open>UTF-8 characters\<close>

definition is_continuation :: "char \<Rightarrow> bool" where
  "is_continuation c \<longleftrightarrow> 128 \<le> byte c \<and> byte c < 192"

text \<open>\<open>str::chars\<close>, each character as its bytes\<close>

function utf8_chars :: "rstring \<Rightarrow> rstring list" where
  "utf8_chars [] = []"
| "utf8_chars (c # s) =
     (c # takeWhile is_continuation s) # utf8_chars (dropWhile is_continuation s)"
  by pat_completeness auto
termination
  by (relation "measure length") (auto simp: le_imp_less_Suc length_dropWhile_le)

text \<open>The characters of Unicode property \<open>White_Space\<close>, as UTF-8 byte values\<close>

definition whitespace_chars :: "nat list list" where
  "whitespace_chars =
     [[9], [10], [11], [12], [13], [32], [194, 133], [194, 160], [225, 154, 128],
      [226, 128, 128], [226, 128, 129], [226, 128, 130], [226, 128, 131], [226, 128, 132],
      [226, 128, 133], [226, 128, 134], [226, 128, 135], [226, 128, 136], [226, 128, 137],
      [226, 128, 138], [226, 128, 168], [226, 128, 169], [226, 128, 175], [226, 129, 159],
      [227, 128, 128]]"

definition is_whitespace :: "rstring \<Rightarrow> bool" where
  "is_whitespace ch \<longleftrightarrow> map byte ch \<in> set whitespace_chars"

definition trim_chars :: "rstring list \<Rightarrow> rstring list" where
  "trim_chars cs = rev (dropWhile is_whitespace (rev (dropWhile is_whitespace cs)))"

text \<open>\<open>str::trim\<close>\<close>

definition trim :: "rstring \<Rightarrow> rstring" where
  "trim s = concat (trim_chars (utf8_chars s))"

text \<open>\<open>s.chars().take(n).collect()\<close>\<close>

definition take_chars :: "nat \<Rightarrow> rstring \<Rightarrow> rstring" where
  "take_chars n s = concat (take n (utf8_chars s))"

lemma concat_utf8_chars [simp]: "concat (utf8_chars s) = s"
  by (induction s rule: utf8_chars.induct) auto

text \<open>
  A list of characters is regular when every piece is one head byte and continuation bytes,
  and only the first head may be a continuation byte; these are the lists \<open>utf8_chars\<close>
  gives back from their concatenation.
\<close>

definition char_piece :: "rstring \<Rightarrow> bool" where
  "char_piece ch \<longleftrightarrow> ch \<noteq> [] \<and> list_all is_continuation (tl ch)"

definition regular_chars :: "rstring list \<Rightarrow> bool" where
  "regular_chars cs \<longleftrightarrow>
     list_all char_piece cs \<and> list_all (\<lambda>ch. \<not> is_continuation (hd ch)) (tl cs)"

lemma regular_utf8_chars: "regular_chars (utf8_chars s)"
proof (induction s rule: utf8_chars.induct)
  case (2 c s)
  have "\<not> is_continuation (hd (hd (utf8_chars (dropWhile is_continuation s))))"
    if "utf8_chars (dropWhile is_continuation s) \<noteq> []"
    using that by (cases "dropWhile is_continuation s")
      (auto dest!: dropWhile_eq_Cons_conv[THEN iffD1])
  with 2 show ?case
    by (cases "utf8_chars (dropWhile is_continuation s)")
      (auto simp: regular_chars_def char_piece_def list_all_iff dest: set_takeWhileD)
qed (simp add: regular_chars_def)

lemma utf8_chars_concat: "regular_chars cs \<Longrightarrow> utf8_chars (concat cs) = cs"
proof (induction cs)
  case (Cons ch cs)
  then have reg: "regular_chars cs" and piece: "char_piece ch"
    by (cases cs; auto simp: regular_chars_def)+
  obtain c t where ch: "ch = c # t" and t: "\<forall>x \<in> set t. is_continuation x"
    using piece by (cases ch) (auto simp: char_piece_def list_all_iff)
  have nxt: "takeWhile is_continuation (concat cs) = [] \<and>
      dropWhile is_continuation (concat cs) = concat cs"
  proof (cases cs)
    case (Cons d ds)
    with Cons.prems show ?thesis
      by (cases d) (auto simp: regular_chars_def char_piece_def)
  qed simp
  have "takeWhile is_continuation (t @ concat cs) = t"
       "dropWhile is_continuation (t @ concat cs) = concat cs"
    using t nxt by simp_all
  then show ?case using Cons.IH[OF reg] ch by simp
qed simp

lemma regular_chars_take: "regular_chars cs \<Longrightarrow> regular_chars (take n cs)"
  by (cases cs; cases n) (auto simp: regular_chars_def list_all_iff dest: in_set_takeD)

lemma regular_chars_drop: "regular_chars cs \<Longrightarrow> regular_chars (drop n cs)"
proof -
  assume reg: "regular_chars cs"
  have "set (tl (drop n cs)) \<subseteq> set (tl cs)"
    by (simp add: tl_drop set_drop_subset)
  with reg show ?thesis
    by (auto simp: regular_chars_def list_all_iff dest: in_set_dropD)
qed

lemma trim_chars_factor: "\<exists>m n. trim_chars cs = take n (drop m cs)"
proof -
  have "dropWhile is_whitespace cs = drop (length (takeWhile is_whitespace cs)) cs"
    by (simp add: dropWhile_eq_drop)
  moreover have "rev (dropWhile is_whitespace (rev ds)) =
      take (length ds - length (takeWhile is_whitespace (rev ds))) ds" for ds
    by (simp add: dropWhile_eq_drop rev_drop)
  ultimately show ?thesis unfolding trim_chars_def by metis
qed

lemma regular_trim_chars: "regular_chars cs \<Longrightarrow> regular_chars (trim_chars cs)"
  using trim_chars_factor[of cs] regular_chars_take regular_chars_drop by metis

lemma utf8_chars_trim: "utf8_chars (trim s) = trim_chars (utf8_chars s)"
  by (simp add: trim_def utf8_chars_concat regular_trim_chars regular_utf8_chars)

lemma utf8_chars_take_chars: "utf8_chars (take_chars n s) = take n (utf8_chars s)"
  by (simp add: take_chars_def utf8_chars_concat regular_chars_take regular_utf8_chars)

lemma utf8_chars_eq_Nil [simp]: "utf8_chars s = [] \<longleftrightarrow> s = []"
  by (cases s) simp_all

lemma trim_chars_id:
  assumes "cs = [] \<or> (\<not> is_whitespace (hd cs) \<and> \<not> is_whitespace (last cs))"
  shows "trim_chars cs = cs"
proof (cases "cs = []")
  case False
  then have "dropWhile is_whitespace cs = cs"
    using assms by (cases cs) simp_all
  moreover have "dropWhile is_whitespace (rev cs) = rev cs"
    using assms False by (cases "rev cs") (auto simp: last_rev simp flip: hd_rev)
  ultimately show ?thesis by (simp add: trim_chars_def)
qed (simp add: trim_chars_def)

lemma hd_trim_chars: "trim_chars cs \<noteq> [] \<Longrightarrow> \<not> is_whitespace (hd (trim_chars cs))"
proof -
  assume ne: "trim_chars cs \<noteq> []"
  let ?ds = "dropWhile is_whitespace cs"
  obtain n where n: "trim_chars cs = take n ?ds"
    unfolding trim_chars_def by (metis dropWhile_eq_drop rev_drop rev_rev_ident)
  with ne have "?ds \<noteq> []" "n \<noteq> 0" by auto
  then show ?thesis
    using n hd_dropWhile[of is_whitespace cs] by (metis hd_take neq0_conv dropWhile_eq_Nil_conv)
qed

lemma last_trim_chars: "trim_chars cs \<noteq> [] \<Longrightarrow> \<not> is_whitespace (last (trim_chars cs))"
  unfolding trim_chars_def
  by (metis dropWhile_eq_Nil_conv hd_dropWhile last_rev rev_is_Nil_conv)

declare utf8_chars.simps(2) [simp del]

subsection \<open>Lossy UTF-8 (\<open>String::from_utf8_lossy\<close>)\<close>

text \<open>
  The length of the well-formed character or of the ill-formed piece a byte string begins with,
  and whether it is well formed; a piece is replaced by U+FFFD.
\<close>

definition in_range :: "nat \<Rightarrow> nat \<Rightarrow> rstring \<Rightarrow> nat \<Rightarrow> bool" where
  "in_range lo hi s i \<longleftrightarrow> i < length s \<and> lo \<le> byte (s ! i) \<and> byte (s ! i) \<le> hi"

definition utf8_piece :: "rstring \<Rightarrow> bool \<times> nat" where
  "utf8_piece s =
     (let b = byte (hd s); cont = in_range 128 191 s;
          second = (if b = 224 then in_range 160 191 s 1
                    else if b = 237 then in_range 128 159 s 1
                    else if b = 240 then in_range 144 191 s 1
                    else if b = 244 then in_range 128 143 s 1
                    else cont 1)
      in if b < 128 then (True, 1)
         else if 194 \<le> b \<and> b \<le> 223 then (if cont 1 then (True, 2) else (False, 1))
         else if 224 \<le> b \<and> b \<le> 239 then
           (if \<not> second then (False, 1) else if \<not> cont 2 then (False, 2) else (True, 3))
         else if 240 \<le> b \<and> b \<le> 244 then
           (if \<not> second then (False, 1) else if \<not> cont 2 then (False, 2)
            else if \<not> cont 3 then (False, 3) else (True, 4))
         else (False, 1))"

lemma utf8_piece_pos: "utf8_piece s = (ok, n) \<Longrightarrow> 0 < n"
  by (auto simp: utf8_piece_def Let_def split: if_splits)

definition replacement_char :: rstring where
  "replacement_char = [char_of (239 :: nat), char_of (191 :: nat), char_of (189 :: nat)]"

function from_utf8_lossy :: "rstring \<Rightarrow> rstring" where
  "from_utf8_lossy s =
     (if s = [] then []
      else (case utf8_piece s of
              (ok, n) \<Rightarrow> (if ok then take n s else replacement_char) @ from_utf8_lossy (drop n s)))"
  by auto

termination
  by (relation "measure length") (auto dest: utf8_piece_pos[OF sym])

declare from_utf8_lossy.simps [simp del]

text \<open>The byte strings that are well-formed UTF-8; a lossy reading leaves them as they are.\<close>

inductive valid_utf8 :: "rstring \<Rightarrow> bool" where
  empty: "valid_utf8 []"
| piece: "\<lbrakk>s \<noteq> []; utf8_piece s = (True, n); valid_utf8 (drop n s)\<rbrakk> \<Longrightarrow> valid_utf8 s"

lemma from_utf8_lossy_valid: "valid_utf8 s \<Longrightarrow> from_utf8_lossy s = s"
proof (induction rule: valid_utf8.induct)
  case (piece s n)
  then show ?case by (simp add: from_utf8_lossy.simps[of s])
qed (simp add: from_utf8_lossy.simps)

lemma ascii_valid_utf8: "list_all (\<lambda>c. byte c < 128) s \<Longrightarrow> valid_utf8 s"
proof (induction s)
  case (Cons c s)
  then show ?case by - (rule valid_utf8.piece[where n = 1], simp_all add: utf8_piece_def)
qed (rule valid_utf8.empty)

lemma in_range_take: "i < n \<Longrightarrow> in_range lo hi s i \<Longrightarrow> in_range lo hi (take n s @ t) i"
  by (auto simp: in_range_def nth_append)

lemma in_range_length: "in_range lo hi s i \<Longrightarrow> i < length s"
  by (simp add: in_range_def)

lemma utf8_piece_take:
  assumes "utf8_piece s = (True, n)" and "s \<noteq> []"
  shows "utf8_piece (take n s @ t) = (True, n)" and "n \<le> length s"
proof -
  have n: "0 < n" using utf8_piece_pos[OF assms(1)] .
  then have hd: "hd (take n s @ t) = hd s" using assms(2) by (cases s; cases n) auto
  show "utf8_piece (take n s @ t) = (True, n)"
    using assms(1) unfolding utf8_piece_def Let_def hd by (auto split: if_splits simp: in_range_take)
  show "n \<le> length s"
  proof -
    have "0 < length s" using assms(2) by simp
    then show ?thesis
      using assms(1) unfolding utf8_piece_def Let_def by (auto split: if_splits dest!: in_range_length simp del: length_greater_0_conv)
  qed
qed

lemma valid_utf8_prepend:
  assumes "utf8_piece s = (True, n)" and "s \<noteq> []" and "valid_utf8 t"
  shows "valid_utf8 (take n s @ t)"
proof (rule valid_utf8.piece[where n = n])
  show "take n s @ t \<noteq> []" using utf8_piece_pos[OF assms(1)] assms(2) by auto
  show "utf8_piece (take n s @ t) = (True, n)" by (rule utf8_piece_take[OF assms(1,2)])
  show "valid_utf8 (drop n (take n s @ t))" using assms(3) utf8_piece_take(2)[OF assms(1,2)] by simp
qed

lemma valid_utf8_from_utf8_lossy: "valid_utf8 (from_utf8_lossy s)"
proof (induction s rule: from_utf8_lossy.induct)
  case (1 s)
  have r: "utf8_piece replacement_char = (True, 3)" by code_simp
  show ?case
  proof (cases "s = []")
    case False
    obtain ok n where p: "utf8_piece s = (ok, n)" by fastforce
    then have "valid_utf8 (from_utf8_lossy (drop n s))" using 1 False by simp
    then show ?thesis
      using valid_utf8_prepend[of s n] valid_utf8_prepend[OF r] False p
      by (cases ok) (simp_all add: from_utf8_lossy.simps[of s] replacement_char_def)
  qed (simp add: from_utf8_lossy.simps valid_utf8.empty)
qed

end
