(* ===== verification/Json.thy ===== *)
theory Json
  imports Strings
begin

section \<open>JSON values\<close>

text \<open>
  \<open>serde_json::Value\<close> as the source uses it. A number is one of serde_json's three
  variants; an \<open>f64\<close> is its IEEE 754 bit pattern. An object is an ordered map with the
  key order of \<open>BTreeMap<String, _>\<close> (bytewise lexicographic): the build does not enable
  \<open>preserve_order\<close>. The text form of a value belongs to serde_json and is not modelled.
\<close>

datatype number = PosInt u64 | NegInt i64 | Float "64 word"

datatype json =
    JNull
  | JBool bool
  | JNum number
  | JStr rstring
  | JArr "json list"
  | JObj "(rstring \<times> json) list"

type_synonym jmap = "(rstring, json) omap"

text \<open>Every object in the value has its keys in order and without duplicates.\<close>

fun json_ok :: "json \<Rightarrow> bool" where
  "json_ok (JArr vs) = list_all json_ok vs"
| "json_ok (JObj m) = (om_ok m \<and> list_all (\<lambda>(_, v). json_ok v) m)"
| "json_ok _ = True"

subsection \<open>Accessors\<close>

fun as_u64 :: "json \<Rightarrow> u64 option" where
  "as_u64 (JNum (PosInt n)) = Some n"
| "as_u64 _ = None"

text \<open>\<open>NegInt\<close> only ever holds negative values, so it never answers \<open>as_u64\<close>.\<close>

fun as_i64 :: "json \<Rightarrow> i64 option" where
  "as_i64 (JNum (PosInt n)) = (if unat n < 2 ^ 63 then Some n else None)"
| "as_i64 (JNum (NegInt n)) = Some n"
| "as_i64 _ = None"

fun as_str :: "json \<Rightarrow> rstring option" where
  "as_str (JStr s) = Some s"
| "as_str _ = None"

fun as_bool :: "json \<Rightarrow> bool option" where
  "as_bool (JBool b) = Some b"
| "as_bool _ = None"

fun as_array :: "json \<Rightarrow> json list option" where
  "as_array (JArr vs) = Some vs"
| "as_array _ = None"

fun as_object :: "json \<Rightarrow> jmap option" where
  "as_object (JObj m) = Some m"
| "as_object _ = None"

definition is_null :: "json \<Rightarrow> bool" where
  "is_null v \<longleftrightarrow> v = JNull"

text \<open>\<open>Value::get(key)\<close> with a string key: \<open>None\<close> on anything but an object.\<close>

fun jget :: "json \<Rightarrow> rstring \<Rightarrow> json option" where
  "jget (JObj m) k = om_get m k"
| "jget _ k = None"

lemma as_str_Some_iff [simp]: "as_str v = Some s \<longleftrightarrow> v = JStr s"
  by (cases v) auto

lemma as_array_Some_iff [simp]: "as_array v = Some vs \<longleftrightarrow> v = JArr vs"
  by (cases v) auto

lemma as_object_Some_iff [simp]: "as_object v = Some m \<longleftrightarrow> v = JObj m"
  by (cases v) auto

lemma as_bool_Some_iff [simp]: "as_bool v = Some b \<longleftrightarrow> v = JBool b"
  by (cases v) auto

lemma as_u64_Some_iff [simp]: "as_u64 v = Some n \<longleftrightarrow> v = JNum (PosInt n)"
  by (cases v rule: as_u64.cases) auto

subsection \<open>Construction\<close>

text \<open>\<open>Value::from\<close> of the unsigned integers and of an \<open>i32\<close> or \<open>i64\<close> given as an integer\<close>

definition junsigned :: "'a::len word \<Rightarrow> json" where
  "junsigned w = JNum (PosInt (ucast w))"

definition jsigned :: "int \<Rightarrow> json" where
  "jsigned i = JNum (if i < 0 then NegInt (word_of_int i) else PosInt (word_of_int i))"

text \<open>\<open>json!({ ... })\<close> and \<open>to_value\<close> of a struct: the fields collected into a map\<close>

definition jobject :: "(rstring \<times> json) list \<Rightarrow> json" where
  "jobject kvs = JObj (om_of_list kvs)"

text \<open>A field under \<open>skip_serializing_if = "Option::is_none"\<close>\<close>

definition opt_field :: "rstring \<Rightarrow> ('a \<Rightarrow> json) \<Rightarrow> 'a option \<Rightarrow> (rstring \<times> json) list" where
  "opt_field k f x = (case x of None \<Rightarrow> [] | Some a \<Rightarrow> [(k, f a)])"

text \<open>A plain \<open>Option\<close> field: \<open>null\<close> when absent\<close>

definition jopt :: "('a \<Rightarrow> json) \<Rightarrow> 'a option \<Rightarrow> json" where
  "jopt f x = (case x of None \<Rightarrow> JNull | Some a \<Rightarrow> f a)"

lemma opt_field_simps [simp]:
  "opt_field k f None = []"
  "opt_field k f (Some a) = [(k, f a)]"
  by (simp_all add: opt_field_def)

lemma jopt_simps [simp]: "jopt f None = JNull" "jopt f (Some a) = f a"
  by (simp_all add: jopt_def)

lemma jget_jobject: "jget (jobject kvs) k = map_of (rev kvs) k"
  by (simp add: jobject_def om_get_of_list)

lemma as_u64_junsigned [simp]: "as_u64 (junsigned w) = Some (ucast w)"
  by (simp add: junsigned_def)

lemma ucast_id64 [simp]: "(ucast (w :: u64) :: u64) = w"
  by simp

lemma junsigned_inject:
  assumes "LENGTH('a) \<le> 64"
  shows "junsigned (v :: 'a::len word) = junsigned w \<longleftrightarrow> v = w"
proof -
  have "uint (ucast x :: u64) = uint x" for x :: "'a word"
  proof -
    have "uint x < 2 ^ LENGTH('a)" by simp
    also have "\<dots> \<le> (2 :: int) ^ 64" using assms by (intro power_increasing) simp_all
    finally show ?thesis by (simp add: unsigned_ucast_eq take_bit_int_eq_self)
  qed
  then show ?thesis
    unfolding junsigned_def json.inject number.inject by (metis word_uint_eq_iff)
qed

lemma json_ok_jobject:
  assumes "list_all (\<lambda>(_, v). json_ok v) kvs"
  shows "json_ok (jobject kvs)"
proof -
  have "json_ok v" if "(k, v) \<in> set (om_of_list kvs)" for k v
  proof -
    have "om_get (om_of_list kvs) k = Some v"
      using that by (simp add: om_get_in_set om_ok_of_list)
    then have "(k, v) \<in> set kvs"
      by (auto simp: om_get_of_list dest!: map_of_SomeD)
    with assms show ?thesis by (auto simp: list_all_iff)
  qed
  then show ?thesis by (auto simp: jobject_def list_all_iff om_ok_of_list)
qed

end
