(* ===== verification/Wire.thy ===== *)
theory Wire
  imports Json
begin

section \<open>The wire types (\<open>crates/wire\<close>)\<close>

text \<open>
  The message envelopes, error codes and payload structs of the WebSocket protocol, each as a
  record or datatype with the JSON its \<open>Serialize\<close> implementation produces.
\<close>

subsection \<open>Error codes (\<open>error.rs\<close>)\<close>

datatype server_error_code =
    UnknownError | NodeCommissionFailed | NodeInterviewFailed | NodeNotReady
  | NodeNotResolving | NodeNotExists | VersionMismatch | SdkStackError
  | InvalidArguments | InvalidCommand | UpdateCheckError | UpdateError
  | IcdMultiAdmin | OtaUploadError

fun code :: "server_error_code \<Rightarrow> u16" where
  "code UnknownError = 0"
| "code NodeCommissionFailed = 1"
| "code NodeInterviewFailed = 2"
| "code NodeNotReady = 3"
| "code NodeNotResolving = 4"
| "code NodeNotExists = 5"
| "code VersionMismatch = 6"
| "code SdkStackError = 7"
| "code InvalidArguments = 8"
| "code InvalidCommand = 9"
| "code UpdateCheckError = 10"
| "code UpdateError = 11"
| "code IcdMultiAdmin = 100"
| "code OtaUploadError = 101"

lemma code_inject: "code a = code b \<longleftrightarrow> a = b"
  by (cases a; cases b) simp_all

subsection \<open>Envelopes (\<open>envelope.rs\<close>)\<close>

record command_message =
  cm_message_id :: rstring
  cm_command :: rstring
  cm_args :: jmap

text \<open>
  \<open>null_as_empty_map\<close>: the deserialiser of \<open>args\<close>; with \<open>serde(default)\<close> an
  absent field is the empty map too. A derived \<open>Deserialize\<close> also reads the fields, in
  order, from an array.
\<close>

fun null_as_empty_map :: "json \<Rightarrow> jmap option" where
  "null_as_empty_map JNull = Some []"
| "null_as_empty_map (JObj m) = Some m"
| "null_as_empty_map _ = None"

definition command_message_of_json :: "json \<Rightarrow> command_message option" where
  "command_message_of_json v =
     (case v of
        JObj m \<Rightarrow>
          (case (om_get m ''message_id'', om_get m ''command'') of
             (Some (JStr i), Some (JStr c)) \<Rightarrow>
               map_option (\<lambda>a. \<lparr>cm_message_id = i, cm_command = c, cm_args = a\<rparr>)
                 (case om_get m ''args'' of None \<Rightarrow> Some [] | Some a \<Rightarrow> null_as_empty_map a)
           | _ \<Rightarrow> None)
      | JArr [JStr i, JStr c] \<Rightarrow> Some \<lparr>cm_message_id = i, cm_command = c, cm_args = []\<rparr>
      | JArr [JStr i, JStr c, a] \<Rightarrow>
          map_option (\<lambda>a. \<lparr>cm_message_id = i, cm_command = c, cm_args = a\<rparr>) (null_as_empty_map a)
      | _ \<Rightarrow> None)"

record success_result =
  sr_message_id :: rstring
  sr_result :: json

definition success_result_json :: "success_result \<Rightarrow> json" where
  "success_result_json r =
     jobject [(''message_id'', JStr (sr_message_id r)), (''result'', sr_result r)]"

record error_result =
  er_message_id :: rstring
  er_error_code :: u16
  er_details :: rstring

definition error_result_new :: "rstring \<Rightarrow> server_error_code \<Rightarrow> rstring \<Rightarrow> error_result" where
  "error_result_new i c d = \<lparr>er_message_id = i, er_error_code = code c, er_details = d\<rparr>"

definition error_result_json :: "error_result \<Rightarrow> json" where
  "error_result_json r =
     jobject [(''message_id'', JStr (er_message_id r)),
              (''error_code'', junsigned (er_error_code r)),
              (''details'', JStr (er_details r))]"

record event_message =
  ev_event :: rstring
  ev_data :: json

definition event_message_json :: "event_message \<Rightarrow> json" where
  "event_message_json e = jobject [(''event'', JStr (ev_event e)), (''data'', ev_data e)]"

subsection \<open>Payloads (\<open>node.rs\<close>, \<open>server_info.rs\<close>)\<close>

record matter_node_data =
  nd_node_id :: u64
  nd_date_commissioned :: rstring
  nd_last_interview :: rstring
  nd_interview_version :: u8
  nd_available :: bool
  nd_is_bridge :: bool
  nd_attributes :: jmap
  nd_attribute_subscriptions :: "json list"
  nd_matter_version :: "rstring option"

definition matter_node_data_json :: "matter_node_data \<Rightarrow> json" where
  "matter_node_data_json n =
     jobject ([(''node_id'', junsigned (nd_node_id n)),
               (''date_commissioned'', JStr (nd_date_commissioned n)),
               (''last_interview'', JStr (nd_last_interview n)),
               (''interview_version'', junsigned (nd_interview_version n)),
               (''available'', JBool (nd_available n)),
               (''is_bridge'', JBool (nd_is_bridge n)),
               (''attributes'', JObj (nd_attributes n)),
               (''attribute_subscriptions'', JArr (nd_attribute_subscriptions n))]
              @ opt_field ''matter_version'' JStr (nd_matter_version n))"

record matter_node_event =
  ne_node_id :: u64
  ne_endpoint_id :: u16
  ne_cluster_id :: u32
  ne_event_id :: u32
  ne_event_number :: u64
  ne_priority :: u8
  ne_timestamp :: i64
  ne_timestamp_type :: u8
  ne_data :: json

definition matter_node_event_json :: "matter_node_event \<Rightarrow> json" where
  "matter_node_event_json e =
     jobject [(''node_id'', junsigned (ne_node_id e)),
              (''endpoint_id'', junsigned (ne_endpoint_id e)),
              (''cluster_id'', junsigned (ne_cluster_id e)),
              (''event_id'', junsigned (ne_event_id e)),
              (''event_number'', junsigned (ne_event_number e)),
              (''priority'', junsigned (ne_priority e)),
              (''timestamp'', jsigned (sint (ne_timestamp e))),
              (''timestamp_type'', junsigned (ne_timestamp_type e)),
              (''data'', ne_data e)]"

record commissionable_node_data =
  cn_instance_name :: "rstring option"
  cn_host_name :: rstring
  cn_port :: "u16 option"
  cn_long_discriminator :: "u16 option"
  cn_vendor_id :: int
  cn_product_id :: int
  cn_commissioning_mode :: u8
  cn_device_type :: "u32 option"
  cn_device_name :: "rstring option"
  cn_pairing_instruction :: "rstring option"
  cn_pairing_hint :: u32
  cn_mrp_retry_interval_idle :: "u32 option"
  cn_mrp_retry_interval_active :: "u32 option"
  cn_supports_tcp :: bool
  cn_addresses :: "rstring list"
  cn_rotating_id :: "rstring option"

definition commissionable_node_data_json :: "commissionable_node_data \<Rightarrow> json" where
  "commissionable_node_data_json d =
     jobject (opt_field ''instance_name'' JStr (cn_instance_name d)
       @ [(''host_name'', JStr (cn_host_name d))]
       @ opt_field ''port'' junsigned (cn_port d)
       @ opt_field ''long_discriminator'' junsigned (cn_long_discriminator d)
       @ [(''vendor_id'', jsigned (cn_vendor_id d)),
          (''product_id'', jsigned (cn_product_id d)),
          (''commissioning_mode'', junsigned (cn_commissioning_mode d))]
       @ opt_field ''device_type'' junsigned (cn_device_type d)
       @ opt_field ''device_name'' JStr (cn_device_name d)
       @ opt_field ''pairing_instruction'' JStr (cn_pairing_instruction d)
       @ [(''pairing_hint'', junsigned (cn_pairing_hint d))]
       @ opt_field ''mrp_retry_interval_idle'' junsigned (cn_mrp_retry_interval_idle d)
       @ opt_field ''mrp_retry_interval_active'' junsigned (cn_mrp_retry_interval_active d)
       @ [(''supports_tcp'', JBool (cn_supports_tcp d)),
          (''addresses'', JArr (map JStr (cn_addresses d)))]
       @ opt_field ''rotating_id'' JStr (cn_rotating_id d))"

record matter_fabric_data =
  mf_fabric_id :: u64
  mf_vendor_id :: u16
  mf_fabric_index :: u8
  mf_fabric_label :: "rstring option"
  mf_vendor_name :: "rstring option"

definition matter_fabric_data_json :: "matter_fabric_data \<Rightarrow> json" where
  "matter_fabric_data_json f =
     jobject ([(''fabric_id'', junsigned (mf_fabric_id f)),
               (''vendor_id'', junsigned (mf_vendor_id f)),
               (''fabric_index'', junsigned (mf_fabric_index f))]
              @ opt_field ''fabric_label'' JStr (mf_fabric_label f)
              @ opt_field ''vendor_name'' JStr (mf_vendor_name f))"

record icd_state =
  ic_supported :: bool
  ic_lit_supported :: bool
  ic_registered :: bool
  ic_operating_mode :: "rstring option"
  ic_awake :: "bool option"
  ic_available :: "bool option"
  ic_next_expected_checkin :: "i64 option"

definition icd_not_registered :: icd_state where
  "icd_not_registered =
     \<lparr>ic_supported = False, ic_lit_supported = False, ic_registered = False,
      ic_operating_mode = None, ic_awake = None, ic_available = None,
      ic_next_expected_checkin = None\<rparr>"

definition icd_state_json :: "icd_state \<Rightarrow> json" where
  "icd_state_json s =
     jobject [(''supported'', JBool (ic_supported s)),
              (''lit_supported'', JBool (ic_lit_supported s)),
              (''registered'', JBool (ic_registered s)),
              (''operating_mode'', jopt JStr (ic_operating_mode s)),
              (''awake'', jopt JBool (ic_awake s)),
              (''available'', jopt JBool (ic_available s)),
              (''next_expected_checkin'', jopt (\<lambda>t. jsigned (sint t)) (ic_next_expected_checkin s))]"

definition SCHEMA_VERSION :: u8 where "SCHEMA_VERSION = 13"
definition MIN_SUPPORTED_SCHEMA_VERSION :: u8 where "MIN_SUPPORTED_SCHEMA_VERSION = 11"

record server_info_message =
  si_fabric_id :: u64
  si_compressed_fabric_id :: u64
  si_fabric_index :: "u8 option"
  si_schema_version :: u8
  si_min_supported_schema_version :: u8
  si_sdk_version :: rstring
  si_wifi_credentials_set :: bool
  si_wifi_ssid :: "rstring option"
  si_thread_credentials_set :: bool
  si_bluetooth_enabled :: bool
  si_ble_proxy_enabled :: "bool option"
  si_controller_node_id :: "u64 option"

definition server_info_message_json :: "server_info_message \<Rightarrow> json" where
  "server_info_message_json i =
     jobject ([(''fabric_id'', junsigned (si_fabric_id i)),
               (''compressed_fabric_id'', junsigned (si_compressed_fabric_id i))]
       @ opt_field ''fabric_index'' junsigned (si_fabric_index i)
       @ [(''schema_version'', junsigned (si_schema_version i)),
          (''min_supported_schema_version'', junsigned (si_min_supported_schema_version i)),
          (''sdk_version'', JStr (si_sdk_version i)),
          (''wifi_credentials_set'', JBool (si_wifi_credentials_set i))]
       @ opt_field ''wifi_ssid'' JStr (si_wifi_ssid i)
       @ [(''thread_credentials_set'', JBool (si_thread_credentials_set i)),
          (''bluetooth_enabled'', JBool (si_bluetooth_enabled i))]
       @ opt_field ''ble_proxy_enabled'' JBool (si_ble_proxy_enabled i)
       @ opt_field ''controller_node_id'' junsigned (si_controller_node_id i))"

subsection \<open>Facts about the envelopes\<close>

lemma null_args_like_absent_args:
  assumes "om_get m ''args'' = None"
  shows "command_message_of_json (JObj (om_insert ''args'' JNull m)) =
         command_message_of_json (JObj m)"
  using assms by (auto simp: command_message_of_json_def om_get_insert
      split: option.splits json.splits)

lemma success_and_error_replies_differ:
  "success_result_json r \<noteq> error_result_json e"
proof
  assume "success_result_json r = error_result_json e"
  then have "jget (success_result_json r) ''error_code'' = jget (error_result_json e) ''error_code''"
    by simp
  then show False
    by (simp add: success_result_json_def error_result_json_def jget_jobject)
qed

lemma node_data_json_fields:
  "jget (matter_node_data_json n) ''node_id'' = Some (junsigned (nd_node_id n))"
  "jget (matter_node_data_json n) ''available'' = Some (JBool (nd_available n))"
  "jget (matter_node_data_json n) ''attributes'' = Some (JObj (nd_attributes n))"
  "jget (matter_node_data_json n) ''matter_version'' = map_option JStr (nd_matter_version n)"
  by (cases "nd_matter_version n"; simp add: matter_node_data_json_def jget_jobject)+

end
