(* ===== verification/Files.thy ===== *)
theory Files
  imports Wire "HOL-Library.Product_Lexorder"
begin

section \<open>Files and atomic writes (\<open>controller/src/storage.rs\<close>)\<close>

text \<open>
  The directory under \<open>--storage-path\<close>, the atomic JSON writes with every failure point,
  and the reading functions. A file's content is the document serde_json reads from
  it, or \<open>Junk\<close> (anything it does not parse, an unfinished write included). Every system
  call may fail: the file system carries a fault plan that decides, by the number of calls made
  so far, whether the next one fails.
\<close>

subsection \<open>The file system\<close>

datatype io_kind = IoNotFound | IoPermissionDenied | IoStorageFull | IoOther

datatype io_error =
    OsError io_kind rstring      \<comment> \<open>what the operating system reports\<close>
  | AlreadyExists "rstring \<times> rstring"
  | InvalidData "rstring \<times> rstring"
  | InvalidInput "rstring \<times> rstring"

datatype fcontent = Doc json | Junk

record fnode =
  fn_content :: fcontent
  fn_private :: bool             \<comment> \<open>mode 0600\<close>

text \<open>A path under the root: its directory (empty for the root itself) and its file name.\<close>

type_synonym fpath = "rstring \<times> rstring"

record fs =
  fs_files :: "(fpath, fnode) omap"
  fs_fault :: "nat \<Rightarrow> io_error option"
  fs_calls :: nat
  fs_tmp_seq :: u64

definition fs_get :: "fs \<Rightarrow> fpath \<Rightarrow> fnode option" where
  "fs_get s p = om_get (fs_files s) p"

definition fs_put :: "fpath \<Rightarrow> fnode \<Rightarrow> fs \<Rightarrow> fs" where
  "fs_put p n s = s\<lparr>fs_files := om_insert p n (fs_files s)\<rparr>"

definition fs_del :: "fpath \<Rightarrow> fs \<Rightarrow> fs" where
  "fs_del p s = s\<lparr>fs_files := om_remove p (fs_files s)\<rparr>"

definition fs_ok :: "fs \<Rightarrow> bool" where
  "fs_ok s \<longleftrightarrow> om_ok (fs_files s)"

text \<open>What \<open>Storage::open\<close> finds on a fresh path, when nothing fails\<close>

definition fresh_fs :: fs where
  "fresh_fs = \<lparr>fs_files = [], fs_fault = (\<lambda>_. None), fs_calls = 0, fs_tmp_seq = 0\<rparr>"

text \<open>The steps an atomic write is made of\<close>

datatype fs_op =
    OpenTrunc fpath bool         \<comment> \<open>write, create, truncate; mode 0600 on creation if set\<close>
  | WriteDoc fpath json
  | SyncAll fpath
  | SetPrivate fpath
  | Rename fpath fpath
  | Unlink fpath

fun op_effect :: "fs_op \<Rightarrow> fs \<Rightarrow> fs" where
  "op_effect (OpenTrunc p secret) s =
     fs_put p \<lparr>fn_content = Junk,
               fn_private = (case fs_get s p of None \<Rightarrow> secret | Some n \<Rightarrow> fn_private n)\<rparr> s"
| "op_effect (WriteDoc p v) s =
     fs_put p \<lparr>fn_content = Doc v,
               fn_private = (case fs_get s p of None \<Rightarrow> False | Some n \<Rightarrow> fn_private n)\<rparr> s"
| "op_effect (SyncAll p) s = s"
| "op_effect (SetPrivate p) s =
     (case fs_get s p of None \<Rightarrow> s | Some n \<Rightarrow> fs_put p (n\<lparr>fn_private := True\<rparr>) s)"
| "op_effect (Rename p q) s =
     (case fs_get s p of None \<Rightarrow> s | Some n \<Rightarrow> fs_put q n (fs_del p s))"
| "op_effect (Unlink p) s = fs_del p s"

text \<open>A write that fails may have written a part: the file then holds junk.\<close>

fun op_failure :: "fs_op \<Rightarrow> fs \<Rightarrow> fs" where
  "op_failure (WriteDoc p v) s =
     fs_put p \<lparr>fn_content = Junk,
               fn_private = (case fs_get s p of None \<Rightarrow> False | Some n \<Rightarrow> fn_private n)\<rparr> s"
| "op_failure _ s = s"

definition exec_op :: "fs_op \<Rightarrow> fs \<Rightarrow> (io_error + unit) \<times> fs" where
  "exec_op f s =
     (let s' = s\<lparr>fs_calls := Suc (fs_calls s)\<rparr>
      in case fs_fault s (fs_calls s) of
           Some e \<Rightarrow> (Err e, op_failure f s')
         | None \<Rightarrow> (Ok (), op_effect f s'))"

fun run_ops :: "fs_op list \<Rightarrow> fs \<Rightarrow> (io_error + unit) \<times> fs" where
  "run_ops [] s = (Ok (), s)"
| "run_ops (f # fs) s =
     (case exec_op f s of (Err e, s') \<Rightarrow> (Err e, s') | (Ok _, s') \<Rightarrow> run_ops fs s')"

subsection \<open>Atomic writes\<close>

definition tmp_path :: "u32 \<Rightarrow> u64 \<Rightarrow> fpath \<Rightarrow> fpath" where
  "tmp_path pid seq p = (fst p, ''.'' @ snd p @ ''.tmp-'' @ dec_of pid @ ''-'' @ dec_of seq)"

definition write_ops :: "fpath \<Rightarrow> fpath \<Rightarrow> json \<Rightarrow> bool \<Rightarrow> fs_op list" where
  "write_ops tmp p v secret =
     [OpenTrunc tmp secret, WriteDoc tmp v, SyncAll tmp]
     @ (if secret then [SetPrivate tmp] else []) @ [Rename tmp p]"

definition write_tmp_then_rename :: "fpath \<Rightarrow> fpath \<Rightarrow> json \<Rightarrow> bool \<Rightarrow> fs \<Rightarrow> (io_error + unit) \<times> fs" where
  "write_tmp_then_rename tmp p v secret s = run_ops (write_ops tmp p v secret) s"

text \<open>\<open>TMP_SEQ.fetch_add(1)\<close>, then the write; after a failure the temporary file is removed
  and the outcome of that removal is ignored.\<close>

definition write_json_atomic :: "u32 \<Rightarrow> fpath \<Rightarrow> json \<Rightarrow> bool \<Rightarrow> fs \<Rightarrow> (io_error + unit) \<times> fs" where
  "write_json_atomic pid p v secret s =
     (if snd p = [] then (Err (InvalidInput p), s)
      else let seq = fs_tmp_seq s;
               tmp = tmp_path pid seq p;
               (r, s1) = write_tmp_then_rename tmp p v secret (s\<lparr>fs_tmp_seq := seq + 1\<rparr>)
           in case r of
                Ok _ \<Rightarrow> (r, s1)
              | Err _ \<Rightarrow> (r, snd (exec_op (Unlink tmp) s1)))"

subsection \<open>Reading\<close>

text \<open>\<open>std::fs::read_to_string\<close>: a system call that may fail, or find no file.\<close>

definition read_file :: "fpath \<Rightarrow> fs \<Rightarrow> (io_error + fcontent) \<times> fs" where
  "read_file p s =
     (let s' = s\<lparr>fs_calls := Suc (fs_calls s)\<rparr>
      in case fs_fault s (fs_calls s) of
           Some e \<Rightarrow> (Err e, s')
         | None \<Rightarrow> (case fs_get s p of
                     None \<Rightarrow> (Err (OsError IoNotFound ''No such file or directory''), s')
                   | Some n \<Rightarrow> (Ok (fn_content n), s')))"

fun is_not_found :: "io_error \<Rightarrow> bool" where
  "is_not_found (OsError k _) = (k = IoNotFound)"
| "is_not_found _ = False"

definition read_json_strict :: "(json \<Rightarrow> 'a option) \<Rightarrow> fpath \<Rightarrow> fs \<Rightarrow> (io_error + 'a option) \<times> fs" where
  "read_json_strict de p s =
     (case read_file p s of
        (Ok (Doc v), s') \<Rightarrow>
          (case de v of Some a \<Rightarrow> (Ok (Some a), s') | None \<Rightarrow> (Err (InvalidData p), s'))
      | (Ok Junk, s') \<Rightarrow> (Err (InvalidData p), s')
      | (Err e, s') \<Rightarrow> if is_not_found e then (Ok None, s') else (Err e, s'))"

definition read_json :: "(json \<Rightarrow> 'a option) \<Rightarrow> fpath \<Rightarrow> fs \<Rightarrow> 'a option \<times> fs" where
  "read_json de p s =
     (case read_file p s of
        (Ok (Doc v), s') \<Rightarrow> (de v, s')
      | (Ok Junk, s') \<Rightarrow> (None, s')
      | (Err _, s') \<Rightarrow> (None, s'))"

subsection \<open>Deserialisation of fields\<close>

text \<open>A required field, and one under \<open>serde(default)\<close> (an error only when present and
  of the wrong shape).\<close>

definition de_field :: "(json \<Rightarrow> 'a option) \<Rightarrow> rstring \<Rightarrow> jmap \<Rightarrow> 'a option" where
  "de_field de k m = Option.bind (om_get m k) de"

definition de_default :: "(json \<Rightarrow> 'a option) \<Rightarrow> rstring \<Rightarrow> 'a \<Rightarrow> jmap \<Rightarrow> 'a option" where
  "de_default de k d m = (case om_get m k of None \<Rightarrow> Some d | Some v \<Rightarrow> de v)"

text \<open>An unsigned integer no wider than 64 bits: any other number, or one out of range, fails.\<close>

definition de_unsigned :: "json \<Rightarrow> 'a::len word option" where
  "de_unsigned v =
     (case as_u64 v of None \<Rightarrow> None
      | Some n \<Rightarrow> if unat n < 2 ^ LENGTH('a) then Some (ucast n) else None)"

fun de_list :: "(json \<Rightarrow> 'a option) \<Rightarrow> json list \<Rightarrow> 'a list option" where
  "de_list de [] = Some []"
| "de_list de (v # vs) =
     (case de v of None \<Rightarrow> None | Some a \<Rightarrow> map_option ((#) a) (de_list de vs))"

definition de_vec :: "(json \<Rightarrow> 'a option) \<Rightarrow> json \<Rightarrow> 'a list option" where
  "de_vec de v = Option.bind (as_array v) (de_list de)"

fun de_entries :: "(json \<Rightarrow> 'a option) \<Rightarrow> jmap \<Rightarrow> (rstring \<times> 'a) list option" where
  "de_entries de [] = Some []"
| "de_entries de ((k, v) # m) =
     (case de v of None \<Rightarrow> None | Some a \<Rightarrow> map_option ((#) (k, a)) (de_entries de m))"

definition de_map :: "(json \<Rightarrow> 'a option) \<Rightarrow> json \<Rightarrow> (rstring, 'a) omap option" where
  "de_map de v = map_option om_of_list (Option.bind (as_object v) (de_entries de))"

lemma de_unsigned_junsigned [simp]:
  assumes "LENGTH('a) \<le> 64"
  shows "de_unsigned (junsigned (w :: 'a::len word)) = Some w"
proof -
  have w: "unat w < 2 ^ LENGTH('a)" by simp
  have "unat (ucast w :: u64) = unat w"
    using assms by (simp add: unat_ucast_up)
  moreover have "(ucast (ucast w :: u64) :: 'a word) = w"
    using assms by (simp add: is_up ucast_up_ucast_id)
  ultimately show ?thesis using w by (simp add: de_unsigned_def)
qed

lemma de_list_map [simp]:
  "(\<And>a. a \<in> set xs \<Longrightarrow> de (f a) = Some a) \<Longrightarrow> de_list de (map f xs) = Some xs"
  by (induction xs) auto

lemma de_entries_map [simp]:
  assumes "\<And>a. a \<in> snd ` set m \<Longrightarrow> de (f a) = Some a"
  shows "de_entries de (map (\<lambda>(k, a). (k, f a)) m) = Some m"
  using assms
proof (induction m)
  case (Cons b m)
  have "de (f (snd b)) = Some (snd b)"
    by (rule Cons.prems) simp
  moreover have "de_entries de (map (\<lambda>(k, a). (k, f a)) m) = Some m"
    by (rule Cons.IH) (rule Cons.prems, auto)
  ultimately show ?case by (cases b) simp
qed simp

subsection \<open>What a sequence of steps leaves alone\<close>

fun op_writes :: "fs_op \<Rightarrow> fpath set" where
  "op_writes (OpenTrunc p _) = {p}"
| "op_writes (WriteDoc p _) = {p}"
| "op_writes (SyncAll p) = {}"
| "op_writes (SetPrivate p) = {p}"
| "op_writes (Rename p q) = {p, q}"
| "op_writes (Unlink p) = {p}"

lemma fs_get_put [store_simps]: "fs_get (fs_put p n s) q = (if q = p then Some n else fs_get s q)"
  by (simp add: fs_get_def fs_put_def om_get_insert)

lemma fs_get_del [store_simps]: "fs_get (fs_del p s) q = (if q = p then None else fs_get s q)"
  by (simp add: fs_get_def fs_del_def om_get_remove)

lemma fs_ok_put [wf_intros]: "fs_ok s \<Longrightarrow> fs_ok (fs_put p n s)"
  by (simp add: fs_ok_def fs_put_def om_ok_insert)

lemma fs_ok_del [wf_intros]: "fs_ok s \<Longrightarrow> fs_ok (fs_del p s)"
  by (simp add: fs_ok_def fs_del_def om_ok_remove)

interpretation files: keyed_store fs_get fs_put fs_del fs_ok
  by unfold_locales (auto simp: store_simps wf_intros)

lemma fs_get_calls [simp]:
  "fs_get (s\<lparr>fs_calls := n\<rparr>) q = fs_get s q" "fs_get (s\<lparr>fs_tmp_seq := k\<rparr>) q = fs_get s q"
  by (simp_all add: fs_get_def)

lemma fs_ok_calls [simp]:
  "fs_ok (s\<lparr>fs_calls := n\<rparr>) = fs_ok s" "fs_ok (s\<lparr>fs_tmp_seq := k\<rparr>) = fs_ok s"
  by (simp_all add: fs_ok_def)

lemma op_effect_frame [frame_simps]: "q \<notin> op_writes f \<Longrightarrow> fs_get (op_effect f s) q = fs_get s q"
  by (cases f) (auto simp: store_simps split: option.splits)

lemma op_failure_frame [frame_simps]: "q \<notin> op_writes f \<Longrightarrow> fs_get (op_failure f s) q = fs_get s q"
  by (cases f) (auto simp: store_simps split: option.splits)

lemma exec_op_frame [frame_simps]: "q \<notin> op_writes f \<Longrightarrow> fs_get (snd (exec_op f s)) q = fs_get s q"
  by (simp add: exec_op_def Let_def frame_simps split: option.splits)

lemma run_ops_frame [frame_simps]:
  "\<forall>f \<in> set fs. q \<notin> op_writes f \<Longrightarrow> fs_get (snd (run_ops fs s)) q = fs_get s q"
proof (induction fs arbitrary: s)
  case (Cons f fs)
  have "fs_get (snd (exec_op f s)) q = fs_get s q"
    using Cons.prems by (simp add: exec_op_frame)
  with Cons show ?case
    by (cases "exec_op f s") (auto split: sum.splits)
qed simp

lemma run_ops_append:
  "run_ops (fs @ gs) s =
     (case run_ops fs s of (Err e, s') \<Rightarrow> (Err e, s') | (Ok _, s') \<Rightarrow> run_ops gs s')"
  by (induction fs arbitrary: s) (auto split: prod.splits sum.splits)

lemma op_effect_ok [wf_intros]: "fs_ok s \<Longrightarrow> fs_ok (op_effect f s)"
  by (cases f) (auto intro!: wf_intros split: option.splits)

lemma op_failure_ok [wf_intros]: "fs_ok s \<Longrightarrow> fs_ok (op_failure f s)"
  by (cases f) (auto intro!: wf_intros split: option.splits)

lemma exec_op_ok [wf_intros]: "fs_ok s \<Longrightarrow> fs_ok (snd (exec_op f s))"
  by (auto simp: exec_op_def Let_def intro!: wf_intros split: option.splits)

lemma run_ops_ok [wf_intros]: "fs_ok s \<Longrightarrow> fs_ok (snd (run_ops fs s))"
proof (induction fs arbitrary: s)
  case (Cons f fs)
  have "fs_ok (snd (exec_op f s))" by (rule exec_op_ok) (rule Cons.prems)
  with Cons.IH show ?case
    by (cases "exec_op f s") (auto split: sum.splits)
qed simp

lemma write_json_atomic_ok [wf_intros]: "fs_ok s \<Longrightarrow> fs_ok (snd (write_json_atomic pid p v sec s))"
proof -
  assume ok: "fs_ok s"
  have "fs_ok (snd (run_ops ops (s\<lparr>fs_tmp_seq := k\<rparr>)))" for ops k
    by (rule run_ops_ok) (simp add: ok)
  then show ?thesis
    using ok by (auto simp: write_json_atomic_def write_tmp_then_rename_def Let_def
        intro!: exec_op_ok split: prod.splits sum.splits) (metis snd_conv)+
qed

subsection \<open>The atomic write\<close>

text \<open>The prefix of the write that touches the temporary file only, and the rename\<close>

definition staging_ops :: "fpath \<Rightarrow> json \<Rightarrow> bool \<Rightarrow> fs_op list" where
  "staging_ops tmp v secret =
     [OpenTrunc tmp secret, WriteDoc tmp v, SyncAll tmp] @ (if secret then [SetPrivate tmp] else [])"

lemma write_ops_staging: "write_ops tmp p v secret = staging_ops tmp v secret @ [Rename tmp p]"
  by (simp add: write_ops_def staging_ops_def)

lemma staging_writes_tmp: "f \<in> set (staging_ops tmp v secret) \<Longrightarrow> op_writes f \<subseteq> {tmp}"
  by (auto simp: staging_ops_def split: if_splits)

lemma staging_frame:
  "q \<noteq> tmp \<Longrightarrow> fs_get (snd (run_ops (take k (staging_ops tmp v secret)) s)) q = fs_get s q"
  by (rule run_ops_frame) (auto dest!: in_set_takeD staging_writes_tmp)

lemma staging_private:
  assumes "fs_get s tmp = None" and "secret"
    and "fs_get (snd (run_ops (take k (staging_ops tmp v secret)) s)) tmp = Some n"
  shows "fn_private n"
  using assms
  by (auto simp: staging_ops_def take_Cons' exec_op_def Let_def store_simps
      split: option.splits if_splits)

lemma staging_result:
  assumes "run_ops (staging_ops tmp v secret) s = (Ok (), s')"
  shows "\<exists>n. fs_get s' tmp = Some n \<and> fn_content n = Doc v \<and> (secret \<longrightarrow> fn_private n)"
  using assms
  by (auto simp: staging_ops_def exec_op_def Let_def store_simps
      split: option.splits sum.splits if_splits)

lemma tmp_path_differs: "tmp_path pid seq p \<noteq> p"
proof
  assume "tmp_path pid seq p = p"
  then have "length (snd (tmp_path pid seq p)) = length (snd p)" by simp
  then show False by (simp add: tmp_path_def)
qed

lemma write_tmp_then_rename_Ok:
  assumes "write_tmp_then_rename tmp p v secret s = (Ok (), s')" and "tmp \<noteq> p"
  shows "(\<exists>n. fs_get s' p = Some n \<and> fn_content n = Doc v \<and> (secret \<longrightarrow> fn_private n))
       \<and> fs_get s' tmp = None"
proof -
  obtain s1 where s1: "run_ops (staging_ops tmp v secret) s = (Ok (), s1)"
      and s': "exec_op (Rename tmp p) s1 = (Ok (), s')"
    using assms(1) by (auto simp: write_tmp_then_rename_def write_ops_staging run_ops_append
        split: prod.splits sum.splits)
  obtain n where n: "fs_get s1 tmp = Some n" "fn_content n = Doc v" "secret \<longrightarrow> fn_private n"
    using staging_result[OF s1] by blast
  show ?thesis
    using s' n assms(2) by (auto simp: exec_op_def Let_def store_simps split: option.splits)
qed

lemma write_tmp_then_rename_Err:
  assumes "write_tmp_then_rename tmp p v secret s = (Err e, s')" and "q \<noteq> tmp"
  shows "fs_get s' q = fs_get s q"
proof -
  obtain r s1 where s1: "run_ops (staging_ops tmp v secret) s = (r, s1)" by fastforce
  have "fs_get s1 q = fs_get s q"
    using staging_frame[of q tmp "length (staging_ops tmp v secret)" v secret s] assms(2) s1 by simp
  then show ?thesis
    using assms(1) s1 by (auto simp: write_tmp_then_rename_def write_ops_staging run_ops_append
        exec_op_def Let_def split: sum.splits option.splits)
qed

lemma write_tmp_then_rename_other:
  "q \<noteq> tmp \<Longrightarrow> q \<noteq> p \<Longrightarrow> fs_get (snd (write_tmp_then_rename tmp p v secret s)) q = fs_get s q"
  unfolding write_tmp_then_rename_def
  by (rule run_ops_frame) (auto simp: write_ops_staging dest!: staging_writes_tmp)

end
