(* ===== verification/Storage.thy ===== *)
theory Storage
  imports Files
begin

section \<open>Storage (\<open>controller/src/storage.rs\<close>)\<close>

text \<open>
  The three families of files (\<open>server.json\<close>, \<open>config.json\<close>, \<open>nodes/<id>.json\<close>)
  as records with the JSON serde gives them, the load and save operations over the file system
  of \<open>Files\<close>, and the rules of \<open>ConfigStorage\<close>: the fabric label, node id
  allocation, credential ids, Thread datasets. Base64 is a codec parameter, the clock and the
  date format are the caller's.
\<close>

subsection \<open>The records\<close>

type_synonym bytes = "u8 list"

text \<open>The \<open>b64\<close> module: the base64 crate's encoder and decoder\<close>

record b64_codec =
  b64_encode :: "bytes \<Rightarrow> rstring"
  b64_decode :: "rstring \<Rightarrow> bytes option"

definition codec_ok :: "b64_codec \<Rightarrow> bool" where
  "codec_ok c \<longleftrightarrow> (\<forall>bs. b64_decode c (b64_encode c bs) = Some bs)"

definition IDENTITY_VERSION :: u32 where "IDENTITY_VERSION = 1"

record server_identity =
  id_version :: u32
  id_fabric_id :: u64
  id_vendor_id :: u16
  id_controller_node_id :: u64
  id_compressed_fabric_id :: u64
  id_ca_private_key :: bytes
  id_rcac_tlv :: bytes
  id_controller_private_key :: bytes
  id_controller_noc_tlv :: bytes
  id_ipk :: bytes

record wifi_credential =
  wc_ssid :: rstring
  wc_password :: rstring

record config_data =
  cfg_fabric_label :: rstring
  cfg_next_node_id :: u64
  cfg_wifi_credentials :: "(rstring, wifi_credential) omap"
  cfg_thread_datasets :: "(rstring, rstring) omap"

definition default_config :: config_data where
  "default_config =
     \<lparr>cfg_fabric_label = ''HomeAssistant'', cfg_next_node_id = 1,
      cfg_wifi_credentials = [], cfg_thread_datasets = []\<rparr>"

record node_record =
  nr_node_id :: u64
  nr_date_commissioned :: rstring
  nr_last_interview :: rstring
  nr_device_fabric_index :: u8
  nr_addresses :: "rstring list"
  nr_attributes :: jmap

subsection \<open>\<open>Debug\<close> without the secrets\<close>

text \<open>\<open>debug_struct\<close> output as the list of field names and rendered values\<close>

definition redacted :: "bytes \<Rightarrow> rstring" where
  "redacted b = ''[redacted; '' @ dec_of_nat (length b) @ '' bytes]''"

definition summarised :: "bytes \<Rightarrow> rstring" where
  "summarised b = ''['' @ dec_of_nat (length b) @ '' bytes]''"

definition server_identity_debug :: "server_identity \<Rightarrow> (rstring \<times> rstring) list" where
  "server_identity_debug i =
     [(''version'', dec_of (id_version i)),
      (''fabric_id'', dec_of (id_fabric_id i)),
      (''vendor_id'', dec_of (id_vendor_id i)),
      (''controller_node_id'', dec_of (id_controller_node_id i)),
      (''compressed_fabric_id'', dec_of (id_compressed_fabric_id i)),
      (''ca_private_key'', redacted (id_ca_private_key i)),
      (''rcac_tlv'', summarised (id_rcac_tlv i)),
      (''controller_private_key'', redacted (id_controller_private_key i)),
      (''controller_noc_tlv'', summarised (id_controller_noc_tlv i)),
      (''ipk'', redacted (id_ipk i))]"

definition wifi_credential_debug :: "wifi_credential \<Rightarrow> (rstring \<times> rstring) list" where
  "wifi_credential_debug c = [(''ssid'', wc_ssid c), (''password'', ''[redacted]'')]"

subsection \<open>Serialisation\<close>

definition server_identity_json :: "b64_codec \<Rightarrow> server_identity \<Rightarrow> json" where
  "server_identity_json b i =
     jobject [(''version'', junsigned (id_version i)),
              (''fabric_id'', junsigned (id_fabric_id i)),
              (''vendor_id'', junsigned (id_vendor_id i)),
              (''controller_node_id'', junsigned (id_controller_node_id i)),
              (''compressed_fabric_id'', junsigned (id_compressed_fabric_id i)),
              (''ca_private_key'', JStr (b64_encode b (id_ca_private_key i))),
              (''rcac_tlv'', JStr (b64_encode b (id_rcac_tlv i))),
              (''controller_private_key'', JStr (b64_encode b (id_controller_private_key i))),
              (''controller_noc_tlv'', JStr (b64_encode b (id_controller_noc_tlv i))),
              (''ipk'', JStr (b64_encode b (id_ipk i)))]"

definition de_bytes :: "b64_codec \<Rightarrow> json \<Rightarrow> bytes option" where
  "de_bytes b v = Option.bind (as_str v) (b64_decode b)"

definition server_identity_of_json :: "b64_codec \<Rightarrow> json \<Rightarrow> server_identity option" where
  "server_identity_of_json b v =
     Option.bind (as_object v) (\<lambda>m.
     Option.bind (de_default de_unsigned ''version'' IDENTITY_VERSION m) (\<lambda>ver.
     Option.bind (de_field de_unsigned ''fabric_id'' m) (\<lambda>fab.
     Option.bind (de_field de_unsigned ''vendor_id'' m) (\<lambda>ven.
     Option.bind (de_field de_unsigned ''controller_node_id'' m) (\<lambda>nid.
     Option.bind (de_field de_unsigned ''compressed_fabric_id'' m) (\<lambda>cfid.
     Option.bind (de_field (de_bytes b) ''ca_private_key'' m) (\<lambda>ca.
     Option.bind (de_field (de_bytes b) ''rcac_tlv'' m) (\<lambda>rcac.
     Option.bind (de_field (de_bytes b) ''controller_private_key'' m) (\<lambda>key.
     Option.bind (de_field (de_bytes b) ''controller_noc_tlv'' m) (\<lambda>noc.
     Option.bind (de_field (de_bytes b) ''ipk'' m) (\<lambda>ipk.
       Some \<lparr>id_version = ver, id_fabric_id = fab, id_vendor_id = ven,
             id_controller_node_id = nid, id_compressed_fabric_id = cfid,
             id_ca_private_key = ca, id_rcac_tlv = rcac, id_controller_private_key = key,
             id_controller_noc_tlv = noc, id_ipk = ipk\<rparr>)))))))))))"

definition wifi_credential_json :: "wifi_credential \<Rightarrow> json" where
  "wifi_credential_json c =
     jobject [(''ssid'', JStr (wc_ssid c)), (''password'', JStr (wc_password c))]"

definition wifi_credential_of_json :: "json \<Rightarrow> wifi_credential option" where
  "wifi_credential_of_json v =
     Option.bind (as_object v) (\<lambda>m.
     Option.bind (de_field as_str ''ssid'' m) (\<lambda>s.
     Option.bind (de_field as_str ''password'' m) (\<lambda>p.
       Some \<lparr>wc_ssid = s, wc_password = p\<rparr>)))"

definition config_json :: "config_data \<Rightarrow> json" where
  "config_json c =
     jobject [(''fabric_label'', JStr (cfg_fabric_label c)),
              (''next_node_id'', junsigned (cfg_next_node_id c)),
              (''wifi_credentials'',
               JObj (map (\<lambda>(k, w). (k, wifi_credential_json w)) (cfg_wifi_credentials c))),
              (''thread_datasets'', JObj (map (\<lambda>(k, d). (k, JStr d)) (cfg_thread_datasets c)))]"

text \<open>\<open>serde(default)\<close> on the container: every missing field comes from \<open>Default\<close>.\<close>

definition config_of_json :: "json \<Rightarrow> config_data option" where
  "config_of_json v =
     Option.bind (as_object v) (\<lambda>m.
     Option.bind (de_default as_str ''fabric_label'' (cfg_fabric_label default_config) m) (\<lambda>l.
     Option.bind (de_default de_unsigned ''next_node_id'' (cfg_next_node_id default_config) m) (\<lambda>n.
     Option.bind (de_default (de_map wifi_credential_of_json) ''wifi_credentials'' [] m) (\<lambda>w.
     Option.bind (de_default (de_map as_str) ''thread_datasets'' [] m) (\<lambda>t.
       Some \<lparr>cfg_fabric_label = l, cfg_next_node_id = n,
             cfg_wifi_credentials = w, cfg_thread_datasets = t\<rparr>)))))"

definition node_record_json :: "node_record \<Rightarrow> json" where
  "node_record_json r =
     jobject [(''node_id'', junsigned (nr_node_id r)),
              (''date_commissioned'', JStr (nr_date_commissioned r)),
              (''last_interview'', JStr (nr_last_interview r)),
              (''device_fabric_index'', junsigned (nr_device_fabric_index r)),
              (''addresses'', JArr (map JStr (nr_addresses r))),
              (''attributes'', JObj (nr_attributes r))]"

definition node_record_of_json :: "json \<Rightarrow> node_record option" where
  "node_record_of_json v =
     Option.bind (as_object v) (\<lambda>m.
     Option.bind (de_field de_unsigned ''node_id'' m) (\<lambda>n.
     Option.bind (de_field as_str ''date_commissioned'' m) (\<lambda>d.
     Option.bind (de_field as_str ''last_interview'' m) (\<lambda>l.
     Option.bind (de_field de_unsigned ''device_fabric_index'' m) (\<lambda>f.
     Option.bind (de_default (de_vec as_str) ''addresses'' [] m) (\<lambda>a.
     Option.bind (de_default as_object ''attributes'' [] m) (\<lambda>at.
       Some \<lparr>nr_node_id = n, nr_date_commissioned = d, nr_last_interview = l,
             nr_device_fabric_index = f, nr_addresses = a, nr_attributes = at\<rparr>)))))))"

subsection \<open>Load and save\<close>

definition server_path :: fpath where "server_path = ([], ''server.json'')"
definition config_path :: fpath where "config_path = ([], ''config.json'')"

definition node_path :: "u64 \<Rightarrow> fpath" where
  "node_path n = (''nodes'', dec_of n @ ''.json'')"

definition load_identity :: "b64_codec \<Rightarrow> fs \<Rightarrow> (io_error + server_identity option) \<times> fs" where
  "load_identity b s = read_json_strict (server_identity_of_json b) server_path s"

text \<open>\<open>path.try_exists()?\<close>\<close>

definition try_exists :: "fpath \<Rightarrow> fs \<Rightarrow> (io_error + bool) \<times> fs" where
  "try_exists p s =
     (let s' = s\<lparr>fs_calls := Suc (fs_calls s)\<rparr>
      in case fs_fault s (fs_calls s) of
           Some e \<Rightarrow> (Err e, s') | None \<Rightarrow> (Ok (fs_get s p \<noteq> None), s'))"

definition create_identity :: "b64_codec \<Rightarrow> u32 \<Rightarrow> server_identity \<Rightarrow> fs \<Rightarrow> (io_error + unit) \<times> fs" where
  "create_identity b pid i s =
     (case try_exists server_path s of
        (Err e, s') \<Rightarrow> (Err e, s')
      | (Ok True, s') \<Rightarrow> (Err (AlreadyExists server_path), s')
      | (Ok False, s') \<Rightarrow> write_json_atomic pid server_path (server_identity_json b i) True s')"

definition save_identity :: "b64_codec \<Rightarrow> u32 \<Rightarrow> server_identity \<Rightarrow> fs \<Rightarrow> (io_error + unit) \<times> fs" where
  "save_identity b pid i s = write_json_atomic pid server_path (server_identity_json b i) True s"

definition load_config :: "fs \<Rightarrow> config_data \<times> fs" where
  "load_config s =
     (case read_json config_of_json config_path s of
        (Some c, s') \<Rightarrow> (c, s') | (None, s') \<Rightarrow> (default_config, s'))"

definition save_config :: "u32 \<Rightarrow> config_data \<Rightarrow> fs \<Rightarrow> (io_error + unit) \<times> fs" where
  "save_config pid c s = write_json_atomic pid config_path (config_json c) True s"

definition save_node :: "u32 \<Rightarrow> node_record \<Rightarrow> fs \<Rightarrow> (io_error + unit) \<times> fs" where
  "save_node pid r s = write_json_atomic pid (node_path (nr_node_id r)) (node_record_json r) False s"

definition delete_node :: "u64 \<Rightarrow> fs \<Rightarrow> (io_error + unit) \<times> fs" where
  "delete_node n s =
     (if fs_get s (node_path n) \<noteq> None then exec_op (Unlink (node_path n)) s else (Ok (), s))"

text \<open>\<open>Path::extension\<close>: what follows the last dot, unless that dot starts the name.\<close>

definition extension :: "rstring \<Rightarrow> rstring option" where
  "extension name =
     (case rsplit_once (CHR ''.'') name of
        Some (stem, ext) \<Rightarrow> if stem = [] then None else Some ext
      | None \<Rightarrow> None)"

fun read_nodes :: "fpath list \<Rightarrow> fs \<Rightarrow> node_record list \<times> fs" where
  "read_nodes [] s = ([], s)"
| "read_nodes (p # ps) s =
     (if extension (snd p) = Some ''json'' then
        (case read_json node_record_of_json p s of
           (Some r, s') \<Rightarrow> (case read_nodes ps s' of (rs, s'') \<Rightarrow> (r # rs, s''))
         | (None, s') \<Rightarrow> read_nodes ps s')
      else read_nodes ps s)"

text \<open>
  \<open>load_nodes\<close>: an unreadable directory is an empty list, an unreadable file is skipped,
  and the records are sorted by node id. The directory is listed in name order; the order
  \<open>read_dir\<close> really uses is unspecified and only matters to two files with one node id.
\<close>

definition load_nodes :: "fs \<Rightarrow> node_record list \<times> fs" where
  "load_nodes s =
     (let s' = s\<lparr>fs_calls := Suc (fs_calls s)\<rparr>
      in case fs_fault s (fs_calls s) of
           Some _ \<Rightarrow> ([], s')
         | None \<Rightarrow>
             (case read_nodes (filter (\<lambda>p. fst p = ''nodes'') (om_keys (fs_files s))) s' of
                (rs, s'') \<Rightarrow> (sort_key nr_node_id rs, s'')))"

subsection \<open>The rules of \<open>ConfigStorage\<close>\<close>

definition normalize_fabric_label :: "rstring option \<Rightarrow> rstring" where
  "normalize_fabric_label label =
     (let trimmed = (case label of None \<Rightarrow> [] | Some l \<Rightarrow> trim l);
          effective = (if trimmed = [] then ''HomeAssistant'' else trimmed)
      in take_chars 32 effective)"

text \<open>The loop of \<open>allocate_node_id\<close>; in a release build \<open>candidate += 1\<close> wraps.\<close>

partial_function (option) scan_free :: "(u64 \<Rightarrow> bool) \<Rightarrow> u64 \<Rightarrow> u64 option" where
  "scan_free in_use candidate =
     (if in_use candidate then scan_free in_use (candidate + 1) else Some candidate)"

definition allocate_node_id :: "config_data \<Rightarrow> (u64 \<Rightarrow> bool) \<Rightarrow> (u64 \<times> config_data) option" where
  "allocate_node_id cfg in_use =
     map_option (\<lambda>candidate. (candidate, cfg\<lparr>cfg_next_node_id := candidate + 1\<rparr>))
       (scan_free in_use (max (cfg_next_node_id cfg) 1))"

fun find_case_duplicate :: "rstring \<Rightarrow> rstring list \<Rightarrow> rstring option" where
  "find_case_duplicate i [] = None"
| "find_case_duplicate i (other # others) =
     (if to_ascii_lowercase other = to_ascii_lowercase i \<and> other \<noteq> i then Some other
      else find_case_duplicate i others)"

definition validate_credential_id :: "rstring \<Rightarrow> rstring list \<Rightarrow> rstring + unit" where
  "validate_credential_id i existing =
     (if i = [] then Err ''invalid-credential-id: id must be non-empty''
      else let lower = to_ascii_lowercase i
           in if lower = ''delete'' \<or> (lower = ''default'' \<and> i \<noteq> ''default'')
              then Err (''invalid-credential-id: '' @ [CHR 0x27] @ i @ [CHR 0x27] @ '' is reserved'')
              else if lower = ''default'' then Ok ()
              else (case find_case_duplicate i existing of
                      Some other \<Rightarrow>
                        Err (''invalid-credential-id: '' @ [CHR 0x27] @ i @ [CHR 0x27]
                             @ '' duplicates existing '' @ [CHR 0x27] @ other @ [CHR 0x27])
                    | None \<Rightarrow> Ok ()))"

definition validate_thread_dataset :: "rstring \<Rightarrow> rstring + unit" where
  "validate_thread_dataset hex =
     (if hex = [] \<or> length hex mod 2 \<noteq> 0 \<or> \<not> list_all is_hexdigit hex
      then Err ''Invalid Thread operational dataset: must be a non-empty hex string with even length (each byte is two hex characters)''
      else Ok ())"

end
