(* ===== verification/Storage_Facts.thy ===== *)
theory Storage_Facts
  imports Storage
begin

section \<open>What storage guarantees\<close>

text \<open>
  Crash safety of the atomic write, the three-state reading of \<open>server.json\<close>, the round
  trips of the stored documents, and the rules for labels, node ids and credential ids.
\<close>

subsection \<open>The atomic write\<close>

lemma write_json_atomic_frame:
  assumes "q \<noteq> p" and "q \<noteq> tmp_path pid (fs_tmp_seq s) p"
  shows "fs_get (snd (write_json_atomic pid p v secret s)) q = fs_get s q"
proof (cases "snd p = []")
  case False
  let ?tmp = "tmp_path pid (fs_tmp_seq s) p"
  obtain r s1 where w: "write_tmp_then_rename ?tmp p v secret (s\<lparr>fs_tmp_seq := fs_tmp_seq s + 1\<rparr>) = (r, s1)"
    by fastforce
  have "fs_get s1 q = fs_get s q"
    using write_tmp_then_rename_other[OF assms(2,1), of v secret "s\<lparr>fs_tmp_seq := fs_tmp_seq s + 1\<rparr>"] w
    by simp
  moreover have "fs_get (snd (exec_op (Unlink ?tmp) s1)) q = fs_get s1 q"
    using assms(2) by (simp add: exec_op_frame)
  ultimately show ?thesis
    using False w by (auto simp: write_json_atomic_def Let_def split: sum.splits)
qed (simp add: write_json_atomic_def)

lemma write_json_atomic_outcome:
  assumes "write_json_atomic pid p v secret s = (r, s')"
  shows "(r = Ok () \<longrightarrow>
            (\<exists>n. fs_get s' p = Some n \<and> fn_content n = Doc v \<and> (secret \<longrightarrow> fn_private n))
            \<and> fs_get s' (tmp_path pid (fs_tmp_seq s) p) = None)
       \<and> (r \<noteq> Ok () \<longrightarrow> fs_get s' p = fs_get s p)
       \<and> (\<forall>q. q \<noteq> p \<and> q \<noteq> tmp_path pid (fs_tmp_seq s) p \<longrightarrow> fs_get s' q = fs_get s q)"
proof (cases "snd p = []")
  case True
  then show ?thesis using assms by (auto simp: write_json_atomic_def)
next
  case False
  let ?tmp = "tmp_path pid (fs_tmp_seq s) p" and ?s0 = "s\<lparr>fs_tmp_seq := fs_tmp_seq s + 1\<rparr>"
  have tmp: "?tmp \<noteq> p" by (rule tmp_path_differs)
  obtain r1 s1 where w: "write_tmp_then_rename ?tmp p v secret ?s0 = (r1, s1)" by fastforce
  have frame: "\<forall>q. q \<noteq> p \<and> q \<noteq> ?tmp \<longrightarrow> fs_get s' q = fs_get s q"
    using write_json_atomic_frame[of _ p pid s v secret] assms by (metis snd_conv)
  show ?thesis
  proof (cases r1)
    case (Inl e)
    have "fs_get s1 p = fs_get s p"
      using write_tmp_then_rename_Err[of ?tmp p v secret ?s0 e s1 p] w Inl tmp by simp
    moreover have "r = Inl e" and "s' = snd (exec_op (Unlink ?tmp) s1)"
      using assms False w Inl by (auto simp: write_json_atomic_def Let_def)
    ultimately show ?thesis
      using tmp frame by (simp add: exec_op_frame)
  next
    case (Inr u)
    then have "r = Ok ()" and "s' = s1"
      using assms False w by (auto simp: write_json_atomic_def Let_def)
    then show ?thesis
      using write_tmp_then_rename_Ok[of ?tmp p v secret ?s0 s1] w Inr tmp frame by simp
  qed
qed

text \<open>
  \<open>write_json_atomic\<close> is all or nothing. On success the target holds exactly the new
  document (with mode 0600 when the document is secret) and the temporary file is gone; on any
  failure, at whichever system call, the target is what it was before, and the temporary file
  is gone too unless removing it failed as well; no other file is touched in either case.
\<close>

theorem write_json_atomic_all_or_nothing:
  assumes "write_json_atomic pid p v secret s = (r, s')"
  shows "(r = Ok () \<longrightarrow>
            (\<exists>n. fs_get s' p = Some n \<and> fn_content n = Doc v \<and> (secret \<longrightarrow> fn_private n))
            \<and> fs_get s' (tmp_path pid (fs_tmp_seq s) p) = None)
       \<and> (r \<noteq> Ok () \<longrightarrow> fs_get s' p = fs_get s p)
       \<and> (\<forall>q. q \<noteq> p \<and> q \<noteq> tmp_path pid (fs_tmp_seq s) p \<longrightarrow> fs_get s' q = fs_get s q)"
  using assms by (rule write_json_atomic_outcome)

text \<open>
  A crash between any two system calls of the write never loses the file. After any prefix
  of the steps, and with any of them failing, the target is either the old file or the complete
  new document; and the temporary copy of a secret document is never readable by others, from
  its creation on.
\<close>

theorem write_crash_safe:
  assumes "fs_get s (tmp_path pid seq p) = None"
    and "run_ops (take k (write_ops (tmp_path pid seq p) p v secret)) s = (r, s')"
  shows "(fs_get s' p = fs_get s p \<or>
            (\<exists>n. fs_get s' p = Some n \<and> fn_content n = Doc v \<and> (secret \<longrightarrow> fn_private n)))
       \<and> (\<forall>n. secret \<and> fs_get s' (tmp_path pid seq p) = Some n \<longrightarrow> fn_private n)"
proof -
  let ?tmp = "tmp_path pid seq p" and ?st = "staging_ops (tmp_path pid seq p) v secret"
  have tmp: "?tmp \<noteq> p" by (rule tmp_path_differs)
  have staged: "fs_get (snd (run_ops (take j ?st) s)) p = fs_get s p" for j
    by (rule staging_frame) (use tmp in auto)
  have hidden: "secret \<Longrightarrow> fs_get (snd (run_ops (take j ?st) s)) ?tmp = Some n \<Longrightarrow> fn_private n"
    for j n using staging_private[OF assms(1)] by simp
  show ?thesis
  proof (cases "k \<le> length ?st")
    case True
    then have "run_ops (take k ?st) s = (r, s')"
      using assms(2) by (simp add: write_ops_staging)
    then show ?thesis using staged[of k] hidden[of k] by auto
  next
    case False
    then have full: "write_tmp_then_rename ?tmp p v secret s = (r, s')"
      using assms(2) by (simp add: write_tmp_then_rename_def write_ops_staging)
    show ?thesis
    proof (cases r)
      case (Inr u)
      then show ?thesis using write_tmp_then_rename_Ok[of ?tmp p v secret s s'] full tmp by auto
    next
      case (Inl e)
      obtain r1 s1 where s1: "run_ops ?st s = (r1, s1)" by fastforce
      then have "fs_get s' ?tmp = fs_get s1 ?tmp"
        using full Inl by (auto simp: write_tmp_then_rename_def write_ops_staging run_ops_append
            exec_op_def Let_def split: sum.splits option.splits)
      then show ?thesis
        using write_tmp_then_rename_Err[OF full[unfolded Inl]] tmp hidden[of "length ?st"] s1 by auto
    qed
  qed
qed

theorem write_json_atomic_all_or_nothing_witness:
  "\<exists>s'. write_json_atomic 7 config_path JNull True fresh_fs = (Ok (), s')
      \<and> (\<exists>n. fs_get s' config_path = Some n \<and> fn_content n = Doc JNull \<and> fn_private n)"
proof -
  obtain r s' where w: "write_json_atomic 7 config_path JNull True fresh_fs = (r, s')" by fastforce
  then have "r = Ok ()"
    by (simp add: write_json_atomic_def write_tmp_then_rename_def write_ops_def exec_op_def
        fresh_fs_def config_path_def fs_put_def fs_del_def fs_get_def Let_def)
  with write_json_atomic_all_or_nothing[OF w] w show ?thesis by simp
qed

theorem write_crash_safe_witness:
  "let s' = snd (run_ops (take 2 (write_ops (tmp_path 7 0 config_path) config_path JNull True)) fresh_fs)
   in fs_get s' config_path = None \<and> fs_get s' (tmp_path 7 0 config_path) \<noteq> None
      \<and> (\<forall>n. fs_get s' (tmp_path 7 0 config_path) = Some n \<longrightarrow> fn_private n)"
proof -
  let ?tmp = "tmp_path 7 0 config_path"
  let ?run = "run_ops (take 2 (write_ops ?tmp config_path JNull True)) fresh_fs"
  have none: "fs_get fresh_fs ?tmp = None" by (simp add: fresh_fs_def fs_get_def)
  have "\<forall>n. fs_get (snd ?run) ?tmp = Some n \<longrightarrow> fn_private n"
    using write_crash_safe[OF none, of 2 JNull True "fst ?run" "snd ?run"] by simp
  moreover have "fs_get (snd ?run) config_path = None \<and> fs_get (snd ?run) ?tmp \<noteq> None"
    using tmp_path_differs[of 7 0 config_path, symmetric]
    by (simp add: write_ops_def exec_op_def fresh_fs_def fs_put_def fs_get_def om_get_insert
        numeral_2_eq_2)
  ultimately show ?thesis by (simp add: Let_def)
qed

subsection \<open>Documents read back\<close>

lemma identity_json_roundtrip:
  "codec_ok b \<Longrightarrow> server_identity_of_json b (server_identity_json b i) = Some i"
  by (simp add: codec_ok_def server_identity_of_json_def server_identity_json_def jobject_def
      de_field_def de_default_def de_bytes_def om_get_of_list)

lemma wifi_credential_json_roundtrip [simp]:
  "wifi_credential_of_json (wifi_credential_json c) = Some c"
  by (simp add: wifi_credential_of_json_def wifi_credential_json_def jobject_def de_field_def
      om_get_of_list)

definition config_ok :: "config_data \<Rightarrow> bool" where
  "config_ok c \<longleftrightarrow> om_ok (cfg_wifi_credentials c) \<and> om_ok (cfg_thread_datasets c)"

lemma de_map_roundtrip:
  "om_ok m \<Longrightarrow> (\<And>a. a \<in> snd ` set m \<Longrightarrow> de (f a) = Some a) \<Longrightarrow>
     de_map de (JObj (map (\<lambda>(k, a). (k, f a)) m)) = Some m"
  by (simp add: de_map_def om_of_list_ok_id)

lemma config_json_roundtrip: "config_ok c \<Longrightarrow> config_of_json (config_json c) = Some c"
  by (simp add: config_ok_def config_of_json_def config_json_def jobject_def de_default_def
      om_get_of_list de_map_roundtrip)

lemma node_record_json_roundtrip: "node_record_of_json (node_record_json r) = Some r"
  by (simp add: node_record_of_json_def node_record_json_def jobject_def de_field_def
      de_default_def de_vec_def om_get_of_list)

text \<open>A file that reads back, in a file system whose next call does not fail\<close>

lemma read_file_Doc:
  "fs_get s p = Some n \<Longrightarrow> fn_content n = Doc v \<Longrightarrow> fs_fault s (fs_calls s) = None \<Longrightarrow>
     fst (read_file p s) = Ok (Doc v)"
  by (simp add: read_file_def Let_def)

lemma fault_plan_fixed [frame_simps]:
  "fs_fault (op_effect f s) = fs_fault s" "fs_fault (op_failure f s) = fs_fault s"
  by (cases f; simp add: fs_put_def fs_del_def split: option.splits)+

lemma exec_op_fault [frame_simps]: "fs_fault (snd (exec_op f s)) = fs_fault s"
  by (simp add: exec_op_def Let_def fault_plan_fixed split: option.splits)

lemma run_ops_fault [frame_simps]: "fs_fault (snd (run_ops fs s)) = fs_fault s"
proof (induction fs arbitrary: s)
  case (Cons f fs)
  then show ?case
    using exec_op_fault[of f s] by (cases "exec_op f s") (auto split: sum.splits)
qed simp

lemma write_json_atomic_fault [frame_simps]:
  "fs_fault (snd (write_json_atomic pid p v sec s)) = fs_fault s"
  using run_ops_fault[of "write_ops (tmp_path pid (fs_tmp_seq s) p) p v sec"
      "s\<lparr>fs_tmp_seq := fs_tmp_seq s + 1\<rparr>"]
  by (auto simp: write_json_atomic_def write_tmp_then_rename_def Let_def exec_op_fault
      split: prod.splits sum.splits)

text \<open>
  A configuration or an identity that was saved successfully is what the next load returns,
  byte for byte of the keys included, provided the read itself does not fail.
\<close>

theorem save_load_roundtrip:
  assumes "codec_ok b" and "config_ok c"
    and no_fault: "\<forall>k. fs_fault s k = None"
    and "save_config pid c s = (Ok (), s1)" and "save_identity b pid i s1 = (Ok (), s2)"
  shows "fst (load_config s2) = c \<and> fst (load_identity b s2) = Ok (Some i)"
proof -
  let ?tmp = "tmp_path pid (fs_tmp_seq s1) server_path"
  have fault: "fs_fault s2 k = None" for k
    using no_fault write_json_atomic_fault[of pid config_path "config_json c" True s]
      write_json_atomic_fault[of pid server_path "server_identity_json b i" True s1] assms(4,5)
    by (simp add: save_config_def save_identity_def)
  obtain n where n: "fs_get s1 config_path = Some n" "fn_content n = Doc (config_json c)"
    using write_json_atomic_outcome[OF assms(4)[unfolded save_config_def]] by blast
  have "config_path \<noteq> server_path" and "config_path \<noteq> ?tmp"
    by (simp_all add: config_path_def server_path_def tmp_path_def)
  then have c2: "fs_get s2 config_path = Some n"
    using write_json_atomic_outcome[OF assms(5)[unfolded save_identity_def]] n by metis
  obtain m where m: "fs_get s2 server_path = Some m" "fn_content m = Doc (server_identity_json b i)"
    using write_json_atomic_outcome[OF assms(5)[unfolded save_identity_def]] by blast
  have "fst (read_json config_of_json config_path s2) = Some c"
    using c2 n fault config_json_roundtrip[OF assms(2)]
    by (simp add: read_json_def read_file_def Let_def)
  moreover have "fst (read_json_strict (server_identity_of_json b) server_path s2) = Ok (Some i)"
    using m fault identity_json_roundtrip[OF assms(1)]
    by (simp add: read_json_strict_def read_file_def Let_def)
  ultimately show ?thesis
    by (auto simp: load_config_def load_identity_def split: prod.splits option.splits)
qed

text \<open>A codec that satisfies the documented contract (one character per byte), for examples\<close>

definition raw_codec :: b64_codec where
  "raw_codec =
     \<lparr>b64_encode = map (\<lambda>b. char_of (unat b)), b64_decode = (\<lambda>s. Some (map (\<lambda>c. of_nat (byte c)) s))\<rparr>"

lemma raw_codec_ok: "codec_ok raw_codec"
proof -
  have "of_nat (byte (char_of (unat b))) = b" for b :: u8
  proof -
    have "unat b < 2 ^ LENGTH(8)" by (rule unsigned_less)
    then show ?thesis by (simp add: byte_char_of)
  qed
  then show ?thesis by (simp add: codec_ok_def raw_codec_def comp_def)
qed

definition example_identity :: server_identity where
  "example_identity =
     \<lparr>id_version = 1, id_fabric_id = 1, id_vendor_id = 0xFFF1, id_controller_node_id = 112233,
      id_compressed_fabric_id = 9876543210, id_ca_private_key = [1, 2, 255], id_rcac_tlv = [21],
      id_controller_private_key = [3], id_controller_noc_tlv = [21, 48], id_ipk = [0, 7]\<rparr>"

lemma write_json_atomic_no_fault:
  assumes "\<forall>k. fs_fault s k = None" and "snd p \<noteq> []"
  shows "\<exists>s'. write_json_atomic pid p v sec s = (Ok (), s') \<and> (\<forall>k. fs_fault s' k = None)"
proof -
  have "fst (run_ops ops t) = Ok ()" if "fs_fault t = fs_fault s" for ops t
    using that
  proof (induction ops arbitrary: t)
    case (Cons f fs)
    have "exec_op f t = (Ok (), op_effect f (t\<lparr>fs_calls := Suc (fs_calls t)\<rparr>))"
      using Cons.prems assms(1) by (simp add: exec_op_def)
    moreover have "fs_fault (op_effect f (t\<lparr>fs_calls := Suc (fs_calls t)\<rparr>)) = fs_fault s"
      using Cons.prems by (simp add: fault_plan_fixed)
    ultimately show ?case using Cons.IH by simp
  qed simp
  from this[of "s\<lparr>fs_tmp_seq := fs_tmp_seq s + 1\<rparr>" "write_ops (tmp_path pid (fs_tmp_seq s) p) p v sec"]
  have "fst (write_json_atomic pid p v sec s) = Ok ()"
    using assms(2) by (auto simp: write_json_atomic_def write_tmp_then_rename_def Let_def
        split: prod.splits sum.splits)
  then show ?thesis
    using write_json_atomic_fault[of pid p v sec s] assms(1) by (metis prod.collapse)
qed

theorem save_load_roundtrip_witness:
  "\<exists>s2. fst (load_config s2) = default_config
      \<and> fst (load_identity raw_codec s2) = Ok (Some example_identity)"
proof -
  have none: "\<forall>k. fs_fault fresh_fs k = None" by (simp add: fresh_fs_def)
  obtain s1 where s1: "save_config 7 default_config fresh_fs = (Ok (), s1)" "\<forall>k. fs_fault s1 k = None"
    using write_json_atomic_no_fault[OF none, of config_path 7 "config_json default_config" True]
    by (auto simp: save_config_def config_path_def)
  obtain s2 where s2: "save_identity raw_codec 7 example_identity s1 = (Ok (), s2)"
    using write_json_atomic_no_fault[OF s1(2), of server_path 7
        "server_identity_json raw_codec example_identity" True]
    by (auto simp: save_identity_def server_path_def)
  have "config_ok default_config" by (simp add: config_ok_def default_config_def)
  from save_load_roundtrip[OF raw_codec_ok this none s1(1) s2] show ?thesis by blast
qed

subsection \<open>The identity is never lost\<close>

text \<open>
  \<open>create_identity\<close> never overwrites: when a \<open>server.json\<close> is there, in whatever
  state, it fails and leaves the file alone. And \<open>load_identity\<close> never mistakes a file that
  is there for a first run: \<open>None\<close> is answered only when there is no file or the operating
  system itself reports that there is none.
\<close>

theorem identity_never_clobbered:
  assumes "fs_get s server_path = Some n"
  shows "(\<exists>e. fst (create_identity b pid i s) = Err e)
       \<and> fs_get (snd (create_identity b pid i s)) server_path = Some n
       \<and> (fst (load_identity b s) = Ok None \<longrightarrow>
            (\<exists>m. fs_fault s (fs_calls s) = Some (OsError IoNotFound m)))"
proof -
  have "fs_get (snd (try_exists server_path s)) q = fs_get s q" for q
    by (simp add: try_exists_def Let_def split: option.splits)
  then have "(\<exists>e. fst (create_identity b pid i s) = Err e)
       \<and> fs_get (snd (create_identity b pid i s)) server_path = Some n"
    using assms by (auto simp: create_identity_def try_exists_def Let_def split: option.splits)
  moreover have "\<exists>m. fs_fault s (fs_calls s) = Some (OsError IoNotFound m)"
    if "fst (load_identity b s) = Ok None"
  proof (cases "fs_fault s (fs_calls s)")
    case None
    then show ?thesis
      using that assms by (auto simp: load_identity_def read_json_strict_def read_file_def Let_def
          split: fcontent.splits option.splits)
  next
    case (Some e)
    then show ?thesis
      using that by (cases e) (auto simp: load_identity_def read_json_strict_def read_file_def Let_def
          split: if_splits)
  qed
  ultimately show ?thesis by blast
qed

theorem identity_never_clobbered_witness:
  "let s = fs_put server_path \<lparr>fn_content = Junk, fn_private = True\<rparr> fresh_fs
   in (\<exists>e. fst (create_identity raw_codec 7 example_identity s) = Err e)
      \<and> fst (load_identity raw_codec s) \<noteq> Ok None"
proof -
  let ?s = "fs_put server_path \<lparr>fn_content = Junk, fn_private = True\<rparr> fresh_fs"
  have "fs_get ?s server_path = Some \<lparr>fn_content = Junk, fn_private = True\<rparr>"
    by (simp add: fs_get_put)
  from identity_never_clobbered[OF this, of raw_codec 7 example_identity] show ?thesis
    by (auto simp: Let_def fs_put_def fresh_fs_def)
qed

text \<open>
  What \<open>{:?}\<close> prints of an identity does not depend on any key: two identities that
  agree on their public numbers and on the lengths of their blobs print the same.
\<close>

theorem identity_debug_hides_keys:
  assumes "id_version i = id_version j" "id_fabric_id i = id_fabric_id j"
    "id_vendor_id i = id_vendor_id j" "id_controller_node_id i = id_controller_node_id j"
    "id_compressed_fabric_id i = id_compressed_fabric_id j"
    "length (id_ca_private_key i) = length (id_ca_private_key j)"
    "length (id_rcac_tlv i) = length (id_rcac_tlv j)"
    "length (id_controller_private_key i) = length (id_controller_private_key j)"
    "length (id_controller_noc_tlv i) = length (id_controller_noc_tlv j)"
    "length (id_ipk i) = length (id_ipk j)"
  shows "server_identity_debug i = server_identity_debug j"
  using assms by (simp add: server_identity_debug_def redacted_def summarised_def)

theorem identity_debug_hides_keys_witness:
  "server_identity_debug example_identity =
   server_identity_debug (example_identity\<lparr>id_ca_private_key := [9, 9, 9], id_ipk := [1, 1]\<rparr>)"
  by (rule identity_debug_hides_keys) (simp_all add: example_identity_def)

subsection \<open>Labels\<close>

lemma default_label_chars: "utf8_chars ''HomeAssistant'' = map (\<lambda>c. [c]) ''HomeAssistant''"
  by (simp add: utf8_chars.simps(2) is_continuation_def byte_def)

lemma default_label_head: "\<not> is_whitespace ''H''"
  by (simp add: is_whitespace_def whitespace_chars_def byte_def)

lemma normalize_chars:
  "utf8_chars (normalize_fabric_label l) =
     take 32 (if trim (case l of None \<Rightarrow> [] | Some s \<Rightarrow> s) = [] then utf8_chars ''HomeAssistant''
              else trim_chars (utf8_chars (case l of None \<Rightarrow> [] | Some s \<Rightarrow> s)))"
proof -
  have "trim [] = []" by (simp add: trim_def trim_chars_def)
  then show ?thesis
    by (auto simp: normalize_fabric_label_def Let_def utf8_chars_take_chars utf8_chars_trim
        split: option.splits)
qed

text \<open>
  A normalised fabric label is between 1 and 32 characters long, does not begin with white
  space, and is a fixed point of the normalisation unless the 32nd character, where it was cut,
  is white space.
\<close>

theorem normalize_fabric_label_shape:
  "normalize_fabric_label l \<noteq> []
   \<and> length (utf8_chars (normalize_fabric_label l)) \<le> 32
   \<and> \<not> is_whitespace (hd (utf8_chars (normalize_fabric_label l)))
   \<and> (is_whitespace (last (utf8_chars (normalize_fabric_label l)))
      \<or> normalize_fabric_label (Some (normalize_fabric_label l)) = normalize_fabric_label l)"
proof -
  let ?n = "normalize_fabric_label l" and ?s = "case l of None \<Rightarrow> [] | Some s \<Rightarrow> s"
  let ?cs = "if trim ?s = [] then utf8_chars ''HomeAssistant'' else trim_chars (utf8_chars ?s)"
  have chars: "utf8_chars ?n = take 32 ?cs" by (rule normalize_chars)
  have ne: "trim_chars (utf8_chars ?s) \<noteq> []" if "trim ?s \<noteq> []"
    using that by (simp flip: utf8_chars_trim)
  have hd: "?cs \<noteq> [] \<and> \<not> is_whitespace (hd ?cs)"
    using ne hd_trim_chars default_label_head by (simp add: default_label_chars)
  then have nonempty: "?n \<noteq> []" and head: "\<not> is_whitespace (hd (utf8_chars ?n))"
    using chars by (auto simp flip: utf8_chars_eq_Nil simp: hd_take)
  have "normalize_fabric_label (Some ?n) = ?n" if "\<not> is_whitespace (last (utf8_chars ?n))"
  proof -
    have "trim_chars (utf8_chars ?n) = utf8_chars ?n"
      using that head by (intro trim_chars_id) simp
    then have "trim ?n = ?n" by (simp add: trim_def)
    then have "utf8_chars (normalize_fabric_label (Some ?n)) = take 32 (utf8_chars ?n)"
      using nonempty by (simp add: normalize_fabric_label_def utf8_chars_take_chars)
    also have "\<dots> = utf8_chars ?n" using chars by simp
    finally show ?thesis by (metis concat_utf8_chars)
  qed
  moreover have "length (utf8_chars ?n) \<le> 32"
    by (simp only: chars length_take min.cobounded2)
  ultimately show ?thesis using nonempty head by blast
qed

subsection \<open>Node ids\<close>

lemma scan_free_step: "in_use c \<Longrightarrow> scan_free in_use c = scan_free in_use (c + 1)"
  by (subst scan_free.simps) simp

lemma scan_free_skip:
  "\<forall>j < k. in_use (c + of_nat j) \<Longrightarrow> scan_free in_use c = scan_free in_use (c + of_nat k)"
proof (induction k)
  case (Suc k)
  then have "scan_free in_use c = scan_free in_use (c + of_nat k)" by simp
  also have "\<dots> = scan_free in_use (c + of_nat k + 1)"
    using Suc.prems by (intro scan_free_step) simp
  finally show ?case by (simp add: ac_simps)
qed simp

lemma scan_free_first:
  assumes "\<not> in_use (c + of_nat k)" and "\<forall>j < k. in_use (c + of_nat j)"
  shows "scan_free in_use c = Some (c + of_nat k)"
  using scan_free_skip[OF assms(2)] assms(1) by (simp add: scan_free.simps[of _ "c + of_nat k"])

lemma allocate_node_id_outcome:
  assumes "\<exists>n. \<not> in_use n"
  shows "\<exists>k. allocate_node_id cfg in_use =
            Some (max (cfg_next_node_id cfg) 1 + of_nat k,
                  cfg\<lparr>cfg_next_node_id := max (cfg_next_node_id cfg) 1 + of_nat k + 1\<rparr>)
       \<and> \<not> in_use (max (cfg_next_node_id cfg) 1 + of_nat k)
       \<and> (\<forall>j < k. in_use (max (cfg_next_node_id cfg) 1 + of_nat j))"
proof -
  let ?c = "max (cfg_next_node_id cfg) 1"
  let ?free = "\<lambda>k. \<not> in_use (?c + of_nat k)"
  obtain n where "\<not> in_use n" using assms by blast
  moreover have "n = ?c + of_nat (unat (n - ?c))" by simp
  ultimately have "?free (unat (n - ?c))" by metis
  then have least: "?free (Least ?free)" and below: "\<forall>j < Least ?free. in_use (?c + of_nat j)"
    by (rule LeastI) (use not_less_Least in blast)
  have "scan_free in_use ?c = Some (?c + of_nat (Least ?free))"
    using least below by (intro scan_free_first) simp_all
  then show ?thesis using least below by (intro exI[of _ "Least ?free"]) (simp add: allocate_node_id_def)
qed

lemma allocates_when_free: "\<exists>n. \<not> in_use n \<Longrightarrow> allocate_node_id cfg in_use \<noteq> None"
  using allocate_node_id_outcome[of in_use cfg] by auto

text \<open>
  Node id allocation always ends when some id is unused, never hands out an id that is in
  use, skips over used ids only, and leaves \<open>next_node_id\<close> one past the id it handed out
  (wrapping at the top of the range, as a release build does) and the rest of the configuration
  alone.
\<close>

theorem allocate_node_id_fresh:
  assumes "\<exists>n. \<not> in_use n"
  shows "\<exists>k. allocate_node_id cfg in_use =
            Some (max (cfg_next_node_id cfg) 1 + of_nat k,
                  cfg\<lparr>cfg_next_node_id := max (cfg_next_node_id cfg) 1 + of_nat k + 1\<rparr>)
       \<and> \<not> in_use (max (cfg_next_node_id cfg) 1 + of_nat k)
       \<and> (\<forall>j < k. in_use (max (cfg_next_node_id cfg) 1 + of_nat j))"
  using assms by (rule allocate_node_id_outcome)

theorem allocate_node_id_fresh_witness:
  "\<exists>n cfg'. allocate_node_id (default_config\<lparr>cfg_next_node_id := 0\<rparr>) (\<lambda>n. n = 1 \<or> n = 2) = Some (n, cfg')
      \<and> n \<noteq> 1 \<and> n \<noteq> 2"
proof -
  have "\<exists>n :: u64. \<not> (n = 1 \<or> n = 2)" by (rule exI[of _ 3]) simp
  from allocate_node_id_fresh[OF this, of "default_config\<lparr>cfg_next_node_id := 0\<rparr>"]
  show ?thesis by blast
qed

subsection \<open>Credential ids\<close>

text \<open>
  The stored credential ids are usable: not empty, not reserved, and no two of them differ in
  case only (a client could not tell them apart).
\<close>

definition credential_ids_ok :: "(rstring, 'a) omap \<Rightarrow> bool" where
  "credential_ids_ok m \<longleftrightarrow>
     (\<forall>i \<in> set (om_keys m). i \<noteq> [] \<and> to_ascii_lowercase i \<noteq> ''delete''
        \<and> (to_ascii_lowercase i = ''default'' \<longrightarrow> i = ''default'')
        \<and> (\<forall>j \<in> set (om_keys m). to_ascii_lowercase i = to_ascii_lowercase j \<longrightarrow> i = j))"

lemma find_case_duplicate_None:
  "find_case_duplicate i others = None \<longleftrightarrow>
     (\<forall>j \<in> set others. to_ascii_lowercase j = to_ascii_lowercase i \<longrightarrow> j = i)"
  by (induction others) auto

lemma set_om_keys_insert: "set (om_keys (om_insert k v m)) = insert k (set (om_keys m))"
  by (simp add: om_keys_def set_om_insert_keys)

lemma validate_credential_id_Ok:
  "validate_credential_id i existing = Ok () \<longleftrightarrow>
     i \<noteq> [] \<and> to_ascii_lowercase i \<noteq> ''delete''
     \<and> (to_ascii_lowercase i = ''default'' \<longrightarrow> i = ''default'')
     \<and> (to_ascii_lowercase i \<noteq> ''default'' \<longrightarrow>
          (\<forall>j \<in> set existing. to_ascii_lowercase j = to_ascii_lowercase i \<longrightarrow> j = i))"
  by (cases "find_case_duplicate i existing")
    (auto simp: validate_credential_id_def Let_def simp flip: find_case_duplicate_None)

text \<open>
  A credential id that passes \<open>validate_credential_id\<close> keeps the stored ids usable when
  it is inserted, and validation accepts every id that is already stored.
\<close>

theorem validate_credential_id_sound:
  assumes "credential_ids_ok m"
  shows "(validate_credential_id i (om_keys m) = Ok () \<longrightarrow> credential_ids_ok (om_insert i c m))
       \<and> (\<forall>j \<in> set (om_keys m). validate_credential_id j (om_keys m) = Ok ())"
proof (intro conjI impI ballI)
  assume "validate_credential_id i (om_keys m) = Ok ()"
  then have i: "i \<noteq> []" "to_ascii_lowercase i \<noteq> ''delete''"
      "to_ascii_lowercase i = ''default'' \<longrightarrow> i = ''default''"
      "to_ascii_lowercase i \<noteq> ''default'' \<longrightarrow>
        (\<forall>j \<in> set (om_keys m). to_ascii_lowercase j = to_ascii_lowercase i \<longrightarrow> j = i)"
    by (auto simp: validate_credential_id_Ok)
  have clash: "j = i" if "j \<in> set (om_keys m)" "to_ascii_lowercase j = to_ascii_lowercase i" for j
    using that i assms unfolding credential_ids_ok_def by metis
  show "credential_ids_ok (om_insert i c m)"
    using assms i(1-3) clash unfolding credential_ids_ok_def set_om_keys_insert by (metis insert_iff)
next
  fix j
  assume "j \<in> set (om_keys m)"
  with assms show "validate_credential_id j (om_keys m) = Ok ()"
    by (auto simp: credential_ids_ok_def validate_credential_id_Ok)
qed

theorem validate_credential_id_sound_witness:
  "validate_credential_id ''Guest'' (om_keys [(''default'', ())]) = Ok ()
   \<and> credential_ids_ok (om_insert ''Guest'' () [(''default'', ())])"
proof -
  have low: "to_ascii_lowercase ''default'' = ''default''" "to_ascii_lowercase ''Guest'' = ''guest''"
    by (simp_all add: to_ascii_lowercase_def lower_char_def byte_def char_of_eq_iff)
  have ok: "credential_ids_ok [(''default'', ())]"
    by (simp add: credential_ids_ok_def om_keys_def low)
  have "validate_credential_id ''Guest'' (om_keys [(''default'', ())]) = Ok ()"
    by (simp add: validate_credential_id_Ok om_keys_def low)
  with validate_credential_id_sound[OF ok, of "''Guest''" "()"] show ?thesis by blast
qed

end
