(* ===== verification/Writers.thy ===== *)
theory Writers
  imports Storage_Facts
begin

section \<open>Concurrent writers (\<open>controller/src/storage.rs\<close>)\<close>

text \<open>
  Commands of different connections write files concurrently: each writer runs the steps of
  \<open>write_json_atomic\<close> and the scheduler interleaves them freely, any call may fail, and a
  failed writer only removes its temporary file. The sequence number in the temporary name is
  what keeps two writers apart.
\<close>

record write_job =
  job_seq :: u64
  job_path :: fpath
  job_doc :: json
  job_secret :: bool

definition job_tmp :: "u32 \<Rightarrow> write_job \<Rightarrow> fpath" where
  "job_tmp pid j = tmp_path pid (job_seq j) (job_path j)"

definition job_ops :: "u32 \<Rightarrow> write_job \<Rightarrow> fs_op list" where
  "job_ops pid j = write_ops (job_tmp pid j) (job_path j) (job_doc j) (job_secret j)"

text \<open>What a writer does after an operation: go on, or remove its temporary file and stop.\<close>

fun continue_writer :: "fpath \<Rightarrow> fs_op \<Rightarrow> fs_op list \<Rightarrow> io_error + unit \<Rightarrow> fs_op list" where
  "continue_writer tmp f rest (Inr _) = rest"
| "continue_writer tmp (Unlink p) rest (Inl _) = []"
| "continue_writer tmp f rest (Inl _) = [Unlink tmp]"

inductive write_step :: "u32 \<Rightarrow> (nat \<Rightarrow> write_job) \<Rightarrow> fs \<times> (nat \<Rightarrow> fs_op list) \<Rightarrow>
    fs \<times> (nat \<Rightarrow> fs_op list) \<Rightarrow> bool" for pid jobs where
  step: "todo i = f # rest \<Longrightarrow> exec_op f s = (r, s') \<Longrightarrow>
     write_step pid jobs (s, todo)
       (s', todo(i := continue_writer (job_tmp pid (jobs i)) f rest r))"

inductive_cases write_stepE [elim]: "write_step pid jobs (s, todo) st"

text \<open>What is true of a writer's temporary file at each point of its program\<close>

definition holds_doc :: "fs \<Rightarrow> fpath \<Rightarrow> json \<Rightarrow> bool \<Rightarrow> bool" where
  "holds_doc s p v secret \<longleftrightarrow>
     (\<exists>n. fs_get s p = Some n \<and> fn_content n = Doc v \<and> (secret \<longrightarrow> fn_private n))"

definition closing_ops :: "fpath \<Rightarrow> fpath \<Rightarrow> bool \<Rightarrow> fs_op list" where
  "closing_ops tmp p secret = (if secret then [SetPrivate tmp] else []) @ [Rename tmp p]"

definition stage_ok :: "u32 \<Rightarrow> write_job \<Rightarrow> fs_op list \<Rightarrow> fs \<Rightarrow> bool" where
  "stage_ok pid j ops s \<longleftrightarrow>
     (let t = job_tmp pid j; p = job_path j; v = job_doc j; sec = job_secret j
      in ops = job_ops pid j
       \<or> ops = tl (job_ops pid j)
       \<or> ((ops = SyncAll t # closing_ops t p sec \<or> ops = closing_ops t p sec) \<and> holds_doc s t v False)
       \<or> (ops = [Rename t p] \<and> holds_doc s t v sec)
       \<or> ops = [Unlink t] \<or> ops = [])"

lemma stage_ok_frame:
  "fs_get s' (job_tmp pid j) = fs_get s (job_tmp pid j) \<Longrightarrow> stage_ok pid j ops s \<Longrightarrow> stage_ok pid j ops s'"
  by (simp add: stage_ok_def holds_doc_def Let_def)

lemma stage_ok_step:
  assumes "stage_ok pid j (f # rest) s" and "exec_op f s = (r, s')"
  shows "stage_ok pid j (continue_writer (job_tmp pid j) f rest r) s'"
  using assms
  by (auto simp: stage_ok_def Let_def job_ops_def write_ops_def closing_ops_def holds_doc_def
      exec_op_def store_simps split: if_splits option.splits)

lemma stage_ok_writes:
  assumes "stage_ok pid j (f # rest) s"
  shows "op_writes f \<subseteq> {job_tmp pid j, job_path j}"
  using assms
  by (auto simp: stage_ok_def Let_def job_ops_def write_ops_def closing_ops_def split: if_splits)

lemma stage_ok_target:
  assumes "stage_ok pid j (f # rest) s" and "exec_op f s = (r, s')"
    and "job_path j \<noteq> job_tmp pid j"
  shows "fs_get s' (job_path j) = fs_get s (job_path j) \<or>
         holds_doc s' (job_path j) (job_doc j) (job_secret j)"
  using assms
  by (auto simp: stage_ok_def Let_def job_ops_def write_ops_def closing_ops_def holds_doc_def
      exec_op_def store_simps split: if_splits option.splits)

subsection \<open>Names\<close>

definition visible :: "fpath \<Rightarrow> bool" where
  "visible p \<longleftrightarrow> snd p \<noteq> [] \<and> hd (snd p) \<noteq> CHR ''.''"

lemma tmp_path_hidden: "\<not> visible (tmp_path pid seq p)"
  by (simp add: visible_def tmp_path_def)

lemma tmp_path_seq_inject:
  assumes "tmp_path pid k p = tmp_path pid l q"
  shows "k = l"
proof -
  have dash: "\<not> is_digit (CHR ''-'')" by (simp add: is_digit_def byte_def)
  have split: "rsplit_once (CHR ''-'') (snd (tmp_path pid seq r)) =
      Some (''.'' @ snd r @ ''.tmp-'' @ dec_of pid, dec_of seq)" for seq r
    by (simp add: rsplit_once_Some_iff tmp_path_def dec_of_no_char[OF dash])
  show ?thesis using split[of k p] split[of l q] assms by simp
qed

text \<open>
  The invariant of all writers together: the writers below \<open>n\<close> are at a legal stage, the
  others do nothing.
\<close>

definition start_writers :: "u32 \<Rightarrow> nat \<Rightarrow> (nat \<Rightarrow> write_job) \<Rightarrow> nat \<Rightarrow> fs_op list" where
  "start_writers pid n jobs i = (if i < n then job_ops pid (jobs i) else [])"

definition writers_inv :: "u32 \<Rightarrow> nat \<Rightarrow> (nat \<Rightarrow> write_job) \<Rightarrow> fs \<Rightarrow> fs \<Rightarrow> (nat \<Rightarrow> fs_op list) \<Rightarrow> bool" where
  "writers_inv pid n jobs s0 s todo \<longleftrightarrow>
     (\<forall>i. if i < n then stage_ok pid (jobs i) (todo i) s else todo i = [])
     \<and> (\<forall>q. visible q \<longrightarrow> fs_get s q = fs_get s0 q \<or>
           (\<exists>i < n. job_path (jobs i) = q \<and> holds_doc s q (job_doc (jobs i)) (job_secret (jobs i))))"

definition jobs_ok :: "nat \<Rightarrow> (nat \<Rightarrow> write_job) \<Rightarrow> bool" where
  "jobs_ok n jobs \<longleftrightarrow>
     inj_on (\<lambda>i. job_seq (jobs i)) {..<n} \<and> (\<forall>i < n. visible (job_path (jobs i)))"

lemma jobs_ok_tmp:
  assumes "jobs_ok n jobs" and "i < n" and "j < n"
  shows "job_tmp pid (jobs j) \<noteq> job_path (jobs i)"
    and "i \<noteq> j \<Longrightarrow> job_tmp pid (jobs j) \<noteq> job_tmp pid (jobs i)"
proof -
  show "job_tmp pid (jobs j) \<noteq> job_path (jobs i)"
    using assms tmp_path_hidden unfolding job_tmp_def jobs_ok_def by metis
  show "job_tmp pid (jobs j) \<noteq> job_tmp pid (jobs i)" if "i \<noteq> j"
    using assms that tmp_path_seq_inject unfolding job_tmp_def jobs_ok_def
    by (metis (mono_tags, lifting) inj_on_eq_iff lessThan_iff)
qed

lemma writers_inv_step:
  assumes ok: "jobs_ok n jobs" and inv: "writers_inv pid n jobs s0 s todo"
    and "write_step pid jobs (s, todo) (s', todo')"
  shows "writers_inv pid n jobs s0 s' todo'"
proof -
  obtain i f rest r where i: "todo i = f # rest" and f: "exec_op f s = (r, s')"
      and todo': "todo' = todo(i := continue_writer (job_tmp pid (jobs i)) f rest r)"
    using assms(3) by auto
  have n: "i < n" and st: "stage_ok pid (jobs i) (f # rest) s"
    using inv i unfolding writers_inv_def by (metis list.distinct(1))+
  have writes: "op_writes f \<subseteq> {job_tmp pid (jobs i), job_path (jobs i)}"
    by (rule stage_ok_writes[OF st])
  have frame: "fs_get s' q = fs_get s q" if "q \<noteq> job_tmp pid (jobs i)" "q \<noteq> job_path (jobs i)" for q
    using exec_op_frame[of q f s] writes that f by auto
  have "if j < n then stage_ok pid (jobs j) (todo' j) s' else todo' j = []" for j
  proof (cases "j = i")
    case True
    then show ?thesis using stage_ok_step[OF st f] todo' n by simp
  next
    case False
    then have "todo' j = todo j" using todo' by simp
    moreover have "j < n \<Longrightarrow> stage_ok pid (jobs j) (todo j) s'"
      using inv False stage_ok_frame[OF frame] jobs_ok_tmp[OF ok n]
      unfolding writers_inv_def by metis
    ultimately show ?thesis using inv unfolding writers_inv_def by metis
  qed
  moreover have "fs_get s' q = fs_get s0 q \<or>
      (\<exists>i < n. job_path (jobs i) = q \<and> holds_doc s' q (job_doc (jobs i)) (job_secret (jobs i)))"
    if q: "visible q" for q
  proof -
    have tmp: "q \<noteq> job_tmp pid (jobs i)" using q tmp_path_hidden unfolding job_tmp_def by metis
    have "fs_get s' q = fs_get s q \<or>
        (job_path (jobs i) = q \<and> holds_doc s' q (job_doc (jobs i)) (job_secret (jobs i)))"
      using stage_ok_target[OF st f] frame[OF tmp] tmp by metis
    moreover have "holds_doc s' q v sec = holds_doc s q v sec" if "fs_get s' q = fs_get s q" for v sec
      using that by (simp add: holds_doc_def)
    ultimately show ?thesis using inv q n unfolding writers_inv_def by metis
  qed
  ultimately show ?thesis unfolding writers_inv_def by blast
qed

lemma writers_inv_run:
  assumes "jobs_ok n jobs" and "(write_step pid jobs)\<^sup>*\<^sup>* (s0, start_writers pid n jobs) st"
  shows "writers_inv pid n jobs s0 (fst st) (snd st)"
  using assms(2)
proof (induction rule: rtranclp_induct)
  case base
  show ?case unfolding writers_inv_def stage_ok_def start_writers_def Let_def by auto
next
  case (step st st')
  then show ?case using writers_inv_step[OF assms(1)] by (metis prod.collapse)
qed

text \<open>
  C31: any number of writers of any files, interleaved in any way at the level of single system
  calls and with any calls failing, never corrupt a file: at every moment every file holds what
  it held at the start or the complete document of one of the writers that target it (with mode
  0600 if that document is secret). It rests on the sequence number being different for every
  write.
\<close>

theorem concurrent_writes_never_corrupt:
  assumes "inj_on (\<lambda>i. job_seq (jobs i)) {..<n}" and "\<forall>i < n. visible (job_path (jobs i))"
    and "(write_step pid jobs)\<^sup>*\<^sup>* (s0, start_writers pid n jobs) (s, todo)" and "visible q"
  shows "fs_get s q = fs_get s0 q \<or>
    (\<exists>i < n. \<exists>m. job_path (jobs i) = q \<and> fs_get s q = Some m
        \<and> fn_content m = Doc (job_doc (jobs i)) \<and> (job_secret (jobs i) \<longrightarrow> fn_private m))"
proof -
  have "jobs_ok n jobs" using assms(1,2) by (simp add: jobs_ok_def)
  from writers_inv_run[OF this assms(3)] assms(4) have
    "fs_get s q = fs_get s0 q \<or>
      (\<exists>i < n. job_path (jobs i) = q \<and> holds_doc s q (job_doc (jobs i)) (job_secret (jobs i)))"
    unfolding writers_inv_def fst_conv by blast
  then show ?thesis unfolding holds_doc_def by blast
qed

text \<open>Two writers of \<open>config.json\<close>; both have opened their temporary file.\<close>

definition example_job :: "nat \<Rightarrow> write_job" where
  "example_job i =
     \<lparr>job_seq = of_nat i, job_path = config_path, job_doc = JBool (i = 0), job_secret = True\<rparr>"

theorem concurrent_writes_never_corrupt_witness:
  "\<exists>s todo. (write_step 7 example_job)\<^sup>*\<^sup>* (fresh_fs, start_writers 7 2 example_job) (s, todo)
      \<and> fs_get s (job_tmp 7 (example_job 0)) \<noteq> None
      \<and> (fs_get s config_path = None \<or> (\<exists>m. fs_get s config_path = Some m \<and> fn_private m))"
proof -
  let ?t0 = "job_tmp 7 (example_job 0)"
  let ?todo = "start_writers 7 2 example_job"
  let ?f = "OpenTrunc ?t0 True"
  obtain r s where f: "exec_op ?f fresh_fs = (r, s)" by fastforce
  have "?todo 0 = ?f # tl (job_ops 7 (example_job 0))"
    by (simp add: start_writers_def job_ops_def write_ops_def example_job_def)
  from write_step.step[where todo = ?todo and i = 0, OF this f] obtain todo where
    "write_step 7 example_job (fresh_fs, ?todo) (s, todo)" by blast
  then have run: "(write_step 7 example_job)\<^sup>*\<^sup>* (fresh_fs, ?todo) (s, todo)" by blast
  have "inj_on (\<lambda>i. job_seq (example_job i)) {..<2}"
    by (auto simp: inj_on_def example_job_def less_2_cases_iff)
  moreover have "\<forall>i < 2. visible (job_path (example_job i))" and "visible config_path"
    by (simp_all add: visible_def example_job_def config_path_def)
  ultimately have "fs_get s config_path = fs_get fresh_fs config_path \<or>
      (\<exists>i < 2. \<exists>m. job_path (example_job i) = config_path \<and> fs_get s config_path = Some m
        \<and> fn_content m = Doc (job_doc (example_job i)) \<and> (job_secret (example_job i) \<longrightarrow> fn_private m))"
    by (rule concurrent_writes_never_corrupt[OF _ _ run])
  moreover have "fs_get s ?t0 \<noteq> None"
    using f by (auto simp: exec_op_def fresh_fs_def fs_get_put Let_def)
  moreover have "fs_get fresh_fs config_path = None" by (simp add: fresh_fs_def fs_get_def)
  ultimately show ?thesis using run by (auto simp: example_job_def)
qed

end
