(* ===== verification/Registry.thy ===== *)
theory Registry
  imports Storage
begin

section \<open>The node registry (\<open>controller/src/registry.rs\<close>)\<close>

text \<open>
  The attribute cache and the cached availability of every commissioned node, in node id order.
  Each operation of the code takes the registry's mutex for its whole body, so each is one
  step here. The contract of availability is a locale with the registry as its interpretation.
\<close>

record node_entry =
  en_record :: node_record
  en_available :: bool

type_synonym registry = "(u64, node_entry) omap"

definition new_entry :: "node_record \<Rightarrow> node_entry" where
  "new_entry r = \<lparr>en_record = r, en_available = False\<rparr>"

definition registry_new :: "node_record list \<Rightarrow> registry" where
  "registry_new records = om_of_list (map (\<lambda>r. (nr_node_id r, new_entry r)) records)"

definition registry_contains :: "registry \<Rightarrow> u64 \<Rightarrow> bool" where
  "registry_contains m n \<longleftrightarrow> om_get m n \<noteq> None"

definition registry_node_ids :: "registry \<Rightarrow> u64 list" where
  "registry_node_ids m = om_keys m"

definition registry_len :: "registry \<Rightarrow> nat" where
  "registry_len m = length m"

definition registry_insert :: "node_record \<Rightarrow> registry \<Rightarrow> registry" where
  "registry_insert r m = om_insert (nr_node_id r) (new_entry r) m"

definition registry_remove :: "u64 \<Rightarrow> registry \<Rightarrow> bool \<times> registry" where
  "registry_remove n m = (om_get m n \<noteq> None, om_remove n m)"

definition with_entry :: "u64 \<Rightarrow> (node_entry \<Rightarrow> 'r \<times> node_entry) \<Rightarrow> registry \<Rightarrow> 'r option \<times> registry" where
  "with_entry n f m =
     (case om_get m n of
        None \<Rightarrow> (None, m)
      | Some e \<Rightarrow> (case f e of (r, e') \<Rightarrow> (Some r, om_update n (\<lambda>_. e') m)))"

definition set_available :: "u64 \<Rightarrow> bool \<Rightarrow> registry \<Rightarrow> bool option \<times> registry" where
  "set_available n b = with_entry n (\<lambda>e. (en_available e \<noteq> b, e\<lparr>en_available := b\<rparr>))"

subsection \<open>The served form of a node\<close>

text \<open>Endpoint 1's Descriptor \<open>DeviceTypeList\<close> names an Aggregator (14).\<close>

definition is_bridge :: "jmap \<Rightarrow> bool" where
  "is_bridge attributes =
     (case Option.bind (om_get attributes ''1/29/0'') as_array of
        None \<Rightarrow> False
      | Some list \<Rightarrow> list_ex (\<lambda>e. Option.bind (jget e ''0'') as_u64 = Some 14) list)"

definition version_byte :: "u64 \<Rightarrow> nat \<Rightarrow> rstring" where
  "version_byte v k = dec_of (and (drop_bit k v) 0xFF)"

definition matter_version :: "jmap \<Rightarrow> rstring option" where
  "matter_version attributes =
     (case Option.bind (om_get attributes ''0/40/21'') as_u64 of
        Some v \<Rightarrow> Some (version_byte v 24 @ ''.'' @ version_byte v 16 @ ''.'' @ version_byte v 8)
      | None \<Rightarrow>
          (case Option.bind (om_get attributes ''0/40/0'') as_u64 of
             None \<Rightarrow> None
           | Some r \<Rightarrow> if r \<le> 16 then Some ''<1.2.0'' else if r = 17 then Some ''1.2.0'' else None))"

definition build_node_data :: "node_record \<Rightarrow> bool \<Rightarrow> matter_node_data" where
  "build_node_data r available =
     \<lparr>nd_node_id = nr_node_id r, nd_date_commissioned = nr_date_commissioned r,
      nd_last_interview = nr_last_interview r, nd_interview_version = 6,
      nd_available = available, nd_is_bridge = is_bridge (nr_attributes r),
      nd_attributes = nr_attributes r, nd_attribute_subscriptions = [],
      nd_matter_version = matter_version (nr_attributes r)\<rparr>"

definition entry_data :: "node_entry \<Rightarrow> matter_node_data" where
  "entry_data e = build_node_data (en_record e) (en_available e)"

definition node_data :: "registry \<Rightarrow> u64 \<Rightarrow> matter_node_data option" where
  "node_data m n = map_option entry_data (om_get m n)"

definition all_node_data :: "bool \<Rightarrow> registry \<Rightarrow> matter_node_data list" where
  "all_node_data only_available m =
     map entry_data (filter (\<lambda>e. \<not> only_available \<or> en_available e) (om_values m))"

definition snapshot_record :: "registry \<Rightarrow> u64 \<Rightarrow> node_record option" where
  "snapshot_record m n = map_option en_record (om_get m n)"

subsection \<open>Well-formedness\<close>

text \<open>The map is in order and every record sits under its own node id.\<close>

definition registry_ok :: "registry \<Rightarrow> bool" where
  "registry_ok m \<longleftrightarrow> om_ok m \<and> (\<forall>n e. om_get m n = Some e \<longrightarrow> nr_node_id (en_record e) = n)"

lemma registry_ok_om: "registry_ok m \<Longrightarrow> om_ok m"
  by (simp add: registry_ok_def)

lemma registry_ok_insert [wf_intros]: "registry_ok m \<Longrightarrow> registry_ok (registry_insert r m)"
  by (auto simp: registry_ok_def registry_insert_def om_ok_insert om_get_insert new_entry_def)

lemma registry_ok_new [wf_intros]: "registry_ok (registry_new records)"
  by (auto simp: registry_ok_def registry_new_def om_ok_of_list om_get_of_list new_entry_def
      dest!: map_of_SomeD)

lemma registry_ok_remove [wf_intros]: "registry_ok m \<Longrightarrow> registry_ok (snd (registry_remove n m))"
  by (auto simp: registry_ok_def registry_remove_def om_ok_remove om_get_remove)

lemma with_entry_get [store_simps]:
  "om_get (snd (with_entry n f m)) j =
     (if j = n then map_option (\<lambda>e. snd (f e)) (om_get m n) else om_get m j)"
  by (auto simp: with_entry_def om_get_update split: option.splits prod.splits)

lemma with_entry_result: "fst (with_entry n f m) = map_option (\<lambda>e. fst (f e)) (om_get m n)"
  by (auto simp: with_entry_def split: option.splits prod.splits)

lemma with_entry_keys [simp]: "map fst (snd (with_entry n f m)) = map fst m"
  by (auto simp: with_entry_def split: option.splits prod.splits)

lemma registry_ok_with_entry [wf_intros]:
  assumes "registry_ok m"
    and "\<And>e. nr_node_id (en_record (snd (f e))) = nr_node_id (en_record e)"
  shows "registry_ok (snd (with_entry n f m))"
  using assms by (auto simp: registry_ok_def om_ok_def with_entry_get split: if_splits)

lemma registry_contains_with_entry [simp]:
  "registry_contains (snd (with_entry n f m)) j = registry_contains m j"
  by (auto simp: registry_contains_def with_entry_get)

lemma snapshot_node_data: "snapshot_record m n = None \<longleftrightarrow> node_data m n = None"
  by (simp add: snapshot_record_def node_data_def)

subsection \<open>The contract of availability\<close>

text \<open>
  What the node manager relies on: availability is a cached value that \<open>set\<close> overwrites, and
  the answer of \<open>set\<close> tells whether it changed (\<open>None\<close> for a node that is not there).
\<close>

locale availability_cache =
  fixes avail :: "'r \<Rightarrow> u64 \<Rightarrow> bool option"
    and set_avail :: "u64 \<Rightarrow> bool \<Rightarrow> 'r \<Rightarrow> bool option \<times> 'r"
  assumes answer: "fst (set_avail n b r) = map_option (\<lambda>a. a \<noteq> b) (avail r n)"
    and effect: "avail (snd (set_avail n b r)) j =
       (if j = n then map_option (\<lambda>_. b) (avail r n) else avail r j)"
begin

lemma changed_iff: "fst (set_avail n b r) = Some True \<longleftrightarrow> avail r n = Some (\<not> b)"
  by (auto simp: answer)

lemma set_twice_silent: "fst (set_avail n b (snd (set_avail n b r))) \<noteq> Some True"
  by (auto simp: answer effect)

lemma unchanged_unless_announced:
  "fst (set_avail n b r) \<noteq> Some True \<Longrightarrow> avail (snd (set_avail n b r)) = avail r"
proof (rule ext)
  fix j
  assume "fst (set_avail n b r) \<noteq> Some True"
  then show "avail (snd (set_avail n b r)) j = avail r j"
    by (cases "avail r n") (auto simp: answer effect)
qed

lemma same_nodes: "avail (snd (set_avail n b r)) j = None \<longleftrightarrow> avail r j = None"
  by (simp add: effect)

end

definition node_available :: "registry \<Rightarrow> u64 \<Rightarrow> bool option" where
  "node_available m n = map_option en_available (om_get m n)"

interpretation reg: availability_cache node_available set_available
  by unfold_locales
    (auto simp: node_available_def set_available_def with_entry_result with_entry_get
      option.map_comp comp_def intro!: option.map_cong)

lemma node_available_data: "node_available m n = map_option nd_available (node_data m n)"
  by (simp add: node_available_def node_data_def entry_data_def build_node_data_def
      option.map_comp comp_def)

lemma registry_ok_set_available [wf_intros]:
  "registry_ok m \<Longrightarrow> registry_ok (snd (set_available n b m))"
  unfolding set_available_def by (rule registry_ok_with_entry) simp_all

lemma set_available_get [store_simps]:
  "om_get (snd (set_available n b m)) j =
     (if j = n then map_option (\<lambda>e. e\<lparr>en_available := b\<rparr>) (om_get m n) else om_get m j)"
  by (simp add: set_available_def with_entry_get)

lemma set_available_unchanged:
  assumes "fst (set_available n b m) \<noteq> Some True"
  shows "om_get (snd (set_available n b m)) = om_get m"
proof (rule ext)
  fix j
  show "om_get (snd (set_available n b m)) j = om_get m j"
    using assms
    by (cases "om_get m n") (auto simp: set_available_def with_entry_result with_entry_get)
qed

lemma snapshot_set_available [simp]:
  "snapshot_record (snd (set_available n b m)) j = snapshot_record m j"
  by (auto simp: snapshot_record_def set_available_def with_entry_get option.map_comp comp_def
      intro!: option.map_cong)

end
