(* ===== verification/StackApi.thy ===== *)
theory StackApi
  imports Registry
begin

section \<open>The boundary to the Matter stack (\<open>controller/src/stack_api.rs\<close>)\<close>

text \<open>
  The plain data that crosses the boundary, the \<open>Stack\<close> trait as a record of operations
  over a stack world (each takes the world and gives it back with the result), and the scriptable
  \<open>FakeStack\<close> of the source as an instance of it.
\<close>

datatype stack_error_kind = NodeUnreachable | Busy | Timeout | SeInvalidArguments | Sdk

record stack_error =
  se_kind :: stack_error_kind
  se_message :: rstring

definition stack_error_new :: "stack_error_kind \<Rightarrow> rstring \<Rightarrow> stack_error" where
  "stack_error_new k m = \<lparr>se_kind = k, se_message = m\<rparr>"

datatype node_conn_state = Connected u16 | Reconnecting

record node_event_data =
  ed_endpoint_id :: u16
  ed_cluster_id :: u32
  ed_event_id :: u32
  ed_event_number :: u64
  ed_priority :: u8
  ed_timestamp :: i64
  ed_timestamp_type :: u8
  ed_data :: json

datatype stack_event =
    NodeState u64 node_conn_state
  | PrimingSnapshot u64 jmap
  | AttributesChanged u64 "(rstring \<times> json) list"
  | NodeEvent u64 node_event_data

datatype pase_target =
    CodeTarget rstring
  | OnNetwork u32 "u16 option" "u8 option" "u16 option"
      \<comment> \<open>passcode, long discriminator, short discriminator, vendor id\<close>
  | Address u32 rstring

record commission_request =
  cr_node_id :: u64
  cr_target :: pase_target
  cr_fabric_label :: rstring

record commission_outcome =
  co_device_fabric_index :: u8
  co_address :: rstring

record window_info =
  wi_setup_pin_code :: u32
  wi_setup_manual_code :: rstring
  wi_setup_qr_code :: rstring

record device_fabric =
  df_fabric_id :: u64
  df_vendor_id :: u16
  df_fabric_index :: u8
  df_fabric_label :: rstring

record discovered_device =
  dd_instance_name :: rstring
  dd_address :: rstring

record attribute_path_spec =
  ap_endpoint :: "u16 option"
  ap_cluster :: "u32 option"
  ap_attribute :: "u32 option"

type_synonym 'a stack_result = "stack_error + 'a"

record 'w stack =
  st_commission :: "commission_request \<Rightarrow> 'w \<Rightarrow> commission_outcome stack_result \<times> 'w"
  st_read_attributes ::
    "u64 \<Rightarrow> attribute_path_spec list \<Rightarrow> bool \<Rightarrow> 'w \<Rightarrow> (rstring \<times> json) list stack_result \<times> 'w"
  st_write_attribute :: "u64 \<Rightarrow> u16 \<Rightarrow> u32 \<Rightarrow> u32 \<Rightarrow> json \<Rightarrow> 'w \<Rightarrow> u8 stack_result \<times> 'w"
  st_invoke ::
    "u64 \<Rightarrow> u16 \<Rightarrow> u32 \<Rightarrow> rstring \<Rightarrow> json \<Rightarrow> u16 option \<Rightarrow> 'w \<Rightarrow> json stack_result \<times> 'w"
  st_interview :: "u64 \<Rightarrow> 'w \<Rightarrow> jmap stack_result \<times> 'w"
  st_open_commissioning_window :: "u64 \<Rightarrow> u16 \<Rightarrow> 'w \<Rightarrow> window_info stack_result \<times> 'w"
  st_device_fabrics :: "u64 \<Rightarrow> 'w \<Rightarrow> device_fabric list stack_result \<times> 'w"
  st_remove_device_fabric :: "u64 \<Rightarrow> u8 \<Rightarrow> 'w \<Rightarrow> unit stack_result \<times> 'w"
  st_update_fabric_label :: "rstring \<Rightarrow> 'w \<Rightarrow> unit stack_result \<times> 'w"
  st_start_supervisor :: "u64 \<Rightarrow> 'w \<Rightarrow> 'w"
  st_stop_supervisor :: "u64 \<Rightarrow> 'w \<Rightarrow> 'w"
  st_node_addresses :: "u64 \<Rightarrow> 'w \<Rightarrow> rstring list stack_result \<times> 'w"
  st_browse_commissionable :: "u32 \<Rightarrow> 'w \<Rightarrow> discovered_device list stack_result \<times> 'w"

subsection \<open>The fake stack\<close>

text \<open>
  \<open>FakeStack\<close>: every method logs a call and answers the queued response once, or a default.
  The log keeps the call as data where the code renders it as text.
\<close>

datatype fake_call =
    FcCommission u64 pase_target
  | FcRead u64 nat bool
  | FcWrite u64 u16 u32 u32
  | FcInvoke u64 u16 u32 rstring "u16 option"
  | FcInterview u64
  | FcWindow u64 u16
  | FcDeviceFabrics u64
  | FcRemoveFabric u64 u8
  | FcUpdateLabel rstring
  | FcStartSupervisor u64
  | FcStopSupervisor u64
  | FcNodeAddresses u64
  | FcBrowse u32

record fake_world =
  fk_calls :: "fake_call list"
  fk_read :: "(rstring \<times> json) list stack_result option"
  fk_invoke :: "json stack_result option"
  fk_write :: "u8 stack_result option"
  fk_commission :: "commission_outcome stack_result option"
  fk_interview :: "jmap stack_result option"
  fk_window :: "window_info stack_result option"
  fk_fabrics :: "device_fabric list stack_result option"
  fk_addresses :: "rstring list stack_result option"
  fk_browse :: "discovered_device list stack_result option"
  fk_label :: "unit stack_result option"

definition fake_new :: fake_world where
  "fake_new =
     \<lparr>fk_calls = [], fk_read = None, fk_invoke = None, fk_write = None, fk_commission = None,
      fk_interview = None, fk_window = None, fk_fabrics = None, fk_addresses = None,
      fk_browse = None, fk_label = None\<rparr>"

definition fake_log :: "fake_call \<Rightarrow> fake_world \<Rightarrow> fake_world" where
  "fake_log c w = w\<lparr>fk_calls := fk_calls w @ [c]\<rparr>"

definition sdk_err :: stack_error where
  "sdk_err = stack_error_new Sdk ''fake: no scripted response''"

definition or_else :: "'a \<Rightarrow> 'a option \<Rightarrow> 'a" where
  "or_else d x = (case x of None \<Rightarrow> d | Some a \<Rightarrow> a)"

definition fake_stack :: "fake_world stack" where
  "fake_stack =
     \<lparr>st_commission = (\<lambda>req w.
        let w = fake_log (FcCommission (cr_node_id req) (cr_target req)) w
        in (or_else (Err sdk_err) (fk_commission w), w\<lparr>fk_commission := None\<rparr>)),
      st_read_attributes = (\<lambda>n paths ff w.
        let w = fake_log (FcRead n (length paths) ff) w
        in (or_else (Err sdk_err) (fk_read w), w\<lparr>fk_read := None\<rparr>)),
      st_write_attribute = (\<lambda>n e cl a v w.
        let w = fake_log (FcWrite n e cl a) w
        in (or_else (Ok 0) (fk_write w), w\<lparr>fk_write := None\<rparr>)),
      st_invoke = (\<lambda>n e cl name payload timed w.
        let w = fake_log (FcInvoke n e cl name timed) w
        in (or_else (Ok JNull) (fk_invoke w), w\<lparr>fk_invoke := None\<rparr>)),
      st_interview = (\<lambda>n w.
        let w = fake_log (FcInterview n) w
        in (or_else (Ok []) (fk_interview w), w\<lparr>fk_interview := None\<rparr>)),
      st_open_commissioning_window = (\<lambda>n t w.
        let w = fake_log (FcWindow n t) w
        in (or_else (Err sdk_err) (fk_window w), w\<lparr>fk_window := None\<rparr>)),
      st_device_fabrics = (\<lambda>n w.
        let w = fake_log (FcDeviceFabrics n) w
        in (or_else (Ok []) (fk_fabrics w), w\<lparr>fk_fabrics := None\<rparr>)),
      st_remove_device_fabric = (\<lambda>n i w. (Ok (), fake_log (FcRemoveFabric n i) w)),
      st_update_fabric_label = (\<lambda>l w.
        let w = fake_log (FcUpdateLabel l) w
        in (or_else (Ok ()) (fk_label w), w\<lparr>fk_label := None\<rparr>)),
      st_start_supervisor = (\<lambda>n. fake_log (FcStartSupervisor n)),
      st_stop_supervisor = (\<lambda>n. fake_log (FcStopSupervisor n)),
      st_node_addresses = (\<lambda>n w.
        let w = fake_log (FcNodeAddresses n) w
        in (or_else (Ok []) (fk_addresses w), w\<lparr>fk_addresses := None\<rparr>)),
      st_browse_commissionable = (\<lambda>t w.
        let w = fake_log (FcBrowse t) w
        in (or_else (Ok []) (fk_browse w), w\<lparr>fk_browse := None\<rparr>))\<rparr>"

end
