(* ===== verification/NodeManager.thy ===== *)
theory NodeManager
  imports StackApi
begin

section \<open>The node manager (\<open>controller/src/node_manager.rs\<close>)\<close>

text \<open>
  The one consumer of the stack's events. The state it shares with the command handlers is the
  record \<open>shared\<close>: the registry, the disk, the broadcast channel (as the list of everything
  sent on it) and the event history. Its own state is the record \<open>grace\<close>: the map from a
  node to its timer task, the tasks still asleep with their deadlines, and the channel of expiry
  signals, which carries node ids and no timer identity, as in the code. Handling one event or
  one signal is one step; a timer firing, time passing and a command inserting or removing
  a node are the other steps, in any order.
\<close>

record shared =
  sh_registry :: registry
  sh_fs :: fs
  sh_pid :: u32
  sh_events :: "event_message list"
  sh_history :: "json list"

definition send_event :: "rstring \<Rightarrow> json \<Rightarrow> 'a shared_scheme \<Rightarrow> 'a shared_scheme" where
  "send_event name d s = s\<lparr>sh_events := sh_events s @ [\<lparr>ev_event = name, ev_data = d\<rparr>]\<rparr>"

definition RECONNECT_GRACE :: nat where "RECONNECT_GRACE = 180"
definition EVENT_HISTORY_SIZE :: nat where "EVENT_HISTORY_SIZE = 25"

definition emit_node_updated :: "u64 \<Rightarrow> 'a shared_scheme \<Rightarrow> 'a shared_scheme" where
  "emit_node_updated n s =
     (case node_data (sh_registry s) n of
        Some nd \<Rightarrow> send_event ''node_updated'' (matter_node_data_json nd) s
      | None \<Rightarrow> s)"

text \<open>A failed write is logged only: the node is still served from memory.\<close>

definition persist :: "u64 \<Rightarrow> 'a shared_scheme \<Rightarrow> 'a shared_scheme" where
  "persist n s =
     (case snapshot_record (sh_registry s) n of
        Some r \<Rightarrow> s\<lparr>sh_fs := snd (save_node (sh_pid s) r (sh_fs s))\<rparr>
      | None \<Rightarrow> s)"

definition build_node_event :: "u64 \<Rightarrow> node_event_data \<Rightarrow> matter_node_event" where
  "build_node_event n e =
     \<lparr>ne_node_id = n, ne_endpoint_id = ed_endpoint_id e, ne_cluster_id = ed_cluster_id e,
      ne_event_id = ed_event_id e, ne_event_number = ed_event_number e,
      ne_priority = ed_priority e, ne_timestamp = ed_timestamp e,
      ne_timestamp_type = ed_timestamp_type e, ne_data = ed_data e\<rparr>"

subsection \<open>Grace timers\<close>

record sleeper =
  sl_id :: nat
  sl_node :: u64
  sl_deadline :: nat

record grace =
  g_timers :: "(u64, nat) omap"
  g_sleeping :: "sleeper list"
  g_signals :: "u64 list"
  g_clock :: nat
  g_next :: nat

definition grace_new :: grace where
  "grace_new = \<lparr>g_timers = [], g_sleeping = [], g_signals = [], g_clock = 0, g_next = 0\<rparr>"

text \<open>\<open>JoinHandle::abort\<close>: a task that has already sent its signal is out of reach.\<close>

definition abort_timer :: "nat \<Rightarrow> grace \<Rightarrow> grace" where
  "abort_timer t g = g\<lparr>g_sleeping := filter (\<lambda>x. sl_id x \<noteq> t) (g_sleeping g)\<rparr>"

definition spawn_timer :: "u64 \<Rightarrow> grace \<Rightarrow> grace" where
  "spawn_timer n g =
     g\<lparr>g_timers := om_insert n (g_next g) (g_timers g),
       g_sleeping := g_sleeping g
         @ [\<lparr>sl_id = g_next g, sl_node = n, sl_deadline = g_clock g + RECONNECT_GRACE\<rparr>],
       g_next := Suc (g_next g)\<rparr>"

definition take_timer :: "u64 \<Rightarrow> grace \<Rightarrow> nat option \<times> grace" where
  "take_timer n g = (om_get (g_timers g) n, g\<lparr>g_timers := om_remove n (g_timers g)\<rparr>)"

subsection \<open>The two handlers\<close>

definition handle_grace_expiry :: "u64 \<Rightarrow> 'a shared_scheme \<times> grace \<Rightarrow> 'a shared_scheme \<times> grace" where
  "handle_grace_expiry n sg =
     (case sg of (s, g) \<Rightarrow>
      case take_timer n g of
        (None, g') \<Rightarrow> (s, g')
      | (Some _, g') \<Rightarrow>
          (case set_available n False (sh_registry s) of
             (changed, reg') \<Rightarrow>
               let s' = s\<lparr>sh_registry := reg'\<rparr>
               in (if changed = Some True then emit_node_updated n s' else s', g')))"

fun push_changes :: "u64 \<Rightarrow> (rstring \<times> json) list \<Rightarrow> 'a shared_scheme \<Rightarrow> 'a shared_scheme" where
  "push_changes n [] s = s"
| "push_changes n ((path, value) # changes) s =
     push_changes n changes
       (send_event ''attribute_updated'' (JArr [junsigned n, JStr path, value])
         (s\<lparr>sh_registry := snd (with_entry n (\<lambda>e. ((), e\<lparr>en_record :=
              en_record e\<lparr>nr_attributes := om_insert path value (nr_attributes (en_record e))\<rparr>\<rparr>))
              (sh_registry s))\<rparr>))"

definition push_history :: "json \<Rightarrow> 'a shared_scheme \<Rightarrow> 'a shared_scheme" where
  "push_history d s =
     s\<lparr>sh_history := (if length (sh_history s) \<ge> EVENT_HISTORY_SIZE then tl (sh_history s)
                      else sh_history s) @ [d]\<rparr>"

fun handle_event :: "rstring \<Rightarrow> stack_event \<Rightarrow> 'a shared_scheme \<times> grace \<Rightarrow> 'a shared_scheme \<times> grace" where
  "handle_event now (NodeState n (Connected port)) (s, g) =
     (if \<not> registry_contains (sh_registry s) n then (s, g)
      else let g' = (case take_timer n g of
                       (Some t, g1) \<Rightarrow> abort_timer t g1 | (None, g1) \<Rightarrow> g1);
               (changed, reg') = set_available n True (sh_registry s);
               s' = s\<lparr>sh_registry := reg'\<rparr>
           in (if changed = Some True then emit_node_updated n s' else s', g'))"
| "handle_event now (NodeState n Reconnecting) (s, g) =
     (if \<not> registry_contains (sh_registry s) n then (s, g)
      else let available = (case node_data (sh_registry s) n of
                              None \<Rightarrow> False | Some nd \<Rightarrow> nd_available nd)
           in (s, if available \<and> om_get (g_timers g) n = None then spawn_timer n g else g))"
| "handle_event now (PrimingSnapshot n attributes) (s, g) =
     (if \<not> registry_contains (sh_registry s) n then (s, g)
      else let reg' = snd (with_entry n (\<lambda>e. ((), e\<lparr>en_record := (en_record e)
                        \<lparr>nr_attributes := om_of_list attributes, nr_last_interview := now\<rparr>\<rparr>))
                        (sh_registry s))
           in (emit_node_updated n (persist n (s\<lparr>sh_registry := reg'\<rparr>)), g))"
| "handle_event now (AttributesChanged n changes) (s, g) =
     (if \<not> registry_contains (sh_registry s) n then (s, g)
      else (persist n (push_changes n changes s), g))"
| "handle_event now (NodeEvent n e) (s, g) =
     (if \<not> registry_contains (sh_registry s) n then (s, g)
      else let d = matter_node_event_json (build_node_event n e)
           in (send_event ''node_event'' d (push_history d s), g))"

subsection \<open>Steps\<close>

datatype nm_label =
    Recv rstring stack_event  \<comment> \<open>one event from the stack, at the given date\<close>
  | Expire                    \<comment> \<open>the next expiry signal\<close>
  | Fire nat                  \<comment> \<open>a timer task wakes and sends its signal\<close>
  | Tick nat                  \<comment> \<open>time passes\<close>
  | CmdInsert node_record     \<comment> \<open>a command registers a node\<close>
  | CmdRemove u64             \<comment> \<open>a command removes a node\<close>

inductive nm_step :: "'a shared_scheme \<times> grace \<Rightarrow> nm_label \<Rightarrow> 'a shared_scheme \<times> grace \<Rightarrow> bool" where
  recv: "nm_step sg (Recv now ev) (handle_event now ev sg)"
| expire: "g_signals g = n # rest \<Longrightarrow>
     nm_step (s, g) Expire (handle_grace_expiry n (s, g\<lparr>g_signals := rest\<rparr>))"
| fire: "\<lbrakk>x \<in> set (g_sleeping g); sl_deadline x \<le> g_clock g\<rbrakk> \<Longrightarrow>
     nm_step (s, g) (Fire (sl_id x))
       (s, g\<lparr>g_sleeping := filter (\<lambda>y. sl_id y \<noteq> sl_id x) (g_sleeping g),
             g_signals := g_signals g @ [sl_node x]\<rparr>)"
| tick: "nm_step (s, g) (Tick d) (s, g\<lparr>g_clock := g_clock g + d\<rparr>)"
| cmd_insert: "nm_step (s, g) (CmdInsert r)
     (s\<lparr>sh_registry := registry_insert r (sh_registry s)\<rparr>, g)"
| cmd_remove: "nm_step (s, g) (CmdRemove n)
     (s\<lparr>sh_registry := snd (registry_remove n (sh_registry s))\<rparr>, g)"

inductive nm_run :: "'a shared_scheme \<times> grace \<Rightarrow> nm_label list \<Rightarrow> 'a shared_scheme \<times> grace \<Rightarrow> bool" where
  run_nil: "nm_run sg [] sg"
| run_cons: "\<lbrakk>nm_step sg l sg'; nm_run sg' ls sg''\<rbrakk> \<Longrightarrow> nm_run sg (l # ls) sg''"

inductive_cases nm_stepE: "nm_step sg l sg'"
inductive_cases nm_expireE: "nm_step sg Expire sg'"
inductive_cases nm_runE: "nm_run sg ls sg'"
inductive_simps nm_step_simps:
  "nm_step (s, g) (Recv now ev) sg'" "nm_step (s, g) (Tick d) sg'"
  "nm_step (s, g) (CmdInsert r) sg'" "nm_step (s, g) (CmdRemove n) sg'"

end
