(* ===== verification/NodeManager_Facts.thy ===== *)
theory NodeManager_Facts
  imports NodeManager Storage_Facts
begin

section \<open>What the node manager keeps\<close>

text \<open>
  Three groups: the client's replay of the broadcast agrees with the registry, the event history
  is the last 25 events, and the life of the grace timers.
\<close>

subsection \<open>A client that replays the broadcast\<close>

text \<open>
  What a subscriber holds: per node, availability and attributes. The four node events update it
  the way the protocol says; anything else is ignored.
\<close>

type_synonym client_view = "u64 \<Rightarrow> (bool \<times> jmap) option"

definition view_of_data :: "json \<Rightarrow> client_view \<Rightarrow> client_view" where
  "view_of_data d v =
     (case (Option.bind (jget d ''node_id'') as_u64, Option.bind (jget d ''available'') as_bool,
            Option.bind (jget d ''attributes'') as_object) of
        (Some n, Some b, Some attrs) \<Rightarrow> v(n \<mapsto> (b, attrs))
      | _ \<Rightarrow> v)"

fun view_attribute :: "json \<Rightarrow> client_view \<Rightarrow> client_view" where
  "view_attribute (JArr [JNum (PosInt n), JStr path, value]) v =
     (case v n of None \<Rightarrow> v | Some (b, attrs) \<Rightarrow> v(n \<mapsto> (b, om_insert path value attrs)))"
| "view_attribute _ v = v"

definition client_apply :: "event_message \<Rightarrow> client_view \<Rightarrow> client_view" where
  "client_apply e v =
     (if ev_event e = ''node_updated'' \<or> ev_event e = ''node_added'' then view_of_data (ev_data e) v
      else if ev_event e = ''attribute_updated'' then view_attribute (ev_data e) v
      else if ev_event e = ''node_removed''
        then (case as_u64 (ev_data e) of None \<Rightarrow> v | Some n \<Rightarrow> v(n := None))
      else v)"

definition served_view :: "registry \<Rightarrow> client_view" where
  "served_view m n = map_option (\<lambda>e. (en_available e, nr_attributes (en_record e))) (om_get m n)"

definition in_sync :: "client_view \<Rightarrow> 'a shared_scheme \<Rightarrow> bool" where
  "in_sync v s \<longleftrightarrow> fold client_apply (sh_events s) v = served_view (sh_registry s)"

text \<open>A change of the shared state that announces all it does to availability and attributes\<close>

definition announced :: "'a shared_scheme \<Rightarrow> 'a shared_scheme \<Rightarrow> bool" where
  "announced s s' \<longleftrightarrow>
     (\<exists>evs. sh_events s' = sh_events s @ evs
          \<and> fold client_apply evs (served_view (sh_registry s)) = served_view (sh_registry s'))"

lemma announced_refl [intro]: "announced s s"
  by (auto simp: announced_def intro: exI[of _ "[]"])

lemma announced_trans: "announced s t \<Longrightarrow> announced t u \<Longrightarrow> announced s u"
  unfolding announced_def by (metis append.assoc comp_apply fold_append)

lemma announced_in_sync: "in_sync v s \<Longrightarrow> announced s s' \<Longrightarrow> in_sync v s'"
  by (auto simp: announced_def in_sync_def)

lemma announced_silent:
  "\<lbrakk>sh_events s' = sh_events s; served_view (sh_registry s') = served_view (sh_registry s)\<rbrakk>
   \<Longrightarrow> announced s s'"
  by (auto simp: announced_def intro: exI[of _ "[]"])

lemma send_event_simps [simp]:
  "sh_registry (send_event nm d s) = sh_registry s" "sh_fs (send_event nm d s) = sh_fs s"
  "sh_pid (send_event nm d s) = sh_pid s" "sh_history (send_event nm d s) = sh_history s"
  "sh_events (send_event nm d s) = sh_events s @ [\<lparr>ev_event = nm, ev_data = d\<rparr>]"
  by (simp_all add: send_event_def)

lemma persist_simps [simp]:
  "sh_registry (persist n s) = sh_registry s" "sh_events (persist n s) = sh_events s"
  "sh_history (persist n s) = sh_history s" "sh_pid (persist n s) = sh_pid s"
  by (simp_all add: persist_def split: option.splits)

lemma emit_simps [simp]:
  "sh_registry (emit_node_updated n s) = sh_registry s" "sh_fs (emit_node_updated n s) = sh_fs s"
  "sh_history (emit_node_updated n s) = sh_history s" "sh_pid (emit_node_updated n s) = sh_pid s"
  by (simp_all add: emit_node_updated_def split: option.splits)

text \<open>The snapshot in a \<open>node_updated\<close> replaces what the client held of that node.\<close>

lemma view_of_node_data:
  "view_of_data (matter_node_data_json nd) v = v(nd_node_id nd \<mapsto> (nd_available nd, nd_attributes nd))"
  by (simp add: view_of_data_def node_data_json_fields)

lemma emit_announces:
  assumes "registry_ok reg'"
    and "\<And>j. j \<noteq> n \<Longrightarrow> om_get reg' j = om_get (sh_registry s) j"
    and "om_get reg' n = None \<Longrightarrow> om_get (sh_registry s) n = None"
    and "sh_registry s' = reg'" "sh_events s' = sh_events s"
  shows "announced s (emit_node_updated n s')"
proof (cases "om_get reg' n")
  case None
  have "served_view reg' = served_view (sh_registry s)"
    by (rule ext) (metis None assms(2,3) served_view_def)
  with None assms(4,5) show ?thesis
    by (auto simp: emit_node_updated_def node_data_def intro: announced_silent)
next
  case (Some e)
  then have "nr_node_id (en_record e) = n" using assms(1) by (auto simp: registry_ok_def)
  moreover have "(served_view (sh_registry s))(n \<mapsto> (en_available e, nr_attributes (en_record e)))
      = served_view reg'"
    by (rule ext) (simp add: served_view_def Some assms(2))
  ultimately show ?thesis
    using Some assms(4,5)
    by (auto simp: announced_def emit_node_updated_def node_data_def client_apply_def
        view_of_node_data entry_data_def build_node_data_def)
qed

lemma set_available_announces:
  assumes "registry_ok (sh_registry s)" and sa: "set_available n b (sh_registry s) = (changed, reg')"
  shows "announced s (if changed = Some True then emit_node_updated n (s\<lparr>sh_registry := reg'\<rparr>)
                      else s\<lparr>sh_registry := reg'\<rparr>)"
proof (cases "changed = Some True")
  case True
  have reg': "reg' = snd (set_available n b (sh_registry s))" using sa by simp
  have "registry_ok reg'" unfolding reg' by (rule registry_ok_set_available) (rule assms(1))
  with True show ?thesis by (auto simp: reg' set_available_get intro!: emit_announces)
next
  case False
  then have "om_get reg' = om_get (sh_registry s)"
    using set_available_unchanged[of n b "sh_registry s"] sa by simp
  then have "served_view reg' = served_view (sh_registry s)"
    by (intro ext) (simp add: served_view_def)
  with False show ?thesis by (auto intro: announced_silent)
qed

lemma attribute_announces:
  assumes "om_get (sh_registry s) n \<noteq> None"
  shows "announced s (push_changes n changes s)"
  using assms
proof (induction n changes s rule: push_changes.induct)
  case (2 n path v changes s)
  define s1 where "s1 = send_event ''attribute_updated'' (JArr [junsigned n, JStr path, v])
      (s\<lparr>sh_registry := snd (with_entry n (\<lambda>e. ((), e\<lparr>en_record :=
         en_record e\<lparr>nr_attributes := om_insert path v (nr_attributes (en_record e))\<rparr>\<rparr>))
        (sh_registry s))\<rparr>)"
  have "announced s s1"
    using 2(2) by (auto simp: announced_def s1_def client_apply_def junsigned_def fun_eq_iff
        served_view_def with_entry_get split: option.splits)
  moreover have "announced s1 (push_changes n changes s1)"
    using 2(1)[folded s1_def] 2(2) by (simp add: s1_def with_entry_get)
  ultimately show ?case by (simp add: announced_trans flip: s1_def)
qed auto

lemma push_changes_registry_ok:
  "registry_ok (sh_registry s) \<Longrightarrow> registry_ok (sh_registry (push_changes n changes s))"
proof (induction n changes s rule: push_changes.induct)
  case (2 n path v changes s)
  show ?case
    by (subst push_changes.simps, rule "2.IH") (auto intro!: registry_ok_with_entry "2.prems")
qed simp

lemma set_available_registry_ok:
  "registry_ok m \<Longrightarrow> set_available n b m = (c, m') \<Longrightarrow> registry_ok m'"
  using registry_ok_set_available[of m n b] by simp

lemma handle_event_registry_ok:
  "registry_ok (sh_registry s) \<Longrightarrow> registry_ok (sh_registry (fst (handle_event now ev (s, g))))"
  by (cases "(now, ev, (s, g))" rule: handle_event.cases)
     (auto simp: Let_def push_history_def split: prod.splits
       intro!: registry_ok_with_entry push_changes_registry_ok
       intro: set_available_registry_ok)

lemma handle_grace_expiry_registry_ok:
  "registry_ok (sh_registry s) \<Longrightarrow> registry_ok (sh_registry (fst (handle_grace_expiry n (s, g))))"
  by (auto simp: handle_grace_expiry_def Let_def take_timer_def split: prod.splits option.splits
      intro: set_available_registry_ok)

lemma handle_event_announces:
  assumes "registry_ok (sh_registry s)"
  shows "announced s (fst (handle_event now ev (s, g)))"
proof (cases "(now, ev, (s, g))" rule: handle_event.cases)
  case (3 now n attributes s1 g1)
  have "announced s (emit_node_updated n (persist n (s\<lparr>sh_registry := snd (with_entry n (\<lambda>e. ((),
      e\<lparr>en_record := (en_record e)\<lparr>nr_attributes := om_of_list attributes,
                                    nr_last_interview := now\<rparr>\<rparr>)) (sh_registry s))\<rparr>)))"
    by (rule emit_announces) (auto simp: with_entry_get intro!: registry_ok_with_entry assms)
  with 3 show ?thesis by (auto simp: announced_refl)
next
  case (4 now n changes s1 g1)
  have "announced s (persist n (push_changes n changes s))"
    if "registry_contains (sh_registry s) n"
    using attribute_announces[of s n changes] that
    by (auto simp: announced_def registry_contains_def)
  with 4 show ?thesis by auto
next
  case (5 now n e s1 g1)
  then show ?thesis
    by (auto simp: Let_def announced_def push_history_def client_apply_def)
qed (use set_available_announces[OF assms] in \<open>auto simp: Let_def split: prod.splits\<close>)

lemma handle_grace_expiry_announces:
  assumes "registry_ok (sh_registry s)"
  shows "announced s (fst (handle_grace_expiry n (s, g)))"
  using set_available_announces[OF assms, of n False]
  by (auto simp: handle_grace_expiry_def Let_def take_timer_def split: prod.splits option.splits)

text \<open>Steps of the manager itself, as opposed to those of the command handlers\<close>

fun manager_label :: "nm_label \<Rightarrow> bool" where
  "manager_label (CmdInsert _) = False"
| "manager_label (CmdRemove _) = False"
| "manager_label _ = True"

lemma nm_step_registry_ok:
  "nm_step sg l sg' \<Longrightarrow> registry_ok (sh_registry (fst sg)) \<Longrightarrow> registry_ok (sh_registry (fst sg'))"
  by (induction rule: nm_step.induct)
     (auto intro: handle_grace_expiry_registry_ok registry_ok_insert registry_ok_remove
       simp: handle_event_registry_ok split: prod.splits)

lemma nm_step_announces:
  "nm_step sg l sg' \<Longrightarrow> registry_ok (sh_registry (fst sg)) \<Longrightarrow> manager_label l
   \<Longrightarrow> announced (fst sg) (fst sg')"
  by (induction rule: nm_step.induct)
     (auto simp: handle_event_announces handle_grace_expiry_announces split: prod.splits)

subsection \<open>An example run\<close>

definition example_record :: node_record where
  "example_record = \<lparr>nr_node_id = 7, nr_date_commissioned = ''d'', nr_last_interview = ''d'',
     nr_device_fabric_index = 1, nr_addresses = [], nr_attributes = [(''0/40/0'', JNum (PosInt 17))]\<rparr>"

definition example_shared :: shared where
  "example_shared = \<lparr>sh_registry = registry_new [example_record], sh_fs = fresh_fs, sh_pid = 1,
     sh_events = [], sh_history = []\<rparr>"

definition after_connect :: "shared \<times> grace" where
  "after_connect = handle_event ''d'' (NodeState 7 (Connected 5540)) (example_shared, grace_new)"

lemma example_registry_ok: "registry_ok (sh_registry example_shared)"
  by (simp add: example_shared_def registry_ok_new)

subsection \<open>The event history\<close>

definition node_events :: "'a shared_scheme \<Rightarrow> json list" where
  "node_events s = map ev_data (filter (\<lambda>e. ev_event e = ''node_event'') (sh_events s))"

definition last_n :: "nat \<Rightarrow> 'a list \<Rightarrow> 'a list" where
  "last_n k xs = drop (length xs - k) xs"

lemma last_n_snoc: "0 < k \<Longrightarrow> last_n k (xs @ [x]) =
    (if length (last_n k xs) \<ge> k then tl (last_n k xs) else last_n k xs) @ [x]"
  by (auto simp: last_n_def Suc_diff_le tl_drop drop_Suc[symmetric] not_le)

lemma node_events_send [simp]:
  "node_events (send_event nm d s) = node_events s @ (if nm = ''node_event'' then [d] else [])"
  by (simp add: node_events_def)

lemma node_events_cong: "sh_events s' = sh_events s \<Longrightarrow> node_events s' = node_events s"
  by (simp add: node_events_def)

lemma node_events_emit [simp]: "node_events (emit_node_updated n s) = node_events s"
  by (simp add: emit_node_updated_def split: option.splits)

lemma node_events_push [simp]: "node_events (push_changes n changes s) = node_events s"
  by (induction n changes s rule: push_changes.induct)
     (simp_all add: node_events_cong[of "_\<lparr>sh_registry := _\<rparr>"])

lemma history_push [simp]: "sh_history (push_changes n changes s) = sh_history s"
  by (induction n changes s rule: push_changes.induct) simp_all

definition history_ok :: "'a shared_scheme \<Rightarrow> bool" where
  "history_ok s \<longleftrightarrow> sh_history s = last_n EVENT_HISTORY_SIZE (node_events s)"

lemma history_ok_cong:
  "sh_history s' = sh_history s \<Longrightarrow> node_events s' = node_events s \<Longrightarrow> history_ok s' = history_ok s"
  by (simp add: history_ok_def)

lemma history_ok_event:
  assumes "history_ok s" shows "history_ok (send_event ''node_event'' d (push_history d s))"
proof -
  have "node_events (push_history d s) = node_events s"
    by (rule node_events_cong) (simp add: push_history_def)
  then show ?thesis
    using assms last_n_snoc[of EVENT_HISTORY_SIZE "node_events s" d]
    by (simp add: history_ok_def push_history_def EVENT_HISTORY_SIZE_def)
qed

lemma handle_event_history:
  assumes "history_ok s" shows "history_ok (fst (handle_event now ev (s, g)))"
proof (cases "(now, ev, (s, g))" rule: handle_event.cases)
  case (5 now n e s1 g1)
  with assms history_ok_event show ?thesis by (auto simp: Let_def)
qed (use assms in \<open>auto simp: Let_def history_ok_def node_events_cong[of "_\<lparr>sh_registry := _\<rparr>"]
       node_events_cong[of "persist _ _"] split: prod.splits\<close>)

lemma nm_step_history: "nm_step sg l sg' \<Longrightarrow> history_ok (fst sg) \<Longrightarrow> history_ok (fst sg')"
proof (induction rule: nm_step.induct)
  case (recv sg now ev)
  then show ?case using handle_event_history by (cases sg) auto
next
  case (expire g n rest s)
  then show ?case
    by (auto simp: handle_grace_expiry_def take_timer_def Let_def history_ok_def
        node_events_cong[of "_\<lparr>sh_registry := _\<rparr>"] split: prod.splits option.splits)
qed (simp_all add: history_ok_def node_events_cong[of "_\<lparr>sh_registry := _\<rparr>"])

text \<open>
  at every moment the event history that \<open>diagnostics\<close> serves is exactly the
  most recent 25 node events broadcast, in order: it starts empty, it never holds more, and
  no event is lost from it before 25 newer ones have been broadcast.
\<close>

theorem history_is_last_events:
  assumes "nm_run sg ls sg'" and "sh_history (fst sg) = []" and "sh_events (fst sg) = []"
  shows "sh_history (fst sg') = last_n 25 (node_events (fst sg')) \<and> length (sh_history (fst sg')) \<le> 25"
proof -
  have "history_ok (fst sg)"
    using assms(2,3) by (simp add: history_ok_def node_events_def last_n_def)
  with assms(1) have "history_ok (fst sg')"
    by (induction rule: nm_run.induct) (auto dest: nm_step_history)
  then show ?thesis by (auto simp: history_ok_def EVENT_HISTORY_SIZE_def last_n_def)
qed

definition example_event :: node_event_data where
  "example_event = \<lparr>ed_endpoint_id = 1, ed_cluster_id = 59, ed_event_id = 1, ed_event_number = 5,
     ed_priority = 1, ed_timestamp = 0, ed_timestamp_type = 0, ed_data = JNull\<rparr>"

lemma history_is_last_events_witness:
  "sh_history (fst (handle_event ''d'' (NodeEvent 7 example_event) (example_shared, grace_new)))
   = [matter_node_event_json (build_node_event 7 example_event)]"
proof -
  have "nm_run (example_shared, grace_new) [Recv ''d'' (NodeEvent 7 example_event)]
      (handle_event ''d'' (NodeEvent 7 example_event) (example_shared, grace_new))"
    by (rule nm_run.run_cons[OF nm_step.recv nm_run.run_nil])
  from history_is_last_events[OF this]
  have "sh_history (fst (handle_event ''d'' (NodeEvent 7 example_event) (example_shared, grace_new)))
      = last_n 25 (node_events (fst (handle_event ''d'' (NodeEvent 7 example_event) (example_shared, grace_new))))"
    by (simp add: example_shared_def)
  also have "\<dots> = [matter_node_event_json (build_node_event 7 example_event)]"
    by (simp add: last_n_def node_events_def push_history_def example_shared_def registry_contains_def
        registry_new_def om_of_list_def example_record_def Let_def EVENT_HISTORY_SIZE_def)
  finally show ?thesis .
qed

subsection \<open>Grace timers\<close>

text \<open>The steps as a function, to run examples\<close>

fun nm_exec :: "nm_label \<Rightarrow> 'a shared_scheme \<times> grace \<Rightarrow> ('a shared_scheme \<times> grace) option" where
  "nm_exec (Recv now ev) sg = Some (handle_event now ev sg)"
| "nm_exec Expire (s, g) =
     (case g_signals g of
        [] \<Rightarrow> None
      | n # rest \<Rightarrow> Some (handle_grace_expiry n (s, g\<lparr>g_signals := rest\<rparr>)))"
| "nm_exec (Fire t) (s, g) =
     (case filter (\<lambda>x. sl_id x = t \<and> sl_deadline x \<le> g_clock g) (g_sleeping g) of
        [] \<Rightarrow> None
      | x # _ \<Rightarrow> Some (s, g\<lparr>g_sleeping := filter (\<lambda>y. sl_id y \<noteq> sl_id x) (g_sleeping g),
                              g_signals := g_signals g @ [sl_node x]\<rparr>))"
| "nm_exec (Tick d) (s, g) = Some (s, g\<lparr>g_clock := g_clock g + d\<rparr>)"
| "nm_exec (CmdInsert r) (s, g) = Some (s\<lparr>sh_registry := registry_insert r (sh_registry s)\<rparr>, g)"
| "nm_exec (CmdRemove n) (s, g) = Some (s\<lparr>sh_registry := snd (registry_remove n (sh_registry s))\<rparr>, g)"

fun nm_exec_run :: "nm_label list \<Rightarrow> 'a shared_scheme \<times> grace \<Rightarrow> ('a shared_scheme \<times> grace) option" where
  "nm_exec_run [] sg = Some sg"
| "nm_exec_run (l # ls) sg = Option.bind (nm_exec l sg) (nm_exec_run ls)"

lemma nm_exec_sound: "nm_exec l sg = Some sg' \<Longrightarrow> nm_step sg l sg'"
proof (induction l sg rule: nm_exec.induct)
  case (3 t s g)
  then obtain x xs where f: "filter (\<lambda>x. sl_id x = t \<and> sl_deadline x \<le> g_clock g) (g_sleeping g) = x # xs"
    by (auto split: list.splits)
  then have "x \<in> set (filter (\<lambda>x. sl_id x = t \<and> sl_deadline x \<le> g_clock g) (g_sleeping g))"
    by simp
  then have x: "x \<in> set (g_sleeping g)" "sl_deadline x \<le> g_clock g" "sl_id x = t" by auto
  from 3 f nm_step.fire[OF x(1,2), of s] show ?case by (auto simp: x(3))
qed (auto intro: nm_step.intros split: list.splits)

lemma nm_exec_run_sound: "nm_exec_run ls sg = Some sg' \<Longrightarrow> nm_run sg ls sg'"
  by (induction ls sg rule: nm_exec_run.induct)
     (auto intro: nm_run.intros nm_exec_sound simp: bind_eq_Some_conv)

subsection \<open>When a node loses its availability\<close>

abbreviation avail :: "'a shared_scheme \<times> grace \<Rightarrow> u64 \<Rightarrow> bool option" where
  "avail sg n \<equiv> node_available (sh_registry (fst sg)) n"

lemma push_changes_available:
  "node_available (sh_registry (push_changes n changes s)) j = node_available (sh_registry s) j"
  by (induction n changes s rule: push_changes.induct)
     (auto simp: node_available_def with_entry_get option.map_comp comp_def intro!: option.map_cong)

lemma handle_event_avail:
  "avail (handle_event now ev (s, g)) n =
     (case ev of
        NodeState j (Connected _) \<Rightarrow>
          if j = n then map_option (\<lambda>_. True) (avail (s, g) n) else avail (s, g) n
      | _ \<Rightarrow> avail (s, g) n)"
proof (cases "(now, ev, (s, g))" rule: handle_event.cases)
  case (1 now j port s1 g1)
  have "node_available (snd (set_available j True (sh_registry s))) n =
      (if n = j then map_option (\<lambda>_. True) (node_available (sh_registry s) j)
       else node_available (sh_registry s) n)" by (rule reg.effect)
  with 1 show ?thesis
    by (auto simp: Let_def registry_contains_def node_available_def split: prod.splits)
next
  case (3 now j attributes s1 g1)
  then show ?thesis
    by (auto simp: node_available_def with_entry_get option.map_comp comp_def intro!: option.map_cong)
qed (auto simp: push_changes_available push_history_def Let_def)

lemma handle_grace_expiry_avail:
  "avail (handle_grace_expiry j (s, g)) n =
     (if j = n \<and> om_get (g_timers g) n \<noteq> None then map_option (\<lambda>_. False) (avail (s, g) n)
      else avail (s, g) n)"
  using reg.effect[of j False "sh_registry s" n]
  by (auto simp: handle_grace_expiry_def take_timer_def Let_def split: prod.splits option.splits)

text \<open>
  A node can only be marked unavailable by handling an expiry signal for it while its grace
  timer is still registered, or by being registered anew by a command. No report, snapshot,
  event, clock tick or other node's expiry does it.
\<close>

theorem availability_lost_only_by_live_timer:
  assumes "nm_step sg l sg'" and "avail sg n = Some True" and "avail sg' n = Some False"
  shows "(l = Expire \<and> (\<exists>rest. g_signals (snd sg) = n # rest) \<and> om_get (g_timers (snd sg)) n \<noteq> None)
       \<or> (\<exists>r. l = CmdInsert r \<and> nr_node_id r = n)"
  using assms
proof (induction rule: nm_step.induct)
  case (recv sg now ev)
  then show ?case
    by (cases sg) (auto simp: handle_event_avail split: stack_event.splits node_conn_state.splits if_splits)
next
  case (expire g j rest s)
  then show ?case by (auto simp: handle_grace_expiry_avail split: if_splits)
next
  case (cmd_insert s g r)
  then show ?case by (auto simp: node_available_def registry_insert_def om_get_insert split: if_splits)
next
  case (cmd_remove s g j)
  then show ?case by (auto simp: node_available_def registry_remove_def om_get_remove split: if_splits)
qed auto

text \<open>A run in which node 7 connects, drops, and its grace period elapses\<close>

definition offline_run :: "nm_label list" where
  "offline_run = [Recv ''d'' (NodeState 7 (Connected 5540)), Recv ''d'' (NodeState 7 Reconnecting),
                  Tick 180, Fire 0]"

definition reached :: "nm_label list \<Rightarrow> shared \<times> grace" where
  "reached ls = (case nm_exec_run ls (example_shared, grace_new) of
      Some sg \<Rightarrow> sg | None \<Rightarrow> (example_shared, grace_new))"

lemma offline_run_returns: "nm_exec_run offline_run (example_shared, grace_new) \<noteq> None"
  unfolding offline_run_def by code_simp

lemma offline_run_reached: "nm_run (example_shared, grace_new) offline_run (reached offline_run)"
  using offline_run_returns by (auto simp: reached_def intro: nm_exec_run_sound)

lemma nm_exec_run_append:
  "nm_exec_run (ls @ ks) sg = Option.bind (nm_exec_run ls sg) (nm_exec_run ks)"
  by (induction ls sg rule: nm_exec_run.induct) (auto split: Option.bind_split)

lemma offline_run_state:
  "g_signals (snd (reached offline_run)) = [7] \<and> om_get (g_timers (snd (reached offline_run))) 7 = Some 0
   \<and> avail (reached offline_run) 7 = Some True"
  unfolding offline_run_def by code_simp

lemma availability_lost_only_by_live_timer_witness:
  "om_get (g_timers (snd (reached offline_run))) 7 \<noteq> None"
proof -
  have "nm_step (reached offline_run) Expire
      (handle_grace_expiry 7 (fst (reached offline_run), (snd (reached offline_run))\<lparr>g_signals := []\<rparr>))"
    using nm_step.expire[of "snd (reached offline_run)" 7 "[]" "fst (reached offline_run)"]
    by (simp add: offline_run_state)
  from availability_lost_only_by_live_timer[OF this, of 7] show ?thesis
    by (simp add: handle_grace_expiry_avail offline_run_state)
qed

subsection \<open>Every timer comes to an end\<close>

text \<open>
  A registered timer has its task asleep or its signal queued; task identifiers are fresh and
  belong to one node.
\<close>

definition live :: "(u64 \<rightharpoonup> nat) \<Rightarrow> sleeper set \<Rightarrow> u64 set \<Rightarrow> nat \<Rightarrow> bool" where
  "live T S Q k \<longleftrightarrow>
     (\<forall>n t. T n = Some t \<longrightarrow> t < k) \<and>
     (\<forall>n t. T n = Some t \<longrightarrow> n \<in> Q \<or> (\<exists>x \<in> S. sl_id x = t \<and> sl_node x = n)) \<and>
     (\<forall>n m t. T n = Some t \<longrightarrow> T m = Some t \<longrightarrow> n = m) \<and> (\<forall>x \<in> S. sl_id x < k) \<and> inj_on sl_id S"

definition timers_live :: "grace \<Rightarrow> bool" where
  "timers_live g \<longleftrightarrow>
     live (om_get (g_timers g)) (set (g_sleeping g)) (set (g_signals g)) (g_next g)"

lemma liveI:
  assumes "\<And>n t. T n = Some t \<Longrightarrow> t < k"
    and "\<And>n t. T n = Some t \<Longrightarrow> n \<in> Q \<or> (\<exists>x \<in> S. sl_id x = t \<and> sl_node x = n)"
    and "\<And>n m t. T n = Some t \<Longrightarrow> T m = Some t \<Longrightarrow> n = m"
    and "\<And>x. x \<in> S \<Longrightarrow> sl_id x < k" and "inj_on sl_id S"
  shows "live T S Q k"
  using assms unfolding live_def by blast

lemma liveD:
  assumes "live T S Q k"
  shows "T n = Some t \<Longrightarrow> t < k"
    and "T n = Some t \<Longrightarrow> n \<in> Q \<or> (\<exists>x \<in> S. sl_id x = t \<and> sl_node x = n)"
    and "T n = Some t \<Longrightarrow> T m = Some t \<Longrightarrow> n = m"
    and "x \<in> S \<Longrightarrow> sl_id x < k" and "inj_on sl_id S"
  using assms unfolding live_def by blast+

lemma live_forget:
  assumes l: "live T S Q k" and "Q - {n} \<subseteq> Q'"
  shows "live (T(n := None)) S Q' k"
proof (rule liveI)
  fix j t
  assume "(T(n := None)) j = Some t"
  then have "j \<noteq> n" "T j = Some t" by (auto split: if_splits)
  then show "t < k" "j \<in> Q' \<or> (\<exists>x \<in> S. sl_id x = t \<and> sl_node x = j)"
    using liveD(1,2)[OF l, of j t] assms(2) by auto
qed (use liveD(3,4,5)[OF l] in \<open>auto split: if_splits\<close>)

lemma live_abort:
  assumes l: "live T S Q k" and t: "t \<notin> ran T"
  shows "live T {x \<in> S. sl_id x \<noteq> t} Q k"
proof (rule liveI)
  fix j u
  assume "T j = Some u"
  moreover from this t have "u \<noteq> t" by (auto intro: ranI)
  ultimately show "j \<in> Q \<or> (\<exists>x \<in> {x \<in> S. sl_id x \<noteq> t}. sl_id x = u \<and> sl_node x = j)"
    using liveD(2)[OF l, of j u] by auto
qed (use liveD[OF l] in \<open>auto intro: inj_on_subset\<close>)

lemma live_spawn:
  assumes l: "live T S Q k"
  shows "live (T(n \<mapsto> k)) (insert \<lparr>sl_id = k, sl_node = n, sl_deadline = d\<rparr> S) Q (Suc k)"
proof (rule liveI)
  show "inj_on sl_id (insert \<lparr>sl_id = k, sl_node = n, sl_deadline = d\<rparr> S)"
    using liveD(4,5)[OF l] by (auto simp: inj_on_def)
next
  fix j m t
  assume "(T(n \<mapsto> k)) j = Some t" "(T(n \<mapsto> k)) m = Some t"
  then show "j = m" using liveD(1,3)[OF l] by (auto split: if_splits)
qed (use liveD[OF l] in \<open>auto split: if_splits intro: less_SucI\<close>)

lemma live_fire:
  assumes l: "live T S Q k" and "x \<in> S"
  shows "live T {y \<in> S. sl_id y \<noteq> sl_id x} (insert (sl_node x) Q) k"
proof -
  have "y = x" if "y \<in> S" "sl_id y = sl_id x" for y
    using that assms liveD(5)[OF l] by (blast dest: inj_onD)
  then show ?thesis
    using assms liveD[OF l] by (intro liveI) (blast, blast, blast, blast, blast intro: inj_on_subset)
qed

lemma timers_live_new: "timers_live grace_new"
  by (auto simp: timers_live_def grace_new_def intro!: liveI)

lemma om_get_remove_fun: "om_get (om_remove n m) = (om_get m)(n := None)"
  by (rule ext) (simp add: om_get_remove)

lemma om_get_insert_fun: "om_get (om_insert n v m) = (om_get m)(n \<mapsto> v)"
  by (rule ext) (simp add: om_get_insert)

lemma timers_live_cancel:
  assumes "timers_live g"
  shows "timers_live (case take_timer n g of (Some t, g1) \<Rightarrow> abort_timer t g1 | (None, g1) \<Rightarrow> g1)"
proof (cases "om_get (g_timers g) n")
  case (Some t)
  then have "t \<notin> ran ((om_get (g_timers g))(n := None))"
    using assms by (auto simp: timers_live_def ran_def dest: liveD(3))
  with live_abort[OF live_forget[OF assms[unfolded timers_live_def], of n]] Some show ?thesis
    by (simp add: timers_live_def take_timer_def abort_timer_def om_get_remove_fun)
next
  case None
  with live_forget[OF assms[unfolded timers_live_def], of n] show ?thesis
    by (simp add: timers_live_def take_timer_def om_get_remove_fun)
qed

lemma timers_live_spawn: "timers_live g \<Longrightarrow> timers_live (spawn_timer n g)"
  by (simp add: timers_live_def spawn_timer_def om_get_insert_fun live_spawn)

lemma timers_live_event:
  assumes "timers_live g" shows "timers_live (snd (handle_event now ev (s, g)))"
proof (cases "(now, ev, (s, g))" rule: handle_event.cases)
  case (1 now n port s1 g1)
  with timers_live_cancel[OF assms, of n] assms show ?thesis
    by (auto simp: Let_def split: prod.splits)
qed (use assms timers_live_spawn[OF assms] in \<open>auto simp: Let_def\<close>)

lemma handle_grace_expiry_grace:
  "snd (handle_grace_expiry n (s, g)) = g\<lparr>g_timers := om_remove n (g_timers g)\<rparr>"
  by (auto simp: handle_grace_expiry_def take_timer_def Let_def split: prod.splits option.splits)

lemma timers_live_expiry:
  assumes "timers_live g" and "g_signals g = n # rest"
  shows "timers_live (g\<lparr>g_signals := rest, g_timers := om_remove n (g_timers g)\<rparr>)"
  using live_forget[OF assms(1)[unfolded timers_live_def], of n "set rest"] assms(2)
  by (auto simp: timers_live_def om_get_remove_fun)

lemma timers_live_fire:
  assumes "timers_live g" and "x \<in> set (g_sleeping g)"
  shows "timers_live (g\<lparr>g_sleeping := filter (\<lambda>y. sl_id y \<noteq> sl_id x) (g_sleeping g),
                        g_signals := g_signals g @ [sl_node x]\<rparr>)"
  using live_fire[OF assms(1)[unfolded timers_live_def] assms(2)] by (simp add: timers_live_def)

lemma nm_step_timers_live: "nm_step sg l sg' \<Longrightarrow> timers_live (snd sg) \<Longrightarrow> timers_live (snd sg')"
proof (induction rule: nm_step.induct)
  case (recv sg now ev)
  then show ?case by (cases sg) (auto intro: timers_live_event)
next
  case (expire g n rest s)
  then show ?case using timers_live_expiry[of g n rest] by (simp add: handle_grace_expiry_grace)
next
  case (fire x g s)
  then show ?case by (simp add: timers_live_fire)
qed (auto simp: timers_live_def)

lemma nm_run_timers_live: "nm_run sg ls sg' \<Longrightarrow> timers_live (snd sg) \<Longrightarrow> timers_live (snd sg')"
  by (induction rule: nm_run.induct) (auto dest: nm_step_timers_live)

lemma nm_run_append:
  "nm_run sg ls sg' \<Longrightarrow> nm_run sg' ks sg'' \<Longrightarrow> nm_run sg (ls @ ks) sg''"
  by (induction rule: nm_run.induct) (auto intro: nm_run.intros)

lemma signal_takes_effect:
  assumes "n \<in> set (g_signals g)" and "om_get (g_timers g) n \<noteq> None" and "avail (s, g) n \<noteq> None"
  shows "\<exists>ls sg'. set ls \<subseteq> {Expire} \<and> nm_run (s, g) ls sg' \<and> avail sg' n = Some False"
  using assms
proof (induction "g_signals g" arbitrary: s g)
  case (Cons j rest)
  define sg where "sg = handle_grace_expiry j (s, g\<lparr>g_signals := rest\<rparr>)"
  have step: "nm_step (s, g) Expire sg"
    unfolding sg_def by (rule nm_step.expire) (rule Cons.hyps(2)[symmetric])
  have av: "avail sg n = (if j = n then Some False else avail (s, g) n)"
    using Cons.prems(2,3) by (auto simp: sg_def handle_grace_expiry_avail)
  show ?case
  proof (cases "j = n")
    case True
    then show ?thesis
      using step av by (intro exI[of _ "[Expire]"] exI[of _ sg]) (auto intro: nm_run.intros)
  next
    case False
    have g: "snd sg = g\<lparr>g_signals := rest, g_timers := om_remove j (g_timers g)\<rparr>"
      by (simp add: sg_def handle_grace_expiry_grace)
    have "n \<in> set (g_signals g)" "j # rest = g_signals g" using Cons by auto
    then have "n \<in> set rest" using False by (metis set_ConsD)
    then have "\<exists>ls sg'. set ls \<subseteq> {Expire} \<and> nm_run (fst sg, snd sg) ls sg' \<and> avail sg' n = Some False"
      using False Cons.prems(2,3) av by (intro Cons.hyps(1)) (simp_all add: g om_get_remove)
    then obtain ls sg' where "set ls \<subseteq> {Expire}" "nm_run sg ls sg'" "avail sg' n = Some False"
      by auto
    then show ?thesis using step by (intro exI[of _ "Expire # ls"] exI[of _ sg']) (auto intro: nm_run.run_cons)
  qed
qed simp

lemma timer_takes_effect:
  assumes "timers_live g" and "om_get (g_timers g) n \<noteq> None" and "avail (s, g) n \<noteq> None"
  shows "\<exists>ls sg'. set ls \<subseteq> {Expire} \<union> range Fire \<union> range Tick \<and> nm_run (s, g) ls sg' \<and> avail sg' n = Some False"
proof (cases "n \<in> set (g_signals g)")
  case True
  from signal_takes_effect[OF this assms(2,3)] show ?thesis by blast
next
  case False
  then obtain x where x: "x \<in> set (g_sleeping g)" "sl_node x = n"
    using assms(1,2) liveD(2) unfolding timers_live_def by blast
  let ?g1 = "g\<lparr>g_clock := g_clock g + sl_deadline x\<rparr>"
  let ?g2 = "?g1\<lparr>g_sleeping := filter (\<lambda>y. sl_id y \<noteq> sl_id x) (g_sleeping ?g1),
                 g_signals := g_signals ?g1 @ [sl_node x]\<rparr>"
  have "nm_step (s, ?g1) (Fire (sl_id x)) (s, ?g2)" by (rule nm_step.fire) (simp_all add: x)
  then have r: "nm_run (s, g) [Tick (sl_deadline x), Fire (sl_id x)] (s, ?g2)"
    by (blast intro: nm_run.intros nm_step.tick)
  obtain ls sg' where "set ls \<subseteq> {Expire}" "nm_run (s, ?g2) ls sg'" "avail sg' n = Some False"
    using signal_takes_effect[of n ?g2 s] assms(2,3) x by auto
  with nm_run_append[OF r] show ?thesis
    by (intro exI[of _ "[Tick (sl_deadline x), Fire (sl_id x)] @ ls"] exI[of _ sg']) auto
qed

text \<open>
  C32: a lost connection is never forgotten. In any state reached from the start, once a registered
  and available node's \<open>Reconnecting\<close> has been handled, its timer is registered, and letting
  time pass and the timers and signals run (with no further event) leads to the node being marked
  unavailable.
\<close>

theorem offline_node_becomes_unavailable:
  assumes "nm_run (s0, grace_new) ls (s, g)" and "avail (s, g) n = Some True"
  shows "om_get (g_timers (snd (handle_event now (NodeState n Reconnecting) (s, g)))) n \<noteq> None
       \<and> (\<exists>ks sg'. set ks \<subseteq> {Expire} \<union> range Fire \<union> range Tick
            \<and> nm_run (handle_event now (NodeState n Reconnecting) (s, g)) ks sg' \<and> avail sg' n = Some False)"
proof -
  define sg1 where "sg1 = handle_event now (NodeState n Reconnecting) (s, g)"
  obtain e where e: "om_get (sh_registry s) n = Some e" "en_available e"
    using assms(2) by (auto simp: node_available_def)
  have t: "om_get (g_timers (snd sg1)) n \<noteq> None"
    using e by (auto simp: sg1_def registry_contains_def node_data_def entry_data_def
        build_node_data_def spawn_timer_def om_get_insert)
  have "timers_live g" using nm_run_timers_live[OF assms(1)] timers_live_new by simp
  then have "timers_live (snd sg1)" unfolding sg1_def by (rule timers_live_event)
  moreover have "avail sg1 n = Some True" using assms(2) by (simp add: sg1_def handle_event_avail)
  ultimately show ?thesis
    using t timer_takes_effect[of "snd sg1" n "fst sg1"] unfolding sg1_def[symmetric] by simp
qed

lemma offline_node_becomes_unavailable_witness:
  "\<exists>ks sg'. nm_run (handle_event ''d'' (NodeState 7 Reconnecting) after_connect) ks sg'
     \<and> avail sg' 7 = Some False"
proof -
  have r: "nm_run (example_shared, grace_new) [Recv ''d'' (NodeState 7 (Connected 5540))]
      (fst after_connect, snd after_connect)"
    unfolding after_connect_def prod.collapse by (rule nm_run.run_cons[OF nm_step.recv nm_run.run_nil])
  moreover have "avail (fst after_connect, snd after_connect) 7 = Some True" by code_simp
  ultimately show ?thesis using offline_node_becomes_unavailable[OF r, of 7 "''d''"] by auto
qed

subsection \<open>The grace period\<close>

text \<open>What can take an available node with no timer away\<close>

fun disturbs :: "u64 \<Rightarrow> nm_label \<Rightarrow> bool" where
  "disturbs n (Recv _ (NodeState j Reconnecting)) = (j = n)"
| "disturbs n (CmdInsert r) = (nr_node_id r = n)"
| "disturbs n (CmdRemove j) = (j = n)"
| "disturbs n _ = False"

lemma handle_event_timer:
  "om_get (g_timers g) n = None \<Longrightarrow> ev \<noteq> NodeState n Reconnecting \<Longrightarrow>
   om_get (g_timers (snd (handle_event now ev (s, g)))) n = None"
  by (cases "(now, ev, (s, g))" rule: handle_event.cases)
     (auto simp: Let_def take_timer_def abort_timer_def spawn_timer_def om_get_remove om_get_insert
       split: prod.splits option.splits)

lemma undisturbed_step:
  assumes "nm_step sg l sg'" and "\<not> disturbs n l"
    and "om_get (g_timers (snd sg)) n = None" and "avail sg n = Some True"
  shows "om_get (g_timers (snd sg')) n = None \<and> avail sg' n = Some True"
  using assms
proof (induction rule: nm_step.induct)
  case (recv sg now ev)
  then have "ev \<noteq> NodeState n Reconnecting" by auto
  with recv show ?case
    using handle_event_timer[of "snd sg" n ev now "fst sg"] handle_event_avail[of now ev "fst sg" "snd sg" n]
    by (auto split: stack_event.splits node_conn_state.splits)
next
  case (expire g j rest s)
  then show ?case by (simp add: handle_grace_expiry_avail handle_grace_expiry_grace om_get_remove)
qed (auto simp: node_available_def registry_insert_def registry_remove_def om_get_insert om_get_remove)

lemma undisturbed_run:
  assumes "nm_run sg ls sg'" and "\<forall>l \<in> set ls. \<not> disturbs n l"
    and "om_get (g_timers (snd sg)) n = None" and "avail sg n = Some True"
  shows "om_get (g_timers (snd sg')) n = None \<and> avail sg' n = Some True"
  using assms by (induction rule: nm_run.induct) (auto dest: undisturbed_step)

text \<open>
  once \<open>Connected\<close> has been handled for a registered node it stays available, whatever
  expiry signals of earlier timers are still queued, until the stack reports it
  \<open>Reconnecting\<close> again or a command removes or re-registers it: stale signals are dropped.
\<close>

theorem connected_node_stays_available:
  assumes "registry_contains (sh_registry s) n"
    and "nm_run (handle_event now (NodeState n (Connected port)) (s, g)) ls sg'"
    and "\<forall>l \<in> set ls. \<not> disturbs n l"
  shows "avail sg' n = Some True"
proof -
  let ?sg = "handle_event now (NodeState n (Connected port)) (s, g)"
  have "om_get (g_timers (snd ?sg)) n = None"
    using assms(1) by (auto simp: Let_def take_timer_def abort_timer_def om_get_remove
        split: prod.splits option.splits)
  moreover from assms(1) have av: "avail (s, g) n \<noteq> None"
    by (simp add: registry_contains_def node_available_def)
  then have "avail ?sg n = Some True"
    using av by (simp add: handle_event_avail del: handle_event.simps)
  ultimately show ?thesis using undisturbed_run[OF assms(2,3)] by blast
qed

lemma connected_node_stays_available_witness:
  "avail (handle_grace_expiry 7 (fst (reached (offline_run @ [Recv ''d'' (NodeState 7 (Connected 5540))])),
       (snd (reached (offline_run @ [Recv ''d'' (NodeState 7 (Connected 5540))])))\<lparr>g_signals := []\<rparr>)) 7
   = Some True"
proof -
  obtain s g where sg: "reached offline_run = (s, g)" by fastforce
  let ?sg = "handle_event ''d'' (NodeState 7 (Connected 5540)) (s, g)"
  have eq: "?sg = reached (offline_run @ [Recv ''d'' (NodeState 7 (Connected 5540))])"
    using offline_run_returns by (auto simp: reached_def nm_exec_run_append sg[symmetric])
  have "g_signals (snd ?sg) = [7]" unfolding eq offline_run_def by code_simp
  then have "nm_step ?sg Expire (handle_grace_expiry 7 (fst ?sg, (snd ?sg)\<lparr>g_signals := []\<rparr>))"
    using nm_step.expire[of "snd ?sg" 7 "[]" "fst ?sg"] by simp
  then have "nm_run ?sg [Expire] (handle_grace_expiry 7 (fst ?sg, (snd ?sg)\<lparr>g_signals := []\<rparr>))"
    by (rule nm_run.run_cons[OF _ nm_run.run_nil])
  moreover have "registry_contains (sh_registry s) 7"
    using offline_run_state by (auto simp: sg registry_contains_def node_available_def)
  ultimately show ?thesis
    using connected_node_stays_available[of s 7 "''d''" 5540 g "[Expire]"] unfolding eq by simp
qed

text \<open>Nothing queued or asleep can end the grace of \<open>n\<close> before \<open>d\<close>.\<close>

definition grace_until :: "u64 \<Rightarrow> nat \<Rightarrow> 'a shared_scheme \<times> grace \<Rightarrow> bool" where
  "grace_until n d sg \<longleftrightarrow>
     (\<forall>x \<in> set (g_sleeping (snd sg)). sl_node x = n \<longrightarrow> d \<le> sl_deadline x)
     \<and> (n \<in> set (g_signals (snd sg)) \<longrightarrow> d \<le> g_clock (snd sg))
     \<and> (avail sg n = Some True \<or> d \<le> g_clock (snd sg))
     \<and> d \<le> g_clock (snd sg) + RECONNECT_GRACE"

lemma handle_event_grace:
  shows "g_signals (snd (handle_event now ev (s, g))) = g_signals g"
    and "g_clock (snd (handle_event now ev (s, g))) = g_clock g"
    and "\<forall>x \<in> set (g_sleeping (snd (handle_event now ev (s, g)))).
      x \<in> set (g_sleeping g) \<or> sl_deadline x = g_clock g + RECONNECT_GRACE"
  by (cases "(now, ev, (s, g))" rule: handle_event.cases;
      auto simp: Let_def take_timer_def abort_timer_def spawn_timer_def
        split: prod.splits option.splits if_splits)+

lemma grace_until_step:
  assumes "nm_step sg l sg'" and "grace_until n d sg"
    and "\<And>r. l = CmdInsert r \<Longrightarrow> nr_node_id r \<noteq> n" and "l \<noteq> CmdRemove n"
  shows "grace_until n d sg'"
  using assms
proof (induction rule: nm_step.induct)
  case (recv sg now ev)
  obtain s g where sg: "sg = (s, g)" by fastforce
  have "avail (handle_event now ev (s, g)) n = Some True" if "avail (s, g) n = Some True"
    using that by (auto simp: handle_event_avail split: stack_event.splits node_conn_state.splits)
  with recv(1) handle_event_grace[where now = now and ev = ev and s = s and g = g] show ?case
    unfolding grace_until_def sg by (auto simp del: handle_event.simps; fastforce)
next
  case (expire g j rest s)
  then show ?case by (auto simp: grace_until_def handle_grace_expiry_avail handle_grace_expiry_grace)
next
  case (fire x g s)
  then show ?case by (force simp: grace_until_def)
qed (auto simp: grace_until_def node_available_def registry_insert_def registry_remove_def
       om_get_insert om_get_remove)

text \<open>
  C33: when an available node is reported \<open>Reconnecting\<close> and no timer task or signal of an
  earlier outage is left over, it is served as available for the whole of the 180 second grace
  period, whatever else happens in between (further outages included), unless a command removes
  or re-registers it.
\<close>

theorem grace_period_is_honoured:
  assumes "avail (s, g) n = Some True"
    and "n \<notin> set (g_signals g)" and "\<forall>x \<in> set (g_sleeping g). sl_node x \<noteq> n"
    and "nm_run (handle_event now (NodeState n Reconnecting) (s, g)) ls sg'"
    and "\<forall>l \<in> set ls. l \<noteq> CmdRemove n \<and> (\<forall>r. l = CmdInsert r \<longrightarrow> nr_node_id r \<noteq> n)"
    and "g_clock (snd sg') < g_clock g + 180"
  shows "avail sg' n = Some True"
proof -
  let ?sg = "handle_event now (NodeState n Reconnecting) (s, g)" and ?d = "g_clock g + 180"
  have "avail ?sg n = Some True"
    using assms(1) by (simp add: handle_event_avail del: handle_event.simps)
  then have start: "grace_until n ?d ?sg"
    using assms(2,3) handle_event_grace[where now = now and ev = "NodeState n Reconnecting" and s = s and g = g]
    unfolding grace_until_def RECONNECT_GRACE_def by (auto simp del: handle_event.simps)
  have "nm_run sg ls sg' \<Longrightarrow> grace_until n ?d sg \<Longrightarrow>
      \<forall>l \<in> set ls. l \<noteq> CmdRemove n \<and> (\<forall>r. l = CmdInsert r \<longrightarrow> nr_node_id r \<noteq> n) \<Longrightarrow>
      grace_until n ?d sg'" for sg :: "'a shared_scheme \<times> grace"
    by (induction rule: nm_run.induct) (auto dest: grace_until_step)
  from this[OF assms(4) start assms(5)] assms(6) show ?thesis by (auto simp: grace_until_def)
qed

lemma grace_period_is_honoured_witness:
  "avail (handle_event ''d'' (NodeState 7 Reconnecting) after_connect) 7 = Some True"
proof -
  have a: "avail after_connect 7 = Some True" "g_signals (snd after_connect) = []"
    "g_sleeping (snd after_connect) = []"
    "g_clock (snd (handle_event ''d'' (NodeState 7 Reconnecting) after_connect)) < g_clock (snd after_connect) + 180"
    unfolding after_connect_def by code_simp+
  obtain s g where sg: "after_connect = (s, g)" by fastforce
  show ?thesis
    using grace_period_is_honoured[OF _ _ _ nm_run.run_nil, of s g 7 "''d''"] a unfolding sg by simp
qed


end
