(* ===== verification/Addr.thy ===== *)
theory Addr
  imports Strings
begin

section \<open>Splitting \<open>ip:port\<close> (\<open>controller/src/addr.rs\<close>)\<close>

text \<open>
  \<open>split_ip_port\<close> and \<open>ip_of\<close>, and the two textual shapes of a socket address the
  transport renders (\<open>Display for SocketAddr\<close>): a bracketed host for IPv6, a bare one for
  IPv4. The lemmas show that both shapes come apart into exactly their host and port.
\<close>

definition split_ip_port :: "rstring \<Rightarrow> rstring \<times> u16 option" where
  "split_ip_port address =
     (case strip_prefix_char (CHR ''['') address of
        Some rest \<Rightarrow>
          (case split_once (CHR '']'') rest of
             Some (host, tail) \<Rightarrow>
               (host, Option.bind (strip_prefix_char (CHR '':'') tail) parse_uint)
           | None \<Rightarrow> (rest, None))
      | None \<Rightarrow>
          if 1 < count_char (CHR '':'') address then (address, None)
          else (case rsplit_once (CHR '':'') address of
                  Some (ip, port) \<Rightarrow> (ip, parse_uint port)
                | None \<Rightarrow> (address, None)))"

definition ip_of :: "rstring \<Rightarrow> rstring" where
  "ip_of address = fst (split_ip_port address)"

subsection \<open>Rendered socket addresses\<close>

datatype socket_addr = V4 rstring u16 | V6 rstring u16

fun render_addr :: "socket_addr \<Rightarrow> rstring" where
  "render_addr (V4 host port) = host @ CHR '':'' # dec_of port"
| "render_addr (V6 host port) = CHR ''['' # host @ CHR '']'' # CHR '':'' # dec_of port"

fun addr_host :: "socket_addr \<Rightarrow> rstring" where
  "addr_host (V4 host _) = host"
| "addr_host (V6 host _) = host"

fun addr_port :: "socket_addr \<Rightarrow> u16" where
  "addr_port (V4 _ port) = port"
| "addr_port (V6 _ port) = port"

text \<open>An IPv4 host has neither colon nor bracket, an IPv6 host no closing bracket.\<close>

fun addr_ok :: "socket_addr \<Rightarrow> bool" where
  "addr_ok (V4 host _) = (CHR '':'' \<notin> set host \<and> CHR ''['' \<notin> set host)"
| "addr_ok (V6 host _) = (CHR '']'' \<notin> set host)"

lemma count_char_append [simp]: "count_char c (s @ t) = count_char c s + count_char c t"
  by (simp add: count_char_def)

lemma count_char_Cons [simp]:
  "count_char c (x # s) = (if x = c then 1 else 0) + count_char c s"
  by (simp add: count_char_def)

lemma count_char_zero: "c \<notin> set s \<Longrightarrow> count_char c s = 0"
  by (induction s) (auto simp: count_char_def)

lemma colon_not_digit: "\<not> is_digit (CHR '':'')"
  by (simp add: is_digit_def byte_def)

lemma bracket_not_digit: "\<not> is_digit (CHR ''['')"
  by (simp add: is_digit_def byte_def)

lemma split_ip_port_render:
  assumes "addr_ok a"
  shows "split_ip_port (render_addr a) = (addr_host a, Some (addr_port a))"
proof (cases a)
  case (V4 host port)
  have port: "CHR '':'' \<notin> set (dec_of port)"
    by (rule dec_of_no_char) (rule colon_not_digit)
  have no_bracket: "strip_prefix_char (CHR ''['') (render_addr a) = None"
    using assms V4 by (cases host) (auto simp: strip_prefix_char_def)
  have "count_char (CHR '':'') (render_addr a) = 1"
    using assms V4 port by (simp add: count_char_zero)
  moreover have "rsplit_once (CHR '':'') (render_addr a) = Some (host, dec_of port)"
    using V4 port by (simp add: rsplit_once_Some_iff)
  ultimately show ?thesis
    using no_bracket V4 by (simp add: split_ip_port_def parse_uint_dec_of)
next
  case (V6 host port)
  have "split_once (CHR '']'') (host @ CHR '']'' # CHR '':'' # dec_of port) =
      Some (host, CHR '':'' # dec_of port)"
    using assms V6 by (simp add: split_once_Some_iff)
  then show ?thesis
    using V6 by (simp add: split_ip_port_def strip_prefix_char_def parse_uint_dec_of)
qed

text \<open>A host that is already bare is left alone, whichever family it belongs to.\<close>

lemma split_ip_port_bare:
  assumes "CHR ''['' \<notin> set host" and "count_char (CHR '':'') host \<noteq> 1"
  shows "split_ip_port host = (host, None)"
proof -
  have "strip_prefix_char (CHR ''['') host = None"
    using assms(1) by (cases host) (auto simp: strip_prefix_char_def)
  moreover have "rsplit_once (CHR '':'') host = None"
    if "\<not> 1 < count_char (CHR '':'') host"
  proof -
    have "count_char (CHR '':'') host = 0" using that assms(2) by linarith
    then show ?thesis
      by (auto simp: rsplit_once_None_iff count_char_def filter_empty_conv)
  qed
  ultimately show ?thesis by (simp add: split_ip_port_def)
qed

text \<open>Whatever the input, no bracket that opened the address survives into the host.\<close>

lemma split_ip_port_host_brackets:
  "count_char (CHR ''['') (fst (split_ip_port a)) \<le> count_char (CHR ''['') a - 
     (if starts_with ''['' a then 1 else 0)"
proof (cases "strip_prefix_char (CHR ''['') a")
  case None
  then have "\<not> starts_with ''['' a"
    by (auto simp: strip_prefix_char_def starts_with_def split: list.splits if_splits)
  moreover have "count_char (CHR ''['') ip \<le> count_char (CHR ''['') a"
    if "rsplit_once (CHR '':'') a = Some (ip, port)" for ip port
    using that by (simp add: rsplit_once_Some_iff)
  ultimately show ?thesis
    using None by (auto simp: split_ip_port_def split: option.splits)
next
  case (Some rest)
  then have a: "a = CHR ''['' # rest"
    by (auto simp: strip_prefix_char_def split: list.splits if_splits)
  have "count_char (CHR ''['') host \<le> count_char (CHR ''['') rest"
    if "split_once (CHR '']'') rest = Some (host, tail)" for host tail
    using that by (simp add: split_once_Some_iff)
  with a Some show ?thesis
    by (auto simp: split_ip_port_def starts_with_def split: option.splits)
qed

end
