(* ===== verification/Ctrl.thy ===== *)
theory Ctrl
  imports NodeManager Addr Wire
begin

section \<open>The controller (\<open>controller/src/real.rs\<close>, \<open>commands/mod.rs\<close>)\<close>

text \<open>
  The state of \<open>MatterController\<close> as an extension of the state it shares with the node
  manager, the environment it runs in, the read-modify-write of the configuration, and the
  argument helpers every command uses. A command is a function of the environment, its arguments
  and the state; it answers a result and the new state, so the state an error leaves behind is
  part of the model. Within one command nothing else runs; what may run between two commands is
  the subject of \<open>NodeManager\<close> and \<open>Writers\<close>.
\<close>

record command_error =
  ce_code :: server_error_code
  ce_details :: rstring

definition command_error_new :: "server_error_code \<Rightarrow> rstring \<Rightarrow> command_error" where
  "command_error_new c d = \<lparr>ce_code = c, ce_details = d\<rparr>"

subsection \<open>Log levels (\<open>server/src/logging.rs\<close>)\<close>

datatype level = LvError | LvWarn | LvInfo | LvDebug | LvTrace

definition map_level :: "rstring \<Rightarrow> level option" where
  "map_level name =
     (if name \<in> {''fatal'', ''critical'', ''error''} then Some LvError
      else if name \<in> {''warning'', ''warn''} then Some LvWarn
      else if name \<in> {''notice'', ''info''} then Some LvInfo
      else if name = ''debug'' then Some LvDebug
      else if name = ''verbose'' then Some LvTrace
      else None)"

record log_control =
  lc_filter :: level
  lc_console :: rstring
  lc_has_file :: bool

definition log_get :: "log_control \<Rightarrow> rstring \<times> rstring option" where
  "log_get l = (lc_console l, if lc_has_file l then Some (lc_console l) else None)"

text \<open>The file level is ignored; \<open>reload\<close> tells whether swapping the filter works.\<close>

definition log_set :: "bool \<Rightarrow> rstring option \<Rightarrow> rstring option \<Rightarrow> log_control \<Rightarrow> log_control" where
  "log_set reload console file l =
     (case console of
        None \<Rightarrow> l
      | Some name \<Rightarrow>
          (case map_level name of
             None \<Rightarrow> l
           | Some lvl \<Rightarrow> if \<not> reload then l else l\<lparr>lc_filter := lvl, lc_console := name\<rparr>))"

subsection \<open>State and environment\<close>

record 'w ctrl = shared +
  ct_world :: 'w
  ct_identity :: server_identity
  ct_fabric_index :: u8
  ct_sdk_version :: rstring
  ct_config :: config_data
  ct_label_locked :: bool
  ct_label_owner :: "u64 option"
  ct_log :: log_control

text \<open>
  What is outside the repository: the stack, the text of a JSON value and of an I/O error, the
  quoted form of a string, the formatted current date, the system's \<open>ping\<close>, and whether
  the log filter can be swapped.
\<close>

record 'w env =
  ev_stack :: "'w stack"
  ev_show_json :: "json \<Rightarrow> rstring"
  ev_show_io :: "io_error \<Rightarrow> rstring"
  ev_show_str :: "rstring \<Rightarrow> rstring"
  ev_now :: rstring
  ev_ping :: "rstring \<Rightarrow> u64 \<Rightarrow> bool"
  ev_reload :: bool

type_synonym 'a command_result = "command_error + 'a"
type_synonym 'w command = "'w env \<Rightarrow> jmap \<Rightarrow> 'w ctrl \<Rightarrow> json command_result \<times> 'w ctrl"

text \<open>\<open>MatterController::new\<close>: the node records and the configuration come from disk,
  and a supervisor is started for every node, in node id order.\<close>

definition controller_new ::
  "'w env \<Rightarrow> fs \<Rightarrow> u32 \<Rightarrow> server_identity \<Rightarrow> u8 \<Rightarrow> rstring \<Rightarrow> bool \<Rightarrow> log_control \<Rightarrow> 'w \<Rightarrow> 'w ctrl" where
  "controller_new env s pid identity fabric_index sdk_version label_locked log w =
     (let (records, s1) = load_nodes s;
          registry = registry_new records;
          (config, s2) = load_config s1
      in \<lparr>sh_registry = registry, sh_fs = s2, sh_pid = pid, sh_events = [], sh_history = [],
          ct_world = fold (st_start_supervisor (ev_stack env)) (registry_node_ids registry) w,
          ct_identity = identity, ct_fabric_index = fabric_index, ct_sdk_version = sdk_version,
          ct_config = config, ct_label_locked = label_locked, ct_label_owner = None,
          ct_log = log\<rparr>)"

subsection \<open>Calls to the stack\<close>

definition call :: "('w \<Rightarrow> 'a \<times> 'w) \<Rightarrow> 'w ctrl \<Rightarrow> 'a \<times> 'w ctrl" where
  "call f c = (case f (ct_world c) of (r, w) \<Rightarrow> (r, c\<lparr>ct_world := w\<rparr>))"

text \<open>A call whose error, converted, ends the command: \<open>.await.map_err(conv)?\<close>\<close>

definition try_call ::
  "('w \<Rightarrow> 'a stack_result \<times> 'w) \<Rightarrow> (stack_error \<Rightarrow> command_error)
   \<Rightarrow> ('a \<Rightarrow> 'w ctrl \<Rightarrow> 'b command_result \<times> 'w ctrl) \<Rightarrow> 'w ctrl \<Rightarrow> 'b command_result \<times> 'w ctrl" where
  "try_call f conv k c = (case call f c of (r, c') \<Rightarrow> try_arg (map_err conv r) k c')"

subsection \<open>The configuration\<close>

definition config_snapshot :: "'w ctrl \<Rightarrow> config_data" where
  "config_snapshot c = ct_config c"

text \<open>
  Clone, change, save, write back. The new value is used from then on even when it could not be
  written; the second component of the answer tells.
\<close>

definition update_config ::
  "(config_data \<Rightarrow> 'r \<times> config_data) \<Rightarrow> 'w ctrl \<Rightarrow> ('r \<times> (io_error + unit)) \<times> 'w ctrl" where
  "update_config f c =
     (let (result, cfg) = f (config_snapshot c);
          (persisted, s') = save_config (sh_pid c) cfg (sh_fs c)
      in ((result, persisted), c\<lparr>sh_fs := s', ct_config := cfg\<rparr>))"

definition ensure_node :: "u64 \<Rightarrow> 'w ctrl \<Rightarrow> unit command_result" where
  "ensure_node n c =
     (if registry_contains (sh_registry c) n then Ok ()
      else Err (command_error_new NodeNotExists (''Node '' @ dec_of n @ '' does not exist'')))"

definition build_server_info :: "'w ctrl \<Rightarrow> server_info_message" where
  "build_server_info c =
     (let cfg = config_snapshot c;
          wifi = (case om_get (cfg_wifi_credentials cfg) ''default'' of
                    Some w \<Rightarrow> if wc_password w \<noteq> [] then Some w else None
                  | None \<Rightarrow> None)
      in \<lparr>si_fabric_id = id_fabric_id (ct_identity c),
          si_compressed_fabric_id = id_compressed_fabric_id (ct_identity c),
          si_fabric_index = Some (ct_fabric_index c),
          si_schema_version = SCHEMA_VERSION,
          si_min_supported_schema_version = MIN_SUPPORTED_SCHEMA_VERSION,
          si_sdk_version = ct_sdk_version c,
          si_wifi_credentials_set = (wifi \<noteq> None),
          si_wifi_ssid = map_option wc_ssid wifi,
          si_thread_credentials_set = om_contains (cfg_thread_datasets cfg) ''default'',
          si_bluetooth_enabled = False,
          si_ble_proxy_enabled = Some False,
          si_controller_node_id = Some (id_controller_node_id (ct_identity c))\<rparr>)"

definition broadcast_server_info_updated :: "'w ctrl \<Rightarrow> 'w ctrl" where
  "broadcast_server_info_updated c =
     send_event ''server_info_updated'' (server_info_message_json (build_server_info c)) c"

definition connection_closed :: "u64 \<Rightarrow> 'w ctrl \<Rightarrow> 'w ctrl" where
  "connection_closed conn c =
     (if ct_label_owner c = Some conn then c\<lparr>ct_label_owner := None\<rparr> else c)"

subsection \<open>Arguments\<close>

definition invalid :: "rstring \<Rightarrow> command_error" where
  "invalid msg = command_error_new InvalidArguments msg"

text \<open>\<open>T::try_from(value)\<close>: an error unless the value fits the width.\<close>

definition narrow :: "u64 \<Rightarrow> rstring \<Rightarrow> 'a::len word command_result" where
  "narrow value what =
     (if unat value < 2 ^ LENGTH('a) then Ok (ucast value)
      else Err (invalid (what @ '' out of range: '' @ dec_of value)))"

definition missing :: "rstring \<Rightarrow> command_error" where
  "missing key = invalid (''missing or invalid required argument: '' @ key)"

definition opt_u64 :: "jmap \<Rightarrow> rstring \<Rightarrow> u64 option" where
  "opt_u64 args key = Option.bind (om_get args key) as_u64"

definition require_u64 :: "jmap \<Rightarrow> rstring \<Rightarrow> u64 command_result" where
  "require_u64 args key = ok_or (missing key) (Option.bind (om_get args key) as_u64)"

definition opt_u64_strict :: "'w env \<Rightarrow> jmap \<Rightarrow> rstring \<Rightarrow> u64 option command_result" where
  "opt_u64_strict env args key =
     (case om_get args key of
        None \<Rightarrow> Ok None
      | Some v \<Rightarrow>
          if v = JNull then Ok None
          else (case as_u64 v of
                  Some n \<Rightarrow> Ok (Some n)
                | None \<Rightarrow> Err (invalid (''invalid value for '' @ key @ '': '' @ ev_show_json env v))))"

definition opt_bool :: "jmap \<Rightarrow> rstring \<Rightarrow> bool option" where
  "opt_bool args key = Option.bind (om_get args key) as_bool"

definition opt_str :: "jmap \<Rightarrow> rstring \<Rightarrow> rstring option" where
  "opt_str args key = Option.bind (om_get args key) as_str"

definition require_str :: "jmap \<Rightarrow> rstring \<Rightarrow> rstring command_result" where
  "require_str args key = ok_or (missing key) (opt_str args key)"

fun stack_err_code :: "server_error_code \<Rightarrow> stack_error_kind \<Rightarrow> server_error_code" where
  "stack_err_code d SeInvalidArguments = InvalidArguments"
| "stack_err_code d NodeUnreachable = NodeNotResolving"
| "stack_err_code d Busy = d"
| "stack_err_code d Timeout = d"
| "stack_err_code d Sdk = d"

definition stack_err :: "server_error_code \<Rightarrow> stack_error \<Rightarrow> command_error" where
  "stack_err d e = command_error_new (stack_err_code d (se_kind e)) (se_message e)"

text \<open>\<open>require_u64(args, "node_id")?; c.ensure_node(node_id)?\<close>, the head of every node command\<close>

definition with_node :: "jmap \<Rightarrow> (u64 \<Rightarrow> 'w ctrl \<Rightarrow> json command_result \<times> 'w ctrl) \<Rightarrow> 'w ctrl \<Rightarrow> json command_result \<times> 'w ctrl" where
  "with_node args k c =
     try_arg (require_u64 args ''node_id'') (\<lambda>n c. try_arg (ensure_node n c) (\<lambda>_. k n) c) c"

end
