(* ===== verification/NodeCommands.thy ===== *)
theory NodeCommands
  imports Ctrl Vendors
begin

section \<open>Node, interaction and miscellaneous commands (\<open>commands/nodes.rs\<close>,
  \<open>interaction.rs\<close>, \<open>misc.rs\<close>)\<close>

text \<open>
  Each handler with every call that changes state, in the order of the code. \<open>ping\<close> is
  the system's, one address after the other here where the code runs them side by side: the
  answers land in one ordered map either way.
\<close>

subsection \<open>\<open>nodes.rs\<close>\<close>

definition MAX_PING_ATTEMPTS :: u64 where "MAX_PING_ATTEMPTS = 10"

definition ping_attempts :: "'w env \<Rightarrow> jmap \<Rightarrow> u64 command_result" where
  "ping_attempts env args =
     and_then (opt_u64_strict env args ''attempts'')
       (\<lambda>a. Ok (max 1 (min MAX_PING_ATTEMPTS (case a of None \<Rightarrow> 1 | Some n \<Rightarrow> n))))"

definition get_nodes :: "'w command" where
  "get_nodes env args c =
     (let only_available = (case opt_bool args ''only_available'' of None \<Rightarrow> False | Some b \<Rightarrow> b)
      in (Ok (JArr (map matter_node_data_json (all_node_data only_available (sh_registry c)))), c))"

definition get_node :: "'w command" where
  "get_node env args c =
     try_arg (require_u64 args ''node_id'')
       (\<lambda>n c. (ok_or (command_error_new NodeNotExists (''Node '' @ dec_of n @ '' does not exist''))
                 (map_option matter_node_data_json (node_data (sh_registry c) n)), c)) c"

definition diagnostics :: "'w command" where
  "diagnostics env args c =
     (case get_nodes env args c of (r, c) \<Rightarrow>
        try_arg r (\<lambda>nodes c.
          (Ok (jobject [(''info'', server_info_message_json (build_server_info c)),
                        (''nodes'', nodes), (''events'', JArr (sh_history c))]), c)) c)"

text \<open>The cached attributes and the interview date of a node are replaced.\<close>

definition store_interview :: "u64 \<Rightarrow> jmap \<Rightarrow> rstring \<Rightarrow> registry \<Rightarrow> registry" where
  "store_interview n attributes now reg =
     snd (with_entry n (\<lambda>e. ((), e\<lparr>en_record := (en_record e)
       \<lparr>nr_attributes := om_of_list attributes, nr_last_interview := now\<rparr>\<rparr>)) reg)"

definition interview_node :: "'w command" where
  "interview_node env args =
     with_node args (\<lambda>n.
       try_call (st_interview (ev_stack env) n) (stack_err NodeInterviewFailed) (\<lambda>attributes c.
         (Ok JNull, emit_node_updated n (persist n
            (c\<lparr>sh_registry := store_interview n attributes (ev_now env) (sh_registry c)\<rparr>)))))"

text \<open>Whatever the device and the disk answer, the node is gone locally.\<close>

definition remove_node :: "'w command" where
  "remove_node env args =
     with_node args (\<lambda>n c.
       let index = (case snapshot_record (sh_registry c) n of
                      None \<Rightarrow> 0 | Some r \<Rightarrow> nr_device_fabric_index r);
           c = c\<lparr>ct_world := st_stop_supervisor (ev_stack env) n (ct_world c)\<rparr>;
           (_, c) = call (st_remove_device_fabric (ev_stack env) n index) c;
           c = c\<lparr>sh_registry := snd (registry_remove n (sh_registry c))\<rparr>;
           c = c\<lparr>sh_fs := snd (delete_node n (sh_fs c))\<rparr>
       in (Ok JNull, send_event ''node_removed'' (junsigned n) c))"

text \<open>\<open>retain(|a| seen.insert(a.clone()))\<close>\<close>

fun retain_new :: "'a list \<Rightarrow> 'a list \<Rightarrow> 'a list" where
  "retain_new seen [] = []"
| "retain_new seen (a # as) =
     (if a \<in> set seen then retain_new seen as else a # retain_new (a # seen) as)"

definition merged_addresses :: "'w env \<Rightarrow> u64 \<Rightarrow> 'w ctrl \<Rightarrow> rstring list \<times> 'w ctrl" where
  "merged_addresses env n c =
     (case call (st_node_addresses (ev_stack env) n) c of (live, c) \<Rightarrow>
        let out = (case live of Ok as \<Rightarrow> as | Err _ \<Rightarrow> [])
                  @ (case snapshot_record (sh_registry c) n of None \<Rightarrow> [] | Some r \<Rightarrow> nr_addresses r)
        in (retain_new [] out, c))"

text \<open>\<open>a.split('%').next()\<close>: an IPv6 scope is cut off.\<close>

definition bare_addr :: "rstring \<Rightarrow> rstring" where
  "bare_addr a = hd (split_on (CHR 0x25) a)"

definition ping_one :: "'w env \<Rightarrow> u64 \<Rightarrow> rstring \<Rightarrow> rstring \<times> bool" where
  "ping_one env attempts a = (a, ev_ping env (bare_addr a) attempts)"

definition ping_node :: "'w command" where
  "ping_node env args =
     with_node args (\<lambda>n.
       try_arg (ping_attempts env args) (\<lambda>attempts c.
         case merged_addresses env n c of (addrs, c) \<Rightarrow>
           (Ok (JObj (om_of_list (map (\<lambda>(a, ok). (a, JBool ok)) (map (ping_one env attempts) addrs)))), c)))"

definition get_node_ip_addresses :: "'w command" where
  "get_node_ip_addresses env args =
     with_node args (\<lambda>n c.
       let scoped = (case opt_bool args ''scoped'' of None \<Rightarrow> False | Some b \<Rightarrow> b);
           (addrs, c) = merged_addresses env n c
       in (Ok (JArr (map JStr (retain_new [] (map (\<lambda>a. if scoped then a else bare_addr a) addrs)))), c))"

subsection \<open>\<open>interaction.rs\<close>\<close>

text \<open>One segment: the sentinel and anything that is not a number mean a wildcard.\<close>

definition path_segment :: "rstring \<Rightarrow> u64 \<Rightarrow> u64 option" where
  "path_segment s sentinel =
     (case parse_uint s of None \<Rightarrow> None | Some n \<Rightarrow> if n = sentinel then None else Some n)"

definition fit_segment :: "(u64 \<Rightarrow> command_error) \<Rightarrow> u64 option \<Rightarrow> 'a::len word option command_result" where
  "fit_segment too_big s =
     (case s of
        None \<Rightarrow> Ok None
      | Some n \<Rightarrow> if unat n < 2 ^ LENGTH('a) then Ok (Some (ucast n)) else Err (too_big n))"

definition parse_attribute_path :: "'w env \<Rightarrow> rstring \<Rightarrow> attribute_path_spec command_result" where
  "parse_attribute_path env path =
     (let too_big = (\<lambda>what n. invalid (what @ '' in attribute path '' @ ev_show_str env path
                                       @ '' out of range: '' @ dec_of n))
      in case split_on (CHR 0x2F) path of
           [a, b, d] \<Rightarrow>
             and_then (fit_segment (too_big ''endpoint id'') (path_segment a 0xFFFF)) (\<lambda>e.
             and_then (fit_segment (too_big ''cluster id'') (path_segment b 0xFFFFFFFF)) (\<lambda>cl.
             and_then (fit_segment (too_big ''attribute id'') (path_segment d 0xFFFFFFFF)) (\<lambda>at.
               Ok \<lparr>ap_endpoint = e, ap_cluster = cl, ap_attribute = at\<rparr>)))
         | _ \<Rightarrow> Err (invalid (''Invalid attribute path: '' @ path)))"

fun attribute_path_strings :: "json \<Rightarrow> rstring list command_result" where
  "attribute_path_strings (JStr s) = Ok [s]"
| "attribute_path_strings (JArr vs) =
     collect_results (\<lambda>v. ok_or (invalid ''attribute_path entries must be strings'') (as_str v)) vs"
| "attribute_path_strings _ = Err (invalid ''attribute_path must be a string or list of strings'')"

definition read_attribute :: "'w command" where
  "read_attribute env args =
     with_node args (\<lambda>n.
       let fabric_filtered = (case opt_bool args ''fabric_filtered'' of None \<Rightarrow> False | Some b \<Rightarrow> b) in
       try_arg (ok_or (missing ''attribute_path'') (om_get args ''attribute_path'')) (\<lambda>raw.
       try_arg (attribute_path_strings raw) (\<lambda>strings.
       try_arg (collect_results (parse_attribute_path env) strings) (\<lambda>paths.
       try_call (st_read_attributes (ev_stack env) n paths fabric_filtered) (stack_err SdkStackError)
         (\<lambda>values c.
            if values = []
            then (Err (command_error_new SdkStackError ''Failed to read attribute: no values returned''), c)
            else (Ok (JObj (om_of_list values)), c))))))"

definition write_attribute :: "'w command" where
  "write_attribute env args =
     with_node args (\<lambda>n.
       try_arg (require_str args ''attribute_path'') (\<lambda>path.
       try_arg (parse_attribute_path env path) (\<lambda>spec c.
         case (ap_endpoint spec, ap_cluster spec, ap_attribute spec) of
           (Some e, Some cl, Some a) \<Rightarrow>
             (let v = (case om_get args ''value'' of None \<Rightarrow> JNull | Some v \<Rightarrow> v)
              in try_call (st_write_attribute (ev_stack env) n e cl a v) (stack_err SdkStackError)
                   (\<lambda>status c.
                      (Ok (JArr [jobject
                         [(''Path'', jobject [(''EndpointId'', junsigned e), (''ClusterId'', junsigned cl),
                                              (''AttributeId'', junsigned a)]),
                          (''Status'', junsigned status)]]), c)) c)
         | _ \<Rightarrow> (Err (invalid ''write_attribute does not support wildcards in attribute path''), c))))"

definition narrow_opt :: "u64 option \<Rightarrow> rstring \<Rightarrow> 'a::len word option command_result" where
  "narrow_opt v what =
     (case v of None \<Rightarrow> Ok None | Some n \<Rightarrow> and_then (narrow n what) (\<lambda>w. Ok (Some w)))"

definition device_command :: "'w command" where
  "device_command env args =
     with_node args (\<lambda>n.
       try_arg (require_u64 args ''endpoint_id'') (\<lambda>ep.
       try_arg (narrow ep ''endpoint_id'') (\<lambda>endpoint :: u16.
       try_arg (require_u64 args ''cluster_id'') (\<lambda>cl.
       try_arg (narrow cl ''cluster_id'') (\<lambda>cluster :: u32.
       try_arg (require_str args ''command_name'') (\<lambda>command_name.
       let payload = (case om_get args ''payload'' of None \<Rightarrow> JObj [] | Some v \<Rightarrow> v) in
       try_arg (narrow_opt (opt_u64 args ''timed_request_timeout_ms'') ''timed_request_timeout_ms'')
         (\<lambda>timed :: u16 option.
       try_call (st_invoke (ev_stack env) n endpoint cluster command_name payload timed)
         (stack_err SdkStackError) (\<lambda>v c. (Ok v, c)))))))))"

subsection \<open>\<open>misc.rs\<close>\<close>

definition get_vendor_names :: "'w command" where
  "get_vendor_names env args c =
     (let filt = map_option (List.map_filter as_u64) (Option.bind (om_get args ''filter_vendors'') as_array);
          kept = filter (\<lambda>(i, _). case filt of None \<Rightarrow> True | Some f \<Rightarrow> (ucast i :: u64) \<in> set f) vendors_all
      in (Ok (JObj (om_of_list (map (\<lambda>(i, nm). (dec_of i, JStr nm)) kept))), c))"

definition get_loglevel :: "'w command" where
  "get_loglevel env args c =
     (let (console, file) = log_get (ct_log c)
      in (Ok (jobject [(''console_loglevel'', JStr console), (''file_loglevel'', jopt JStr file)]), c))"

definition set_loglevel :: "'w command" where
  "set_loglevel env args c =
     get_loglevel env args
       (c\<lparr>ct_log := log_set (ev_reload env) (Option.bind (om_get args ''console_loglevel'') as_str)
                     (Option.bind (om_get args ''file_loglevel'') as_str) (ct_log c)\<rparr>)"

definition icd_state :: "'w command" where
  "icd_state env args = with_node args (\<lambda>n c. (Ok (icd_state_json icd_not_registered), c))"

definition resync_icd :: "'w command" where
  "resync_icd env args = with_node args (\<lambda>n c. (Ok JNull, c))"

definition check_node_update :: "'w command" where
  "check_node_update env args = with_node args (\<lambda>n c. (Ok JNull, c))"

definition update_node :: "'w command" where
  "update_node env args =
     with_node args (\<lambda>n c. (Err (command_error_new UpdateError ''OTA is disabled''), c))"

end
