(* ===== verification/AdminCommands.thy ===== *)
theory AdminCommands
  imports Ctrl Vendors
begin

section \<open>Commissioning, credential and fabric commands (\<open>commands/commissioning.rs\<close>,
  \<open>credentials.rs\<close>, \<open>fabrics.rs\<close>)\<close>

text \<open>
  The commands that change the configuration, the set of nodes or the fabric. The node id
  allocator loops, so a commissioning command answers an option: \<open>None\<close> is a call that
  never returns.
\<close>

subsection \<open>\<open>commissioning.rs\<close>\<close>

definition commission_failed :: "stack_error \<Rightarrow> command_error" where
  "commission_failed e =
     (let mapped = stack_err NodeCommissionFailed e
      in mapped\<lparr>ce_details := ''Commission failed: '' @ ce_details mapped\<rparr>)"

definition node_id_in_use :: "'w ctrl \<Rightarrow> u64 \<Rightarrow> bool" where
  "node_id_in_use c n \<longleftrightarrow> registry_contains (sh_registry c) n \<or> n = id_controller_node_id (ct_identity c)"

text \<open>After the device has answered: interview, register, persist, announce, supervise.\<close>

definition finish_commission ::
  "'w env \<Rightarrow> u64 \<Rightarrow> commission_outcome \<Rightarrow> 'w ctrl \<Rightarrow> json command_result \<times> 'w ctrl" where
  "finish_commission env n outcome c =
     (case call (st_interview (ev_stack env) n) c of
        (Err e, c) \<Rightarrow>
          (case call (st_remove_device_fabric (ev_stack env) n (co_device_fabric_index outcome)) c of
             (_, c) \<Rightarrow> (Err (commission_failed e), c))
      | (Ok attributes, c) \<Rightarrow>
          (let now = ev_now env;
               ip = fst (split_ip_port (co_address outcome));
               record = \<lparr>nr_node_id = n, nr_date_commissioned = now, nr_last_interview = now,
                         nr_device_fabric_index = co_device_fabric_index outcome,
                         nr_addresses = [ip], nr_attributes = om_of_list attributes\<rparr>;
               c = c\<lparr>sh_registry := registry_insert record (sh_registry c)\<rparr>;
               c = c\<lparr>sh_fs := snd (save_node (sh_pid c) record (sh_fs c))\<rparr>
           in case node_data (sh_registry c) n of
                None \<Rightarrow>
                  (Err (command_error_new SdkStackError
                     ''node vanished immediately after commissioning (internal error)''), c)
              | Some nd \<Rightarrow>
                  (let c = send_event ''node_added'' (matter_node_data_json nd) c
                   in (Ok (matter_node_data_json nd),
                       c\<lparr>ct_world := st_start_supervisor (ev_stack env) n (ct_world c)\<rparr>))))"

definition do_commission ::
  "'w env \<Rightarrow> pase_target \<Rightarrow> 'w ctrl \<Rightarrow> (json command_result \<times> 'w ctrl) option" where
  "do_commission env target c =
     (case allocate_node_id (config_snapshot c) (node_id_in_use c) of
        None \<Rightarrow> None
      | Some (n, cfg') \<Rightarrow>
          Some (case update_config (\<lambda>_. (n, cfg')) c of (_, c) \<Rightarrow>
            let req = \<lparr>cr_node_id = n, cr_target = target,
                       cr_fabric_label = cfg_fabric_label (config_snapshot c)\<rparr>
            in try_call (st_commission (ev_stack env) req) commission_failed (finish_commission env n) c))"

definition commission_with_code ::
  "'w env \<Rightarrow> jmap \<Rightarrow> 'w ctrl \<Rightarrow> (json command_result \<times> 'w ctrl) option" where
  "commission_with_code env args c =
     (let pairing_code = (case opt_str args ''code'' of None \<Rightarrow> [] | Some s \<Rightarrow> s)
      in if pairing_code = [] then Some (Err (invalid ''No pairing code provided''), c)
         else do_commission env (CodeTarget pairing_code) c)"

text \<open>The discovery filter of the request: long discriminator, short discriminator, vendor.\<close>

definition network_filter ::
  "u64 option \<Rightarrow> u64 option \<Rightarrow> (u16 option \<times> u8 option \<times> u16 option) command_result" where
  "network_filter filter_type filt =
     (if filter_type = Some 1 then
        and_then (ok_or (invalid ''filter required for filter_type 1 (short discriminator)'') filt)
          (\<lambda>f. and_then (narrow f ''filter (short discriminator)'') (\<lambda>s. Ok (None, Some s, None)))
      else if filter_type = Some 2 then
        and_then (ok_or (invalid ''filter required for filter_type 2 (long discriminator)'') filt)
          (\<lambda>f. and_then (narrow f ''filter (long discriminator)'') (\<lambda>l. Ok (Some l, None, None)))
      else if filter_type = Some 3 then
        and_then (ok_or (invalid ''filter required for filter_type 3 (vendor ID)'') filt)
          (\<lambda>f. and_then (narrow f ''filter (vendor ID)'') (\<lambda>v. Ok (None, None, Some v)))
      else Ok (None, None, None))"

definition network_target :: "jmap \<Rightarrow> pase_target command_result" where
  "network_target args =
     and_then (ok_or (invalid ''No passcode provided'') (opt_u64 args ''setup_pin_code'')) (\<lambda>p.
     and_then (narrow p ''setup_pin_code'') (\<lambda>passcode.
     and_then (network_filter (opt_u64 args ''filter_type'') (opt_u64 args ''filter''))
       (\<lambda>(long, short, vendor).
          Ok (case opt_str args ''ip_addr'' of
                Some ip \<Rightarrow>
                  if starts_with ''fe80'' ip then OnNetwork passcode long short vendor
                  else Address passcode (ip @ '':5540'')
              | None \<Rightarrow> OnNetwork passcode long short vendor))))"

definition commission_on_network ::
  "'w env \<Rightarrow> jmap \<Rightarrow> 'w ctrl \<Rightarrow> (json command_result \<times> 'w ctrl) option" where
  "commission_on_network env args c =
     (case network_target args of
        Err e \<Rightarrow> Some (Err e, c)
      | Ok target \<Rightarrow> do_commission env target c)"

definition open_commissioning_window :: "'w command" where
  "open_commissioning_window env args =
     with_node args (\<lambda>n.
       try_arg (opt_u64_strict env args ''timeout'') (\<lambda>t.
       try_arg (narrow (case t of None \<Rightarrow> 300 | Some v \<Rightarrow> v) ''timeout'') (\<lambda>timeout :: u16.
       try_call (st_open_commissioning_window (ev_stack env) n timeout) (stack_err SdkStackError)
         (\<lambda>info c.
            (Ok (jobject [(''setup_pin_code'', junsigned (wi_setup_pin_code info)),
                          (''setup_manual_code'', JStr (wi_setup_manual_code info)),
                          (''setup_qr_code'', JStr (wi_setup_qr_code info))]), c)))))"

definition discovered_json :: "discovered_device \<Rightarrow> json" where
  "discovered_json d =
     (let (ip, port) = split_ip_port (dd_address d)
      in commissionable_node_data_json
           \<lparr>cn_instance_name = Some (dd_instance_name d), cn_host_name = ''000000000000'',
            cn_port = port, cn_long_discriminator = None, cn_vendor_id = -1, cn_product_id = -1,
            cn_commissioning_mode = 1, cn_device_type = None, cn_device_name = None,
            cn_pairing_instruction = None, cn_pairing_hint = 0,
            cn_mrp_retry_interval_idle = None, cn_mrp_retry_interval_active = None,
            cn_supports_tcp = False, cn_addresses = [ip], cn_rotating_id = None\<rparr>)"

definition discover :: "'w command" where
  "discover env args =
     try_call (st_browse_commissionable (ev_stack env) 3000) (stack_err SdkStackError)
       (\<lambda>devices c. (Ok (JArr (map discovered_json devices)), c))"

subsection \<open>\<open>credentials.rs\<close>\<close>

definition persist_err :: "'w env \<Rightarrow> io_error \<Rightarrow> command_error" where
  "persist_err env e =
     command_error_new UnknownError (''could not persist config.json: '' @ ev_show_io env e)"

text \<open>
  The common end of the four credential commands: update, fail if the change could not be
  written, announce.
\<close>

definition store_config :: "'w env \<Rightarrow> (config_data \<Rightarrow> config_data) \<Rightarrow> 'w ctrl \<Rightarrow> json command_result \<times> 'w ctrl" where
  "store_config env f c =
     (case update_config (\<lambda>cfg. ((), f cfg)) c of
        ((_, Err e), c) \<Rightarrow> (Err (persist_err env e), c)
      | ((_, Ok _), c) \<Rightarrow> (Ok (JObj []), broadcast_server_info_updated c))"

definition id_arg :: "jmap \<Rightarrow> rstring" where
  "id_arg args = (case opt_str args ''id'' of None \<Rightarrow> ''default'' | Some i \<Rightarrow> i)"

text \<open>The password to store: the given one, or the stored one of an unchanged SSID.\<close>

definition wifi_password :: "config_data \<Rightarrow> rstring \<Rightarrow> rstring \<Rightarrow> rstring \<Rightarrow> rstring command_result" where
  "wifi_password cfg i ssid credentials =
     (if credentials \<noteq> [] then Ok credentials
      else (case om_get (cfg_wifi_credentials cfg) i of
              Some existing \<Rightarrow>
                if wc_ssid existing = ssid then Ok (wc_password existing)
                else Err (invalid ''WiFi password is required (omit it only to keep the existing password for an unchanged SSID)'')
            | None \<Rightarrow> Err (invalid ''WiFi password is required (omit it only to keep the existing password for an unchanged SSID)'')))"

definition set_wifi :: "'w command" where
  "set_wifi env args =
     try_arg (require_str args ''ssid'') (\<lambda>ssid c.
       let credentials = (case opt_str args ''credentials'' of None \<Rightarrow> [] | Some s \<Rightarrow> s);
           i = id_arg args;
           cfg = config_snapshot c
       in try_arg (map_err invalid (validate_credential_id i (om_keys (cfg_wifi_credentials cfg)))) (\<lambda>_.
          try_arg (wifi_password cfg i ssid credentials) (\<lambda>password.
            store_config env (\<lambda>cfg. cfg\<lparr>cfg_wifi_credentials :=
              om_insert i \<lparr>wc_ssid = ssid, wc_password = password\<rparr> (cfg_wifi_credentials cfg)\<rparr>))) c)"

definition set_thread :: "'w command" where
  "set_thread env args =
     try_arg (require_str args ''dataset'') (\<lambda>dataset.
     try_arg (map_err invalid (validate_thread_dataset dataset)) (\<lambda>_ c.
       let i = id_arg args;
           cfg = config_snapshot c
       in try_arg (map_err invalid (validate_credential_id i (om_keys (cfg_thread_datasets cfg)))) (\<lambda>_.
            store_config env (\<lambda>cfg. cfg\<lparr>cfg_thread_datasets := om_insert i dataset (cfg_thread_datasets cfg)\<rparr>)) c))"

definition remove_wifi :: "'w command" where
  "remove_wifi env args =
     store_config env (\<lambda>cfg. cfg\<lparr>cfg_wifi_credentials := om_remove (id_arg args) (cfg_wifi_credentials cfg)\<rparr>)"

definition remove_thread :: "'w command" where
  "remove_thread env args =
     store_config env (\<lambda>cfg. cfg\<lparr>cfg_thread_datasets := om_remove (id_arg args) (cfg_thread_datasets cfg)\<rparr>)"

text \<open>\<open>u8::from_str_radix(pair, 16)\<close>, which also takes a plus sign before a digit\<close>

definition hex_value :: "char \<Rightarrow> nat option" where
  "hex_value ch =
     (if is_digit ch then Some (byte ch - 48)
      else if 97 \<le> byte ch \<and> byte ch \<le> 102 then Some (byte ch - 87)
      else if 65 \<le> byte ch \<and> byte ch \<le> 70 then Some (byte ch - 55)
      else None)"

definition hex_byte :: "char \<Rightarrow> char \<Rightarrow> u8 option" where
  "hex_byte a b =
     (if a = CHR ''+'' then map_option of_nat (hex_value b)
      else Option.bind (hex_value a) (\<lambda>h. map_option (\<lambda>l. of_nat (16 * h + l)) (hex_value b)))"

text \<open>
  The byte pairs of a hex string. The outer \<open>None\<close> is a panic: slicing past the end of an odd
  string, or inside a multi-byte character. An invalid pair ends the iteration with an error.
\<close>

fun hex_pairs :: "rstring \<Rightarrow> bytes option option" where
  "hex_pairs [] = Some (Some [])"
| "hex_pairs [_] = None"
| "hex_pairs (a # b # rest) =
     (if rest \<noteq> [] \<and> is_continuation (hd rest) then None
      else (case hex_byte a b of
              None \<Rightarrow> Some None
            | Some v \<Rightarrow> map_option (map_option ((#) v)) (hex_pairs rest)))"

text \<open>\<open>std::str::from_utf8\<close>: well-formed UTF-8\<close>

definition cont :: "nat \<Rightarrow> bool" where "cont n \<longleftrightarrow> 0x80 \<le> n \<and> n \<le> 0xBF"

fun utf8_valid :: "nat list \<Rightarrow> bool" where
  "utf8_valid [] = True"
| "utf8_valid (a # s) =
     (if a < 0x80 then utf8_valid s
      else (case s of
              [] \<Rightarrow> False
            | b # s1 \<Rightarrow>
                if 0xC2 \<le> a \<and> a \<le> 0xDF then cont b \<and> utf8_valid s1
                else (case s1 of
                        [] \<Rightarrow> False
                      | d # s2 \<Rightarrow>
                          if 0xE0 \<le> a \<and> a \<le> 0xEF
                          then (if a = 0xE0 then 0xA0 \<le> b \<and> b \<le> 0xBF
                                else if a = 0xED then 0x80 \<le> b \<and> b \<le> 0x9F else cont b)
                               \<and> cont d \<and> utf8_valid s2
                          else (case s2 of
                                  [] \<Rightarrow> False
                                | e # s3 \<Rightarrow>
                                    (if a = 0xF0 then 0x90 \<le> b \<and> b \<le> 0xBF
                                     else if a = 0xF4 then 0x80 \<le> b \<and> b \<le> 0x8F
                                     else 0xF1 \<le> a \<and> a \<le> 0xF3 \<and> cont b)
                                    \<and> cont d \<and> cont e \<and> utf8_valid s3))))"

definition hex_digit_upper :: "nat \<Rightarrow> char" where
  "hex_digit_upper n = (if n < 10 then char_of (48 + n) else char_of (55 + n))"

definition hex_upper :: "u8 \<Rightarrow> rstring" where
  "hex_upper b = [hex_digit_upper (unat b div 16), hex_digit_upper (unat b mod 16)]"

text \<open>The walk over type, length, value triples; a value cut short ends it.\<close>

function thread_walk :: "bytes \<Rightarrow> rstring option \<times> rstring option \<Rightarrow> rstring option \<times> rstring option" where
  "thread_walk bs acc =
     (case bs of
        t # l # rest \<Rightarrow>
          if length rest < unat l then acc
          else let v = take (unat l) rest
               in thread_walk (drop (unat l) rest)
                    (if t = 3 then
                       (if utf8_valid (map unat v) then Some (map (\<lambda>b. char_of (unat b)) v) else None, snd acc)
                     else if t = 2 then (fst acc, Some (concat (map hex_upper v)))
                     else acc)
      | _ \<Rightarrow> acc)"
  by pat_completeness auto
termination by (relation "measure (\<lambda>(bs, _). length bs)") auto

declare thread_walk.simps [simp del]

definition thread_dataset_info :: "rstring \<Rightarrow> (rstring option \<times> rstring option) option" where
  "thread_dataset_info hex =
     map_option (\<lambda>r. case r of None \<Rightarrow> (None, None) | Some bs \<Rightarrow> thread_walk bs (None, None)) (hex_pairs hex)"

definition thread_entry :: "rstring \<times> rstring \<Rightarrow> json option" where
  "thread_entry = (\<lambda>(i, dataset).
     map_option (\<lambda>(name, xpan). jobject ([(''id'', JStr i)] @ opt_field ''networkName'' JStr name
                                        @ opt_field ''extPanId'' JStr xpan))
       (thread_dataset_info dataset))"

definition get_all :: "'w env \<Rightarrow> jmap \<Rightarrow> 'w ctrl \<Rightarrow> (json command_result \<times> 'w ctrl) option" where
  "get_all env args c =
     (let cfg = config_snapshot c;
          wifi = map (\<lambda>(i, cred). jobject [(''id'', JStr i), (''ssid'', JStr (wc_ssid cred))])
                   (cfg_wifi_credentials cfg);
          wifi = (if om_contains (cfg_wifi_credentials cfg) ''default'' then wifi
                  else jobject [(''id'', JStr ''default''), (''ssid'', JStr [])] # wifi)
      in map_option (\<lambda>thread.
           let thread = (if om_contains (cfg_thread_datasets cfg) ''default'' then thread
                         else jobject [(''id'', JStr ''default'')] # thread)
           in (Ok (jobject [(''wifi'', JArr wifi), (''thread'', JArr thread)]), c))
         (those (map thread_entry (cfg_thread_datasets cfg))))"

subsection \<open>\<open>fabrics.rs\<close>\<close>

text \<open>The label goes to the stack; a claim just made is given back when that fails.\<close>

definition apply_label :: "bool \<Rightarrow> u64 \<Rightarrow> 'w command" where
  "apply_label claimed_fresh conn env args c =
     (let label = normalize_fabric_label (Option.bind (om_get args ''label'') as_str)
      in case call (st_update_fabric_label (ev_stack env) label) c of
           (Ok _, c) \<Rightarrow>
             (Ok JNull, snd (update_config (\<lambda>cfg. ((), cfg\<lparr>cfg_fabric_label := label\<rparr>)) c))
         | (Err e, c) \<Rightarrow>
             (Err (command_error_new SdkStackError (se_message e)),
              if claimed_fresh \<and> ct_label_owner c = Some conn then c\<lparr>ct_label_owner := None\<rparr> else c))"

text \<open>
  The first connection to set the label owns it until it closes; while another owns it, or the
  label is pinned, the command answers success and does nothing.
\<close>

definition set_default_fabric_label :: "u64 \<Rightarrow> 'w command" where
  "set_default_fabric_label conn env args c =
     (if ct_label_locked c then (Ok JNull, c)
      else case ct_label_owner c of
             Some other \<Rightarrow>
               if other \<noteq> conn then (Ok JNull, c)
               else apply_label False conn env args c
           | None \<Rightarrow> apply_label True conn env args (c\<lparr>ct_label_owner := Some conn\<rparr>))"

definition get_fabric_label :: "'w command" where
  "get_fabric_label env args c =
     (Ok (jobject [(''fabric_label'', JStr (cfg_fabric_label (config_snapshot c)))]), c)"

definition fabric_json :: "device_fabric \<Rightarrow> json" where
  "fabric_json f =
     matter_fabric_data_json
       \<lparr>mf_fabric_id = df_fabric_id f, mf_vendor_id = df_vendor_id f,
        mf_fabric_index = df_fabric_index f, mf_fabric_label = Some (df_fabric_label f),
        mf_vendor_name = vendor_name (df_vendor_id f)\<rparr>"

definition get_matter_fabrics :: "'w command" where
  "get_matter_fabrics env args =
     with_node args (\<lambda>n.
       try_call (st_device_fabrics (ev_stack env) n)
         (\<lambda>_. command_error_new SdkStackError ''No or invalid response received while querying fabrics'')
         (\<lambda>fabrics c. (Ok (JArr (map fabric_json fabrics)), c)))"

definition remove_matter_fabric :: "'w command" where
  "remove_matter_fabric env args =
     with_node args (\<lambda>n.
       try_arg (require_u64 args ''fabric_index'') (\<lambda>i.
       try_arg (narrow i ''fabric_index'') (\<lambda>index :: u8.
       try_call (st_remove_device_fabric (ev_stack env) n index) (stack_err SdkStackError)
         (\<lambda>_ c. (Ok (JObj []), c)))))"

definition map_acl_target :: "json \<Rightarrow> json" where
  "map_acl_target target =
     (let field = (\<lambda>key. case jget target key of None \<Rightarrow> JNull | Some v \<Rightarrow> v)
      in jobject [(''0'', field ''cluster''), (''1'', field ''endpoint''), (''2'', field ''device_type'')])"

text \<open>The subjects of an entry without the node itself; \<open>None\<close> drops the entry.\<close>

definition map_acl_subjects :: "u64 \<Rightarrow> json option \<Rightarrow> json option" where
  "map_acl_subjects n v =
     (case v of
        None \<Rightarrow> Some JNull
      | Some (JArr subjects) \<Rightarrow>
          (let filtered = filter (\<lambda>s. as_u64 s \<noteq> Some n) subjects
           in if filtered = [] then None else Some (JArr filtered))
      | Some other \<Rightarrow> Some other)"

definition map_acl_targets :: "json option \<Rightarrow> json" where
  "map_acl_targets v =
     (case v of
        None \<Rightarrow> JNull
      | Some (JArr targets) \<Rightarrow> JArr (map map_acl_target targets)
      | Some other \<Rightarrow> other)"

definition map_acl_entry :: "u64 \<Rightarrow> json \<Rightarrow> json option" where
  "map_acl_entry n entry =
     Option.bind (as_object entry) (\<lambda>obj.
     Option.bind (map_acl_subjects n (om_get obj ''subjects'')) (\<lambda>subjects.
       Some (jobject (opt_field ''1'' id (om_get obj ''privilege'')
                      @ opt_field ''2'' id (om_get obj ''auth_mode'')
                      @ [(''3'', subjects), (''4'', map_acl_targets (om_get obj ''targets''))]))))"

text \<open>The reply both attribute-writing commands share\<close>

definition write_reply :: "u16 \<Rightarrow> u32 \<Rightarrow> u8 \<Rightarrow> json" where
  "write_reply endpoint cluster status =
     JArr [jobject [(''path'', jobject [(''endpoint_id'', junsigned endpoint),
                                        (''cluster_id'', junsigned cluster),
                                        (''attribute_id'', junsigned (0 :: u32))]),
                    (''status'', junsigned status)]]"

definition set_acl_entry :: "'w command" where
  "set_acl_entry env args =
     with_node args (\<lambda>n.
       try_arg (ok_or (missing ''entry'') (Option.bind (om_get args ''entry'') as_array)) (\<lambda>entries.
       try_call (st_write_attribute (ev_stack env) n 0 31 0 (JArr (List.map_filter (map_acl_entry n) entries)))
         (stack_err SdkStackError) (\<lambda>status c. (Ok (write_reply 0 31 status), c))))"

definition map_binding :: "json \<Rightarrow> json" where
  "map_binding binding =
     (let put = (\<lambda>tag key. case jget binding key of
                   None \<Rightarrow> [] | Some v \<Rightarrow> if is_null v then [] else [(tag, v)])
      in jobject (put ''1'' ''node'' @ put ''2'' ''group'' @ put ''3'' ''endpoint'' @ put ''4'' ''cluster''))"

definition set_node_binding :: "'w command" where
  "set_node_binding env args =
     with_node args (\<lambda>n.
       try_arg (require_u64 args ''endpoint'') (\<lambda>ep.
       try_arg (narrow ep ''endpoint'') (\<lambda>endpoint :: u16.
       try_arg (ok_or (missing ''bindings'') (Option.bind (om_get args ''bindings'') as_array)) (\<lambda>bindings.
       try_call (st_write_attribute (ev_stack env) n endpoint 30 0 (JArr (map map_binding bindings)))
         (stack_err SdkStackError) (\<lambda>status c. (Ok (write_reply endpoint 30 status), c))))))"

end
