(* ===== verification/Dispatch.thy ===== *)
theory Dispatch
  imports NodeCommands AdminCommands
begin

section \<open>Dispatch (\<open>MatterController::handle_command\<close>)\<close>

text \<open>
  The command table. \<open>None\<close> is a command that never answers; only the two commissioning
  commands (the node id search) and \<open>get_all_credentials\<close> (a slice that may panic) have that
  branch.
\<close>

definition handle_command ::
  "'w env \<Rightarrow> u64 \<Rightarrow> command_message \<Rightarrow> 'w ctrl \<Rightarrow> (json command_result \<times> 'w ctrl) option" where
  "handle_command env conn cmd c =
     (let args = cm_args cmd;
          cmd_name = cm_command cmd
      in if cmd_name = ''server_info'' then Some (Ok (server_info_message_json (build_server_info c)), c)
         else if cmd_name = ''start_listening'' then Some (get_nodes env [] c)
         else if cmd_name = ''get_nodes'' then Some (get_nodes env args c)
         else if cmd_name = ''get_node'' then Some (get_node env args c)
         else if cmd_name = ''diagnostics'' then Some (diagnostics env args c)
         else if cmd_name = ''interview_node'' then Some (interview_node env args c)
         else if cmd_name = ''remove_node'' then Some (remove_node env args c)
         else if cmd_name = ''ping_node'' then Some (ping_node env args c)
         else if cmd_name = ''get_node_ip_addresses'' then Some (get_node_ip_addresses env args c)
         else if cmd_name = ''read_attribute'' then Some (read_attribute env args c)
         else if cmd_name = ''write_attribute'' then Some (write_attribute env args c)
         else if cmd_name = ''device_command'' then Some (device_command env args c)
         else if cmd_name = ''commission_with_code'' then commission_with_code env args c
         else if cmd_name = ''commission_on_network'' then commission_on_network env args c
         else if cmd_name = ''open_commissioning_window'' then Some (open_commissioning_window env args c)
         else if cmd_name = ''discover'' \<or> cmd_name = ''discover_commissionable_nodes'' then Some (discover env args c)
         else if cmd_name = ''set_wifi_credentials'' then Some (set_wifi env args c)
         else if cmd_name = ''set_thread_dataset'' then Some (set_thread env args c)
         else if cmd_name = ''remove_wifi_credentials'' then Some (remove_wifi env args c)
         else if cmd_name = ''remove_thread_dataset'' then Some (remove_thread env args c)
         else if cmd_name = ''get_all_credentials'' then get_all env args c
         else if cmd_name = ''set_default_fabric_label'' then Some (set_default_fabric_label conn env args c)
         else if cmd_name = ''get_fabric_label'' then Some (get_fabric_label env args c)
         else if cmd_name = ''get_matter_fabrics'' then Some (get_matter_fabrics env args c)
         else if cmd_name = ''remove_matter_fabric'' then Some (remove_matter_fabric env args c)
         else if cmd_name = ''set_acl_entry'' then Some (set_acl_entry env args c)
         else if cmd_name = ''set_node_binding'' then Some (set_node_binding env args c)
         else if cmd_name = ''get_vendor_names'' then Some (get_vendor_names env args c)
         else if cmd_name = ''get_loglevel'' then Some (get_loglevel env args c)
         else if cmd_name = ''set_loglevel'' then Some (set_loglevel env args c)
         else if cmd_name \<in> {''get_icd_state'', ''register_icd'', ''unregister_icd''} then Some (icd_state env args c)
         else if cmd_name = ''resync_icd'' then Some (resync_icd env args c)
         else if cmd_name = ''check_node_update'' then Some (check_node_update env args c)
         else if cmd_name = ''update_node'' then Some (update_node env args c)
         else Some (Err (command_error_new InvalidCommand (''Unknown command: '' @ cmd_name)), c))"

end
