(* ===== verification/Commands_Frame.thy ===== *)
theory Commands_Frame
  imports Dispatch NodeManager_Facts
begin

section \<open>What the commands change and what they leave alone\<close>

text \<open>
  Case rules for the combinators of the handlers (as splits, so that \<open>auto\<close> walks through
  every early return), the commands that touch nothing but the stack, and the lemma that every
  command announces what it does to the registry.
\<close>

lemma try_call_split:
  "P (try_call f conv k c) \<longleftrightarrow>
     (\<forall>e w. f (ct_world c) = (Inl e, w) \<longrightarrow> P (Inl (conv e), c\<lparr>ct_world := w\<rparr>)) \<and>
     (\<forall>a w. f (ct_world c) = (Inr a, w) \<longrightarrow> P (k a (c\<lparr>ct_world := w\<rparr>)))"
proof (cases "f (ct_world c)")
  case (Pair r w)
  then show ?thesis by (cases r) (simp_all add: try_call_def call_def)
qed

lemma with_node_split:
  "P (with_node args k c) \<longleftrightarrow>
     (\<forall>e. require_u64 args ''node_id'' = Inl e \<longrightarrow> P (Inl e, c)) \<and>
     (\<forall>n. require_u64 args ''node_id'' = Inr n \<longrightarrow>
        (\<not> registry_contains (sh_registry c) n \<longrightarrow>
           P (Inl (command_error_new NodeNotExists (''Node '' @ dec_of n @ '' does not exist'')), c)) \<and>
        (registry_contains (sh_registry c) n \<longrightarrow> P (k n c)))"
  by (cases "require_u64 args ''node_id''") (auto simp: with_node_def ensure_node_def)

lemmas command_splits = with_node_split try_call_split try_arg_split

text \<open>A command that calls the stack and changes nothing else\<close>

definition only_world :: "'w ctrl \<Rightarrow> 'w ctrl \<Rightarrow> bool" where
  "only_world c c' \<longleftrightarrow> (\<exists>w. c' = c\<lparr>ct_world := w\<rparr>)"

lemma only_world_refl [simp]: "only_world c c"
  by (auto simp: only_world_def intro: exI[of _ "ct_world c"])

lemma only_world_upd [simp]: "only_world c (c\<lparr>ct_world := w\<rparr>)"
  by (auto simp: only_world_def)

lemma merged_addresses_only_world: "only_world c (snd (merged_addresses env n c))"
  by (auto simp: merged_addresses_def call_def Let_def split: prod.splits)

lemma only_world_commands:
  "only_world c (snd (get_nodes env args c))"
  "only_world c (snd (get_node env args c))"
  "only_world c (snd (diagnostics env args c))"
  "only_world c (snd (ping_node env args c))"
  "only_world c (snd (get_node_ip_addresses env args c))"
  "only_world c (snd (read_attribute env args c))"
  "only_world c (snd (write_attribute env args c))"
  "only_world c (snd (device_command env args c))"
  "only_world c (snd (get_vendor_names env args c))"
  "only_world c (snd (get_loglevel env args c))"
  "only_world c (snd (icd_state env args c))"
  "only_world c (snd (resync_icd env args c))"
  "only_world c (snd (check_node_update env args c))"
  "only_world c (snd (update_node env args c))"
  "only_world c (snd (open_commissioning_window env args c))"
  "only_world c (snd (discover env args c))"
  "only_world c (snd (get_fabric_label env args c))"
  "only_world c (snd (get_matter_fabrics env args c))"
  "only_world c (snd (remove_matter_fabric env args c))"
  "only_world c (snd (set_acl_entry env args c))"
  "only_world c (snd (set_node_binding env args c))"
  using merged_addresses_only_world[of c env]
  by (auto simp: get_nodes_def get_node_def diagnostics_def ping_node_def get_node_ip_addresses_def
      read_attribute_def write_attribute_def device_command_def get_vendor_names_def
      get_loglevel_def icd_state_def resync_icd_def check_node_update_def update_node_def
      open_commissioning_window_def discover_def get_fabric_label_def get_matter_fabrics_def
      remove_matter_fabric_def set_acl_entry_def set_node_binding_def Let_def
      split: command_splits prod.splits option.splits) (metis snd_conv)+

lemma get_all_state: "get_all env args c = Some (r, c') \<Longrightarrow> c' = c"
  by (auto simp: get_all_def Let_def)

subsection \<open>The commands that change the state\<close>

lemma update_config_simps [simp]:
  "sh_registry (snd (update_config f c)) = sh_registry c"
  "sh_events (snd (update_config f c)) = sh_events c"
  "sh_history (snd (update_config f c)) = sh_history c"
  "sh_pid (snd (update_config f c)) = sh_pid c"
  "ct_world (snd (update_config f c)) = ct_world c"
  "ct_identity (snd (update_config f c)) = ct_identity c"
  "ct_label_owner (snd (update_config f c)) = ct_label_owner c"
  "ct_label_locked (snd (update_config f c)) = ct_label_locked c"
  "ct_config (snd (update_config f c)) = snd (f (ct_config c))"
  "fst (fst (update_config f c)) = fst (f (ct_config c))"
  "sh_fs (snd (update_config f c)) = snd (save_config (sh_pid c) (snd (f (ct_config c))) (sh_fs c))"
  "snd (fst (update_config f c)) = fst (save_config (sh_pid c) (snd (f (ct_config c))) (sh_fs c))"
  by (simp_all add: update_config_def config_snapshot_def Let_def split: prod.splits)

lemma send_event_ctrl [simp]:
  "ct_config (send_event nm d c) = ct_config c" "ct_world (send_event nm d c) = ct_world c"
  "ct_identity (send_event nm d c) = ct_identity c"
  "ct_label_owner (send_event nm d c) = ct_label_owner c"
  "ct_label_locked (send_event nm d c) = ct_label_locked c"
  by (simp_all add: send_event_def)

lemma broadcast_simps [simp]:
  "sh_registry (broadcast_server_info_updated c) = sh_registry c"
  "ct_config (broadcast_server_info_updated c) = ct_config c"
  "sh_fs (broadcast_server_info_updated c) = sh_fs c"
  "sh_pid (broadcast_server_info_updated c) = sh_pid c"
  "ct_identity (broadcast_server_info_updated c) = ct_identity c"
  "ct_label_owner (broadcast_server_info_updated c) = ct_label_owner c"
  by (simp_all add: broadcast_server_info_updated_def)

text \<open>
  \<open>quiet\<close>: the registry is as before and any new broadcast is one a node view ignores.
\<close>

definition quiet :: "'w ctrl \<Rightarrow> 'w ctrl \<Rightarrow> bool" where
  "quiet c c' \<longleftrightarrow> sh_registry c' = sh_registry c \<and> sh_history c' = sh_history c \<and>
     (\<exists>d. sh_events c' = sh_events c \<or> sh_events c' = sh_events c @ [\<lparr>ev_event = ''server_info_updated'', ev_data = d\<rparr>])"

lemma quiet_announced: "quiet c c' \<Longrightarrow> announced c c'"
  by (auto simp: quiet_def announced_def client_apply_def)

lemma only_world_quiet: "only_world c c' \<Longrightarrow> quiet c c'"
  by (auto simp: only_world_def quiet_def)

lemma store_config_result:
  "store_config env f c =
     (case fst (save_config (sh_pid c) (f (ct_config c)) (sh_fs c)) of
        Inl e \<Rightarrow> (Inl (persist_err env e), snd (update_config (\<lambda>cfg. ((), f cfg)) c))
      | Inr _ \<Rightarrow> (Inr (JObj []), broadcast_server_info_updated (snd (update_config (\<lambda>cfg. ((), f cfg)) c))))"
proof (cases "update_config (\<lambda>cfg. ((), f cfg)) c")
  case (Pair rp c')
  then have "snd rp = fst (save_config (sh_pid c) (f (ct_config c)) (sh_fs c))"
    using update_config_simps(12)[of "\<lambda>cfg. ((), f cfg)" c] by simp
  with Pair show ?thesis by (cases rp; cases "snd rp") (simp_all add: store_config_def)
qed

lemma store_config_quiet: "quiet c (snd (store_config env f c))"
  by (auto simp: store_config_result quiet_def broadcast_server_info_updated_def split: sum.splits)

lemma set_default_fabric_label_quiet: "quiet c (snd (set_default_fabric_label conn env args c))"
  by (auto simp: set_default_fabric_label_def apply_label_def call_def quiet_def Let_def
      split: option.splits prod.splits sum.splits)

lemma credential_commands_quiet:
  "quiet c (snd (set_wifi env args c))" "quiet c (snd (set_thread env args c))"
  "quiet c (snd (remove_wifi env args c))" "quiet c (snd (remove_thread env args c))"
  using only_world_quiet[OF only_world_refl, of c]
  by (auto simp: set_wifi_def set_thread_def remove_wifi_def remove_thread_def Let_def
      store_config_quiet split: try_arg_split)

lemma set_loglevel_quiet: "quiet c (snd (set_loglevel env args c))"
  by (auto simp: set_loglevel_def get_loglevel_def quiet_def Let_def split: prod.splits)

lemma registry_ok_store_interview [wf_intros]:
  "registry_ok m \<Longrightarrow> registry_ok (store_interview n attributes now m)"
  by (auto simp: store_interview_def intro!: registry_ok_with_entry)

lemma interview_node_announced:
  assumes "registry_ok (sh_registry c)"
  shows "announced c (snd (interview_node env args c))
       \<and> registry_ok (sh_registry (snd (interview_node env args c)))"
proof -
  have "announced c (emit_node_updated n (persist n
      (c\<lparr>ct_world := w, sh_registry := store_interview n attributes now (sh_registry c)\<rparr>)))" for n w attributes now
    by (rule emit_announces)
       (auto simp: store_interview_def with_entry_get intro!: registry_ok_with_entry assms)
  then show ?thesis
    using assms only_world_quiet[THEN quiet_announced, of c]
    by (auto simp: interview_node_def intro: wf_intros split: with_node_split try_call_split)
qed

lemma remove_node_state:
  assumes "registry_contains (sh_registry c) n" and "require_u64 args ''node_id'' = Inr n"
  shows "fst (remove_node env args c) = Inr JNull"
    and "sh_registry (snd (remove_node env args c)) = om_remove n (sh_registry c)"
    and "sh_events (snd (remove_node env args c)) = sh_events c @ [\<lparr>ev_event = ''node_removed'', ev_data = junsigned n\<rparr>]"
    and "sh_fs (snd (remove_node env args c)) = snd (delete_node n (sh_fs c))"
    and "ct_config (snd (remove_node env args c)) = ct_config c"
  using assms by (simp_all add: remove_node_def call_def Let_def registry_remove_def
      split: with_node_split prod.splits)

lemma remove_node_announced:
  assumes "registry_ok (sh_registry c)"
  shows "announced c (snd (remove_node env args c))
       \<and> registry_ok (sh_registry (snd (remove_node env args c)))"
proof (cases "\<exists>n. require_u64 args ''node_id'' = Inr n \<and> registry_contains (sh_registry c) n")
  case True
  then obtain n where n: "registry_contains (sh_registry c) n" "require_u64 args ''node_id'' = Inr n"
    by blast
  have "(served_view (sh_registry c))(n := None) = served_view (om_remove n (sh_registry c))"
    by (rule ext) (simp add: served_view_def om_get_remove)
  then show ?thesis
    using remove_node_state[OF n, of env] registry_ok_remove[OF assms, of n]
    by (auto simp: announced_def client_apply_def registry_remove_def)
next
  case False
  then have "snd (remove_node env args c) = c"
    unfolding remove_node_def by (auto split: with_node_split)
  with assms show ?thesis by auto
qed

lemma finish_commission_announced:
  assumes "registry_ok (sh_registry c)"
  shows "announced c (snd (finish_commission env n outcome c))
       \<and> registry_ok (sh_registry (snd (finish_commission env n outcome c)))"
proof (cases "st_interview (ev_stack env) n (ct_world c)")
  case (Pair r w)
  show ?thesis
  proof (cases r)
    case (Inl e)
    with Pair assms show ?thesis
      by (auto simp: finish_commission_def call_def split: prod.splits intro!: announced_silent)
  next
    case (Inr attributes)
    have "(served_view (sh_registry c))(n \<mapsto> (False, om_of_list attributes)) =
        served_view (registry_insert r (sh_registry c))"
      if "nr_node_id r = n" "nr_attributes r = om_of_list attributes" for r
      using that by (intro ext) (auto simp: served_view_def registry_insert_def om_get_insert new_entry_def)
    then show ?thesis using Pair Inr assms
      by (auto simp: finish_commission_def call_def announced_def client_apply_def view_of_node_data
          node_data_def registry_insert_def om_get_insert new_entry_def entry_data_def build_node_data_def
          registry_ok_def om_ok_insert Let_def intro!: ext)
  qed
qed

lemma do_commission_cases:
  assumes "do_commission env target c = Some (r, c')"
  obtains n cfg' c1 where
    "allocate_node_id (ct_config c) (node_id_in_use c) = Some (n, cfg')"
    "c1 = snd (update_config (\<lambda>_. (n, cfg')) c)"
    "(r, c') = try_call (st_commission (ev_stack env) \<lparr>cr_node_id = n, cr_target = target,
        cr_fabric_label = cfg_fabric_label cfg'\<rparr>) commission_failed (finish_commission env n) c1"
  using assms that
  by (auto simp: do_commission_def config_snapshot_def update_config_def Let_def split: option.splits prod.splits)

lemma do_commission_announced:
  assumes "registry_ok (sh_registry c)" and "do_commission env target c = Some (r, c')"
  shows "announced c c' \<and> registry_ok (sh_registry c')"
  using assms(2)
proof (cases rule: do_commission_cases)
  case (1 n cfg' c1)
  have q: "sh_registry c1 = sh_registry c" "sh_events c1 = sh_events c" using 1(2) by simp_all
  have "announced c (snd (finish_commission env n a (c1\<lparr>ct_world := w\<rparr>)))
      \<and> registry_ok (sh_registry (snd (finish_commission env n a (c1\<lparr>ct_world := w\<rparr>))))" for a w
    using finish_commission_announced[of "c1\<lparr>ct_world := w\<rparr>" env n a] assms(1) q
    by (auto simp: announced_def)
  then show ?thesis
    using 1(3) q assms(1) announced_silent[of "c1\<lparr>ct_world := _\<rparr>" c]
    by (cases "st_commission (ev_stack env) \<lparr>cr_node_id = n, cr_target = target,
        cr_fabric_label = cfg_fabric_label cfg'\<rparr> (ct_world c1)"; cases "fst (st_commission (ev_stack env)
        \<lparr>cr_node_id = n, cr_target = target, cr_fabric_label = cfg_fabric_label cfg'\<rparr> (ct_world c1))")
       (auto simp: try_call_def call_def, (metis snd_conv)+)
qed

lemma quiet_registry: "quiet c c' \<Longrightarrow> registry_ok (sh_registry c) \<Longrightarrow> announced c c' \<and> registry_ok (sh_registry c')"
  by (simp add: quiet_announced) (simp add: quiet_def)

text \<open>The commands grouped by what they may do\<close>

lemma only_world_result: "only_world c (snd p) \<Longrightarrow> p = (r, c') \<Longrightarrow> only_world c c'"
  by auto

lemmas only_world_dests = only_world_commands[THEN only_world_result]

inductive command_effect ::
  "'w env \<Rightarrow> u64 \<Rightarrow> jmap \<Rightarrow> 'w ctrl \<Rightarrow> json command_result \<times> 'w ctrl \<Rightarrow> bool"
  for env conn args c where
  answers: "only_world c c' \<Longrightarrow> command_effect env conn args c (r, c')"
| sets_wifi: "command_effect env conn args c (set_wifi env args c)"
| sets_thread: "command_effect env conn args c (set_thread env args c)"
| removes_wifi: "command_effect env conn args c (remove_wifi env args c)"
| removes_thread: "command_effect env conn args c (remove_thread env args c)"
| sets_label: "command_effect env conn args c (set_default_fabric_label conn env args c)"
| sets_loglevel: "command_effect env conn args c (set_loglevel env args c)"
| interviews: "command_effect env conn args c (interview_node env args c)"
| removes: "command_effect env conn args c (remove_node env args c)"
| commissions: "do_commission env target c = Some p \<Longrightarrow> command_effect env conn args c p"

lemma handle_command_effect:
  assumes "handle_command env conn cmd c = Some (r, c')"
  shows "command_effect env conn (cm_args cmd) c (r, c')"
proof -
  have eff: "f = (r, c') \<Longrightarrow> command_effect env conn (cm_args cmd) c f \<Longrightarrow>
      command_effect env conn (cm_args cmd) c (r, c')" for f by simp
  show ?thesis
    using assms unfolding handle_command_def Let_def commission_with_code_def commission_on_network_def
    by (auto split: if_splits sum.splits dest: get_all_state
        intro: answers[OF only_world_refl] commissions
          answers[OF only_world_dests(1)] answers[OF only_world_dests(2)] answers[OF only_world_dests(3)]
          answers[OF only_world_dests(4)] answers[OF only_world_dests(5)] answers[OF only_world_dests(6)]
          answers[OF only_world_dests(7)] answers[OF only_world_dests(8)] answers[OF only_world_dests(9)]
          answers[OF only_world_dests(10)] answers[OF only_world_dests(11)] answers[OF only_world_dests(12)]
          answers[OF only_world_dests(13)] answers[OF only_world_dests(14)] answers[OF only_world_dests(15)]
          answers[OF only_world_dests(16)] answers[OF only_world_dests(17)] answers[OF only_world_dests(18)]
          answers[OF only_world_dests(19)] answers[OF only_world_dests(20)] answers[OF only_world_dests(21)]
          eff[OF _ sets_wifi] eff[OF _ sets_thread] eff[OF _ removes_wifi] eff[OF _ removes_thread]
          eff[OF _ sets_label] eff[OF _ sets_loglevel] eff[OF _ interviews] eff[OF _ removes])
qed

lemma command_announces:
  assumes "handle_command env conn cmd c = Some (r, c')" and "registry_ok (sh_registry c)"
  shows "announced c c' \<and> registry_ok (sh_registry c')"
proof -
  have "announced c (snd (r, c')) \<and> registry_ok (sh_registry (snd (r, c')))"
    using handle_command_effect[OF assms(1)]
  proof cases
    case answers
    then show ?thesis using assms(2) quiet_registry[OF only_world_quiet] by simp
  next
    case sets_wifi
    then show ?thesis using assms(2) by (metis quiet_registry credential_commands_quiet(1))
  next
    case sets_thread
    then show ?thesis using assms(2) by (metis quiet_registry credential_commands_quiet(2))
  next
    case removes_wifi
    then show ?thesis using assms(2) by (metis quiet_registry credential_commands_quiet(3))
  next
    case removes_thread
    then show ?thesis using assms(2) by (metis quiet_registry credential_commands_quiet(4))
  next
    case sets_label
    then show ?thesis using assms(2) by (metis quiet_registry set_default_fabric_label_quiet)
  next
    case sets_loglevel
    then show ?thesis using assms(2) by (metis quiet_registry set_loglevel_quiet)
  next
    case interviews
    then show ?thesis using assms(2) by (metis interview_node_announced)
  next
    case removes
    then show ?thesis using assms(2) by (metis remove_node_announced)
  next
    case (commissions target)
    then show ?thesis using do_commission_announced[OF assms(2)] by simp
  qed
  then show ?thesis by simp
qed

subsection \<open>An example controller\<close>

definition example_env :: "fake_world env" where
  "example_env =
     \<lparr>ev_stack = fake_stack, ev_show_json = (\<lambda>_. ''json''), ev_show_io = (\<lambda>_. ''io error''),
      ev_show_str = (\<lambda>s. s), ev_now = ''2026-01-01'', ev_ping = (\<lambda>_ _. True), ev_reload = True\<rparr>"

definition example_ctrl :: "fake_world ctrl" where
  "example_ctrl =
     \<lparr>sh_registry = registry_new [example_record], sh_fs = fresh_fs, sh_pid = 1, sh_events = [],
      sh_history = [], ct_world = fake_new, ct_identity = example_identity, ct_fabric_index = 1,
      ct_sdk_version = ''1'', ct_config = default_config, ct_label_locked = False,
      ct_label_owner = None, ct_log = \<lparr>lc_filter = LvInfo, lc_console = ''info'', lc_has_file = False\<rparr>\<rparr>"

definition request :: "rstring \<Rightarrow> jmap \<Rightarrow> command_message" where
  "request nm args = \<lparr>cm_message_id = ''1'', cm_command = nm, cm_args = args\<rparr>"

lemma example_ctrl_ok: "registry_ok (sh_registry example_ctrl)"
  by (simp add: example_ctrl_def registry_ok_new)

end
