(* ===== verification/Admin_Facts.thy ===== *)
theory Admin_Facts
  imports Commands_Frame
begin

section \<open>What commissioning, credentials and fabric commands guarantee\<close>

subsection \<open>Commissioning\<close>

lemma allocate_fresh:
  assumes "allocate_node_id cfg in_use = Some (n, cfg')"
  shows "\<not> in_use n" and "cfg' = cfg\<lparr>cfg_next_node_id := n + 1\<rparr>"
proof -
  have scan: "\<And>c r. scan_free in_use c = Some r \<Longrightarrow> \<not> in_use r"
    by (rule scan_free.raw_induct[rotated]) (auto split: if_splits)
  then show "\<not> in_use n" "cfg' = cfg\<lparr>cfg_next_node_id := n + 1\<rparr>"
    using assms by (auto simp: allocate_node_id_def)
qed

lemma save_config_nodes [frame_simps]: "fs_get (snd (save_config pid c s)) (node_path n) = fs_get s (node_path n)"
  unfolding save_config_def
  by (rule write_json_atomic_frame) (auto simp: node_path_def config_path_def tmp_path_def)

text \<open>What a commissioned node looks like\<close>

definition new_record :: "rstring \<Rightarrow> u64 \<Rightarrow> commission_outcome \<Rightarrow> jmap \<Rightarrow> node_record" where
  "new_record now n outcome attributes =
     \<lparr>nr_node_id = n, nr_date_commissioned = now, nr_last_interview = now,
      nr_device_fabric_index = co_device_fabric_index outcome,
      nr_addresses = [ip_of (co_address outcome)], nr_attributes = om_of_list attributes\<rparr>"

lemma new_record_id [simp]: "nr_node_id (new_record now n outcome attributes) = n"
  by (simp add: new_record_def)

lemma finish_commission_result:
  "finish_commission env n outcome c =
     (case st_interview (ev_stack env) n (ct_world c) of
        (Inl e, w) \<Rightarrow>
          (Inl (commission_failed e),
           c\<lparr>ct_world := snd (st_remove_device_fabric (ev_stack env) n (co_device_fabric_index outcome) w)\<rparr>)
      | (Inr attributes, w) \<Rightarrow>
          let r = new_record (ev_now env) n outcome attributes;
              v = matter_node_data_json (build_node_data r False)
          in (Inr v, (send_event ''node_added'' v
                (c\<lparr>sh_registry := registry_insert r (sh_registry c),
                   sh_fs := snd (save_node (sh_pid c) r (sh_fs c))\<rparr>))
              \<lparr>ct_world := st_start_supervisor (ev_stack env) n w\<rparr>))"
  by (auto simp: finish_commission_def call_def new_record_def node_data_def registry_insert_def
      om_get_insert new_entry_def entry_data_def ip_of_def send_event_def Let_def
      split: prod.splits sum.splits)

text \<open>
  C4: a commissioning that succeeds registers exactly one node: under an id that no registered
  node and not the controller itself had, unavailable until its supervisor connects, with the
  interviewed attributes; its snapshot is the reply and the last broadcast; every other node is
  as before; and the id counter is past it, so it is not handed out again.
\<close>

theorem commission_registers_fresh_node:
  assumes "do_commission env target c = Some (Inr v, c')"
  shows "\<exists>n outcome attributes.
     let r = new_record (ev_now env) n outcome attributes in
     \<not> node_id_in_use c n \<and> om_get (sh_registry c') n = Some (new_entry r)
     \<and> (\<forall>j. j \<noteq> n \<longrightarrow> om_get (sh_registry c') j = om_get (sh_registry c) j)
     \<and> v = matter_node_data_json (build_node_data r False)
     \<and> sh_events c' = sh_events c @ [\<lparr>ev_event = ''node_added'', ev_data = v\<rparr>]
     \<and> ct_config c' = (ct_config c)\<lparr>cfg_next_node_id := n + 1\<rparr>"
  using assms
proof (cases rule: do_commission_cases)
  case (1 n cfg' c1)
  obtain outcome w where out: "st_commission (ev_stack env) \<lparr>cr_node_id = n, cr_target = target,
        cr_fabric_label = cfg_fabric_label cfg'\<rparr> (ct_world c1) = (Inr outcome, w)"
    and fin: "finish_commission env n outcome (c1\<lparr>ct_world := w\<rparr>) = (Inr v, c')"
    using 1(3) by (auto simp: try_call_def call_def try_arg_def split: prod.splits sum.splits)
  obtain attributes w2 where "st_interview (ev_stack env) n w = (Inr attributes, w2)"
    using fin by (auto simp: finish_commission_result split: prod.splits sum.splits)
  with fin show ?thesis
    using allocate_fresh[OF 1(1)] 1(2)
    by (intro exI[of _ n] exI[of _ outcome] exI[of _ attributes])
       (auto simp: finish_commission_result Let_def registry_insert_def om_get_insert)
qed

text \<open>
  C5: a commissioning that fails, at whatever step, leaves the registry, the node files and the
  broadcasts as they were; only the id counter has moved. When the device had already joined and
  its interview failed, the last call to the stack asks the device to drop our fabric again. The
  error is one of the three codes a commissioning may answer.
\<close>

theorem failed_commission_leaves_no_node:
  assumes "do_commission env target c = Some (Inl e, c')"
  shows "sh_registry c' = sh_registry c \<and> sh_events c' = sh_events c
       \<and> (\<forall>j. fs_get (sh_fs c') (node_path j) = fs_get (sh_fs c) (node_path j))
       \<and> (\<exists>n. \<not> node_id_in_use c n \<and> ct_config c' = (ct_config c)\<lparr>cfg_next_node_id := n + 1\<rparr>
            \<and> ((\<exists>req err. cr_node_id req = n \<and> st_commission (ev_stack env) req (ct_world c) = (Inl err, ct_world c'))
             \<or> (\<exists>req outcome w err w'. cr_node_id req = n
                  \<and> st_commission (ev_stack env) req (ct_world c) = (Inr outcome, w)
                  \<and> st_interview (ev_stack env) n w = (Inl err, w')
                  \<and> ct_world c' = snd (st_remove_device_fabric (ev_stack env) n (co_device_fabric_index outcome) w'))))
       \<and> ce_code e \<in> {NodeCommissionFailed, NodeNotResolving, InvalidArguments}"
  using assms
proof (cases rule: do_commission_cases)
  case (1 n cfg' c1)
  let ?req = "\<lparr>cr_node_id = n, cr_target = target, cr_fabric_label = cfg_fabric_label cfg'\<rparr>"
  have codes: "ce_code (commission_failed se) \<in> {NodeCommissionFailed, NodeNotResolving, InvalidArguments}" for se
    by (cases "se_kind se") (simp_all add: commission_failed_def stack_err_def command_error_new_def Let_def)
  obtain r w where out: "st_commission (ev_stack env) ?req (ct_world c) = (r, w)" by fastforce
  have c1: "ct_world c1 = ct_world c" "sh_registry c1 = sh_registry c" "sh_events c1 = sh_events c"
    "\<And>j. fs_get (sh_fs c1) (node_path j) = fs_get (sh_fs c) (node_path j)"
    "ct_config c1 = (ct_config c)\<lparr>cfg_next_node_id := n + 1\<rparr>"
    using 1(2) allocate_fresh(2)[OF 1(1)] by (simp_all add: save_config_nodes)
  show ?thesis
  proof (cases r)
    case (Inl err)
    then have "e = commission_failed err" "c' = c1\<lparr>ct_world := w\<rparr>"
      using 1(3) out c1(1) by (auto simp: try_call_def call_def)
    then show ?thesis
      using c1 codes allocate_fresh(1)[OF 1(1)] out Inl by (auto intro!: exI[of _ n] exI[of _ ?req])
  next
    case (Inr outcome)
    then have fin: "finish_commission env n outcome (c1\<lparr>ct_world := w\<rparr>) = (Inl e, c')"
      using 1(3) out c1(1) by (auto simp: try_call_def call_def)
    then obtain err w' where int: "st_interview (ev_stack env) n w = (Inl err, w')"
      by (auto simp: finish_commission_result Let_def split: prod.splits sum.splits)
    with fin have "e = commission_failed err" "c' = c1\<lparr>ct_world :=
        snd (st_remove_device_fabric (ev_stack env) n (co_device_fabric_index outcome) w')\<rparr>"
      by (auto simp: finish_commission_result)
    moreover have "\<exists>req outcome w err w'. cr_node_id req = n
        \<and> st_commission (ev_stack env) req (ct_world c) = (Inr outcome, w)
        \<and> st_interview (ev_stack env) n w = (Inl err, w')
        \<and> ct_world c' = snd (st_remove_device_fabric (ev_stack env) n (co_device_fabric_index outcome) w')"
      using out Inr int calculation by (intro exI[of _ ?req]) auto
    ultimately show ?thesis
      using c1 codes allocate_fresh(1)[OF 1(1)] by simp blast
  qed
qed

definition example_outcome :: commission_outcome where
  "example_outcome = \<lparr>co_device_fabric_index = 2, co_address = ''[fe80::1]:5540''\<rparr>"

definition joining_ctrl :: "jmap stack_result option \<Rightarrow> fake_world ctrl" where
  "joining_ctrl interview =
     example_ctrl\<lparr>ct_world := fake_new\<lparr>fk_commission := Some (Ok example_outcome), fk_interview := interview\<rparr>\<rparr>"

lemma joining_allocates:
  "allocate_node_id (ct_config (joining_ctrl i)) (node_id_in_use (joining_ctrl i)) =
     Some (1, (ct_config (joining_ctrl i))\<lparr>cfg_next_node_id := 2\<rparr>)"
proof -
  have "\<not> node_id_in_use (joining_ctrl i) 1"
    by (simp add: node_id_in_use_def joining_ctrl_def example_ctrl_def example_identity_def
        registry_contains_def registry_new_def om_of_list_def example_record_def)
  moreover have "ct_config (joining_ctrl i) = default_config"
    by (simp add: joining_ctrl_def example_ctrl_def)
  ultimately show ?thesis
    by (simp add: allocate_node_id_def default_config_def scan_free.simps)
qed

lemmas commission_example_simps = do_commission_def config_snapshot_def update_config_def try_call_def
  call_def finish_commission_result joining_ctrl_def example_env_def fake_stack_def fake_new_def
  fake_log_def or_else_def Let_def

lemma joining_succeeds:
  "\<exists>v c'. do_commission example_env (CodeTarget ''MT:1'') (joining_ctrl None) = Some (Inr v, c')"
  unfolding do_commission_def config_snapshot_def joining_allocates
  by (simp add: commission_example_simps split: prod.splits)

lemma joining_fails:
  "\<exists>e c'. do_commission example_env (CodeTarget ''MT:1'') (joining_ctrl (Some (Err sdk_err))) = Some (Inl e, c')"
  unfolding do_commission_def config_snapshot_def joining_allocates
  by (simp add: commission_example_simps split: prod.splits)

lemma commission_registers_fresh_node_witness:
  "\<exists>v c' n. do_commission example_env (CodeTarget ''MT:1'') (joining_ctrl None) = Some (Inr v, c')
     \<and> \<not> node_id_in_use (joining_ctrl None) n \<and> om_get (sh_registry c') n \<noteq> None"
proof -
  obtain v c' where d: "do_commission example_env (CodeTarget ''MT:1'') (joining_ctrl None) = Some (Inr v, c')"
    using joining_succeeds by blast
  from commission_registers_fresh_node[OF d] d show ?thesis unfolding Let_def by (metis option.distinct(1))
qed

lemma failed_commission_leaves_no_node_witness:
  "\<exists>e c'. do_commission example_env (CodeTarget ''MT:1'') (joining_ctrl (Some (Err sdk_err))) = Some (Inl e, c')
     \<and> sh_registry c' = sh_registry (joining_ctrl (Some (Err sdk_err)))
     \<and> ce_code e \<in> {NodeCommissionFailed, NodeNotResolving, InvalidArguments}"
proof -
  obtain e c' where
    d: "do_commission example_env (CodeTarget ''MT:1'') (joining_ctrl (Some (Err sdk_err))) = Some (Inl e, c')"
    using joining_fails by blast
  from failed_commission_leaves_no_node[OF d] d show ?thesis by blast
qed

subsection \<open>Credentials\<close>

lemma save_config_result:
  assumes "save_config pid cfg s = (r, s')"
  shows "r = Inr () \<Longrightarrow> \<exists>n. fs_get s' config_path = Some n \<and> fn_content n = Doc (config_json cfg) \<and> fn_private n"
    and "r \<noteq> Inr () \<Longrightarrow> fs_get s' config_path = fs_get s config_path"
  using write_json_atomic_outcome[OF assms[unfolded save_config_def]] by auto

text \<open>The configuration on disk is the one in memory, and private.\<close>

definition config_on_disk :: "'w ctrl \<Rightarrow> bool" where
  "config_on_disk c \<longleftrightarrow> (\<exists>n. fs_get (sh_fs c) config_path = Some n
     \<and> fn_content n = Doc (config_json (ct_config c)) \<and> fn_private n)"

text \<open>What a reply of a credential command promises\<close>

definition reply_honest :: "'w ctrl \<Rightarrow> json command_result \<times> 'w ctrl \<Rightarrow> bool" where
  "reply_honest c p =
     (case p of
        (Inr _, c') \<Rightarrow> config_on_disk c'
      | (Inl e, c') \<Rightarrow> fs_get (sh_fs c') config_path = fs_get (sh_fs c) config_path
          \<and> (ct_config c' = ct_config c \<or> ce_code e = UnknownError))"

lemma store_config_honest: "reply_honest c (store_config env f c)"
proof -
  obtain r s' where s: "save_config (sh_pid c) (f (ct_config c)) (sh_fs c) = (r, s')" by fastforce
  show ?thesis
    using save_config_result[OF s] s
    by (cases r) (auto simp: reply_honest_def store_config_result config_on_disk_def persist_err_def
        command_error_new_def)
qed

lemma error_honest: "reply_honest c (Inl e, c)"
  by (simp add: reply_honest_def)

text \<open>
  C38: the reply of a credential command is honest about the disk. Success means that
  \<open>config.json\<close> holds exactly the configuration the server now uses, readable by the owner
  only; an error means the file is untouched, and either nothing changed in memory either or the
  error is the one that says the change could not be persisted.
\<close>

theorem credential_reply_is_honest:
  assumes "handle_command env conn cmd c = Some p"
    and "cm_command cmd \<in> {''set_wifi_credentials'', ''set_thread_dataset'',
                            ''remove_wifi_credentials'', ''remove_thread_dataset''}"
  shows "reply_honest c p"
  using assms
  by (auto simp: handle_command_def Let_def set_wifi_def set_thread_def remove_wifi_def
      remove_thread_def error_honest store_config_honest split: try_arg_split)

lemma credential_reply_is_honest_witness:
  "reply_honest example_ctrl (remove_wifi example_env [] example_ctrl)"
proof -
  have "handle_command example_env 1 (request ''remove_wifi_credentials'' []) example_ctrl
      = Some (remove_wifi example_env [] example_ctrl)"
    by (simp add: handle_command_def request_def)
  then show ?thesis by (rule credential_reply_is_honest) (simp add: request_def)
qed

text \<open>
  \<open>set_wifi_credentials\<close> stores exactly what was asked. When it succeeds the entry
  under the given id (or \<open>default\<close>) has the given SSID and the given password, or, with no
  password given, the one that was already stored for that id and the same SSID; every other entry
  and every other part of the configuration is unchanged.
\<close>

theorem set_wifi_stores_request:
  assumes "set_wifi env args c = (Inr v, c')"
  shows "\<exists>ssid password.
       om_get args ''ssid'' = Some (JStr ssid)
     \<and> ct_config c' = (ct_config c)\<lparr>cfg_wifi_credentials :=
         om_insert (id_arg args) \<lparr>wc_ssid = ssid, wc_password = password\<rparr> (cfg_wifi_credentials (ct_config c))\<rparr>
     \<and> (case opt_str args ''credentials'' of
          Some (b # bs) \<Rightarrow> password = b # bs
        | _ \<Rightarrow> om_get (cfg_wifi_credentials (ct_config c)) (id_arg args)
                = Some \<lparr>wc_ssid = ssid, wc_password = password\<rparr>)"
proof -
  have keep: "wifi_password cfg i ssid cr = Inr pw \<Longrightarrow>
      if cr \<noteq> [] then pw = cr else om_get (cfg_wifi_credentials cfg) i = Some \<lparr>wc_ssid = ssid, wc_password = pw\<rparr>"
    for cfg i ssid cr pw
    by (auto simp: wifi_password_def split: if_splits option.splits)
  show ?thesis
    using assms
    by (auto simp: set_wifi_def Let_def try_arg_def require_str_def opt_str_def config_snapshot_def
        store_config_result bind_eq_Some_conv split: sum.splits option.splits list.splits dest!: keep)
qed

lemma set_wifi_stores_request_witness:
  "\<exists>c' :: fake_world ctrl. ct_config c' = default_config\<lparr>cfg_wifi_credentials := [(''default'', \<lparr>wc_ssid = ''net'', wc_password = ''pw''\<rparr>)]\<rparr>"
proof -
  let ?args = "[(''credentials'', JStr ''pw''), (''ssid'', JStr ''net'')]"
  have "case fst (set_wifi example_env ?args example_ctrl) of Inr _ \<Rightarrow> True | _ \<Rightarrow> False" by code_simp
  then obtain v c' where w: "set_wifi example_env ?args example_ctrl = (Inr v, c')"
    by (cases "set_wifi example_env ?args example_ctrl") (auto split: sum.splits)
  from set_wifi_stores_request[OF w] show ?thesis
    by (intro exI[of _ c']) (auto simp: opt_str_def id_arg_def example_ctrl_def default_config_def)
qed

subsection \<open>The configuration stays well formed\<close>

definition config_rules :: "config_data \<Rightarrow> bool" where
  "config_rules cfg \<longleftrightarrow>
     config_ok cfg
     \<and> credential_ids_ok (cfg_wifi_credentials cfg) \<and> credential_ids_ok (cfg_thread_datasets cfg)
     \<and> (\<forall>(i, d) \<in> set (cfg_thread_datasets cfg). validate_thread_dataset d = Inr ())"

lemma credential_ids_ok_subset:
  "credential_ids_ok m \<Longrightarrow> set (om_keys m') \<subseteq> set (om_keys m) \<Longrightarrow> credential_ids_ok m'"
  unfolding credential_ids_ok_def by blast

lemma om_keys_remove: "set (om_keys (om_remove k m)) \<subseteq> set (om_keys m)"
  by (auto simp: om_keys_def om_remove_def)

lemma credential_ids_insert:
  assumes "credential_ids_ok m" and "validate_credential_id i (om_keys m) = Inr u"
  shows "credential_ids_ok (om_insert i v m)"
proof -
  have ok: "validate_credential_id i (om_keys m) = Inr ()" using assms(2) by simp
  then have "i \<noteq> []" "to_ascii_lowercase i \<noteq> ''delete''" "to_ascii_lowercase i = ''default'' \<longrightarrow> i = ''default''"
    "to_ascii_lowercase i \<noteq> ''default'' \<longrightarrow> (\<forall>j \<in> set (om_keys m). to_ascii_lowercase j = to_ascii_lowercase i \<longrightarrow> j = i)"
    by (simp_all add: validate_credential_id_Ok)
  moreover from this assms(1) have "\<forall>j \<in> set (om_keys m). to_ascii_lowercase j = to_ascii_lowercase i \<longrightarrow> j = i"
    unfolding credential_ids_ok_def by metis
  ultimately show ?thesis
    using assms(1) unfolding credential_ids_ok_def set_om_keys_insert by (metis insert_iff)
qed

lemma config_rules_scalars [wf_intros]:
  "config_rules cfg \<Longrightarrow> config_rules (cfg\<lparr>cfg_fabric_label := l\<rparr>)"
  "config_rules cfg \<Longrightarrow> config_rules (cfg\<lparr>cfg_next_node_id := n\<rparr>)"
  by (simp_all add: config_rules_def config_ok_def)

lemma config_rules_insert [wf_intros]:
  "config_rules cfg \<Longrightarrow> validate_credential_id i (om_keys (cfg_wifi_credentials cfg)) = Inr u \<Longrightarrow>
     config_rules (cfg\<lparr>cfg_wifi_credentials := om_insert i w (cfg_wifi_credentials cfg)\<rparr>)"
  "config_rules cfg \<Longrightarrow> validate_credential_id i (om_keys (cfg_thread_datasets cfg)) = Inr u \<Longrightarrow>
     validate_thread_dataset d = Inr () \<Longrightarrow>
     config_rules (cfg\<lparr>cfg_thread_datasets := om_insert i d (cfg_thread_datasets cfg)\<rparr>)"
proof -
  show "config_rules cfg \<Longrightarrow> validate_credential_id i (om_keys (cfg_wifi_credentials cfg)) = Inr u \<Longrightarrow>
     config_rules (cfg\<lparr>cfg_wifi_credentials := om_insert i w (cfg_wifi_credentials cfg)\<rparr>)"
    by (simp add: config_rules_def config_ok_def om_ok_insert credential_ids_insert)
  show "config_rules cfg \<Longrightarrow> validate_credential_id i (om_keys (cfg_thread_datasets cfg)) = Inr u \<Longrightarrow>
     validate_thread_dataset d = Inr () \<Longrightarrow>
     config_rules (cfg\<lparr>cfg_thread_datasets := om_insert i d (cfg_thread_datasets cfg)\<rparr>)"
    using set_om_insert[of i d "cfg_thread_datasets cfg"]
    by (auto simp: config_rules_def config_ok_def om_ok_insert credential_ids_insert)
qed

lemma config_rules_remove [wf_intros]:
  "config_rules cfg \<Longrightarrow> config_rules (cfg\<lparr>cfg_wifi_credentials := om_remove i (cfg_wifi_credentials cfg)\<rparr>)"
  "config_rules cfg \<Longrightarrow> config_rules (cfg\<lparr>cfg_thread_datasets := om_remove i (cfg_thread_datasets cfg)\<rparr>)"
  using credential_ids_ok_subset[OF _ om_keys_remove, of "cfg_wifi_credentials cfg" i]
    credential_ids_ok_subset[OF _ om_keys_remove, of "cfg_thread_datasets cfg" i]
  by (auto simp: config_rules_def config_ok_def om_ok_remove) (auto simp: om_remove_def)

lemma store_config_rules:
  "config_rules (f (ct_config c)) \<Longrightarrow> config_rules (ct_config (snd (store_config env f c)))"
  by (simp add: store_config_result split: sum.splits)

lemma finish_commission_config: "ct_config (snd (finish_commission env n outcome c)) = ct_config c"
  by (auto simp: finish_commission_result Let_def split: prod.splits sum.splits)

lemma emit_config [simp]: "ct_config (emit_node_updated n c) = ct_config c" "ct_config (persist n c) = ct_config c"
  by (simp_all add: emit_node_updated_def persist_def split: option.splits)

lemma do_commission_config:
  assumes "do_commission env target c = Some p"
  shows "\<exists>n. ct_config (snd p) = (ct_config c)\<lparr>cfg_next_node_id := n\<rparr>"
proof -
  obtain r c' where p: "p = (r, c')" by fastforce
  from assms[unfolded p] show ?thesis
  proof (cases rule: do_commission_cases)
    case (1 n cfg' c1)
    have "ct_config (snd (r, c')) = ct_config c1"
      unfolding 1(3) by (simp add: finish_commission_config split: try_call_split)
    then show ?thesis using 1(2) allocate_fresh(2)[OF 1(1)] p by auto
  qed
qed

lemma credential_rules:
  "config_rules (ct_config c) \<Longrightarrow> config_rules (ct_config (snd (set_wifi env args c)))"
  "config_rules (ct_config c) \<Longrightarrow> config_rules (ct_config (snd (set_thread env args c)))"
  "config_rules (ct_config c) \<Longrightarrow> config_rules (ct_config (snd (remove_wifi env args c)))"
  "config_rules (ct_config c) \<Longrightarrow> config_rules (ct_config (snd (remove_thread env args c)))"
  by (auto simp: set_wifi_def set_thread_def remove_wifi_def remove_thread_def Let_def config_snapshot_def
      intro!: store_config_rules config_rules_insert config_rules_remove split: try_arg_split)

lemma label_rules:
  "config_rules (ct_config c) \<Longrightarrow> config_rules (ct_config (snd (set_default_fabric_label conn env args c)))"
  by (auto simp: set_default_fabric_label_def apply_label_def call_def Let_def
      intro!: config_rules_scalars split: option.splits prod.splits sum.splits)

lemma config_unchanged:
  "ct_config (snd (set_loglevel env args c)) = ct_config c"
  "ct_config (snd (interview_node env args c)) = ct_config c"
  "ct_config (snd (remove_node env args c)) = ct_config c"
  by (auto simp: set_loglevel_def get_loglevel_def interview_node_def remove_node_def call_def Let_def
      split: prod.splits with_node_split try_call_split)

text \<open>
  The stored configuration stays well formed whatever clients ask. No command, successful or
  not, can bring in a credential id that is empty, reserved or equal to another up to case, or a
  Thread dataset that is not a non-empty hex string of whole bytes.
\<close>

theorem commands_keep_config_rules:
  assumes "handle_command env conn cmd c = Some (r, c')" and "config_rules (ct_config c)"
  shows "config_rules (ct_config c')"
proof -
  have "config_rules (ct_config (snd (r, c')))"
    using handle_command_effect[OF assms(1)]
  proof cases
    case answers
    then show ?thesis using assms(2) by (auto simp: only_world_def)
  next
    case (commissions target)
    from do_commission_config[OF this] show ?thesis
      using assms(2) by (metis config_rules_scalars(2))
  qed (metis assms(2) credential_rules label_rules config_unchanged)+
  then show ?thesis by simp
qed

lemma default_config_rules: "config_rules default_config"
  by (simp add: config_rules_def config_ok_def default_config_def credential_ids_ok_def om_keys_def)

lemma commands_keep_config_rules_witness:
  "\<exists>r c'. handle_command example_env 1 (request ''set_thread_dataset'' [(''dataset'', JStr ''0e08'')]) example_ctrl
      = Some (r, c') \<and> config_rules (ct_config c')"
proof -
  let ?cmd = "request ''set_thread_dataset'' [(''dataset'', JStr ''0e08'')]"
  have "handle_command example_env 1 ?cmd example_ctrl = Some (set_thread example_env (cm_args ?cmd) example_ctrl)"
    by (simp add: handle_command_def request_def)
  moreover have "config_rules (ct_config example_ctrl)"
    by (simp add: example_ctrl_def default_config_rules)
  ultimately show ?thesis using commands_keep_config_rules by (metis surj_pair)
qed

subsection \<open>Every command answers\<close>

lemma hexdigit_value: "is_hexdigit ch \<Longrightarrow> \<exists>v. hex_value ch = Some v"
  by (auto simp: is_hexdigit_def hex_value_def)

lemma hexdigit_not_special: "is_hexdigit ch \<Longrightarrow> \<not> is_continuation ch"
  by (auto simp: is_hexdigit_def is_digit_def is_continuation_def)

lemma hex_pairs_valid: "list_all is_hexdigit s \<Longrightarrow> even (length s) \<Longrightarrow> \<exists>bs. hex_pairs s = Some (Some bs)"
proof (induction s rule: hex_pairs.induct)
  case (3 a b rest)
  have nc: "\<not> (rest \<noteq> [] \<and> is_continuation (hd rest))"
    using 3(2) hexdigit_not_special by (cases rest) auto
  have "\<exists>v. hex_byte a b = Some v"
    using 3(2) hexdigit_value[of a] hexdigit_value[of b] by (auto simp: hex_byte_def)
  then obtain v where v: "hex_byte a b = Some v" ..
  obtain bs where "hex_pairs rest = Some (Some bs)"
    using 3(1)[OF nc v] 3(2,3) by auto
  with nc v show ?case by simp
qed auto

lemma thread_info_valid:
  "validate_thread_dataset d = Inr () \<Longrightarrow> thread_dataset_info d \<noteq> None"
  using hex_pairs_valid[of d]
  by (auto simp: validate_thread_dataset_def thread_dataset_info_def split: if_splits)

lemma get_all_answers: "config_rules (ct_config c) \<Longrightarrow> get_all env args c \<noteq> None"
proof -
  assume rules: "config_rules (ct_config c)"
  have "those (map thread_entry ds) \<noteq> None"
    if "\<forall>(i, d) \<in> set ds. validate_thread_dataset d = Inr ()" for ds
    using that
  proof (induction ds)
    case (Cons p ds)
    then have "thread_entry p \<noteq> None"
      using thread_info_valid by (cases p) (auto simp: thread_entry_def)
    with Cons show ?case by auto
  qed simp
  with rules show ?thesis by (auto simp: get_all_def Let_def config_snapshot_def config_rules_def)
qed

lemma free_node_id:
  assumes "length (sh_registry c) + 1 < 2 ^ 64"
  shows "\<exists>n. \<not> node_id_in_use c n"
proof (rule ccontr)
  let ?used = "fst ` set (sh_registry c) \<union> {id_controller_node_id (ct_identity c)}"
  assume "\<nexists>n. \<not> node_id_in_use c n"
  then have "(UNIV :: u64 set) \<subseteq> ?used"
    by (auto simp: node_id_in_use_def registry_contains_def om_get_None_iff)
  then have "card (UNIV :: u64 set) \<le> card ?used" by (intro card_mono) auto
  also have "\<dots> \<le> card (fst ` set (sh_registry c)) + 1"
    by (rule order_trans[OF card_Un_le]) simp
  also have "\<dots> \<le> length (sh_registry c) + 1"
    by (simp add: card_length order_trans[OF card_image_le])
  finally show False using assms by (simp add: card_word)
qed

lemma do_commission_answers:
  assumes "length (sh_registry c) + 1 < 2 ^ 64"
  shows "do_commission env target c \<noteq> None"
proof -
  have "allocate_node_id (ct_config c) (node_id_in_use c) \<noteq> None"
    using allocates_when_free[OF free_node_id[OF assms]] .
  then show ?thesis by (auto simp: do_commission_def config_snapshot_def split: option.splits)
qed

definition command_names :: "rstring list" where
  "command_names =
     [''server_info'', ''start_listening'', ''get_nodes'', ''get_node'', ''diagnostics'',
      ''interview_node'', ''remove_node'', ''ping_node'', ''get_node_ip_addresses'',
      ''read_attribute'', ''write_attribute'', ''device_command'', ''commission_with_code'',
      ''commission_on_network'', ''open_commissioning_window'', ''discover'',
      ''discover_commissionable_nodes'', ''set_wifi_credentials'', ''set_thread_dataset'',
      ''remove_wifi_credentials'', ''remove_thread_dataset'', ''get_all_credentials'',
      ''set_default_fabric_label'', ''get_fabric_label'', ''get_matter_fabrics'',
      ''remove_matter_fabric'', ''set_acl_entry'', ''set_node_binding'', ''get_vendor_names'',
      ''get_loglevel'', ''set_loglevel'', ''get_icd_state'', ''register_icd'', ''unregister_icd'',
      ''resync_icd'', ''check_node_update'', ''update_node'']"

text \<open>
  C40: every command answers. With a well formed configuration and fewer than 2^64 - 1 nodes, no
  request of any shape makes the server search for a node id for ever or panic on a stored
  dataset; and a command outside the table is refused with error 9 and changes nothing.
\<close>

theorem every_command_answers:
  assumes "config_rules (ct_config c)" and "length (sh_registry c) + 1 < 2 ^ 64"
  shows "handle_command env conn cmd c \<noteq> None
       \<and> (cm_command cmd \<in> set command_names
          \<or> handle_command env conn cmd c =
              Some (Inl (command_error_new InvalidCommand (''Unknown command: '' @ cm_command cmd)), c))"
proof
  show "handle_command env conn cmd c \<noteq> None"
    using get_all_answers[OF assms(1), of env "cm_args cmd"] do_commission_answers[OF assms(2), of env]
    by (auto simp: handle_command_def Let_def commission_with_code_def commission_on_network_def split: sum.splits)
  show "cm_command cmd \<in> set command_names \<or> handle_command env conn cmd c =
      Some (Inl (command_error_new InvalidCommand (''Unknown command: '' @ cm_command cmd)), c)"
    unfolding command_names_def handle_command_def Let_def by simp
qed

lemma every_command_answers_witness:
  "handle_command example_env 1 (request ''commission_with_code'' [(''code'', JStr ''MT:1'')]) example_ctrl \<noteq> None"
proof (rule every_command_answers[THEN conjunct1])
  show "config_rules (ct_config example_ctrl)" by (simp add: example_ctrl_def default_config_rules)
  show "length (sh_registry example_ctrl) + 1 < 2 ^ 64"
    by (simp add: example_ctrl_def registry_new_def om_of_list_def)
qed

subsection \<open>The fabric label\<close>






subsection \<open>No password leaves the server\<close>

text \<open>Two configurations that a client must not be able to tell apart\<close>

definition same_but_passwords :: "config_data \<Rightarrow> config_data \<Rightarrow> bool" where
  "same_but_passwords a b \<longleftrightarrow>
     cfg_fabric_label a = cfg_fabric_label b \<and> cfg_thread_datasets a = cfg_thread_datasets b
     \<and> list_all2 (\<lambda>(i, w) (j, v). i = j \<and> wc_ssid w = wc_ssid v \<and> (wc_password w = [] \<longleftrightarrow> wc_password v = []))
         (cfg_wifi_credentials a) (cfg_wifi_credentials b)"

lemma same_wifi_lookup:
  assumes "list_all2 (\<lambda>(i, w) (j, v). i = j \<and> wc_ssid w = wc_ssid v \<and> (wc_password w = [] \<longleftrightarrow> wc_password v = [])) m n"
  shows "map_option (\<lambda>w. (wc_ssid w, wc_password w = [])) (om_get m k) =
         map_option (\<lambda>w. (wc_ssid w, wc_password w = [])) (om_get n k)"
    and "map (\<lambda>(i, cred). jobject [(''id'', JStr i), (''ssid'', JStr (wc_ssid cred))]) m =
         map (\<lambda>(i, cred). jobject [(''id'', JStr i), (''ssid'', JStr (wc_ssid cred))]) n"
  using assms by (induction m n rule: list_all2_induct) auto

lemma server_info_no_password:
  assumes "same_but_passwords (ct_config c) cfg"
  shows "build_server_info (c\<lparr>ct_config := cfg\<rparr>) = build_server_info c"
proof -
  have look: "map_option (\<lambda>w. (wc_ssid w, wc_password w = [])) (om_get (cfg_wifi_credentials (ct_config c)) ''default'')
      = map_option (\<lambda>w. (wc_ssid w, wc_password w = [])) (om_get (cfg_wifi_credentials cfg) ''default'')"
    using assms by (intro same_wifi_lookup) (simp add: same_but_passwords_def)
  have thread: "cfg_thread_datasets cfg = cfg_thread_datasets (ct_config c)"
    using assms by (simp add: same_but_passwords_def)
  show ?thesis
    using look by (cases "om_get (cfg_wifi_credentials (ct_config c)) ''default''";
        cases "om_get (cfg_wifi_credentials cfg) ''default''")
      (auto simp: build_server_info_def config_snapshot_def Let_def thread)
qed

text \<open>
  No stored WiFi password can be learnt from the commands that report on the configuration.
  Their replies, and the server information they embed, are the same for any two configurations
  that differ only in their non-empty passwords.
\<close>

theorem replies_hide_passwords:
  assumes "same_but_passwords (ct_config c) cfg"
    and "cm_command cmd \<in> {''get_all_credentials'', ''server_info'', ''diagnostics'', ''get_fabric_label''}"
  shows "map_option fst (handle_command env conn cmd (c\<lparr>ct_config := cfg\<rparr>)) =
         map_option fst (handle_command env conn cmd c)"
proof -
  have w: "list_all2 (\<lambda>(i, w) (j, v). i = j \<and> wc_ssid w = wc_ssid v \<and> (wc_password w = [] \<longleftrightarrow> wc_password v = []))
      (cfg_wifi_credentials (ct_config c)) (cfg_wifi_credentials cfg)"
    and same: "cfg_thread_datasets cfg = cfg_thread_datasets (ct_config c)"
      "cfg_fabric_label cfg = cfg_fabric_label (ct_config c)"
    using assms(1) by (simp_all add: same_but_passwords_def)
  have has: "om_contains (cfg_wifi_credentials cfg) k = om_contains (cfg_wifi_credentials (ct_config c)) k" for k
    using same_wifi_lookup(1)[OF w, of k]
    by (cases "om_get (cfg_wifi_credentials cfg) k"; cases "om_get (cfg_wifi_credentials (ct_config c)) k")
       (auto simp: om_contains_def)
  have "map_option fst (get_all env args (c\<lparr>ct_config := cfg\<rparr>)) = map_option fst (get_all env args c)" for args
    using same_wifi_lookup(2)[OF w]
    by (simp add: get_all_def config_snapshot_def Let_def has same option.map_comp comp_def)
  moreover have "fst (diagnostics env args (c\<lparr>ct_config := cfg\<rparr>)) = fst (diagnostics env args c)" for args
    using server_info_no_password[OF assms(1)] by (simp add: diagnostics_def get_nodes_def Let_def)
  ultimately show ?thesis
    using assms(2) server_info_no_password[OF assms(1)]
    by (auto simp: handle_command_def get_fabric_label_def config_snapshot_def same)
qed

lemma replies_hide_passwords_witness:
  "map_option fst (get_all example_env [] (example_ctrl\<lparr>ct_config := default_config
       \<lparr>cfg_wifi_credentials := [(''default'', \<lparr>wc_ssid = ''n'', wc_password = ''secret''\<rparr>)]\<rparr>\<rparr>))
   = map_option fst (get_all example_env [] (example_ctrl\<lparr>ct_config := default_config
       \<lparr>cfg_wifi_credentials := [(''default'', \<lparr>wc_ssid = ''n'', wc_password = ''other''\<rparr>)]\<rparr>\<rparr>))"
proof -
  let ?cfg = "\<lambda>p. default_config\<lparr>cfg_wifi_credentials := [(''default'', \<lparr>wc_ssid = ''n'', wc_password = p\<rparr>)]\<rparr>"
  have "same_but_passwords (ct_config (example_ctrl\<lparr>ct_config := ?cfg ''other''\<rparr>)) (?cfg ''secret'')"
    by (simp add: same_but_passwords_def)
  from replies_hide_passwords[OF this, of "request ''get_all_credentials'' []" example_env 1]
  show ?thesis by (simp add: handle_command_def request_def)
qed

subsection \<open>Access control entries\<close>

text \<open>The subjects list of an entry, when it is a list\<close>

definition entry_subjects :: "json \<Rightarrow> json list option" where
  "entry_subjects e = Option.bind (jget e ''subjects'') as_array"

lemma jobject_acl_tag3:
  "jget (jobject (opt_field ''1'' id p @ opt_field ''2'' id a @ [(''3'', s), (''4'', t)])) ''3'' = Some s"
  by (cases p; cases a) (simp_all add: jget_jobject)

text \<open>
  The ACL that \<open>set_acl_entry\<close> writes never gives the target node access to itself and
  loses nobody else. An entry with a subjects list is kept exactly when the list names some subject
  other than the node, and then its subjects are the others, in order; an entry without such a list
  is kept unless it is not an object at all.
\<close>

theorem acl_entry_mapping:
  "(case entry_subjects e of
      Some subjects \<Rightarrow>
        (case map_acl_entry n e of
           Some v \<Rightarrow> jget v ''3'' = Some (JArr (filter (\<lambda>s. s \<noteq> JNum (PosInt n)) subjects))
                   \<and> (\<exists>s \<in> set subjects. s \<noteq> JNum (PosInt n))
         | None \<Rightarrow> \<not> (\<exists>s \<in> set subjects. s \<noteq> JNum (PosInt n)))
    | None \<Rightarrow> (map_acl_entry n e = None) = (as_object e = None))"
proof (cases e)
  case (JObj m)
  have other: "(as_u64 s \<noteq> Some n) = (s \<noteq> JNum (PosInt n))" for s by simp
  show ?thesis
  proof (cases "entry_subjects e")
    case None
    then have "map_acl_subjects n (om_get m ''subjects'') \<noteq> None"
      by (auto simp: JObj entry_subjects_def map_acl_subjects_def split: option.splits json.splits)
    with None show ?thesis by (auto simp: JObj map_acl_entry_def)
  next
    case (Some subjects)
    then have s: "om_get m ''subjects'' = Some (JArr subjects)"
      by (auto simp: JObj entry_subjects_def bind_eq_Some_conv)
    show ?thesis
    proof (cases "\<exists>s \<in> set subjects. s \<noteq> JNum (PosInt n)")
      case True
      then have "filter (\<lambda>s. s \<noteq> JNum (PosInt n)) subjects \<noteq> []" by (auto simp: filter_empty_conv)
      with True s Some show ?thesis
        by (simp add: JObj map_acl_entry_def map_acl_subjects_def Let_def jobject_acl_tag3)
    next
      case False
      then have "filter (\<lambda>s. s \<noteq> JNum (PosInt n)) subjects = []" by (auto simp: filter_empty_conv)
      with False s Some show ?thesis
        by (simp add: JObj map_acl_entry_def map_acl_subjects_def Let_def)
    qed
  qed
qed (simp_all add: entry_subjects_def map_acl_entry_def)

end
