(* ===== verification/Node_Facts.thy ===== *)
theory Node_Facts
  imports Commands_Frame
begin

section \<open>What the node and interaction commands guarantee\<close>

subsection \<open>No request reaches another target\<close>

lemma narrow_Ok: "narrow v what = Inr (w :: 'a::len word) \<Longrightarrow> LENGTH('a) \<le> 64 \<Longrightarrow> v = ucast w"
proof -
  assume "narrow v what = Inr w" and len: "LENGTH('a) \<le> 64"
  then have v: "unat v < 2 ^ LENGTH('a)" "w = ucast v"
    by (auto simp: narrow_def split: if_splits)
  then have "unat (ucast w :: u64) = unat v"
    using len by (simp add: unat_ucast_up) (simp add: unsigned_ucast_eq take_bit_nat_eq_self)
  then show "v = ucast w" by (simp add: word_unat_eq_iff)
qed

lemma require_u64_Ok: "require_u64 args key = Inr v \<longleftrightarrow> om_get args key = Some (JNum (PosInt v))"
  by (auto simp: require_u64_def bind_eq_Some_conv)

lemma narrow_opt_Ok:
  "narrow_opt v what = Inr (t :: 'a::len word option) \<Longrightarrow> LENGTH('a) \<le> 64 \<Longrightarrow> v = map_option ucast t"
  by (cases v) (auto simp: narrow_opt_def and_then_Ok_iff dest: narrow_Ok)

text \<open>
  \<open>device_command\<close> never reaches another target than the one named. Either the device is
  not contacted and the state is unchanged, or the stack's one \<open>invoke\<close> call carries exactly
  the node, endpoint and cluster id, the command name and the timeout the client gave (each as wide
  as the client wrote it, never truncated), and its answer is the reply.
\<close>

theorem device_command_reaches_named_target:
  assumes "device_command env args c = (r, c')"
  shows "(c' = c \<and> \<not> is_ok r) \<or>
    (\<exists>n (endpoint :: u16) (cluster :: u32) nm timed answer.
       om_get args ''node_id'' = Some (JNum (PosInt n)) \<and> registry_contains (sh_registry c) n
     \<and> om_get args ''endpoint_id'' = Some (JNum (PosInt (ucast endpoint)))
     \<and> om_get args ''cluster_id'' = Some (JNum (PosInt (ucast cluster)))
     \<and> om_get args ''command_name'' = Some (JStr nm)
     \<and> opt_u64 args ''timed_request_timeout_ms'' = map_option ucast timed
     \<and> st_invoke (ev_stack env) n endpoint cluster nm (or_else (JObj []) (om_get args ''payload'')) timed (ct_world c)
         = (answer, ct_world c')
     \<and> r = map_err (stack_err SdkStackError) answer)"
proof -
  have e: "narrow v what = Inr (w :: u16) \<Longrightarrow> v = ucast w" for v w what by (rule narrow_Ok) simp_all
  have c: "narrow v what = Inr (w :: u32) \<Longrightarrow> v = ucast w" for v w what by (rule narrow_Ok) simp_all
  have t: "narrow_opt v what = Inr (w :: u16 option) \<Longrightarrow> v = map_option ucast w" for v w what
    by (rule narrow_opt_Ok) simp_all
  show ?thesis
    using assms unfolding device_command_def
    by (auto simp: with_node_def ensure_node_def try_arg_def try_call_def call_def require_u64_Ok
        require_str_def opt_str_def bind_eq_Some_conv Let_def or_else_def
        split: sum.splits prod.splits if_splits dest!: e c t; metis map_err.simps)
qed

lemma ucast_back: "v = (ucast (w :: 'a::len word) :: u64) \<Longrightarrow> LENGTH('a) \<le> 64 \<Longrightarrow> w = ucast v"
  by (simp add: is_up ucast_up_ucast_id)

lemma device_command_reaches_named_target_witness:
  "fk_calls (ct_world (snd (device_command example_env
      [(''cluster_id'', JNum (PosInt 6)), (''command_name'', JStr ''Toggle''),
       (''endpoint_id'', JNum (PosInt 1)), (''node_id'', JNum (PosInt 7))] example_ctrl)))
   = [FcInvoke 7 1 6 ''Toggle'' None]"
proof -
  let ?args = "[(''cluster_id'', JNum (PosInt 6)), (''command_name'', JStr ''Toggle''),
       (''endpoint_id'', JNum (PosInt 1)), (''node_id'', JNum (PosInt 7))]"
  obtain r c' where p: "device_command example_env ?args example_ctrl = (r, c')" by fastforce
  have ok: "is_ok (fst (device_command example_env ?args example_ctrl))"
    by (simp add: device_command_def with_node_def ensure_node_def require_u64_def require_str_def
        opt_str_def opt_u64_def narrow_opt_def narrow_def example_ctrl_def registry_contains_def
        registry_new_def om_of_list_def example_record_def try_call_def call_def example_env_def
        fake_stack_def fake_new_def fake_log_def or_else_def Let_def)
  from device_command_reaches_named_target[OF p] obtain endpoint :: u16 and cluster :: u32 and nm payload timed answer
    where t: "(1 :: u64) = ucast endpoint" "(6 :: u64) = ucast cluster" "nm = ''Toggle''" "timed = None"
      "st_invoke (ev_stack example_env) 7 endpoint cluster nm payload timed (ct_world example_ctrl) = (answer, ct_world c')"
    using ok p by (auto simp: opt_u64_def)
  have "endpoint = 1" "cluster = 6"
    using ucast_back[OF t(1)] ucast_back[OF t(2)] by simp_all
  with t(3-5) have "ct_world c' = snd (st_invoke (ev_stack example_env) 7 1 6 ''Toggle'' payload None (ct_world example_ctrl))"
    by simp
  then have "fk_calls (ct_world c') = [FcInvoke 7 1 6 ''Toggle'' None]"
    by (simp add: example_env_def fake_stack_def example_ctrl_def fake_new_def fake_log_def Let_def)
  then show ?thesis by (simp add: p)
qed

subsection \<open>Attribute paths\<close>

text \<open>What one segment of a path means: a number other than the sentinel is itself.\<close>

definition segment_means :: "rstring \<Rightarrow> u64 \<Rightarrow> 'a::len word option \<Rightarrow> bool" where
  "segment_means s sentinel v =
     (case v of
        Some w \<Rightarrow> parse_uint s = Some (ucast w :: u64) \<and> ucast w \<noteq> sentinel
      | None \<Rightarrow> parse_uint s = (None :: u64 option) \<or> parse_uint s = Some sentinel)"

lemma fit_segment_means:
  assumes "fit_segment too_big (path_segment s sentinel) = Inr (v :: 'a::len word option)" and "LENGTH('a) \<le> 64"
  shows "segment_means s sentinel v"
proof (cases "path_segment s sentinel")
  case None
  then show ?thesis
    using assms by (auto simp: fit_segment_def segment_means_def path_segment_def split: option.splits if_splits)
next
  case (Some n)
  then have "unat n < 2 ^ LENGTH('a)" "v = Some (ucast n)"
    using assms by (auto simp: fit_segment_def split: if_splits)
  moreover from this have "ucast (ucast n :: 'a word) = n"
    using narrow_Ok[of n "[]" "ucast n :: 'a word"] assms(2) by (simp add: narrow_def)
  ultimately show ?thesis
    using Some by (auto simp: segment_means_def path_segment_def split: option.splits if_splits)
qed

text \<open>
  a path that is accepted means exactly what it says. It has three segments; a component the
  parser fixes is the number written in its segment, at full width, and a wildcard comes only from
  the sentinel or from text that is not a number. A number too wide for its id is never taken.
\<close>

theorem attribute_path_exact:
  assumes "parse_attribute_path env path = Inr spec"
  shows "\<exists>a b d. split_on (CHR 0x2F) path = [a, b, d] \<and> segment_means a 0xFFFF (ap_endpoint spec)
     \<and> segment_means b 0xFFFFFFFF (ap_cluster spec) \<and> segment_means d 0xFFFFFFFF (ap_attribute spec)"
proof -
  obtain a b d where s: "split_on (CHR 0x2F) path = [a, b, d]"
    using assms by (auto simp: parse_attribute_path_def split: list.splits)
  show ?thesis
    using assms s fit_segment_means[of _ a "0xFFFF" "ap_endpoint spec"]
      fit_segment_means[of _ b "0xFFFFFFFF" "ap_cluster spec"]
      fit_segment_means[of _ d "0xFFFFFFFF" "ap_attribute spec"]
    by (auto simp: parse_attribute_path_def and_then_Ok_iff)
qed

definition render_segment :: "'a::len word option \<Rightarrow> rstring" where
  "render_segment v = (case v of None \<Rightarrow> ''*'' | Some w \<Rightarrow> dec_of w)"

definition render_path :: "attribute_path_spec \<Rightarrow> rstring" where
  "render_path spec = render_segment (ap_endpoint spec) @ CHR 0x2F # render_segment (ap_cluster spec)
     @ CHR 0x2F # render_segment (ap_attribute spec)"

lemma dec_of_ucast: "LENGTH('a) \<le> 64 \<Longrightarrow> dec_of (w :: 'a::len word) = dec_of (ucast w :: u64)"
  by (simp add: dec_of_def unat_ucast_up)

lemma fit_render_segment:
  assumes "LENGTH('a) \<le> 64" and "map_option ucast v \<noteq> Some sentinel"
  shows "fit_segment too_big (path_segment (render_segment v) sentinel) = Inr (v :: 'a::len word option)"
proof (cases v)
  case None
  have "parse_uint ''*'' = (None :: u64 option)"
    by (simp add: parse_uint_def parse_dec_def is_digit_def byte_def)
  with None show ?thesis by (simp add: render_segment_def path_segment_def fit_segment_def)
next
  case (Some w)
  have "unat (ucast w :: u64) < 2 ^ LENGTH('a)" using assms(1) by (simp add: unat_ucast_up)
  moreover have "ucast (ucast w :: u64) = w" using assms(1) by (simp add: is_up ucast_up_ucast_id)
  ultimately show ?thesis
    using Some assms by (simp add: render_segment_def path_segment_def fit_segment_def
        dec_of_ucast[of w] parse_uint_dec_of)
qed

lemma no_slash: "CHR 0x2F \<notin> set (render_segment v)"
proof -
  have "\<not> is_digit (CHR 0x2F)" by (simp add: is_digit_def byte_def)
  from dec_of_no_char[OF this] show ?thesis by (auto simp: render_segment_def split: option.splits)
qed

lemma parse_render_path:
  assumes "ap_endpoint spec \<noteq> Some 0xFFFF" and "ap_cluster spec \<noteq> Some 0xFFFFFFFF"
    and "ap_attribute spec \<noteq> Some 0xFFFFFFFF"
  shows "parse_attribute_path env (render_path spec) = Inr spec"
proof -
  have "split_on (CHR 0x2F) (render_path spec) =
      [render_segment (ap_endpoint spec), render_segment (ap_cluster spec), render_segment (ap_attribute spec)]"
    by (simp add: render_path_def split_on_append split_on_absent no_slash)
  moreover have "map_option ucast (ap_endpoint spec) \<noteq> Some (0xFFFF :: u64)"
      "map_option ucast (ap_cluster spec) \<noteq> Some (0xFFFFFFFF :: u64)"
      "map_option ucast (ap_attribute spec) \<noteq> Some (0xFFFFFFFF :: u64)"
    using assms by (auto simp: word_unat_eq_iff unat_ucast_up)
  ultimately show ?thesis
    by (simp add: parse_attribute_path_def fit_render_segment)
qed

text \<open>
  Every attribute path survives printing and parsing: a path whose ids are not the reserved
  sentinels, wildcards included, is read back from its text as itself.
\<close>

theorem attribute_path_roundtrip:
  assumes "ap_endpoint spec \<noteq> Some 0xFFFF" and "ap_cluster spec \<noteq> Some 0xFFFFFFFF"
    and "ap_attribute spec \<noteq> Some 0xFFFFFFFF"
  shows "parse_attribute_path env (render_path spec) = Inr spec"
  using assms by (rule parse_render_path)

lemma attribute_path_exact_witness:
  "\<exists>a b d. split_on (CHR 0x2F) (render_path \<lparr>ap_endpoint = Some 1, ap_cluster = Some 6, ap_attribute = None\<rparr>) = [a, b, d]
     \<and> segment_means b 0xFFFFFFFF (Some (6 :: u32)) \<and> segment_means d 0xFFFFFFFF (None :: u32 option)"
proof -
  let ?spec = "\<lparr>ap_endpoint = Some 1, ap_cluster = Some 6, ap_attribute = None\<rparr>"
  have "parse_attribute_path example_env (render_path ?spec) = Inr ?spec"
    by (rule parse_render_path) simp_all
  from attribute_path_exact[OF this] show ?thesis by auto
qed

lemma attribute_path_roundtrip_witness:
  "parse_attribute_path example_env (render_path \<lparr>ap_endpoint = Some 1, ap_cluster = None, ap_attribute = Some 0\<rparr>)
   = Inr \<lparr>ap_endpoint = Some 1, ap_cluster = None, ap_attribute = Some 0\<rparr>"
  by (rule attribute_path_roundtrip) simp_all

subsection \<open>Removing a node\<close>

lemma delete_node_frame: "q \<noteq> node_path n \<Longrightarrow> fs_get (snd (delete_node n s)) q = fs_get s q"
  by (auto simp: delete_node_def exec_op_frame)

lemma delete_node_gone:
  "fs_fault s (fs_calls s) = None \<Longrightarrow> fs_get (snd (delete_node n s)) (node_path n) = None"
  by (auto simp: delete_node_def exec_op_def Let_def fs_get_del)

text \<open>
  \<open>remove_node\<close> of a registered node always succeeds and always forgets the node, whatever
  the device and the disk answer: the registry no longer has it and every other node is as before,
  \<open>node_removed\<close> is broadcast, its file is gone unless the operating system refused the
  unlink, and no other file is touched.
\<close>

theorem remove_node_always_forgets:
  assumes "registry_contains (sh_registry c) n" and "om_get args ''node_id'' = Some (JNum (PosInt n))"
  shows "\<exists>c'. remove_node env args c = (Inr JNull, c')
     \<and> \<not> registry_contains (sh_registry c') n
     \<and> (\<forall>j. j \<noteq> n \<longrightarrow> om_get (sh_registry c') j = om_get (sh_registry c) j)
     \<and> sh_events c' = sh_events c @ [\<lparr>ev_event = ''node_removed'', ev_data = JNum (PosInt n)\<rparr>]
     \<and> (fs_fault (sh_fs c) (fs_calls (sh_fs c)) = None \<longrightarrow> fs_get (sh_fs c') (node_path n) = None)
     \<and> (\<forall>q. q \<noteq> node_path n \<longrightarrow> fs_get (sh_fs c') q = fs_get (sh_fs c) q)"
proof -
  have "require_u64 args ''node_id'' = Inr n" using assms(2) by (simp add: require_u64_Ok)
  note st = remove_node_state[OF assms(1) this, of env]
  show ?thesis
    using st delete_node_gone[of "sh_fs c" n] delete_node_frame[of _ n "sh_fs c"]
    by (intro exI[of _ "snd (remove_node env args c)"])
       (simp add: registry_contains_def om_get_remove junsigned_def prod_eq_iff)
qed

lemma remove_node_always_forgets_witness:
  "\<exists>c'. remove_node example_env [(''node_id'', JNum (PosInt 7))] example_ctrl = (Inr JNull, c')
     \<and> \<not> registry_contains (sh_registry c') 7"
proof -
  have "registry_contains (sh_registry example_ctrl) 7"
    by (simp add: example_ctrl_def registry_contains_def registry_new_def om_of_list_def example_record_def)
  from remove_node_always_forgets[OF this, of "[(''node_id'', JNum (PosInt 7))]" example_env]
  show ?thesis by auto
qed

end
