(* ===== verification/Ws.thy ===== *)
theory Ws
  imports Dispatch
begin

section \<open>The WebSocket connection (\<open>server/src/ws.rs\<close>) and the stub controller\<close>

text \<open>
  One connection of the server, written against the \<open>Controller\<close> trait (a record of its
  methods), with the two controllers of the repository as instances. Three packages are outside:
  the socket (what arrives and whether a send succeeds are labels of the steps), the reader of
  JSON text (the record \<open>json_text\<close>) and tokio's broadcast channel (the record
  \<open>broadcast\<close> with its documented behaviour as the predicate \<open>broadcast_contract\<close>).
  A frame is the JSON value it carries.
\<close>

subsection \<open>The controller interface (\<open>controller/src/api.rs\<close>)\<close>

text \<open>
  \<open>ap_events\<close> is everything sent so far on the channel that \<open>subscribe_events\<close>
  subscribes to. A command that never answers is \<open>None\<close>.
\<close>

record 'c controller_api =
  ap_server_info :: "'c \<Rightarrow> server_info_message"
  ap_node_count :: "'c \<Rightarrow> nat"
  ap_handle_command :: "u64 \<Rightarrow> command_message \<Rightarrow> 'c \<Rightarrow> (json command_result \<times> 'c) option"
  ap_connection_closed :: "u64 \<Rightarrow> 'c \<Rightarrow> 'c"
  ap_events :: "'c \<Rightarrow> event_message list"

definition matter_controller :: "'w env \<Rightarrow> 'w ctrl controller_api" where
  "matter_controller env =
     \<lparr>ap_server_info = build_server_info,
      ap_node_count = (\<lambda>c. registry_len (sh_registry c)),
      ap_handle_command = handle_command env,
      ap_connection_closed = connection_closed,
      ap_events = sh_events\<rparr>"

subsection \<open>The stub controller (\<open>controller/src/stub.rs\<close>)\<close>

record stub =
  sb_info :: server_info_message
  sb_events :: "event_message list"

definition stub_new :: "server_info_message \<Rightarrow> stub" where
  "stub_new info = \<lparr>sb_info = info, sb_events = []\<rparr>"

definition stub_handle_command :: "u64 \<Rightarrow> command_message \<Rightarrow> stub \<Rightarrow> json command_result" where
  "stub_handle_command conn cmd s =
     (let cmd_name = cm_command cmd
      in if cmd_name = ''server_info'' then Ok (server_info_message_json (sb_info s))
         else if cmd_name \<in> {''start_listening'', ''get_nodes''} then Ok (JArr [])
         else if cmd_name = ''diagnostics'' then
           Ok (jobject [(''info'', server_info_message_json (sb_info s)),
                        (''nodes'', JArr []), (''events'', JArr [])])
         else if cmd_name \<in> {''get_node'', ''interview_node'', ''remove_node'', ''ping_node'',
             ''get_node_ip_addresses'', ''read_attribute'', ''write_attribute'', ''device_command''}
           then Err (command_error_new NodeNotExists ''stub controller has no nodes'')
         else Err (command_error_new InvalidCommand (''unknown command: '' @ cmd_name)))"

text \<open>A send on the sender handed out by \<open>event_sender\<close>\<close>

definition stub_send :: "event_message \<Rightarrow> stub \<Rightarrow> stub" where
  "stub_send e s = s\<lparr>sb_events := sb_events s @ [e]\<rparr>"

definition stub_controller :: "stub controller_api" where
  "stub_controller =
     \<lparr>ap_server_info = sb_info,
      ap_node_count = (\<lambda>_. 0),
      ap_handle_command = (\<lambda>conn cmd s. Some (stub_handle_command conn cmd s, s)),
      ap_connection_closed = (\<lambda>_ s. s),
      ap_events = sb_events\<rparr>"

subsection \<open>The packages the connection uses\<close>

text \<open>
  \<open>serde_json::from_str\<close>: the value the text denotes or the error's text, and the error's
  text for a value that is not a \<open>CommandMessage\<close>.
\<close>

record json_text =
  jt_parse :: "rstring \<Rightarrow> rstring + json"
  jt_mismatch :: "json \<Rightarrow> rstring"

definition parse_command :: "json_text \<Rightarrow> rstring \<Rightarrow> rstring + command_message" where
  "parse_command jt text =
     and_then (jt_parse jt text) (\<lambda>v. ok_or (jt_mismatch jt v) (command_message_of_json v))"

datatype recv_result = Received event_message | Lagged nat | Pending

text \<open>
  A receiver, and \<open>try_recv\<close> on a channel on which the given values were sent since its
  creation. \<open>recv\<close> is \<open>try_recv\<close> once it does not answer \<open>Pending\<close>.
\<close>

record 'r broadcast =
  bc_subscribe :: "event_message list \<Rightarrow> 'r"
  bc_try_recv :: "event_message list \<Rightarrow> 'r \<Rightarrow> recv_result \<times> 'r"

text \<open>
  What tokio documents of a channel of capacity \<open>cap\<close>: a receiver sees the values sent after
  it subscribed, in order; one that falls more than \<open>cap\<close> values behind is told once how many
  it lost and continues with the oldest value still held.
\<close>

definition broadcast_contract :: "nat \<Rightarrow> ('r \<Rightarrow> nat) \<Rightarrow> 'r broadcast \<Rightarrow> bool" where
  "broadcast_contract cap pos bc \<longleftrightarrow>
     0 < cap \<and> (\<forall>sent. pos (bc_subscribe bc sent) = length sent) \<and>
     (\<forall>sent r. pos r \<le> length sent \<longrightarrow>
        (case bc_try_recv bc sent r of (res, r') \<Rightarrow>
           if pos r = length sent then res = Pending \<and> pos r' = pos r
           else if length sent - pos r \<le> cap then res = Received (sent ! pos r) \<and> pos r' = Suc (pos r)
           else res = Lagged (length sent - cap - pos r) \<and> pos r' = length sent - cap))"

subsection \<open>One text frame\<close>

text \<open>The reply, whether listening has just begun, the listening flag and the controller.\<close>

definition handle_text_frame ::
  "'c controller_api \<Rightarrow> json_text \<Rightarrow> u64 \<Rightarrow> rstring \<Rightarrow> bool \<Rightarrow> 'c \<Rightarrow> ((json \<times> bool) \<times> bool \<times> 'c) option" where
  "handle_text_frame api jt conn text listening c =
     (case parse_command jt text of
        Inl e \<Rightarrow> Some ((error_result_json (error_result_new [] InvalidArguments e), False), listening, c)
      | Inr cmd \<Rightarrow>
          (let is_start_listening = (cm_command cmd = ''start_listening'')
           in case ap_handle_command api conn cmd c of
                None \<Rightarrow> None
              | Some (Inr result, c') \<Rightarrow>
                  Some ((success_result_json \<lparr>sr_message_id = cm_message_id cmd, sr_result = result\<rparr>,
                         is_start_listening \<and> \<not> listening),
                        is_start_listening \<or> listening, c')
              | Some (Inl e, c') \<Rightarrow>
                  Some ((error_result_json (error_result_new (cm_message_id cmd) (ce_code e) (ce_details e)),
                         False), listening, c')))"

subsection \<open>The connection\<close>

text \<open>\<open>ws_sent\<close> holds the frames sent, \<open>ws_open\<close> is false once the task has returned.\<close>

record ('c, 'r) session =
  ws_ctrl :: 'c
  ws_rx :: 'r
  ws_listening :: bool
  ws_sent :: "json list"
  ws_open :: bool

text \<open>\<open>return\<close>: the close guard is dropped.\<close>

definition leave :: "'c controller_api \<Rightarrow> u64 \<Rightarrow> ('c, 'r) session \<Rightarrow> ('c, 'r) session" where
  "leave api conn s = s\<lparr>ws_open := False, ws_ctrl := ap_connection_closed api conn (ws_ctrl s)\<rparr>"

text \<open>\<open>if socket.send(frame).await.is_err() { return; }\<close>\<close>

definition send_or_leave ::
  "'c controller_api \<Rightarrow> u64 \<Rightarrow> bool \<Rightarrow> json \<Rightarrow> ('c, 'r) session \<Rightarrow> ('c, 'r) session" where
  "send_or_leave api conn ok frame s =
     (if ok then s\<lparr>ws_sent := ws_sent s @ [frame]\<rparr> else leave api conn s)"

text \<open>Up to the loop: the server info frame, then the subscription\<close>

definition handle_connection ::
  "'c controller_api \<Rightarrow> 'r broadcast \<Rightarrow> u64 \<Rightarrow> bool \<Rightarrow> 'c \<Rightarrow> ('c, 'r) session" where
  "handle_connection api bc conn ok c =
     send_or_leave api conn ok (server_info_message_json (ap_server_info api c))
       \<lparr>ws_ctrl = c, ws_rx = bc_subscribe bc (ap_events api c), ws_listening = False,
        ws_sent = [], ws_open = True\<rparr>"

text \<open>\<open>while events.try_recv().is_ok() {}\<close>\<close>

partial_function (option) drain :: "'r broadcast \<Rightarrow> event_message list \<Rightarrow> 'r \<Rightarrow> 'r option" where
  "drain bc sent r =
     (case bc_try_recv bc sent r of
        (Received _, r') \<Rightarrow> drain bc sent r'
      | (_, r') \<Rightarrow> Some r')"

definition on_text ::
  "'c controller_api \<Rightarrow> 'r broadcast \<Rightarrow> json_text \<Rightarrow> u64 \<Rightarrow> rstring \<Rightarrow> bool
   \<Rightarrow> ('c, 'r) session \<Rightarrow> ('c, 'r) session option" where
  "on_text api bc jt conn text ok s =
     (case handle_text_frame api jt conn text (ws_listening s) (ws_ctrl s) of
        None \<Rightarrow> None
      | Some ((frame, started_listening), listening, c) \<Rightarrow>
          map_option
            (\<lambda>rx. send_or_leave api conn ok frame
                    (s\<lparr>ws_ctrl := c, ws_listening := listening, ws_rx := rx\<rparr>))
            (if started_listening then drain bc (ap_events api c) (ws_rx s) else Some (ws_rx s)))"

definition on_event ::
  "'c controller_api \<Rightarrow> 'r broadcast \<Rightarrow> u64 \<Rightarrow> bool \<Rightarrow> ('c, 'r) session \<Rightarrow> ('c, 'r) session" where
  "on_event api bc conn ok s =
     (case bc_try_recv bc (ap_events api (ws_ctrl s)) (ws_rx s) of
        (Received ev, rx) \<Rightarrow>
          if ws_listening s then send_or_leave api conn ok (event_message_json ev) (s\<lparr>ws_rx := rx\<rparr>)
          else s\<lparr>ws_rx := rx\<rparr>
      | (Lagged n, rx) \<Rightarrow> s\<lparr>ws_rx := rx\<rparr>
      | (Pending, rx) \<Rightarrow> s)"

definition shutdown_frame :: json where
  "shutdown_frame = jobject [(''event'', JStr ''server_shutdown''), (''data'', JNull)]"

text \<open>The watch channel changed to \<open>stop\<close>, or its sender was dropped.\<close>

definition on_shutdown ::
  "'c controller_api \<Rightarrow> u64 \<Rightarrow> bool \<Rightarrow> bool \<Rightarrow> bool \<Rightarrow> ('c, 'r) session \<Rightarrow> ('c, 'r) session" where
  "on_shutdown api conn dropped stop ok s =
     (if dropped \<or> stop
      then leave api conn (if ok then s\<lparr>ws_sent := ws_sent s @ [shutdown_frame]\<rparr> else s)
      else s)"

text \<open>
  One turn of the loop: whichever arm of \<open>select!\<close> is ready. \<open>Elsewhere\<close> is anything
  the rest of the server does to the controller between two turns, or after the connection is gone;
  \<open>Unwind\<close> is a command that panics, where only the close guard runs.
\<close>

datatype ws_label =
    Text rstring bool | NotText | StreamEnd | Event recv_result bool | Shutdown bool bool bool
  | Unwind rstring | Elsewhere

inductive ws_step ::
  "'c controller_api \<Rightarrow> 'r broadcast \<Rightarrow> json_text \<Rightarrow> ('c \<Rightarrow> 'c \<Rightarrow> bool) \<Rightarrow> u64
   \<Rightarrow> ('c, 'r) session \<Rightarrow> ws_label \<Rightarrow> ('c, 'r) session \<Rightarrow> bool"
  for api bc jt others conn where
  text_frame: "\<lbrakk>ws_open s; on_text api bc jt conn t ok s = Some s'\<rbrakk> \<Longrightarrow> ws_step api bc jt others conn s (Text t ok) s'"
| unwind: "\<lbrakk>ws_open s; on_text api bc jt conn t True s = None\<rbrakk>
     \<Longrightarrow> ws_step api bc jt others conn s (Unwind t) (leave api conn s)"
| not_text: "ws_open s \<Longrightarrow> ws_step api bc jt others conn s NotText s"
| stream_end: "ws_open s \<Longrightarrow> ws_step api bc jt others conn s StreamEnd (leave api conn s)"
| event: "\<lbrakk>ws_open s; fst (bc_try_recv bc (ap_events api (ws_ctrl s)) (ws_rx s)) = res; res \<noteq> Pending\<rbrakk>
     \<Longrightarrow> ws_step api bc jt others conn s (Event res ok) (on_event api bc conn ok s)"
| shutdown: "ws_open s \<Longrightarrow>
     ws_step api bc jt others conn s (Shutdown dropped stop ok) (on_shutdown api conn dropped stop ok s)"
| elsewhere: "others (ws_ctrl s) c \<Longrightarrow> ws_step api bc jt others conn s Elsewhere (s\<lparr>ws_ctrl := c\<rparr>)"

inductive ws_run ::
  "'c controller_api \<Rightarrow> 'r broadcast \<Rightarrow> json_text \<Rightarrow> ('c \<Rightarrow> 'c \<Rightarrow> bool) \<Rightarrow> u64
   \<Rightarrow> ('c, 'r) session \<Rightarrow> ws_label list \<Rightarrow> ('c, 'r) session \<Rightarrow> bool"
  for api bc jt others conn where
  rest: "ws_run api bc jt others conn s [] s"
| turn: "\<lbrakk>ws_step api bc jt others conn s l s'; ws_run api bc jt others conn s' ls s''\<rbrakk>
     \<Longrightarrow> ws_run api bc jt others conn s (l # ls) s''"

end
