(* ===== verification/Persist_Facts.thy ===== *)
theory Persist_Facts
  imports Admin_Facts
begin

section \<open>A restart finds every node again\<close>

text \<open>
  The node files mirror the registry: one file per registered node, holding its record, and no
  other \<open>.json\<close> file in the directory. Every command and every stack event keeps the mirror
  as long as the disk works, and \<open>MatterController::new\<close> turns a mirrored directory back
  into the registry, all nodes unavailable.
\<close>

definition no_faults :: "fs \<Rightarrow> bool" where
  "no_faults s \<longleftrightarrow> (\<forall>k. fs_fault s k = None)"

definition node_file :: "fpath \<Rightarrow> bool" where
  "node_file p \<longleftrightarrow> fst p = ''nodes'' \<and> extension (snd p) = Some ''json''"

definition mirrors :: "registry \<Rightarrow> fs \<Rightarrow> bool" where
  "mirrors reg s \<longleftrightarrow>
     (\<forall>n e. om_get reg n = Some e \<longrightarrow>
        (\<exists>f. fs_get s (node_path n) = Some f \<and> fn_content f = Doc (node_record_json (en_record e))))
     \<and> (\<forall>p. node_file p \<and> fs_get s p \<noteq> None \<longrightarrow> (\<exists>n. p = node_path n \<and> registry_contains reg n))"

definition disk_mirrors :: "'a shared_scheme \<Rightarrow> bool" where
  "disk_mirrors c \<longleftrightarrow> no_faults (sh_fs c) \<and> fs_ok (sh_fs c) \<and> mirrors (sh_registry c) (sh_fs c)"

lemma mirrorsD:
  assumes "mirrors reg s"
  shows "om_get reg n = Some e \<Longrightarrow>
      \<exists>f. fs_get s (node_path n) = Some f \<and> fn_content f = Doc (node_record_json (en_record e))"
    and "node_file p \<Longrightarrow> fs_get s p \<noteq> None \<Longrightarrow> \<exists>n. p = node_path n \<and> registry_contains reg n"
  using assms unfolding mirrors_def by blast+

lemma extension_after_dot:
  assumes "CHR ''.'' \<notin> set t" and "s \<noteq> []"
  shows "extension (s @ CHR ''.'' # t) = Some t"
proof -
  have "rsplit_once (CHR ''.'') (s @ CHR ''.'' # t) = Some (s, t)"
    using assms(1) by (simp add: rsplit_once_Some_iff)
  with assms(2) show ?thesis by (simp add: extension_def)
qed

lemma dot_no_digit: "\<not> is_digit (CHR ''.'')"
  by (simp add: is_digit_def byte_def)

lemma node_path_is_file: "node_file (node_path n)"
  using extension_after_dot[of "''json''" "dec_of n"] by (simp add: node_file_def node_path_def)

lemma node_path_inject [simp]: "node_path n = node_path m \<longleftrightarrow> n = m"
  by (auto simp: node_path_def)

lemma tmp_not_node_file: "\<not> node_file (tmp_path pid seq p)"
proof -
  let ?t = "''tmp-'' @ dec_of pid @ ''-'' @ dec_of seq"
  have "CHR ''.'' \<notin> set ?t" using dec_of_no_char[OF dot_no_digit, of pid] dec_of_no_char[OF dot_no_digit, of seq] by auto
  then have "extension ((''.'' @ snd p) @ CHR ''.'' # ?t) = Some ?t"
    by (intro extension_after_dot) simp_all
  moreover have "?t \<noteq> ''json''" by simp
  ultimately show ?thesis by (auto simp: node_file_def tmp_path_def)
qed

lemma config_not_node_file: "\<not> node_file config_path"
  by (simp add: node_file_def config_path_def)

lemma no_faults_write: "no_faults s \<Longrightarrow> no_faults (snd (write_json_atomic pid p v sec s))"
  by (simp add: no_faults_def write_json_atomic_fault)

text \<open>A write seen at the level of node files\<close>

lemma write_effect:
  assumes "no_faults s" and "snd p \<noteq> []" and "q = p \<or> node_file q"
  shows "if q = p then \<exists>f. fs_get (snd (write_json_atomic pid p v sec s)) q = Some f \<and> fn_content f = Doc v
         else fs_get (snd (write_json_atomic pid p v sec s)) q = fs_get s q"
proof (cases "q = p")
  case True
  obtain s' where w: "write_json_atomic pid p v sec s = (Inr (), s')"
    using write_json_atomic_no_fault[of s p pid v sec] assms(1,2) by (auto simp: no_faults_def)
  from write_json_atomic_outcome[OF w] True w show ?thesis by auto
next
  case False
  then have "node_file q" using assms(3) by simp
  then have "q \<noteq> tmp_path pid (fs_tmp_seq s) p" using tmp_not_node_file by metis
  with False show ?thesis by (simp add: write_json_atomic_frame)
qed

lemma node_path_name: "snd (node_path n) \<noteq> []"
  by (simp add: node_path_def)

lemma mirrors_save_config: "mirrors reg s \<Longrightarrow> no_faults s \<Longrightarrow> mirrors reg (snd (save_config pid cfg s))"
proof -
  assume m: "mirrors reg s" and "no_faults s"
  have "fs_get (snd (save_config pid cfg s)) p = fs_get s p" if "node_file p" for p
    unfolding save_config_def using that tmp_not_node_file config_not_node_file
    by (intro write_json_atomic_frame) metis+
  then show ?thesis using m node_path_is_file by (auto simp: mirrors_def)
qed

lemma mirrors_save_node:
  assumes "mirrors reg s" and "no_faults s" and "om_get reg' (nr_node_id r) = Some e" and "en_record e = r"
    and "\<And>j. j \<noteq> nr_node_id r \<Longrightarrow> map_option en_record (om_get reg' j) = map_option en_record (om_get reg j)"
  shows "mirrors reg' (snd (save_node pid r s))"
proof -
  have eff: "if q = node_path (nr_node_id r)
      then \<exists>f. fs_get (snd (save_node pid r s)) q = Some f \<and> fn_content f = Doc (node_record_json r)
      else fs_get (snd (save_node pid r s)) q = fs_get s q" if "node_file q" for q
    unfolding save_node_def using assms(2) that by (intro write_effect) (simp_all add: node_path_name)
  show ?thesis
    unfolding mirrors_def
  proof (intro conjI allI impI)
    fix n e'
    assume g: "om_get reg' n = Some e'"
    show "\<exists>f. fs_get (snd (save_node pid r s)) (node_path n) = Some f \<and> fn_content f = Doc (node_record_json (en_record e'))"
    proof (cases "n = nr_node_id r")
      case True
      with g assms(3,4) eff[OF node_path_is_file, of n] show ?thesis by simp
    next
      case False
      with assms(5)[OF False] g obtain e0 where "om_get reg n = Some e0" "en_record e0 = en_record e'"
        by (cases "om_get reg n") auto
      with assms(1) False eff[OF node_path_is_file, of n] show ?thesis by (auto simp: mirrors_def) metis
    qed
  next
    fix p
    assume p: "node_file p \<and> fs_get (snd (save_node pid r s)) p \<noteq> None"
    show "\<exists>n. p = node_path n \<and> registry_contains reg' n"
    proof (cases "p = node_path (nr_node_id r)")
      case True
      with assms(3) show ?thesis by (auto simp: registry_contains_def)
    next
      case False
      with p eff[of p] have "fs_get s p \<noteq> None" by simp
      with mirrorsD(2)[OF assms(1), of p] p obtain n where n: "p = node_path n" "registry_contains reg n"
        by blast
      with False have "n \<noteq> nr_node_id r" by auto
      with assms(5)[of n] n show ?thesis by (auto simp: registry_contains_def)
    qed
  qed
qed

lemma mirrors_records:
  assumes "\<And>j. map_option en_record (om_get reg' j) = map_option en_record (om_get reg j)"
  shows "mirrors reg' s = mirrors reg s"
proof -
  have c: "registry_contains reg' = registry_contains reg"
  proof (rule ext)
    fix j
    show "registry_contains reg' j = registry_contains reg j"
      using assms[of j] by (cases "om_get reg j"; cases "om_get reg' j") (auto simp: registry_contains_def)
  qed
  have r: "(\<forall>e. om_get reg' n = Some e \<longrightarrow>
        (\<exists>f. fs_get s (node_path n) = Some f \<and> fn_content f = Doc (node_record_json (en_record e)))) =
      (\<forall>e. om_get reg n = Some e \<longrightarrow>
        (\<exists>f. fs_get s (node_path n) = Some f \<and> fn_content f = Doc (node_record_json (en_record e))))" for n
    using assms[of n] by (cases "om_get reg n"; cases "om_get reg' n") auto
  show ?thesis unfolding mirrors_def c r ..
qed

lemma mirrors_delete:
  assumes "mirrors reg s" and "no_faults s"
  shows "mirrors (om_remove n reg) (snd (delete_node n s))"
proof -
  have gone: "fs_get (snd (delete_node n s)) (node_path n) = None"
    using assms(2) by (auto simp: delete_node_def exec_op_def Let_def fs_get_del no_faults_def)
  have same: "fs_get (snd (delete_node n s)) q = fs_get s q" if "q \<noteq> node_path n" for q
    using that by (auto simp: delete_node_def exec_op_frame)
  show ?thesis
    using assms(1) gone same unfolding mirrors_def
    by (auto simp: om_get_remove registry_contains_def) (metis option.distinct(1))+
qed

subsection \<open>Commands and events keep the mirror\<close>

lemma save_node_no_faults: "no_faults s \<Longrightarrow> no_faults (snd (save_node pid r s))"
  by (simp add: save_node_def no_faults_write)

lemma save_node_ok: "fs_ok s \<Longrightarrow> fs_ok (snd (save_node pid r s))"
  by (simp add: save_node_def write_json_atomic_ok)

lemma disk_mirrors_config:
  "disk_mirrors c \<Longrightarrow> disk_mirrors (snd (update_config f c))"
  by (simp add: disk_mirrors_def mirrors_save_config)
     (simp add: save_config_def no_faults_write write_json_atomic_ok)

text \<open>Changing one record and saving it\<close>

lemma disk_mirrors_persist:
  assumes "disk_mirrors c" and "registry_ok (sh_registry c)" and "om_get (sh_registry c) n \<noteq> None"
    and "sh_fs c' = sh_fs c" and "registry_ok (sh_registry c')"
    and "\<And>j. j \<noteq> n \<Longrightarrow> om_get (sh_registry c') j = om_get (sh_registry c) j"
    and "om_get (sh_registry c') n \<noteq> None"
  shows "disk_mirrors (persist n c')"
proof -
  obtain e where e: "om_get (sh_registry c') n = Some e" using assms(7) by auto
  then have n: "nr_node_id (en_record e) = n" using assms(5) by (simp add: registry_ok_def)
  have fs: "sh_fs (persist n c') = snd (save_node (sh_pid c') (en_record e) (sh_fs c))"
    using e assms(4) by (simp add: persist_def snapshot_record_def)
  have "mirrors (sh_registry c') (snd (save_node (sh_pid c') (en_record e) (sh_fs c)))"
    using assms(1) e n assms(6)
    by (intro mirrors_save_node[where reg = "sh_registry c" and e = e]) (auto simp: disk_mirrors_def)
  with assms(1) show ?thesis
    by (simp add: disk_mirrors_def fs save_node_no_faults save_node_ok)
qed

lemma disk_mirrors_emit [simp]: "disk_mirrors (emit_node_updated n c) = disk_mirrors c"
  by (simp add: disk_mirrors_def)

lemma disk_mirrors_send [simp]: "disk_mirrors (send_event nm d c) = disk_mirrors c"
  by (simp add: disk_mirrors_def)

lemma disk_mirrors_available:
  assumes "set_available n b (sh_registry c) = (ch, reg')" and "disk_mirrors c"
  shows "disk_mirrors (c\<lparr>sh_registry := reg'\<rparr>)"
proof -
  have "reg' = snd (set_available n b (sh_registry c))" using assms(1) by simp
  then have "map_option en_record (om_get reg' j) = map_option en_record (om_get (sh_registry c) j)" for j
    by (auto simp: set_available_get option.map_comp comp_def intro!: option.map_cong)
  from mirrors_records[OF this] assms(2) show ?thesis by (simp add: disk_mirrors_def)
qed

lemma push_changes_frame:
  "sh_fs (push_changes n changes s) = sh_fs s"
  "j \<noteq> n \<Longrightarrow> om_get (sh_registry (push_changes n changes s)) j = om_get (sh_registry s) j"
  "om_get (sh_registry (push_changes n changes s)) n = None \<longleftrightarrow> om_get (sh_registry s) n = None"
  by (induction n changes s rule: push_changes.induct) (auto simp: with_entry_get)

lemma handle_event_mirrors:
  assumes "disk_mirrors s" and "registry_ok (sh_registry s)"
  shows "disk_mirrors (fst (handle_event now ev (s, g)))"
proof (cases "(now, ev, (s, g))" rule: handle_event.cases)
  case (1 now n port s1 g1)
  then show ?thesis
    using assms(1) by (auto simp: Let_def split: prod.splits dest: disk_mirrors_available)
next
  case (3 now n attributes s1 g1)
  have "disk_mirrors (persist n (s\<lparr>sh_registry := snd (with_entry n (\<lambda>e. ((), e\<lparr>en_record := (en_record e)
      \<lparr>nr_attributes := om_of_list attributes, nr_last_interview := now\<rparr>\<rparr>)) (sh_registry s))\<rparr>))"
    if "registry_contains (sh_registry s) n"
    using assms that by (intro disk_mirrors_persist[of s])
      (auto simp: with_entry_get registry_contains_def intro!: registry_ok_with_entry)
  with 3 assms show ?thesis by auto
next
  case (4 now n changes s1 g1)
  have "disk_mirrors (persist n (push_changes n changes s))" if "registry_contains (sh_registry s) n"
    using assms that by (intro disk_mirrors_persist[of s])
      (auto simp: push_changes_frame registry_contains_def intro!: push_changes_registry_ok)
  with 4 assms show ?thesis by auto
qed (use assms in \<open>auto simp: Let_def push_history_def disk_mirrors_def\<close>)

lemma handle_grace_expiry_mirrors:
  "disk_mirrors s \<Longrightarrow> disk_mirrors (fst (handle_grace_expiry n (s, g)))"
  by (auto simp: handle_grace_expiry_def take_timer_def Let_def split: prod.splits option.splits
      dest: disk_mirrors_available)

lemma interview_mirrors:
  assumes "disk_mirrors c" and "registry_ok (sh_registry c)"
  shows "disk_mirrors (snd (interview_node env args c))"
proof -
  have w: "disk_mirrors (c\<lparr>ct_world := w\<rparr>)" for w using assms(1) by (simp add: disk_mirrors_def)
  have "disk_mirrors (persist n (c\<lparr>ct_world := w, sh_registry := store_interview n a now (sh_registry c)\<rparr>))"
    if "registry_contains (sh_registry c) n" for n w a now
    using assms that by (intro disk_mirrors_persist[of c])
      (auto simp: store_interview_def with_entry_get registry_contains_def intro!: registry_ok_with_entry)
  then show ?thesis
    using assms(1) w by (auto simp: interview_node_def split: with_node_split try_call_split)
qed

lemma delete_node_fs:
  "no_faults s \<Longrightarrow> fs_ok s \<Longrightarrow> no_faults (snd (delete_node n s)) \<and> fs_ok (snd (delete_node n s))"
  by (auto simp: delete_node_def no_faults_def exec_op_fault exec_op_ok)

lemma remove_mirrors:
  assumes "disk_mirrors c"
  shows "disk_mirrors (snd (remove_node env args c))"
proof (cases "\<exists>n. require_u64 args ''node_id'' = Inr n \<and> registry_contains (sh_registry c) n")
  case True
  then obtain n where n: "registry_contains (sh_registry c) n" "require_u64 args ''node_id'' = Inr n" by blast
  show ?thesis
    using remove_node_state[OF n, of env] assms mirrors_delete[of "sh_registry c" "sh_fs c" n]
      delete_node_fs[of "sh_fs c" n]
    by (simp add: disk_mirrors_def)
next
  case False
  then have "snd (remove_node env args c) = c" unfolding remove_node_def by (auto split: with_node_split)
  with assms show ?thesis by simp
qed

lemma finish_commission_mirrors:
  assumes "disk_mirrors c"
  shows "disk_mirrors (snd (finish_commission env n outcome c))"
proof -
  have "disk_mirrors ((send_event ''node_added'' v (c\<lparr>sh_registry := registry_insert r (sh_registry c),
      sh_fs := snd (save_node (sh_pid c) r (sh_fs c))\<rparr>))\<lparr>ct_world := w\<rparr>)" for r v w
    using assms mirrors_save_node[of "sh_registry c" "sh_fs c" "registry_insert r (sh_registry c)" r "new_entry r" "sh_pid c"]
    by (simp add: disk_mirrors_def registry_insert_def om_get_insert new_entry_def
        save_node_no_faults save_node_ok)
  then show ?thesis
    using assms by (auto simp: finish_commission_result Let_def disk_mirrors_def split: prod.splits sum.splits)
qed

lemma command_mirrors:
  fixes c :: "'w ctrl"
  assumes "handle_command env conn cmd c = Some (r, c')" and "disk_mirrors c" and "registry_ok (sh_registry c)"
  shows "disk_mirrors c'"
proof -
  have store: "disk_mirrors (snd (store_config env f c))" for env f
    using disk_mirrors_config[OF assms(2), of "\<lambda>cfg. ((), f cfg)"]
    by (auto simp: store_config_result broadcast_server_info_updated_def split: sum.splits)
  have cred: "disk_mirrors (snd (set_wifi env args c))" "disk_mirrors (snd (set_thread env args c))"
    "disk_mirrors (snd (remove_wifi env args c))" "disk_mirrors (snd (remove_thread env args c))" for env args
    using assms(2) store by (auto simp: set_wifi_def set_thread_def remove_wifi_def remove_thread_def Let_def split: try_arg_split)
  have owner: "disk_mirrors (c\<lparr>ct_label_owner := x, ct_world := w\<rparr>)" "disk_mirrors (c\<lparr>ct_world := w\<rparr>)" for x w
    using assms(2) by (simp_all add: disk_mirrors_def)
  have label: "disk_mirrors (snd (set_default_fabric_label conn env args c))" for env conn args
    using assms(2) disk_mirrors_config[OF owner(1)] disk_mirrors_config[OF owner(2)]
    by (auto simp: set_default_fabric_label_def apply_label_def call_def Let_def owner
        split: option.splits prod.splits sum.splits) (simp add: disk_mirrors_def)
  have "disk_mirrors (snd (r, c'))"
    using handle_command_effect[OF assms(1)]
  proof cases
    case answers
    then show ?thesis using assms(2) by (auto simp: only_world_def disk_mirrors_def)
  next
    case sets_loglevel
    have "disk_mirrors (snd (set_loglevel env (cm_args cmd) c))"
      using assms(2) by (simp add: set_loglevel_def get_loglevel_def disk_mirrors_def Let_def split: prod.splits)
    then show ?thesis using sets_loglevel by metis
  next
    case (commissions target)
    then show ?thesis
    proof (cases rule: do_commission_cases)
      case (1 n cfg' c1)
      have c1: "disk_mirrors (c1\<lparr>ct_world := w\<rparr>)" for w
        using 1(2) disk_mirrors_config[OF assms(2), of "\<lambda>_. (n, cfg')"] by (simp add: disk_mirrors_def)
      show ?thesis
        unfolding 1(3) using c1 by (auto intro: finish_commission_mirrors split: try_call_split)
    qed
  qed (metis cred label interview_mirrors[OF assms(2,3)] remove_mirrors[OF assms(2)])+
  then show ?thesis by simp
qed

subsection \<open>Loading a mirrored directory\<close>

definition file_record :: "fs \<Rightarrow> fpath \<Rightarrow> node_record option" where
  "file_record s p =
     (if extension (snd p) = Some ''json''
      then (case fs_get s p of
              Some f \<Rightarrow> (case fn_content f of Doc v \<Rightarrow> node_record_of_json v | Junk \<Rightarrow> None)
            | None \<Rightarrow> None)
      else None)"

lemma read_json_record:
  assumes "no_faults s" and "extension (snd p) = Some ''json''"
  shows "\<exists>s'. read_json node_record_of_json p s = (file_record s p, s') \<and> no_faults s' \<and> fs_files s' = fs_files s"
  using assms
  by (auto simp: read_json_def read_file_def file_record_def no_faults_def Let_def
      split: option.splits fcontent.splits)

lemma file_record_files: "fs_files s' = fs_files s \<Longrightarrow> file_record s' = file_record s"
  by (rule ext) (simp add: file_record_def fs_get_def)

lemma read_nodes_records:
  "no_faults s \<Longrightarrow> fst (read_nodes ps s) = List.map_filter (file_record s) ps"
proof (induction ps arbitrary: s)
  case (Cons p ps)
  show ?case
  proof (cases "extension (snd p) = Some ''json''")
    case True
    obtain s' where s': "read_json node_record_of_json p s = (file_record s p, s')" "no_faults s'"
      "fs_files s' = fs_files s" using read_json_record[OF Cons.prems True] by blast
    show ?thesis
      using Cons.IH[OF s'(2)] True
      by (cases "file_record s p")
         (auto simp: s'(1) file_record_files[OF s'(3)] map_filter_simps split: prod.splits)
  next
    case False
    then show ?thesis using Cons.IH[OF Cons.prems] by (simp add: map_filter_simps file_record_def)
  qed
qed (simp add: map_filter_simps)

lemma loaded_records:
  assumes "no_faults s" and "mirrors reg s"
  shows "set (fst (load_nodes s)) = {en_record e |n e. om_get reg n = Some e}"
proof -
  let ?ps = "filter (\<lambda>p. fst p = ''nodes'') (om_keys (fs_files s))"
  let ?s = "s\<lparr>fs_calls := Suc (fs_calls s)\<rparr>"
  have ok: "no_faults ?s" using assms(1) by (simp add: no_faults_def)
  have rec: "file_record ?s = file_record s" by (rule file_record_files) simp
  have "set (fst (load_nodes s)) = set (List.map_filter (file_record s) ?ps)"
    using assms(1) read_nodes_records[OF ok, of ?ps]
    by (simp add: load_nodes_def Let_def no_faults_def rec split_beta)
  also have "\<dots> = {r. \<exists>p. fst p = ''nodes'' \<and> file_record s p = Some r}"
  proof -
    have "fst p = ''nodes'' \<and> file_record s p = Some r \<Longrightarrow> p \<in> set (om_keys (fs_files s))" for p r
      by (auto simp: file_record_def fs_get_def om_keys_def dest!: om_get_SomeD split: if_splits option.splits) force
    then show ?thesis by (auto simp: map_filter_def) force
  qed
  also have "\<dots> = {en_record e |n e. om_get reg n = Some e}"
  proof (intro equalityI subsetI)
    fix r
    assume "r \<in> {r. \<exists>p. fst p = ''nodes'' \<and> file_record s p = Some r}"
    then obtain p where p: "fst p = ''nodes''" "file_record s p = Some r" by blast
    then have "node_file p" "fs_get s p \<noteq> None"
      by (auto simp: file_record_def node_file_def split: if_splits option.splits)
    then obtain n where n: "p = node_path n" "registry_contains reg n" using mirrorsD(2)[OF assms(2)] by blast
    then obtain e where e: "om_get reg n = Some e" by (auto simp: registry_contains_def)
    from mirrorsD(1)[OF assms(2) e] n p(2) node_path_is_file[of n] have "r = en_record e"
      by (auto simp: file_record_def node_record_json_roundtrip node_file_def)
    with e show "r \<in> {en_record e |n e. om_get reg n = Some e}" by blast
  next
    fix r
    assume "r \<in> {en_record e |n e. om_get reg n = Some e}"
    then obtain n e where e: "om_get reg n = Some e" "r = en_record e" by blast
    with mirrorsD(1)[OF assms(2) e(1)] node_path_is_file[of n]
    have "file_record s (node_path n) = Some r"
      by (auto simp: file_record_def node_record_json_roundtrip node_file_def)
    then show "r \<in> {r. \<exists>p. fst p = ''nodes'' \<and> file_record s p = Some r}"
      by (auto simp: node_path_def)
  qed
  finally show ?thesis .
qed

lemma map_of_functional:
  assumes "\<And>k v. (k, v) \<in> set kvs \<longleftrightarrow> f k = Some v"
  shows "map_of kvs = f"
proof (rule ext)
  fix k
  show "map_of kvs k = f k"
  proof (cases "map_of kvs k")
    case None
    then have "(k, v) \<notin> set kvs" for v by (force simp: map_of_eq_None_iff)
    with assms[of k] None show ?thesis by (cases "f k") auto
  next
    case (Some v)
    then show ?thesis using assms map_of_SomeD by fastforce
  qed
qed

definition offline :: "registry \<Rightarrow> registry" where
  "offline reg = map (\<lambda>(n, e). (n, e\<lparr>en_available := False\<rparr>)) reg"

lemma offline_get: "om_get (offline reg) n = map_option (\<lambda>e. e\<lparr>en_available := False\<rparr>) (om_get reg n)"
  by (induction reg) (auto simp: offline_def)

lemma offline_ok: "om_ok reg \<Longrightarrow> om_ok (offline reg)"
  by (simp add: om_ok_def offline_def case_prod_beta' comp_def)

lemma restart_registry:
  assumes "no_faults s" and "mirrors reg s" and "registry_ok reg"
  shows "registry_new (fst (load_nodes s)) = offline reg"
proof (rule om_eqI)
  show "om_ok (registry_new (fst (load_nodes s)))" by (simp add: registry_new_def om_ok_of_list)
  show "om_ok (offline reg)" using assms(3) by (simp add: offline_ok registry_ok_def)
  fix n
  have "map_of (rev (map (\<lambda>r. (nr_node_id r, new_entry r)) (fst (load_nodes s)))) =
      (\<lambda>n. map_option (\<lambda>e. e\<lparr>en_available := False\<rparr>) (om_get reg n))"
  proof (rule map_of_functional)
    fix k v
    have e: "new_entry (en_record e) = e\<lparr>en_available := False\<rparr>" for e :: node_entry
      by (simp add: new_entry_def)
    show "((k, v) \<in> set (rev (map (\<lambda>r. (nr_node_id r, new_entry r)) (fst (load_nodes s))))) \<longleftrightarrow>
        (map_option (\<lambda>e. e\<lparr>en_available := False\<rparr>) (om_get reg k) = Some v)"
    proof
      assume "(k, v) \<in> set (rev (map (\<lambda>r. (nr_node_id r, new_entry r)) (fst (load_nodes s))))"
      then obtain r where r: "r \<in> set (fst (load_nodes s))" "k = nr_node_id r" "v = new_entry r" by auto
      then obtain n e' where "om_get reg n = Some e'" "r = en_record e'"
        unfolding loaded_records[OF assms(1,2)] by blast
      with assms(3) r show "map_option (\<lambda>e. e\<lparr>en_available := False\<rparr>) (om_get reg k) = Some v"
        by (auto simp: registry_ok_def e)
    next
      assume "map_option (\<lambda>e. e\<lparr>en_available := False\<rparr>) (om_get reg k) = Some v"
      then obtain e' where e': "om_get reg k = Some e'" "v = new_entry (en_record e')" by (auto simp: e)
      then have "en_record e' \<in> set (fst (load_nodes s))"
        unfolding loaded_records[OF assms(1,2)] by blast
      moreover have "nr_node_id (en_record e') = k" using assms(3) e' by (simp add: registry_ok_def)
      ultimately show "(k, v) \<in> set (rev (map (\<lambda>r. (nr_node_id r, new_entry r)) (fst (load_nodes s))))"
        using e' by (auto intro!: image_eqI[of _ _ "en_record e'"])
    qed
  qed
  then show "om_get (registry_new (fst (load_nodes s))) n = om_get (offline reg) n"
    by (simp add: registry_new_def om_get_of_list offline_get)
qed

lemma controller_new_registry:
  "sh_registry (controller_new env s pid i fi sv ll lg w) = registry_new (fst (load_nodes s))"
  by (simp add: controller_new_def Let_def split: prod.splits)

end
