(* ===== verification/Server.thy ===== *)
theory Server
  imports Persist_Facts
begin

section \<open>The whole server\<close>

text \<open>
  Commands of any connection, steps of the node manager and closing connections, in any order.
\<close>

datatype 'w server_label =
    Command "'w env" u64 command_message
  | Manager nm_label
  | Close u64

inductive server_step ::
  "'w ctrl \<times> grace \<Rightarrow> 'w server_label \<Rightarrow> 'w ctrl \<times> grace \<Rightarrow> bool" where
  command: "handle_command env conn cmd c = Some (r, c') \<Longrightarrow>
     server_step (c, g) (Command env conn cmd) (c', g)"
| manager: "nm_step sg l sg' \<Longrightarrow> manager_label l \<Longrightarrow> server_step sg (Manager l) sg'"
| close: "server_step (c, g) (Close conn) (connection_closed conn c, g)"

inductive server_run ::
  "'w ctrl \<times> grace \<Rightarrow> 'w server_label list \<Rightarrow> 'w ctrl \<times> grace \<Rightarrow> bool" where
  stop: "server_run sg [] sg"
| more: "\<lbrakk>server_step sg l sg'; server_run sg' ls sg''\<rbrakk> \<Longrightarrow> server_run sg (l # ls) sg''"

lemma connection_closed_shared:
  "sh_registry (connection_closed conn c) = sh_registry c" "sh_fs (connection_closed conn c) = sh_fs c"
  "sh_events (connection_closed conn c) = sh_events c"
  by (simp_all add: connection_closed_def)

lemma nm_step_mirrors:
  "nm_step sg l sg' \<Longrightarrow> manager_label l \<Longrightarrow> disk_mirrors (fst sg) \<Longrightarrow> registry_ok (sh_registry (fst sg)) \<Longrightarrow>
   disk_mirrors (fst sg')"
proof (induction rule: nm_step.induct)
  case (recv sg now ev)
  then show ?case using handle_event_mirrors by (cases sg) auto
qed (auto intro: handle_grace_expiry_mirrors)

lemma server_step_mirrors:
  assumes "server_step sg l sg'" and "disk_mirrors (fst sg)" and "registry_ok (sh_registry (fst sg))"
  shows "disk_mirrors (fst sg') \<and> registry_ok (sh_registry (fst sg'))"
  using assms
proof cases
  case (command env conn cmd c r c' g)
  then show ?thesis using command_mirrors command_announces assms(2,3) by fastforce
next
  case (manager l)
  then show ?thesis using nm_step_mirrors nm_step_registry_ok assms(2,3) by blast
next
  case (close c g conn)
  then show ?thesis using assms(2,3) by (simp add: disk_mirrors_def connection_closed_shared)
qed

lemma server_run_mirrors:
  "server_run sg ls sg' \<Longrightarrow> disk_mirrors (fst sg) \<Longrightarrow> registry_ok (sh_registry (fst sg)) \<Longrightarrow>
   disk_mirrors (fst sg') \<and> registry_ok (sh_registry (fst sg'))"
  by (induction rule: server_run.induct) (auto dest: server_step_mirrors)

lemma server_step_announces:
  assumes "server_step sg l sg'" and "registry_ok (sh_registry (fst sg))"
  shows "announced (fst sg) (fst sg') \<and> registry_ok (sh_registry (fst sg'))"
  using assms
proof cases
  case (command env conn cmd c r c' g)
  then show ?thesis using command_announces assms(2) by fastforce
next
  case (manager l)
  then show ?thesis using nm_step_announces nm_step_registry_ok assms(2) by blast
next
  case (close c g conn)
  then show ?thesis using assms(2) by (simp add: announced_silent connection_closed_shared)
qed

lemma server_run_in_sync:
  "server_run sg ls sg' \<Longrightarrow> registry_ok (sh_registry (fst sg)) \<Longrightarrow> in_sync v (fst sg) \<Longrightarrow> in_sync v (fst sg')"
  by (induction rule: server_run.induct) (auto dest: server_step_announces announced_in_sync)

end
