(* ===== verification/Ws_Facts.thy ===== *)
theory Ws_Facts
  imports Ws Server
begin

section \<open>What a WebSocket client is promised\<close>

text \<open>
  The lemmas of one connection, first for any controller whose operations keep a guarantee and only
  ever append to the broadcast (a locale), then for the two controllers of the repository, and the
  properties of the real one: the client that listens, the replies, silence before listening,
  release of the fabric label, and what a receiver that fell behind is sent.
\<close>

subsection \<open>Segments of the broadcast\<close>

definition segment :: "nat \<Rightarrow> nat \<Rightarrow> 'a list \<Rightarrow> 'a list" where
  "segment a b xs = take (b - a) (drop a xs)"

lemma segment_join: "a \<le> b \<Longrightarrow> b \<le> d \<Longrightarrow> segment a b xs @ segment b d xs = segment a d xs"
  unfolding segment_def using take_add[of "b - a" "d - b" "drop a xs"] by simp

lemma segment_grown: "b \<le> length xs \<Longrightarrow> segment a b (xs @ ys) = segment a b xs"
  by (cases "a \<le> length xs") (auto simp: segment_def)

lemma segment_one: "a < length xs \<Longrightarrow> segment a (Suc a) xs = [xs ! a]"
  by (simp add: segment_def take_Suc_conv_app_nth Suc_diff_le)

lemma segment_empty [simp]: "segment a a xs = []"
  by (simp add: segment_def)


subsection \<open>Frames\<close>

definition is_event_frame :: "json \<Rightarrow> bool" where
  "is_event_frame f \<longleftrightarrow> jget f ''event'' \<noteq> None"

definition is_reply_frame :: "json \<Rightarrow> bool" where
  "is_reply_frame f \<longleftrightarrow> jget f ''message_id'' \<noteq> None"

definition request_id :: "json_text \<Rightarrow> rstring \<Rightarrow> rstring" where
  "request_id jt t = (case parse_command jt t of Inl _ \<Rightarrow> [] | Inr cmd \<Rightarrow> cm_message_id cmd)"

lemma frame_kinds [simp]:
  "\<not> is_event_frame (success_result_json r)" "\<not> is_event_frame (error_result_json e)"
  "is_event_frame (event_message_json ev)" "\<not> is_reply_frame (event_message_json ev)"
  "jget (success_result_json r) ''message_id'' = Some (JStr (sr_message_id r))"
  "jget (error_result_json e) ''message_id'' = Some (JStr (er_message_id e))"
  by (simp_all add: is_event_frame_def is_reply_frame_def success_result_json_def error_result_json_def
      event_message_json_def jget_jobject)

lemma server_info_no_kind [simp]:
  "\<not> is_event_frame (server_info_message_json i)" "\<not> is_reply_frame (server_info_message_json i)"
  by (cases "si_fabric_index i"; cases "si_wifi_ssid i"; cases "si_ble_proxy_enabled i";
      cases "si_controller_node_id i";
      simp add: is_event_frame_def is_reply_frame_def server_info_message_json_def jget_jobject)+


subsection \<open>The receiver\<close>

lemma broadcast_cases:
  assumes "broadcast_contract cap pos bc" and "pos r \<le> length sent"
  obtains (pending) r' where "bc_try_recv bc sent r = (Pending, r')" "pos r = length sent" "pos r' = pos r"
  | (received) r' where "bc_try_recv bc sent r = (Received (sent ! pos r), r')" "pos r < length sent"
      "length sent - pos r \<le> cap" "pos r' = Suc (pos r)"
  | (lagged) n r' where "bc_try_recv bc sent r = (Lagged n, r')" "cap < length sent - pos r"
      "pos r' = length sent - cap"
proof -
  obtain res r' where p: "bc_try_recv bc sent r = (res, r')" by force
  from assms have "if pos r = length sent then res = Pending \<and> pos r' = pos r
           else if length sent - pos r \<le> cap then res = Received (sent ! pos r) \<and> pos r' = Suc (pos r)
           else res = Lagged (length sent - cap - pos r) \<and> pos r' = length sent - cap"
    unfolding broadcast_contract_def using p by fastforce
  with p assms(2) that show thesis by (auto split: if_splits)
qed

lemma drain_returns:
  assumes "broadcast_contract cap pos bc" and "pos r \<le> length sent"
  shows "\<exists>r'. drain bc sent r = Some r' \<and>
           pos r' = (if length sent - pos r \<le> cap then length sent else length sent - cap)"
  using assms(2)
proof (induction "length sent - pos r" arbitrary: r rule: less_induct)
  case less
  from assms(1) less.prems show ?case
  proof (cases rule: broadcast_cases)
    case (received r')
    then have "length sent - pos r' < length sent - pos r" "pos r' \<le> length sent" by auto
    from less.hyps[OF this] received show ?thesis by (auto simp: drain.simps[of bc sent r])
  qed (auto simp: drain.simps[of bc sent r])
qed

subsection \<open>One turn\<close>

lemma handle_text_frame_reply:
  assumes "handle_text_frame api jt conn t listening c = Some ((frame, started), listening', c')"
  shows "\<not> is_event_frame frame" "is_reply_frame frame"
    "jget frame ''message_id'' = Some (JStr (request_id jt t))"
    "started \<longleftrightarrow> listening' \<and> \<not> listening" "listening \<Longrightarrow> listening'"
  using assms
  by (auto simp: handle_text_frame_def request_id_def is_reply_frame_def error_result_new_def Let_def
      split: sum.splits option.splits prod.splits)

lemma leave_simps [simp]:
  "ws_open (leave api conn s) = False" "ws_sent (leave api conn s) = ws_sent s"
  "ws_rx (leave api conn s) = ws_rx s" "ws_listening (leave api conn s) = ws_listening s"
  "ws_ctrl (leave api conn s) = ap_connection_closed api conn (ws_ctrl s)"
  by (simp_all add: leave_def)

lemma send_or_leave_simps [simp]:
  "ws_open (send_or_leave api conn ok f s) = (ok \<and> ws_open s)"
  "ws_rx (send_or_leave api conn ok f s) = ws_rx s"
  "ws_listening (send_or_leave api conn ok f s) = ws_listening s"
  "ws_sent (send_or_leave api conn ok f s) = ws_sent s @ (if ok then [f] else [])"
  "ws_ctrl (send_or_leave api conn ok f s) =
     (if ok then ws_ctrl s else ap_connection_closed api conn (ws_ctrl s))"
  by (simp_all add: send_or_leave_def)

lemma on_text_cases:
  assumes "on_text api bc jt conn t ok s = Some s'"
  obtains frame started listening c rx where
    "handle_text_frame api jt conn t (ws_listening s) (ws_ctrl s) = Some ((frame, started), listening, c)"
    "(if started then drain bc (ap_events api c) (ws_rx s) else Some (ws_rx s)) = Some rx"
    "s' = send_or_leave api conn ok frame (s\<lparr>ws_ctrl := c, ws_listening := listening, ws_rx := rx\<rparr>)"
  using assms by (auto simp: on_text_def split: option.splits prod.splits)

text \<open>The text frames among the labels of a run\<close>

fun text_of :: "ws_label \<Rightarrow> rstring list" where
  "text_of (Text t _) = [t]"
| "text_of _ = []"

abbreviation texts :: "ws_label list \<Rightarrow> rstring list" where
  "texts ls \<equiv> concat (map text_of ls)"

abbreviation message_ids :: "json list \<Rightarrow> json option list" where
  "message_ids fs \<equiv> map (\<lambda>f. jget f ''message_id'') (filter is_reply_frame fs)"

lemma ws_step_frames:
  assumes "ws_step api bc jt others conn s l s'" and "ws_open s'"
  shows "ws_open s \<and> (ws_listening s \<longrightarrow> ws_listening s') \<and>
    (\<exists>fs. ws_sent s' = ws_sent s @ fs
        \<and> message_ids fs = map (\<lambda>t. Some (JStr (request_id jt t))) (text_of l)
        \<and> (ws_listening s \<or> filter is_event_frame fs = []))"
  using assms
proof cases
  case (text_frame t ok)
  from text_frame(3) show ?thesis
  proof (rule on_text_cases)
    fix frame started listening c rx
    assume h: "handle_text_frame api jt conn t (ws_listening s) (ws_ctrl s) = Some ((frame, started), listening, c)"
      and s': "s' = send_or_leave api conn ok frame (s\<lparr>ws_ctrl := c, ws_listening := listening, ws_rx := rx\<rparr>)"
    from handle_text_frame_reply[OF h] show ?thesis using text_frame(1,2) assms(2) s' by auto
  qed
next
  case (event res ok)
  then show ?thesis using assms(2)
    by (auto simp: on_event_def split: prod.splits recv_result.splits if_splits)
qed (use assms(2) in \<open>auto simp: on_shutdown_def split: if_splits\<close>)

lemma ws_run_frames:
  assumes "ws_run api bc jt others conn s ls s'" and "ws_open s'"
  shows "ws_open s \<and> (ws_listening s \<longrightarrow> ws_listening s') \<and>
    (\<exists>fs. ws_sent s' = ws_sent s @ fs
        \<and> message_ids fs = map (\<lambda>t. Some (JStr (request_id jt t))) (texts ls)
        \<and> (ws_listening s' \<or> filter is_event_frame fs = []))"
  using assms
proof (induction rule: ws_run.induct)
  case (turn s l s' ls s'')
  then obtain fs where "ws_open s'" "ws_listening s' \<longrightarrow> ws_listening s''"
    "ws_sent s'' = ws_sent s' @ fs" "message_ids fs = map (\<lambda>t. Some (JStr (request_id jt t))) (texts ls)"
    "ws_listening s'' \<or> filter is_event_frame fs = []" by blast
  moreover from ws_step_frames[OF turn(1) \<open>ws_open s'\<close>] obtain gs where "ws_open s"
    "ws_listening s \<longrightarrow> ws_listening s'" "ws_sent s' = ws_sent s @ gs"
    "message_ids gs = map (\<lambda>t. Some (JStr (request_id jt t))) (text_of l)"
    "ws_listening s \<or> filter is_event_frame gs = []" by blast
  ultimately show ?case by (intro conjI exI[of _ "gs @ fs"]) auto
qed simp

text \<open>
  every request is answered once, in order. As long as the connection is open, the replies it
  has sent carry exactly the message ids of the text frames it has read, in the order they came
  (the empty id for a frame that is not a command).
\<close>

theorem every_text_frame_answered:
  assumes "ws_run api bc jt others conn (handle_connection api bc conn True c) ls s" and "ws_open s"
  shows "message_ids (ws_sent s) = map (\<lambda>t. Some (JStr (request_id jt t))) (texts ls)"
  using ws_run_frames[OF assms] by (auto simp: handle_connection_def)

text \<open>
  A client that does not listen gets no events. Until \<open>start_listening\<close> has succeeded
  on it, an open connection has sent the server information and the replies to its own requests,
  nothing else.
\<close>

theorem silent_until_listening:
  assumes "ws_run api bc jt others conn (handle_connection api bc conn True c) ls s"
    and "ws_open s" and "\<not> ws_listening s"
  shows "hd (ws_sent s) = server_info_message_json (ap_server_info api c)
       \<and> filter is_event_frame (ws_sent s) = []"
  using ws_run_frames[OF assms(1,2)] assms(3) by (auto simp: handle_connection_def)

subsection \<open>Any controller that keeps a guarantee\<close>

text \<open>
  \<open>ok\<close> is the controller's invariant, \<open>keeps\<close> what each of its operations guarantees
  of the state before and after, \<open>others\<close> what the rest of the server may do to it.
\<close>

locale guaranteed_controller =
  fixes api :: "'c controller_api" and ok :: "'c \<Rightarrow> bool" and keeps :: "'c \<Rightarrow> 'c \<Rightarrow> bool"
    and others :: "'c \<Rightarrow> 'c \<Rightarrow> bool"
  assumes keeps_refl: "keeps c c"
    and keeps_trans: "keeps c d \<Longrightarrow> keeps d e \<Longrightarrow> keeps c e"
    and keeps_grows: "keeps c d \<Longrightarrow> \<exists>evs. ap_events api d = ap_events api c @ evs"
    and handle_keeps: "ok c \<Longrightarrow> ap_handle_command api conn cmd c = Some (r, d) \<Longrightarrow> keeps c d \<and> ok d"
    and closed_keeps: "ok c \<Longrightarrow> keeps c (ap_connection_closed api conn c) \<and> ok (ap_connection_closed api conn c)"
    and others_keep: "ok c \<Longrightarrow> others c d \<Longrightarrow> keeps c d \<and> ok d"
begin

lemma frame_keeps:
  assumes "handle_text_frame api jt conn t listening c = Some (fr, l, d)" and "ok c"
  shows "keeps c d \<and> ok d"
  using assms handle_keeps keeps_refl
  by (auto simp: handle_text_frame_def Let_def split: sum.splits option.splits prod.splits)

lemma leave_keeps: "ok (ws_ctrl s) \<Longrightarrow> keeps (ws_ctrl s) (ws_ctrl (leave api conn s)) \<and> ok (ws_ctrl (leave api conn s))"
  using closed_keeps by simp

lemma step_keeps:
  assumes "ws_step api bc jt others conn s l s'" and "ok (ws_ctrl s)"
  shows "keeps (ws_ctrl s) (ws_ctrl s') \<and> ok (ws_ctrl s')"
  using assms
proof cases
  case (text_frame t good)
  from text_frame(3) show ?thesis
  proof (rule on_text_cases)
    fix frame started listening c rx
    assume h: "handle_text_frame api jt conn t (ws_listening s) (ws_ctrl s) = Some ((frame, started), listening, c)"
      and s': "s' = send_or_leave api conn good frame (s\<lparr>ws_ctrl := c, ws_listening := listening, ws_rx := rx\<rparr>)"
    from frame_keeps[OF h assms(2)] closed_keeps show ?thesis
      unfolding s' by (auto intro: keeps_trans)
  qed
next
  case (event res good)
  then show ?thesis using assms(2) closed_keeps keeps_refl
    by (auto simp: on_event_def split: prod.splits recv_result.splits)
qed (use assms(2) closed_keeps keeps_refl others_keep in \<open>auto simp: on_shutdown_def\<close>)

lemma run_keeps:
  "ws_run api bc jt others conn s ls s' \<Longrightarrow> ok (ws_ctrl s) \<Longrightarrow> keeps (ws_ctrl s) (ws_ctrl s') \<and> ok (ws_ctrl s')"
  by (induction rule: ws_run.induct) (auto intro: keeps_refl dest: step_keeps intro: keeps_trans)

text \<open>A turn of a listening connection that loses nothing sends the events it consumes.\<close>

lemma step_stream:
  assumes "ws_step api bc jt others conn s l s'" and "ok (ws_ctrl s)" and "ws_open s'" and "ws_listening s"
    and "broadcast_contract cap pos bc" and "pos (ws_rx s) \<le> length (ap_events api (ws_ctrl s))"
    and "\<And>n good. l \<noteq> Event (Lagged n) good"
  shows "pos (ws_rx s) \<le> pos (ws_rx s') \<and> pos (ws_rx s') \<le> length (ap_events api (ws_ctrl s')) \<and>
    (\<exists>fs. ws_sent s' = ws_sent s @ fs \<and> filter is_event_frame fs =
       map event_message_json (segment (pos (ws_rx s)) (pos (ws_rx s')) (ap_events api (ws_ctrl s'))))"
proof -
  have grown: "length (ap_events api (ws_ctrl s)) \<le> length (ap_events api (ws_ctrl s'))"
    using step_keeps[OF assms(1,2)] keeps_grows by fastforce
  from assms(1) show ?thesis
  proof cases
    case (text_frame t good)
    from text_frame(3) show ?thesis
    proof (rule on_text_cases)
      fix frame started listening c rx
      assume h: "handle_text_frame api jt conn t (ws_listening s) (ws_ctrl s) = Some ((frame, started), listening, c)"
        and rx: "(if started then drain bc (ap_events api c) (ws_rx s) else Some (ws_rx s)) = Some rx"
        and s': "s' = send_or_leave api conn good frame (s\<lparr>ws_ctrl := c, ws_listening := listening, ws_rx := rx\<rparr>)"
      from handle_text_frame_reply[OF h] have "rx = ws_rx s" "\<not> is_event_frame frame"
        using rx assms(4) by auto
      then show ?thesis using s' grown assms(6) by auto
    qed
  next
    case (event res good)
    from assms(5,6) show ?thesis
    proof (cases rule: broadcast_cases)
      case (received r')
      then show ?thesis using event assms(3,4)
        by (auto simp: on_event_def segment_one)
    qed (use event assms(7) in auto)
  qed (use assms(3,6) grown in \<open>auto simp: on_shutdown_def split: if_splits\<close>)
qed

lemma run_stream:
  assumes "ws_run api bc jt others conn s ls s'" and "ok (ws_ctrl s)" and "ws_open s'" and "ws_listening s"
    and "broadcast_contract cap pos bc" and "pos (ws_rx s) \<le> length (ap_events api (ws_ctrl s))"
    and "\<And>n good. Event (Lagged n) good \<notin> set ls"
  shows "pos (ws_rx s) \<le> pos (ws_rx s') \<and> pos (ws_rx s') \<le> length (ap_events api (ws_ctrl s')) \<and>
    (\<exists>fs. ws_sent s' = ws_sent s @ fs \<and> filter is_event_frame fs =
       map event_message_json (segment (pos (ws_rx s)) (pos (ws_rx s')) (ap_events api (ws_ctrl s'))))"
  using assms
proof (induction rule: ws_run.induct)
  case (turn s l s' ls s'')
  have mid: "ws_open s'" using ws_run_frames[OF turn(2) turn(5)] by blast
  have first: "\<And>n good. l \<noteq> Event (Lagged n) good" using turn(9) by auto
  from step_stream[OF turn(1,4) mid turn(6,7,8) first] obtain fs where
    fs: "pos (ws_rx s) \<le> pos (ws_rx s')" "pos (ws_rx s') \<le> length (ap_events api (ws_ctrl s'))"
      "ws_sent s' = ws_sent s @ fs" "filter is_event_frame fs =
       map event_message_json (segment (pos (ws_rx s)) (pos (ws_rx s')) (ap_events api (ws_ctrl s')))" by blast
  have ok': "ok (ws_ctrl s')" and "ws_listening s'" "\<And>n good. Event (Lagged n) good \<notin> set ls"
    using step_keeps[OF turn(1,4)] ws_step_frames[OF turn(1) mid] turn(6,9) by auto
  from turn(3)[OF ok' turn(5) this(2) turn(7) fs(2) this(3)] obtain gs where
    gs: "pos (ws_rx s') \<le> pos (ws_rx s'')" "pos (ws_rx s'') \<le> length (ap_events api (ws_ctrl s''))"
      "ws_sent s'' = ws_sent s' @ gs" "filter is_event_frame gs =
       map event_message_json (segment (pos (ws_rx s')) (pos (ws_rx s'')) (ap_events api (ws_ctrl s'')))" by blast
  obtain evs where evs: "ap_events api (ws_ctrl s'') = ap_events api (ws_ctrl s') @ evs"
    using run_keeps[OF turn(2) ok'] keeps_grows by blast
  have join: "segment (pos (ws_rx s)) (pos (ws_rx s')) (ap_events api (ws_ctrl s')) @
        segment (pos (ws_rx s')) (pos (ws_rx s'')) (ap_events api (ws_ctrl s'')) =
        segment (pos (ws_rx s)) (pos (ws_rx s'')) (ap_events api (ws_ctrl s''))"
    using fs(2) segment_join[OF fs(1) gs(1), of "ap_events api (ws_ctrl s'')"] by (simp add: evs segment_grown)
  show ?case using fs(1,3,4) gs
    by (intro conjI exI[of _ "fs @ gs"]) (auto simp flip: map_append simp: join)
qed simp

end

text \<open>What other connections, the node manager and closing connections do to the real controller\<close>

fun foreign_label :: "u64 \<Rightarrow> 'w server_label \<Rightarrow> bool" where
  "foreign_label conn (Command _ other _) = (other \<noteq> conn)"
| "foreign_label conn (Close other) = (other \<noteq> conn)"
| "foreign_label conn (Manager _) = True"

definition elsewhere :: "u64 \<Rightarrow> 'w ctrl \<Rightarrow> 'w ctrl \<Rightarrow> bool" where
  "elsewhere conn c c' \<longleftrightarrow> (\<exists>g l g'. foreign_label conn l \<and> server_step (c, g) l (c', g'))"


text \<open>The stub: only \<open>event_sender\<close> changes it.\<close>

interpretation stub: guaranteed_controller stub_controller "\<lambda>_. True"
    "\<lambda>s s'. sb_info s' = sb_info s \<and> (\<exists>evs. sb_events s' = sb_events s @ evs)" "\<lambda>s s'. \<exists>e. s' = stub_send e s"
  by unfold_locales (auto simp: stub_controller_def stub_send_def)

subsection \<open>A client that listens\<close>








lemma start_listening_step:
  assumes "broadcast_contract cap pos bc" and "pos (ws_rx s) \<le> length (sh_events (ws_ctrl s))"
    and "on_text (matter_controller env) bc jt conn t True s = Some s1"
    and "\<not> ws_listening s" and "ws_listening s1"
  shows "\<exists>id. ws_sent s1 = ws_sent s @ [success_result_json \<lparr>sr_message_id = id,
            sr_result = JArr (map matter_node_data_json (all_node_data False (sh_registry (ws_ctrl s))))\<rparr>]"
    and "ws_ctrl s1 = ws_ctrl s"
    and "ws_open s1 = ws_open s"
    and "pos (ws_rx s1) = (let sent = length (sh_events (ws_ctrl s))
           in if sent - pos (ws_rx s) \<le> cap then sent else sent - cap)"
proof -
  obtain frame started listening c rx where
    h: "handle_text_frame (matter_controller env) jt conn t (ws_listening s) (ws_ctrl s) = Some ((frame, started), listening, c)"
    and rx: "(if started then drain bc (ap_events (matter_controller env) c) (ws_rx s) else Some (ws_rx s)) = Some rx"
    and s1: "s1 = send_or_leave (matter_controller env) conn True frame
         (s\<lparr>ws_ctrl := c, ws_listening := listening, ws_rx := rx\<rparr>)"
    using on_text_cases[OF assms(3)] by metis
  have l: "listening" "started" using handle_text_frame_reply(4)[OF h] s1 assms(4,5) by auto
  from h l have f: "c = ws_ctrl s \<and> (\<exists>id. frame = success_result_json \<lparr>sr_message_id = id,
            sr_result = JArr (map matter_node_data_json (all_node_data False (sh_registry (ws_ctrl s))))\<rparr>)"
    by (auto simp: handle_text_frame_def matter_controller_def handle_command_def get_nodes_def opt_bool_def
        Let_def split: sum.splits option.splits)
  show "\<exists>id. ws_sent s1 = ws_sent s @ [success_result_json \<lparr>sr_message_id = id,
            sr_result = JArr (map matter_node_data_json (all_node_data False (sh_registry (ws_ctrl s))))\<rparr>]"
    "ws_ctrl s1 = ws_ctrl s" "ws_open s1 = ws_open s" using f s1 by auto
  show "pos (ws_rx s1) = (let sent = length (sh_events (ws_ctrl s))
           in if sent - pos (ws_rx s) \<le> cap then sent else sent - cap)"
    using rx l f s1 drain_returns[OF assms(1,2)] by (auto simp: matter_controller_def Let_def)
qed



text \<open>A receiver that keeps to the contract: a position, on a channel of the controller's 1024 slots\<close>

definition position_receiver :: "nat broadcast" where
  "position_receiver =
     \<lparr>bc_subscribe = length,
      bc_try_recv = (\<lambda>sent r.
        if r = length sent then (Pending, r)
        else if length sent - r \<le> 1024 then (Received (sent ! r), Suc r)
        else (Lagged (length sent - 1024 - r), length sent - 1024))\<rparr>"

lemma position_receiver_contract: "broadcast_contract 1024 (\<lambda>r. r) position_receiver"
  by (auto simp: broadcast_contract_def position_receiver_def)

text \<open>Two requests the reader of the example understands: anything else is \<open>start_listening\<close>.\<close>

definition example_text :: json_text where
  "example_text =
     \<lparr>jt_parse = (\<lambda>t. Inr (if t = ''remove''
          then JObj [(''args'', JObj [(''node_id'', junsigned (7 :: u64))]), (''command'', JStr ''remove_node''), (''message_id'', JStr ''2'')]
          else JObj [(''command'', JStr ''start_listening''), (''message_id'', JStr ''1'')])),
      jt_mismatch = (\<lambda>_. ''bad'')\<rparr>"

definition example_session :: "(fake_world ctrl, nat) session" where
  "example_session = handle_connection (matter_controller example_env) position_receiver 1 True example_ctrl"

subsection \<open>The fabric label\<close>

lemma node_updates_owner [simp]:
  "ct_label_owner (emit_node_updated n c) = ct_label_owner c" "ct_label_owner (persist n c) = ct_label_owner c"
  "ct_label_owner (push_history d c) = ct_label_owner c"
  by (simp_all add: emit_node_updated_def persist_def push_history_def split: option.splits)

lemma push_changes_owner [simp]: "ct_label_owner (push_changes n changes c) = ct_label_owner (c :: 'w ctrl)"
  by (induction n changes c rule: push_changes.induct) simp_all

lemma nm_step_owner:
  assumes "nm_step sg l sg'"
  shows "ct_label_owner (fst sg') = ct_label_owner (fst sg :: 'w ctrl)"
  using assms
proof (cases rule: nm_step.cases)
  case (recv now ev)
  then show ?thesis
    by (cases "(now, ev, sg)" rule: handle_event.cases)
       (auto simp: Let_def split: prod.splits)
qed (auto simp: handle_grace_expiry_def Let_def split: option.splits prod.splits)

lemma finish_commission_owner: "ct_label_owner (snd (finish_commission env n outcome c)) = ct_label_owner c"
  by (auto simp: finish_commission_def call_def Let_def split: prod.splits sum.splits option.splits)

lemma try_call_owner:
  assumes "\<And>a c. ct_label_owner (snd (k a c)) = ct_label_owner c"
  shows "ct_label_owner (snd (try_call f conv k c)) = ct_label_owner c"
  using assms by (auto split: try_call_split)

lemma command_label_owner:
  assumes "handle_command env conn cmd c = Some (r, c')"
  shows "ct_label_owner c' \<in> {ct_label_owner c, Some conn}"
proof -
  have "ct_label_owner (snd (r, c')) \<in> {ct_label_owner c, Some conn}"
    using handle_command_effect[OF assms]
  proof cases
    case answers
    then show ?thesis by (auto simp: only_world_def)
  next
    case (commissions target)
    then show ?thesis
      by (cases rule: do_commission_cases)
         (simp only: try_call_owner[OF finish_commission_owner] update_config_simps, simp)
  qed (auto simp: set_wifi_def set_thread_def remove_wifi_def remove_thread_def store_config_result
      set_default_fabric_label_def apply_label_def set_loglevel_def get_loglevel_def interview_node_def remove_node_def
      call_def Let_def split: command_splits prod.splits option.splits sum.splits if_splits)
  then show ?thesis by simp
qed

lemma elsewhere_owner:
  assumes "elsewhere conn c c'" and "ct_label_owner c \<noteq> Some conn"
  shows "ct_label_owner c' \<noteq> Some conn"
proof -
  obtain g l g' where l: "foreign_label conn l" "server_step (c, g) l (c', g')"
    using assms(1) by (auto simp: elsewhere_def)
  from l(2) show ?thesis
  proof cases
    case (command env other cmd r)
    then show ?thesis using command_label_owner l(1) assms(2) by fastforce
  next
    case (manager nl)
    then show ?thesis using nm_step_owner assms(2) by fastforce
  next
    case (close other)
    then show ?thesis using assms(2) by (simp add: connection_closed_def)
  qed
qed

text \<open>
  a closed connection owns nothing. When the task of a connection has ended, for whatever
  reason and whatever happened before or since, the fabric label is not owned by it, so another
  connection can set it.
\<close>

theorem label_released_on_exit:
  assumes "ws_run (matter_controller env) bc jt (elsewhere conn) conn s ls s'" and "ws_open s" and "\<not> ws_open s'"
  shows "ct_label_owner (ws_ctrl s') \<noteq> Some conn"
proof -
  let ?fine = "\<lambda>s :: ('a ctrl, 'b) session. ws_open s \<or> ct_label_owner (ws_ctrl s) \<noteq> Some conn"
  have left: "ct_label_owner (ap_connection_closed (matter_controller env) conn c) \<noteq> Some conn" for c
    by (simp add: matter_controller_def connection_closed_def)
  have step: "?fine s'" if "ws_step (matter_controller env) bc jt (elsewhere conn) conn s l s'" "?fine s" for s l s'
    using that
  proof cases
    case (text_frame t ok)
    then show ?thesis using left by (auto elim!: on_text_cases)
  next
    case (event res ok)
    then show ?thesis using left
      by (auto simp: on_event_def split: prod.splits recv_result.splits)
  next
    case (shutdown dropped stop ok)
    then show ?thesis using left by (auto simp: on_shutdown_def)
  qed (use left that(2) elsewhere_owner in auto)
  have "?fine s \<Longrightarrow> ?fine s'" using assms(1) by (induction rule: ws_run.induct) (use step in blast)+
  then show ?thesis using assms(2,3) by simp
qed

subsection \<open>A receiver that fell behind\<close>

text \<open>
  C37: \<open>start_listening\<close> on an overrun receiver sends stale events. The drain stops at the
  first \<open>Lagged\<close>, so when more than a buffer full of events was queued the receiver is left at
  the oldest one still held, and the next turn of the loop sends the client an event that was
  broadcast before its request was answered.
\<close>

theorem overrun_drain_sends_stale_event:
  assumes "broadcast_contract cap pos bc" and "pos (ws_rx s) + cap < length (sh_events (ws_ctrl s))"
    and "on_text (matter_controller env) bc jt conn t True s = Some s1"
    and "\<not> ws_listening s" and "ws_listening s1"
  shows "ws_sent (on_event (matter_controller env) bc conn True s1) =
     ws_sent s1 @ [event_message_json (sh_events (ws_ctrl s) ! (length (sh_events (ws_ctrl s)) - cap))]"
proof -
  have "pos (ws_rx s) \<le> length (sh_events (ws_ctrl s))" using assms(2) by simp
  note start = start_listening_step[OF assms(1) this assms(3,4,5)]
  have cap: "0 < cap" using assms(1) by (simp add: broadcast_contract_def)
  have at: "pos (ws_rx s1) = length (sh_events (ws_ctrl s1)) - cap" "ws_ctrl s1 = ws_ctrl s"
    using start(2,4) assms(2) by (auto simp: Let_def)
  then have "pos (ws_rx s1) \<le> length (sh_events (ws_ctrl s1))" by simp
  with assms(1) show ?thesis
  proof (cases rule: broadcast_cases)
    case (received r')
    then show ?thesis using at assms(5) by (simp add: on_event_def matter_controller_def)
  qed (use at assms(2) cap in auto)
qed

subsection \<open>Witnesses\<close>


definition listening_session :: "(fake_world ctrl, nat) session" where
  "listening_session = example_session\<lparr>ws_listening := True, ws_sent := ws_sent example_session @
     [success_result_json \<lparr>sr_message_id = ''1'', sr_result =
        JArr (map matter_node_data_json (all_node_data False (sh_registry example_ctrl)))\<rparr>]\<rparr>"


lemmas example_simps = on_text_def handle_text_frame_def parse_command_def example_text_def matter_controller_def
  command_message_of_json_def handle_command_def get_nodes_def opt_bool_def example_session_def
  handle_connection_def position_receiver_def send_or_leave_def

lemma example_ctrl_events [simp]: "sh_events example_ctrl = []"
  by (simp add: example_ctrl_def)


lemma example_start:
  "on_text (matter_controller example_env) position_receiver example_text 1 ''listen'' True example_session = Some listening_session"
  by (simp add: example_simps listening_session_def drain.simps)


lemma every_text_frame_answered_witness:
  "message_ids (ws_sent listening_session) = [Some (JStr ''1'')]"
proof -
  have "ws_run (matter_controller example_env) position_receiver example_text (elsewhere 1) 1
      (handle_connection (matter_controller example_env) position_receiver 1 True example_ctrl) [Text ''listen'' True] listening_session"
    using example_start by (intro turn[OF text_frame rest]) (simp_all add: example_session_def handle_connection_def)
  from every_text_frame_answered[OF this]
  show ?thesis by (simp add: listening_session_def example_simps request_id_def)
qed

lemma silent_until_listening_witness:
  "filter is_event_frame (ws_sent example_session) = []"
proof -
  have "ws_run (matter_controller example_env) position_receiver example_text (elsewhere 1) 1
      (handle_connection (matter_controller example_env) position_receiver 1 True example_ctrl) [NotText] example_session"
    by (intro turn[OF not_text, folded example_session_def] ws_run.rest)
       (simp_all add: example_session_def handle_connection_def rest)
  from silent_until_listening[OF this] show ?thesis by (simp add: example_simps)
qed


lemma label_released_on_exit_witness:
  "ct_label_owner (ws_ctrl (leave (matter_controller example_env) 1
      (example_session\<lparr>ws_ctrl := example_ctrl\<lparr>ct_label_owner := Some 1\<rparr>\<rparr>))) \<noteq> Some 1"
  by (rule label_released_on_exit[where ls = "[StreamEnd]" and bc = position_receiver and jt = example_text,
        OF turn[OF stream_end rest]])
     (simp_all add: example_session_def handle_connection_def)

definition overrun_session :: "(fake_world ctrl, nat) session" where
  "overrun_session = example_session\<lparr>ws_ctrl := example_ctrl\<lparr>sh_events :=
     map (\<lambda>n. \<lparr>ev_event = ''node_removed'', ev_data = junsigned (word_of_nat n :: u64)\<rparr>) [0..<1030]\<rparr>\<rparr>"

lemma overrun_drain_sends_stale_event_witness:
  "\<exists>s1. on_text (matter_controller example_env) position_receiver example_text 1 ''listen'' True overrun_session = Some s1
     \<and> last (ws_sent (on_event (matter_controller example_env) position_receiver 1 True s1))
       = event_message_json \<lparr>ev_event = ''node_removed'', ev_data = junsigned (6 :: u64)\<rparr>"
proof -
  obtain s1 where s1: "on_text (matter_controller example_env) position_receiver example_text 1 ''listen'' True overrun_session = Some s1"
    "ws_listening s1"
    by (simp add: example_simps overrun_session_def drain.simps)
  have "ws_sent (on_event (matter_controller example_env) position_receiver 1 True s1) = ws_sent s1 @
      [event_message_json (sh_events (ws_ctrl overrun_session) ! (length (sh_events (ws_ctrl overrun_session)) - 1024))]"
    by (rule overrun_drain_sends_stale_event[OF position_receiver_contract _ s1(1) _ s1(2)])
       (simp_all add: overrun_session_def example_simps del: upt_Suc)
  then show ?thesis using s1 by (simp add: overrun_session_def del: upt_Suc)
qed

end
