(* ===== verification/Jsdb.thy ===== *)
theory Jsdb
  imports Files "HOL-Library.Product_Lexorder"
begin

section \<open>The matter.js store (\<open>migrate/src/jsdb.rs\<close>)\<close>

text \<open>
  The read-only reader of matter.js's key-value store: a snapshot with the id of the last commit it
  holds, then the write-ahead log, of which only later commits apply. The directory is what the
  file-system calls of the standard library answer; the gzip decoder, the JSON reader and the
  reasons it gives are parameters.
\<close>

subsection \<open>Errors, ids and the directory\<close>

type_synonym path = rstring

datatype jsdb_error =
    JsIo path io_error
  | NoNamespace path "rstring list"
  | MultipleNamespaces path nat "rstring list"
  | NotWalKv path rstring
  | BadSnapshot path rstring
  | BadWalLine path nat rstring

text \<open>Context name to field map\<close>

type_synonym data = "(rstring, jmap) omap"

record commit_id =
  ci_segment :: u64
  ci_offset :: u64

text \<open>The derived order: segment first, then offset.\<close>

definition commit_le :: "commit_id \<Rightarrow> commit_id \<Rightarrow> bool" where
  "commit_le a b \<longleftrightarrow> ci_segment a < ci_segment b \<or> ci_segment a = ci_segment b \<and> ci_offset a \<le> ci_offset b"

record snapshot_file =
  sf_commit_id :: commit_id
  sf_data :: data

record dir_entry =
  de_name :: rstring        \<comment> \<open>the raw bytes of \<open>file_name()\<close>\<close>
  de_is_dir :: "io_error + bool"

text \<open>
  What \<open>read\<close>, \<open>read_dir\<close> and \<open>metadata().ok()\<close> (with \<open>modified().ok()\<close>) answer
  on each path, and the two packages.
\<close>

record store_reader =
  rd_read :: "path \<Rightarrow> io_error + rstring"
  rd_list :: "path \<Rightarrow> io_error + (io_error + dir_entry) list"
  rd_meta :: "path \<Rightarrow> nat option option"
  rd_gunzip :: "rstring \<Rightarrow> io_error + rstring"
  rd_parse :: "rstring \<Rightarrow> rstring + json"
  rd_mismatch :: "json \<Rightarrow> rstring"

text \<open>\<open>Path::join\<close> with a relative name, and \<open>Path::extension\<close>\<close>

definition join :: "path \<Rightarrow> rstring \<Rightarrow> path" where
  "join p n = (if p = [] \<or> last p = CHR ''/'' then p @ n else p @ CHR ''/'' # n)"

definition extension :: "path \<Rightarrow> rstring option" where
  "extension p =
     (case rsplit_once (CHR ''.'') (case rsplit_once (CHR ''/'') p of None \<Rightarrow> p | Some (_, n) \<Rightarrow> n) of
        None \<Rightarrow> None
      | Some (stem, ext) \<Rightarrow> if stem = [] then None else Some ext)"

definition read_bytes :: "store_reader \<Rightarrow> path \<Rightarrow> jsdb_error + rstring" where
  "read_bytes rd p = map_err (JsIo p) (rd_read rd p)"

definition gunzip_to_string :: "store_reader \<Rightarrow> rstring \<Rightarrow> path \<Rightarrow> jsdb_error + rstring" where
  "gunzip_to_string rd bytes p = map_err (JsIo p) (rd_gunzip rd bytes)"

text \<open>The text of a file: decompressed, or read leniently\<close>

definition file_text :: "store_reader \<Rightarrow> bool \<Rightarrow> path \<Rightarrow> jsdb_error + rstring" where
  "file_text rd is_gz p =
     and_then (read_bytes rd p)
       (\<lambda>bytes. if is_gz then gunzip_to_string rd bytes p else Ok (from_utf8_lossy bytes))"

subsection \<open>Operations of a commit\<close>

definition apply_op :: "path \<Rightarrow> nat \<Rightarrow> json \<Rightarrow> data \<Rightarrow> jsdb_error + data" where
  "apply_op p line_number op data =
     (let bad = BadWalLine p line_number
      in and_then (ok_or (bad ''op is not an object'') (as_object op)) (\<lambda>obj.
         and_then (ok_or (bad ''op missing \"op\" kind'') (Option.bind (om_get obj ''op'') as_str)) (\<lambda>kind.
         and_then (ok_or (bad ''op missing \"key\"'') (Option.bind (om_get obj ''key'') as_str)) (\<lambda>key.
           if kind = ''upd'' then
             and_then (ok_or (bad ''upd op's \"values\" is not an object'')
                         (Option.bind (om_get obj ''values'') as_object)) (\<lambda>values.
               let ctx = (case om_get data key of None \<Rightarrow> [] | Some ctx \<Rightarrow> ctx)
               in Ok (om_insert key (fold (\<lambda>(field, v). om_insert field v) values ctx) data))
           else if kind = ''del'' then
             (case om_get obj ''values'' of
                Some (JArr names) \<Rightarrow>
                  and_then (collect_results (\<lambda>f. ok_or (bad ''del op's \"values\" is not an array of strings'')
                              (as_str f)) names) (\<lambda>field_names.
                    Ok (om_update key (fold om_remove field_names) data))
              | Some _ \<Rightarrow> Err (bad ''del op's \"values\" is not an array of strings'')
              | None \<Rightarrow>
                  if key = [] then Ok []
                  else Ok (filter (\<lambda>(k, _). \<not> starts_with (key @ ''.'') k) (om_remove key data)))
           else Err (bad ''unknown op kind'')))))"

definition commit_ops :: "path \<Rightarrow> nat \<Rightarrow> json \<Rightarrow> jsdb_error + json list" where
  "commit_ops p line_number v =
     (case v of
        JArr ops \<Rightarrow> Ok ops
      | JObj obj \<Rightarrow>
          (case om_get obj ''ops'' of
             Some (JArr ops) \<Rightarrow> Ok ops
           | _ \<Rightarrow> Err (BadWalLine p line_number ''commit object missing an \"ops\" array''))
      | _ \<Rightarrow> Err (BadWalLine p line_number ''WAL line is neither an array nor an object''))"

definition apply_line :: "store_reader \<Rightarrow> path \<Rightarrow> nat \<Rightarrow> rstring \<Rightarrow> data \<Rightarrow> jsdb_error + data" where
  "apply_line rd p line_number line data =
     and_then (map_err (BadWalLine p line_number) (rd_parse rd line)) (\<lambda>v.
     and_then (commit_ops p line_number v) (\<lambda>ops.
       try_fold (apply_op p line_number) ops data))"

subsection \<open>Segments\<close>

text \<open>Each line of a segment with its offset; blank lines and lines the snapshot holds are skipped.\<close>

definition replay_line ::
  "store_reader \<Rightarrow> path \<Rightarrow> u64 \<Rightarrow> commit_id option \<Rightarrow> nat \<times> rstring \<Rightarrow> data \<Rightarrow> jsdb_error + data" where
  "replay_line rd p segment_number after numbered data =
     (case numbered of (offset, line) \<Rightarrow>
        let commit = \<lparr>ci_segment = segment_number, ci_offset = of_nat offset\<rparr>
        in if trim line = [] then Ok data
           else if (case after of None \<Rightarrow> False | Some a \<Rightarrow> commit_le commit a) then Ok data
           else apply_line rd p (offset + 1) line data)"

definition is_gz_path :: "path \<Rightarrow> bool" where
  "is_gz_path p = (case extension p of None \<Rightarrow> False | Some ext \<Rightarrow> eq_ignore_ascii_case ext ''gz'')"

definition replay_segment ::
  "store_reader \<Rightarrow> path \<Rightarrow> u64 \<Rightarrow> commit_id option \<Rightarrow> data \<Rightarrow> jsdb_error + data" where
  "replay_segment rd p segment_number after data =
     and_then (file_text rd (is_gz_path p) p)
       (\<lambda>text. try_fold (replay_line rd p segment_number after) (enumerate 0 (split_on (CHR ''\<newline>'') text)) data)"

definition strip_suffix :: "rstring \<Rightarrow> rstring \<Rightarrow> rstring option" where
  "strip_suffix suf s = (if ends_with suf s then Some (take (length s - length suf) s) else None)"

definition hex_digit :: "char \<Rightarrow> nat" where
  "hex_digit ch = (if is_digit ch then byte ch - 48 else byte (lower_char ch) - 87)"

definition parse_segment_filename :: "rstring \<Rightarrow> u64 option" where
  "parse_segment_filename name =
     (let lower = to_ascii_lowercase name
      in case (case strip_suffix ''.jsonl.gz'' lower of Some h \<Rightarrow> Some h | None \<Rightarrow> strip_suffix ''.jsonl'' lower) of
           None \<Rightarrow> None
         | Some hex_part \<Rightarrow>
             if length hex_part \<noteq> 8 \<or> \<not> list_all is_hexdigit hex_part then None
             else Some (of_nat (foldl (\<lambda>n ch. 16 * n + hex_digit ch) 0 hex_part)))"

definition is_gz_name :: "rstring \<Rightarrow> bool" where
  "is_gz_name name = ends_with ''.gz'' (to_ascii_lowercase name)"

definition add_segment ::
  "path \<Rightarrow> io_error + dir_entry \<Rightarrow> (u64, path) omap \<Rightarrow> jsdb_error + (u64, path) omap" where
  "add_segment wal_dir entry segments =
     and_then (map_err (JsIo wal_dir) entry) (\<lambda>e.
       let name = from_utf8_lossy (de_name e); p = join wal_dir (de_name e)
       in case parse_segment_filename name of
            None \<Rightarrow> Ok segments
          | Some segment \<Rightarrow>
              if is_gz_name name then Ok (om_insert segment p segments)
              else Ok (if om_contains segments segment then segments else om_insert segment p segments))"

definition list_wal_segments :: "store_reader \<Rightarrow> path \<Rightarrow> jsdb_error + (u64, path) omap" where
  "list_wal_segments rd wal_dir =
     (case rd_list rd wal_dir of
        Inr entries \<Rightarrow> try_fold (add_segment wal_dir) entries []
      | Inl (OsError IoNotFound msg) \<Rightarrow> Ok []
      | Inl e \<Rightarrow> Err (JsIo wal_dir e))"

definition replay_wal :: "store_reader \<Rightarrow> path \<Rightarrow> commit_id option \<Rightarrow> data \<Rightarrow> jsdb_error + data" where
  "replay_wal rd dir after data =
     and_then (list_wal_segments rd (join dir ''wal'')) (\<lambda>segments.
       try_fold (\<lambda>(segment_number, p) data.
           if (case after of None \<Rightarrow> False | Some a \<Rightarrow> segment_number < ci_segment a) then Ok data
           else replay_segment rd p segment_number after data)
         segments data)"

subsection \<open>The snapshot\<close>

text \<open>
  The derived \<open>Deserialize\<close> of the two structs, which also reads the fields in order from an
  array.
\<close>

definition commit_id_of_json :: "json \<Rightarrow> commit_id option" where
  "commit_id_of_json v =
     (let of_fields = (\<lambda>s n. case (Option.bind s as_u64, Option.bind n as_u64) of
            (Some s, Some n) \<Rightarrow> Some \<lparr>ci_segment = s, ci_offset = n\<rparr>
          | _ \<Rightarrow> None)
      in case v of
           JObj m \<Rightarrow> of_fields (om_get m ''segment'') (om_get m ''offset'')
         | JArr [s, n] \<Rightarrow> of_fields (Some s) (Some n)
         | _ \<Rightarrow> None)"

definition data_of_json :: "json \<Rightarrow> data option" where
  "data_of_json v =
     (case v of
        JObj m \<Rightarrow> (if list_all (\<lambda>(_, c). as_object c \<noteq> None) m
                   then Some (map (\<lambda>(k, c). (k, the (as_object c))) m) else None)
      | _ \<Rightarrow> None)"

definition snapshot_of_json :: "json \<Rightarrow> snapshot_file option" where
  "snapshot_of_json v =
     (let of_fields = (\<lambda>c d. case (Option.bind c commit_id_of_json, Option.bind d data_of_json) of
            (Some c, Some d) \<Rightarrow> Some \<lparr>sf_commit_id = c, sf_data = d\<rparr>
          | _ \<Rightarrow> None)
      in case v of
           JObj m \<Rightarrow> of_fields (om_get m ''commitId'') (om_get m ''data'')
         | JArr [c, d] \<Rightarrow> of_fields (Some c) (Some d)
         | _ \<Rightarrow> None)"

text \<open>The file to read and whether it is compressed: the newer one, a tie going to \<open>.gz\<close>.\<close>

definition choose_snapshot :: "store_reader \<Rightarrow> path \<Rightarrow> (path \<times> bool) option" where
  "choose_snapshot rd dir =
     (let gz_path = join dir ''snapshot.json.gz''; plain_path = join dir ''snapshot.json''
      in case (rd_meta rd gz_path, rd_meta rd plain_path) of
           (Some gz_time, Some plain_time) \<Rightarrow>
             (case (gz_time, plain_time) of
                (Some g, Some p) \<Rightarrow> if p > g then Some (plain_path, False) else Some (gz_path, True)
              | _ \<Rightarrow> Some (gz_path, True))
         | (Some _, None) \<Rightarrow> Some (gz_path, True)
         | (None, Some _) \<Rightarrow> Some (plain_path, False)
         | (None, None) \<Rightarrow> None)"

definition load_snapshot :: "store_reader \<Rightarrow> path \<Rightarrow> jsdb_error + (data \<times> commit_id option)" where
  "load_snapshot rd dir =
     (case choose_snapshot rd dir of
        None \<Rightarrow> Ok ([], None)
      | Some (p, is_gz) \<Rightarrow>
          and_then (file_text rd is_gz p) (\<lambda>text.
          and_then (map_err (BadSnapshot p)
              (and_then (rd_parse rd text) (\<lambda>v. ok_or (rd_mismatch rd v) (snapshot_of_json v)))) (\<lambda>s.
            Ok (sf_data s, Some (sf_commit_id s)))))"

subsection \<open>Opening a store\<close>

text \<open>\<open>from_slice\<close> and \<open>from_str\<close> are the same reader on the same bytes.\<close>

definition open_namespace :: "store_reader \<Rightarrow> path \<Rightarrow> jsdb_error + data" where
  "open_namespace rd dir =
     (let driver_path = join dir ''driver.json''
      in and_then (read_bytes rd driver_path) (\<lambda>driver_bytes.
         and_then (map_err (\<lambda>e. NotWalKv driver_path (''<unparseable: '' @ e @ ''>'')) (rd_parse rd driver_bytes)) (\<lambda>driver.
           let text_field = (\<lambda>k. case Option.bind (jget driver k) as_str of None \<Rightarrow> [] | Some s \<Rightarrow> s)
           in if text_field ''kind'' \<noteq> ''wal'' \<or> text_field ''type'' \<noteq> ''kv''
              then Err (NotWalKv driver_path (trim (from_utf8_lossy driver_bytes)))
              else and_then (load_snapshot rd dir) (\<lambda>(data, after). replay_wal rd dir after data))))"

definition add_name ::
  "path \<Rightarrow> io_error + dir_entry \<Rightarrow> rstring list \<times> rstring list \<Rightarrow> jsdb_error + (rstring list \<times> rstring list)" where
  "add_name root entry names =
     and_then (map_err (JsIo root) entry) (\<lambda>e.
       let name = from_utf8_lossy (de_name e);
           is_dir = (case de_is_dir e of Inl _ \<Rightarrow> False | Inr b \<Rightarrow> b);
           (all_names, namespaces) = names
       in Ok (all_names @ [name],
              if starts_with ''server-'' name \<and> is_dir then namespaces @ [name] else namespaces))"

definition open_store :: "store_reader \<Rightarrow> path \<Rightarrow> jsdb_error + (data \<times> rstring)" where
  "open_store rd root =
     and_then (map_err (JsIo root) (rd_list rd root)) (\<lambda>entries.
     and_then (try_fold (add_name root) entries ([], [])) (\<lambda>(all_names, namespaces).
       case sort namespaces of
         [] \<Rightarrow> Err (NoNamespace root (sort all_names))
       | [name] \<Rightarrow> and_then (open_namespace rd (join root name)) (\<lambda>db. Ok (db, name))
       | many \<Rightarrow> Err (MultipleNamespaces root (length many) many)))"

definition jsdb_get :: "data \<Rightarrow> rstring \<Rightarrow> jmap option" where
  "jsdb_get db context_name = om_get db context_name"

definition jsdb_field :: "data \<Rightarrow> rstring \<Rightarrow> rstring \<Rightarrow> json option" where
  "jsdb_field db context_name field = Option.bind (om_get db context_name) (\<lambda>ctx. om_get ctx field)"

definition context_keys :: "data \<Rightarrow> rstring list" where
  "context_keys db = om_keys db"

end
