(* ===== verification/Jsdb_Facts.thy ===== *)
theory Jsdb_Facts
  imports Jsdb
begin

section \<open>What reading a matter.js store guarantees\<close>

text \<open>
  The effect of each operation of a commit, the log seen as one list of commits, the two facts a
  migration rests on (a snapshot with the rest of the log is the whole log; no commit is skipped
  in silence), and the choice between a segment and its compressed twin.
\<close>

subsection \<open>Loops with early return\<close>

text \<open>Where the success of a step does not depend on the state\<close>

lemma try_fold_stateless:
  assumes "\<And>x s. x \<in> set xs \<Longrightarrow> (\<exists>t. f x s = Inr t) \<longleftrightarrow> good x"
    and "\<And>x s e. x \<in> set xs \<Longrightarrow> f x s = Inl e \<Longrightarrow> bad x e"
  shows "(\<exists>t. try_fold f xs s = Inr t \<and> list_all good xs) \<or>
     (\<exists>ys x zs e. try_fold f xs s = Inl e \<and> xs = ys @ x # zs \<and> list_all good ys \<and> \<not> good x \<and> bad x e)"
  using assms
proof (induction xs arbitrary: s)
  case (Cons x xs)
  show ?case
  proof (cases "f x s")
    case (Inl e)
    then have "\<not> good x \<and> bad x e" using Cons.prems by (metis Inl_Inr_False list.set_intros(1))
    with Inl show ?thesis by (intro disjI2 exI[of _ "[]"]) auto
  next
    case (Inr u)
    then have g: "good x" using Cons.prems(1)[of x s] by auto
    have "(\<exists>t. try_fold f xs u = Inr t \<and> list_all good xs) \<or>
     (\<exists>ys y zs e. try_fold f xs u = Inl e \<and> xs = ys @ y # zs \<and> list_all good ys \<and> \<not> good y \<and> bad y e)"
      using Cons.IH Cons.prems by auto
    then show ?thesis
    proof (elim disjE exE conjE)
      fix ys y zs e
      assume "try_fold f xs u = Inl e" "xs = ys @ y # zs" "list_all good ys" "\<not> good y" "bad y e"
      then show ?thesis using Inr g by (intro disjI2 exI[of _ "x # ys"] exI[of _ y] exI[of _ zs] exI[of _ e]) simp
    qed (use Inr g in auto)
  qed
qed simp

subsection \<open>Operations\<close>

text \<open>A well-formed operation\<close>

definition op_ok :: "json \<Rightarrow> bool" where
  "op_ok op \<longleftrightarrow> (\<exists>obj key. op = JObj obj \<and> om_get obj ''key'' = Some (JStr key) \<and>
     (om_get obj ''op'' = Some (JStr ''upd'') \<and> (\<exists>vs. om_get obj ''values'' = Some (JObj vs)) \<or>
      om_get obj ''op'' = Some (JStr ''del'') \<and>
        (om_get obj ''values'' = None \<or> (\<exists>fs. om_get obj ''values'' = Some (JArr (map JStr fs))))))"

lemma collect_strings_ok:
  "(\<exists>ns. collect_results (\<lambda>f. ok_or e (as_str f)) vs = Inr ns) \<longleftrightarrow> (\<exists>ss. vs = map JStr ss)"
proof (induction vs)
  case (Cons v vs)
  show ?case
  proof (cases "as_str v")
    case None
    then have "v \<noteq> JStr s" for s by auto
    then show ?thesis using None by auto
  next
    case (Some s)
    then show ?thesis using Cons by (cases "collect_results (\<lambda>f. ok_or e (as_str f)) vs") (auto simp: Cons_eq_map_conv)
  qed
qed simp

lemma collect_strings_error: "collect_results (\<lambda>f. ok_or e (as_str f)) vs = Inl e' \<Longrightarrow> e' = e"
proof (induction vs)
  case (Cons v vs)
  then show ?case
    by (cases "as_str v"; cases "collect_results (\<lambda>f. ok_or e (as_str f)) vs") auto
qed simp

lemma collect_strings: "collect_results (\<lambda>f. ok_or e (as_str f)) (map JStr ss) = Inr ss"
  by (induction ss) simp_all

lemma apply_op_outcome:
  "(\<exists>d. apply_op p n op data = Inr d) \<longleftrightarrow> op_ok op"
  "apply_op p n op data = Inl e \<Longrightarrow> \<exists>r. e = BadWalLine p n r"
proof -
  have 1: "(\<exists>d. apply_op p n op data = Inr d) = op_ok op \<and>
      (apply_op p n op data = Inl e \<longrightarrow> (\<exists>r. e = BadWalLine p n r))"
  proof (cases "as_object op")
    case None
    then have "\<not> op_ok op" by (auto simp: op_ok_def)
    then show ?thesis using None by (auto simp: apply_op_def Let_def)
  next
    case (Some obj)
    then have op: "op = JObj obj" by simp
    show ?thesis
    proof (cases "Option.bind (om_get obj ''op'') as_str"; cases "Option.bind (om_get obj ''key'') as_str")
      fix kind key
      assume k: "Option.bind (om_get obj ''op'') as_str = Some kind" "Option.bind (om_get obj ''key'') as_str = Some key"
      then have g: "om_get obj ''op'' = Some (JStr kind)" "om_get obj ''key'' = Some (JStr key)"
        by (auto simp: bind_eq_Some_conv)
      consider "kind = ''upd''" | "kind = ''del''" | "kind \<noteq> ''upd''" "kind \<noteq> ''del''" by blast
      then show ?thesis
      proof cases
        case 1
        then show ?thesis using g op
          by (cases "om_get obj ''values''"; cases "the (om_get obj ''values'')")
             (auto simp: apply_op_def op_ok_def Let_def)
      next
        case 2
        let ?bad = "BadWalLine p n ''del op's \"values\" is not an array of strings''"
        show ?thesis
        proof (cases "om_get obj ''values''")
          case None
          then show ?thesis using g op 2 by (auto simp: apply_op_def op_ok_def Let_def)
        next
          case (Some v)
          show ?thesis
          proof (cases v)
            case (JArr vs)
            have "(\<exists>ns. collect_results (\<lambda>f. ok_or ?bad (as_str f)) vs = Inr ns) \<longleftrightarrow> (\<exists>ss. vs = map JStr ss)"
              by (rule collect_strings_ok)
            moreover have "collect_results (\<lambda>f. ok_or ?bad (as_str f)) vs = Inl e' \<Longrightarrow> e' = ?bad" for e'
              by (rule collect_strings_error)
            ultimately show ?thesis using g op 2 Some JArr
              by (cases "collect_results (\<lambda>f. ok_or ?bad (as_str f)) vs")
                 (auto simp: apply_op_def op_ok_def Let_def)
          qed (use g op 2 Some in \<open>auto simp: apply_op_def op_ok_def Let_def\<close>)
        qed
      qed (use g op in \<open>auto simp: apply_op_def op_ok_def Let_def\<close>)
    qed (use op in \<open>auto simp: apply_op_def op_ok_def Let_def\<close>)
  qed
  then show "(\<exists>d. apply_op p n op data = Inr d) \<longleftrightarrow> op_ok op" by blast
  show "apply_op p n op data = Inl e \<Longrightarrow> \<exists>r. e = BadWalLine p n r" using 1 by blast
qed

subsection \<open>The log as one list of commits\<close>

type_synonym commit = "commit_id \<times> path \<times> nat \<times> rstring"

text \<open>The lines of a segment, each with its id, file and 1-based number; the whole log in order\<close>

definition segment_commits :: "u64 \<Rightarrow> path \<Rightarrow> rstring \<Rightarrow> commit list" where
  "segment_commits n p text =
     map (\<lambda>(offset, line). (\<lparr>ci_segment = n, ci_offset = of_nat offset\<rparr>, p, offset + 1, line))
       (enumerate 0 (split_on (CHR ''\<newline>'') text))"

definition wal_commits :: "store_reader \<Rightarrow> path \<Rightarrow> jsdb_error + commit list" where
  "wal_commits rd dir =
     and_then (list_wal_segments rd (join dir ''wal'')) (\<lambda>segments.
     and_then (collect_results (\<lambda>(n, p). and_then (file_text rd (is_gz_path p) p) (\<lambda>t. Ok (segment_commits n p t))) segments)
       (\<lambda>css. Ok (concat css)))"

definition apply_commit :: "store_reader \<Rightarrow> commit \<Rightarrow> data \<Rightarrow> jsdb_error + data" where
  "apply_commit rd c data = (case c of (_, p, n, line) \<Rightarrow>
     if trim line = [] then Ok data else apply_line rd p n line data)"

definition beyond :: "commit_id option \<Rightarrow> commit \<Rightarrow> bool" where
  "beyond after c \<longleftrightarrow> (case after of None \<Rightarrow> True | Some a \<Rightarrow> \<not> commit_le (fst c) a)"

lemma beyond_simps:
  "beyond None = (\<lambda>_. True)" "beyond (Some a) = (\<lambda>c. \<not> commit_le (fst c) a)"
  by (simp_all add: beyond_def fun_eq_iff)

lemma collect_results_Cons_Ok:
  "collect_results f (x # xs) = Inr ys \<longleftrightarrow> (\<exists>z zs. ys = z # zs \<and> f x = Inr z \<and> collect_results f xs = Inr zs)"
  by (cases "f x"; cases "collect_results f xs") auto

lemma replay_segment_commits:
  assumes "file_text rd (is_gz_path p) p = Inr t"
  shows "replay_segment rd p n after data = try_fold (apply_commit rd) (filter (beyond after) (segment_commits n p t)) data"
proof -
  have "try_fold (replay_line rd p n after) (enumerate 0 (split_on (CHR ''\<newline>'') t)) data
      = try_fold (\<lambda>c d. if beyond after c then apply_commit rd c d else Inr d) (segment_commits n p t) data"
    unfolding segment_commits_def try_fold_map
    by (rule try_fold_cong) (auto simp: replay_line_def apply_commit_def beyond_def Let_def split: option.splits)
  also have "\<dots> = try_fold (\<lambda>c d. if beyond after c then apply_commit rd c d else Inr d)
      (filter (beyond after) (segment_commits n p t)) data"
    by (rule try_fold_skip[symmetric]) simp
  also have "\<dots> = try_fold (apply_commit rd) (filter (beyond after) (segment_commits n p t)) data"
    by (rule try_fold_cong) auto
  finally show ?thesis using assms by (simp add: replay_segment_def)
qed

lemma skipped_segment:
  assumes "n < ci_segment a"
  shows "filter (beyond (Some a)) (segment_commits n p t) = []"
  using assms by (auto simp: filter_empty_conv segment_commits_def beyond_def commit_le_def)

lemma replay_wal_commits:
  assumes "wal_commits rd dir = Inr cs"
  shows "replay_wal rd dir after data = try_fold (apply_commit rd) (filter (beyond after) cs) data"
proof -
  obtain segments css where s: "list_wal_segments rd (join dir ''wal'') = Inr segments"
    "collect_results (\<lambda>(n, p). and_then (file_text rd (is_gz_path p) p) (\<lambda>t. Ok (segment_commits n p t))) segments = Inr css"
    "cs = concat css"
    using assms by (auto simp: wal_commits_def and_then_Ok_iff)
  let ?skip = "\<lambda>n. case after of None \<Rightarrow> False | Some a \<Rightarrow> n < ci_segment a"
  let ?step = "\<lambda>(n, p) d. if ?skip n then Inr d else replay_segment rd p n after d"
  have "try_fold ?step segments data
      = try_fold (apply_commit rd) (filter (beyond after) (concat css)) data"
    using s(2)
  proof (induction segments arbitrary: css data)
    case (Cons np segments)
    obtain n p where np: "np = (n, p)" by force
    from Cons.prems obtain t css' where t: "file_text rd (is_gz_path p) p = Inr t"
      "css = segment_commits n p t # css'"
      "collect_results (\<lambda>(n, p). and_then (file_text rd (is_gz_path p) p) (\<lambda>t. Ok (segment_commits n p t))) segments = Inr css'"
      unfolding np collect_results_Cons_Ok by (auto simp: and_then_Ok_iff)
    have "(if ?skip n then Inr data else replay_segment rd p n after data)
        = try_fold (apply_commit rd) (filter (beyond after) (segment_commits n p t)) data"
      using replay_segment_commits[OF t(1)] skipped_segment by (auto split: option.splits)
    moreover have "try_fold ?step segments = try_fold (apply_commit rd) (filter (beyond after) (concat css'))"
      by (rule ext) (rule Cons.IH[OF t(3)])
    ultimately show ?case by (simp add: np t(2) try_fold_append)
  qed simp
  then show ?thesis by (simp add: replay_wal_def s)
qed

lemma list_wal_segments_ok:
  assumes "list_wal_segments rd d = Inr segments"
  shows "om_ok segments"
proof -
  have "om_ok segments" if "try_fold (add_segment d) entries [] = Inr segments" for entries
    by (rule try_fold_invariant[where I = om_ok, OF that])
       (auto simp: add_segment_def Let_def and_then_Ok_iff om_ok_insert split: option.splits if_splits)
  then show ?thesis
    using assms by (auto simp: list_wal_segments_def split: sum.splits io_error.splits io_kind.splits)
qed

abbreviation in_order :: "commit list \<Rightarrow> bool" where
  "in_order cs \<equiv> sorted_wrt (\<lambda>a b. commit_le (fst a) (fst b)) cs"

lemma segment_commits_in_order:
  assumes "length (segment_commits n p t) < 2 ^ 64"
  shows "in_order (segment_commits n p t)"
proof -
  have "(of_nat i :: u64) \<le> of_nat j" if "i \<le> j" "j < 2 ^ 64" for i j
    using that by (simp add: word_le_nat_alt unat_of_nat)
  then show ?thesis
    using assms
    by (auto simp: sorted_wrt_iff_nth_less segment_commits_def nth_enumerate_eq commit_le_def)
qed

lemma segment_commits_segment: "c \<in> set (segment_commits n p t) \<Longrightarrow> ci_segment (fst c) = n"
  by (auto simp: segment_commits_def)

lemma later_commits:
  assumes "collect_results (\<lambda>(n, p). and_then (file_text rd (is_gz_path p) p) (\<lambda>t. Ok (segment_commits n p t))) segments = Inr css"
    and "c \<in> set (concat css)"
  shows "ci_segment (fst c) \<in> set (map fst segments)"
  using assms
proof (induction segments arbitrary: css)
  case (Cons np segments)
  obtain n p where np: "np = (n, p)" by force
  from Cons.prems(1) obtain t css' where t: "css = segment_commits n p t # css'"
    "collect_results (\<lambda>(n, p). and_then (file_text rd (is_gz_path p) p) (\<lambda>t. Ok (segment_commits n p t))) segments = Inr css'"
    unfolding np collect_results_Cons_Ok by (auto simp: and_then_Ok_iff)
  then consider "c \<in> set (segment_commits n p t)" | "c \<in> set (concat css')" using Cons.prems(2) by auto
  then show ?case using Cons.IH[OF t(2)] segment_commits_segment by cases (auto simp: np)
qed simp

lemma wal_commits_in_order:
  assumes "wal_commits rd dir = Inr cs" and "length cs < 2 ^ 64"
  shows "in_order cs"
proof -
  obtain segments css where s: "list_wal_segments rd (join dir ''wal'') = Inr segments"
    "collect_results (\<lambda>(n, p). and_then (file_text rd (is_gz_path p) p) (\<lambda>t. Ok (segment_commits n p t))) segments = Inr css"
    "cs = concat css"
    using assms(1) by (auto simp: wal_commits_def and_then_Ok_iff)
  have "sorted_wrt (<) (map fst segments)" using list_wal_segments_ok[OF s(1)] by (simp add: om_ok_def)
  with s(2) assms(2)[unfolded s(3)] show ?thesis unfolding s(3)
  proof (induction segments arbitrary: css)
    case (Cons np segments)
    obtain n p where np: "np = (n, p)" by force
    from Cons.prems(1) obtain t css' where t: "css = segment_commits n p t # css'"
      "collect_results (\<lambda>(n, p). and_then (file_text rd (is_gz_path p) p) (\<lambda>t. Ok (segment_commits n p t))) segments = Inr css'"
      unfolding np collect_results_Cons_Ok by (auto simp: and_then_Ok_iff)
    note later = later_commits[OF t(2)]
    have "commit_le (fst a) (fst c)" if "a \<in> set (segment_commits n p t)" "c \<in> set (concat css')" for a c
      using segment_commits_segment[OF that(1)] later[OF that(2)] Cons.prems(3) by (auto simp: np commit_le_def)
    moreover have "in_order (concat css')" using Cons.IH[OF t(2)] Cons.prems(2,3) by (simp add: t(1))
    moreover have "in_order (segment_commits n p t)"
      using Cons.prems(2) by (intro segment_commits_in_order) (simp add: t(1))
    ultimately show ?case by (simp add: t(1) sorted_wrt_append)
  qed simp
qed

lemma filter_split_in_order:
  assumes "sorted_wrt R xs" and "\<And>a b. R a b \<Longrightarrow> P b \<Longrightarrow> P a"
  shows "filter P xs @ filter (\<lambda>x. \<not> P x) xs = xs"
  using assms(1)
proof (induction xs)
  case (Cons x xs)
  show ?case
  proof (cases "P x")
    case False
    then have "\<forall>y \<in> set xs. \<not> P y" using Cons.prems assms(2) by auto
    then show ?thesis using False by (simp add: filter_empty_conv filter_id_conv)
  qed (use Cons in simp)
qed simp

lemma commit_le_trans: "commit_le a b \<Longrightarrow> commit_le b c \<Longrightarrow> commit_le a c"
  by (auto simp: commit_le_def)

text \<open>A line that is a commit\<close>

definition line_ok :: "store_reader \<Rightarrow> rstring \<Rightarrow> bool" where
  "line_ok rd line \<longleftrightarrow> (\<exists>v ops. rd_parse rd line = Inr v \<and>
     (v = JArr ops \<or> jget v ''ops'' = Some (JArr ops)) \<and> list_all op_ok ops)"

lemma commit_ops_outcome:
  "commit_ops p n v = Inr ops \<longleftrightarrow> v = JArr ops \<or> jget v ''ops'' = Some (JArr ops)"
  "commit_ops p n v = Inl e \<Longrightarrow> \<exists>r. e = BadWalLine p n r"
  by (cases v; auto simp: commit_ops_def split: option.splits json.splits)+

lemma apply_line_outcome:
  "(\<exists>d. apply_line rd p n line data = Inr d) \<longleftrightarrow> line_ok rd line" (is ?ok)
  "apply_line rd p n line data = Inl e \<Longrightarrow> \<exists>r. e = BadWalLine p n r"
proof -
  have ops: "(\<exists>d. try_fold (apply_op p n) ops data = Inr d) \<longleftrightarrow> list_all op_ok ops"
    "try_fold (apply_op p n) ops data = Inl e' \<Longrightarrow> \<exists>r. e' = BadWalLine p n r" for ops e'
    using try_fold_stateless[of ops "apply_op p n" op_ok "\<lambda>_ e. \<exists>r. e = BadWalLine p n r" data]
      apply_op_outcome by fastforce+
  show ?ok
  proof (cases "rd_parse rd line")
    case (Inr v)
    show ?thesis
    proof (cases "commit_ops p n v")
      case (Inl e)
      then have "\<not> line_ok rd line" using commit_ops_outcome(1)[of p n v] Inr by (auto simp: line_ok_def)
      then show ?thesis using Inl Inr by (simp add: apply_line_def)
    next
      case (Inr os)
      then have "line_ok rd line \<longleftrightarrow> list_all op_ok os"
        using commit_ops_outcome(1)[of p n v] \<open>rd_parse rd line = Inr v\<close> by (fastforce simp: line_ok_def)
      then show ?thesis using ops(1) Inr \<open>rd_parse rd line = Inr v\<close> by (simp add: apply_line_def)
    qed
  qed (simp add: apply_line_def line_ok_def)
  show "apply_line rd p n line data = Inl e \<Longrightarrow> \<exists>r. e = BadWalLine p n r"
    unfolding apply_line_def
    by (cases "rd_parse rd line"; cases "commit_ops p n (projr (rd_parse rd line))")
       (auto dest: ops(2) commit_ops_outcome(2))
qed

subsection \<open>The log\<close>

text \<open>
  C35: a snapshot and the rest of the log are the whole log. If the snapshot holds what the commits
  up to its id produce, replaying strictly after that id gives exactly what replaying the whole
  log from nothing gives, errors included: no commit is applied twice and none is missed.
\<close>

theorem snapshot_and_tail_is_whole_log:
  assumes "wal_commits rd dir = Inr cs" and "length cs < 2 ^ 64"
    and "try_fold (apply_commit rd) (filter (\<lambda>c. commit_le (fst c) cid) cs) [] = Inr data"
  shows "replay_wal rd dir (Some cid) data = replay_wal rd dir None []"
proof -
  have "filter (\<lambda>c. commit_le (fst c) cid) cs @ filter (\<lambda>c. \<not> commit_le (fst c) cid) cs = cs"
    by (rule filter_split_in_order[OF wal_commits_in_order[OF assms(1,2)]]) (auto dest: commit_le_trans)
  then have "try_fold (apply_commit rd) cs [] =
      and_then (try_fold (apply_commit rd) (filter (\<lambda>c. commit_le (fst c) cid) cs) [])
        (try_fold (apply_commit rd) (filter (\<lambda>c. \<not> commit_le (fst c) cid) cs))"
    by (metis try_fold_append)
  then show ?thesis by (simp add: replay_wal_commits[OF assms(1)] beyond_simps assms(3))
qed

text \<open>
  no commit is skipped in silence. Replaying succeeds exactly when every line past the
  boundary is blank or a commit with well-formed operations; otherwise the error names the file
  and the 1-based number of the first line that is not.
\<close>

theorem replay_names_first_bad_line:
  assumes "wal_commits rd dir = Inr cs"
  shows "(\<exists>d. replay_wal rd dir after data = Inr d
            \<and> list_all (\<lambda>(_, _, _, line). trim line = [] \<or> line_ok rd line) (filter (beyond after) cs))
       \<or> (\<exists>before cid p n line rest reason. replay_wal rd dir after data = Inl (BadWalLine p n reason)
            \<and> filter (beyond after) cs = before @ (cid, p, n, line) # rest
            \<and> list_all (\<lambda>(_, _, _, line). trim line = [] \<or> line_ok rd line) before
            \<and> trim line \<noteq> [] \<and> \<not> line_ok rd line)"
proof -
  let ?good = "\<lambda>c :: commit. case c of (_, _, _, line) \<Rightarrow> trim line = [] \<or> line_ok rd line"
  let ?bad = "\<lambda>(c :: commit) e. case c of (_, p, n, line) \<Rightarrow> \<exists>r. e = BadWalLine p n r"
  have "(\<exists>d. try_fold (apply_commit rd) (filter (beyond after) cs) data = Inr d \<and> list_all ?good (filter (beyond after) cs)) \<or>
     (\<exists>ys x zs e. try_fold (apply_commit rd) (filter (beyond after) cs) data = Inl e
        \<and> filter (beyond after) cs = ys @ x # zs \<and> list_all ?good ys \<and> \<not> ?good x \<and> ?bad x e)"
  proof (rule try_fold_stateless)
    show "(\<exists>t. apply_commit rd x s = Inr t) \<longleftrightarrow> ?good x" for x s
      using apply_line_outcome(1) by (cases x) (auto simp: apply_commit_def)
    show "apply_commit rd x s = Inl e \<Longrightarrow> ?bad x e" for x s e
      using apply_line_outcome(2) by (cases x) (auto simp: apply_commit_def split: if_splits)
  qed
  then show ?thesis unfolding replay_wal_commits[OF assms] by fastforce
qed

subsection \<open>What an operation does\<close>

lemma om_get_fold_remove: "om_get (fold om_remove ks m) k = (if k \<in> set ks then None else om_get m k)"
  by (induction ks arbitrary: m) (auto simp: om_get_remove)

lemma om_get_fold_insert:
  assumes "om_ok vs"
  shows "om_get (fold (\<lambda>(k, v). om_insert k v) vs m) f = (case om_get vs f of Some v \<Rightarrow> Some v | None \<Rightarrow> om_get m f)"
proof -
  have "om_get (fold (\<lambda>(k, v). om_insert k v) vs m) f = (case map_of (rev vs) f of Some v \<Rightarrow> Some v | None \<Rightarrow> om_get m f)"
    for vs :: "('a \<times> 'b) list"
    by (induction vs arbitrary: m) (auto simp: om_get_insert map_add_def split: option.splits)
  then show ?thesis using assms by (simp add: map_of_rev_distinct om_ok_distinct om_get_def)
qed

lemma om_get_filter_keys: "om_get (filter (\<lambda>(k, _). P k) m) k = (if P k then om_get m k else None)"
  by (induction m) auto

text \<open>
  The three operations do what matter.js does. An update merges its fields into the context
  and touches no other field; a deletion with a list removes exactly those fields; a deletion
  without one removes the context and everything below it in the dotted hierarchy (not a context
  whose name merely begins the same), or everything when the key is empty.
\<close>

theorem wal_operations:
  assumes "om_get obj ''key'' = Some (JStr key)"
  shows "(\<forall>vs. om_get obj ''op'' = Some (JStr ''upd'') \<longrightarrow> om_get obj ''values'' = Some (JObj vs) \<longrightarrow> om_ok vs \<longrightarrow>
      (\<exists>d. apply_op p n (JObj obj) data = Inr d \<and> (\<forall>c f. jsdb_field d c f =
        (if c = key \<and> om_get vs f \<noteq> None then om_get vs f else jsdb_field data c f))))
    \<and> (\<forall>fs. om_get obj ''op'' = Some (JStr ''del'') \<longrightarrow> om_get obj ''values'' = Some (JArr (map JStr fs)) \<longrightarrow>
      (\<exists>d. apply_op p n (JObj obj) data = Inr d \<and> (\<forall>c f. jsdb_field d c f =
        (if c = key \<and> f \<in> set fs then None else jsdb_field data c f))))
    \<and> (om_get obj ''op'' = Some (JStr ''del'') \<longrightarrow> om_get obj ''values'' = None \<longrightarrow>
      (\<exists>d. apply_op p n (JObj obj) data = Inr d \<and> (\<forall>c. jsdb_get d c =
        (if key = [] \<or> c = key \<or> starts_with (key @ ''.'') c then None else jsdb_get data c))))"
  using assms
  by (cases "om_get data key"; auto simp: apply_op_def Let_def collect_strings jsdb_field_def jsdb_get_def om_get_insert om_get_update
      om_get_fold_insert om_get_fold_remove om_get_filter_keys om_get_remove split: option.splits)

lemma wal_operations_witness:
  "\<exists>d. apply_op ''wal'' 1 (JObj [(''key'', JStr ''nodes''), (''op'', JStr ''del'')])
       [(''nodes'', []), (''nodes.1'', []), (''nodes2'', [])] = Inr d
     \<and> jsdb_get d ''nodes.1'' = None \<and> jsdb_get d ''nodes2'' = Some []"
  using wal_operations[of "[(''key'', JStr ''nodes''), (''op'', JStr ''del'')]" "''nodes''" "''wal''" 1
      "[(''nodes'', []), (''nodes.1'', []), (''nodes2'', [])]"]
  by (auto simp: starts_with_def jsdb_get_def)

subsection \<open>The files of the segments\<close>

definition entry_segment :: "dir_entry \<Rightarrow> u64 option" where
  "entry_segment e = parse_segment_filename (from_utf8_lossy (de_name e))"

definition entry_gz :: "dir_entry \<Rightarrow> bool" where
  "entry_gz e \<longleftrightarrow> is_gz_name (from_utf8_lossy (de_name e))"

lemma segments_of_entries:
  assumes "try_fold (add_segment d) entries [] = Inr segments"
  shows "case om_get segments n of
      None \<Rightarrow> \<forall>e. Inr e \<in> set entries \<longrightarrow> entry_segment e \<noteq> Some n
    | Some p \<Rightarrow> \<exists>e. Inr e \<in> set entries \<and> entry_segment e = Some n \<and> p = join d (de_name e) \<and>
        (entry_gz e \<or> (\<forall>e'. Inr e' \<in> set entries \<longrightarrow> entry_segment e' = Some n \<longrightarrow> \<not> entry_gz e'))"
  using assms
proof (induction entries arbitrary: segments rule: rev_induct)
  case (snoc entry entries)
  then obtain before where before: "try_fold (add_segment d) entries [] = Inr before"
    "add_segment d entry before = Inr segments"
    by (auto simp: try_fold_append and_then_Ok_iff)
  then obtain e where e: "entry = Inr e" by (cases entry) (auto simp: add_segment_def)
  note ih = snoc.IH[OF before(1)]
  show ?case
  proof (cases "entry_segment e = Some n")
    case True
    then show ?thesis
      using ih before(2)
      by (cases "om_get before n")
         (auto simp: e add_segment_def entry_segment_def entry_gz_def Let_def om_get_insert om_contains_def
           split: if_splits)
  next
    case False
    then have "om_get segments n = om_get before n"
      using before(2) by (auto simp: e add_segment_def entry_segment_def Let_def om_get_insert split: option.splits if_splits)
    then show ?thesis using ih False by (cases "om_get before n") (auto simp: e)
  qed
qed simp

text \<open>
  Which file stands for a segment. Every segment with a file in the listing is replayed from
  one of its files, and from a compressed one whenever there is one, in whatever order the
  directory lists them; nothing else is replayed.
\<close>

theorem segment_file_choice:
  assumes "rd_list rd d = Inr entries" and "list_wal_segments rd d = Inr segments"
  shows "case om_get segments n of
      None \<Rightarrow> \<forall>e. Inr e \<in> set entries \<longrightarrow> entry_segment e \<noteq> Some n
    | Some p \<Rightarrow> \<exists>e. Inr e \<in> set entries \<and> entry_segment e = Some n \<and> p = join d (de_name e) \<and>
        (entry_gz e \<or> (\<forall>e'. Inr e' \<in> set entries \<longrightarrow> entry_segment e' = Some n \<longrightarrow> \<not> entry_gz e'))"
  using assms by (intro segments_of_entries) (simp add: list_wal_segments_def)

subsection \<open>Witnesses\<close>

text \<open>
  A store with a snapshot's worth of log in one segment, listed twice (plain first), of four lines,
  the second blank; its reader understands three texts.
\<close>

definition example_op :: "rstring \<Rightarrow> json" where
  "example_op field = JArr [JObj [(''key'', JStr ''a''), (''op'', JStr ''upd''), (''values'', JObj [(field, JBool True)])]]"

definition example_log :: rstring where
  "example_log = ''x'' @ CHR ''\<newline>'' # CHR ''\<newline>'' # ''y''"

definition example_entry :: "rstring \<Rightarrow> dir_entry" where
  "example_entry n = \<lparr>de_name = n, de_is_dir = Inr False\<rparr>"

definition example_reader :: store_reader where
  "example_reader =
     \<lparr>rd_read = (\<lambda>p. Inr example_log),
      rd_list = (\<lambda>d. Inr [Inr (example_entry ''00000001.jsonl''), Inr (example_entry ''00000001.jsonl.gz'')]),
      rd_meta = (\<lambda>_. None),
      rd_gunzip = (\<lambda>bytes. Inr bytes),
      rd_parse = (\<lambda>t. if t = ''x'' then Inr (example_op ''x'') else if t = ''y'' then Inr (example_op ''y'') else Inl ''bad''),
      rd_mismatch = (\<lambda>_. ''mismatch'')\<rparr>"

lemma example_segments: "list_wal_segments example_reader ''d/wal'' = Inr [(1, ''d/wal/00000001.jsonl.gz'')]"
  by code_simp

lemma segment_file_choice_witness:
  "case om_get [(1 :: u64, ''d/wal/00000001.jsonl.gz'')] 1 of None \<Rightarrow> False
     | Some p \<Rightarrow> \<exists>e. p = join ''d/wal'' (de_name e) \<and> entry_segment e = Some 1"
proof -
  have "rd_list example_reader ''d/wal'' =
      Inr [Inr (example_entry ''00000001.jsonl''), Inr (example_entry ''00000001.jsonl.gz'')]"
    by (simp add: example_reader_def)
  from segment_file_choice[OF this example_segments, of 1] show ?thesis by auto
qed

definition example_commits :: "commit list" where
  "example_commits =
     [(\<lparr>ci_segment = 1, ci_offset = 0\<rparr>, ''d/wal/00000001.jsonl.gz'', 1, ''x''),
      (\<lparr>ci_segment = 1, ci_offset = 1\<rparr>, ''d/wal/00000001.jsonl.gz'', 2, []),
      (\<lparr>ci_segment = 1, ci_offset = 2\<rparr>, ''d/wal/00000001.jsonl.gz'', 3, ''y'')]"

lemma example_wal_commits: "wal_commits example_reader ''d'' = Inr example_commits"
  by code_simp

lemma snapshot_and_tail_is_whole_log_witness:
  "replay_wal example_reader ''d'' (Some \<lparr>ci_segment = 1, ci_offset = 1\<rparr>) [(''a'', [(''x'', JBool True)])]
     = replay_wal example_reader ''d'' None []"
proof (rule snapshot_and_tail_is_whole_log[OF example_wal_commits])
  show "length example_commits < 2 ^ 64" by (simp add: example_commits_def)
  show "try_fold (apply_commit example_reader)
      (filter (\<lambda>c. commit_le (fst c) \<lparr>ci_segment = 1, ci_offset = 1\<rparr>) example_commits) []
      = Inr [(''a'', [(''x'', JBool True)])]" by code_simp
qed

text \<open>With a reader that knows no text at all, the first line is the one named.\<close>

lemma replay_names_first_bad_line_witness:
  "\<exists>reason. replay_wal (example_reader\<lparr>rd_parse := (\<lambda>_. Inl ''bad'')\<rparr>) ''d'' None [] =
     Inl (BadWalLine ''d/wal/00000001.jsonl.gz'' 1 reason)"
proof -
  have c: "wal_commits (example_reader\<lparr>rd_parse := (\<lambda>_. Inl ''bad'')\<rparr>) ''d'' = Inr example_commits"
    by code_simp
  have x: "trim ''x'' \<noteq> []" by code_simp
  from replay_names_first_bad_line[OF c, of None "[]"] x show ?thesis
    by (auto simp: example_commits_def beyond_simps line_ok_def Cons_eq_append_conv)
qed

end
