(* ===== verification/Floats.thy ===== *)
theory Floats
  imports Json
begin

section \<open>IEEE 754 conversions\<close>

text \<open>
  The conversions of Rust's \<open>as\<close> between integers, \<open>f32\<close> and \<open>f64\<close>, on bit patterns:
  \<open>ieee_encode\<close> rounds \<open>m * 2 ^ e\<close> to a format (ties to even, overflow to infinity),
  \<open>ieee_decode\<close> reads a finite pattern back as such a product. A format is its number of
  exponent and fraction bits.
\<close>

fun bit_length :: "nat \<Rightarrow> nat" where
  "bit_length n = (if n = 0 then 0 else Suc (bit_length (n div 2)))"

declare bit_length.simps [simp del]

text \<open>\<open>m / 2 ^ k\<close>, ties to even\<close>

definition round_shift :: "nat \<Rightarrow> nat \<Rightarrow> nat" where
  "round_shift m k =
     (if k = 0 then m
      else let q = m div 2 ^ k; r = m mod 2 ^ k; half = 2 ^ (k - 1)
           in if r > half \<or> r = half \<and> odd q then q + 1 else q)"

definition ieee_bias :: "nat \<Rightarrow> int" where
  "ieee_bias ebits = 2 ^ (ebits - 1) - 1"

definition ieee_infinity :: "nat \<Rightarrow> nat \<Rightarrow> nat" where
  "ieee_infinity ebits mbits = (2 ^ ebits - 1) * 2 ^ mbits"

definition ieee_encode :: "nat \<Rightarrow> nat \<Rightarrow> nat \<Rightarrow> int \<Rightarrow> nat" where
  "ieee_encode ebits mbits m e =
     (if m = 0 then 0
      else let emin = 1 - ieee_bias ebits;
               top = max (e + int (bit_length m) - 1) emin;
               ulp = top - int mbits;
               q = (if ulp \<le> e then m * 2 ^ nat (e - ulp) else round_shift m (nat (ulp - e)))
           in min (nat (top - emin) * 2 ^ mbits + q) (ieee_infinity ebits mbits))"

definition ieee_decode :: "nat \<Rightarrow> nat \<Rightarrow> nat \<Rightarrow> nat \<times> int" where
  "ieee_decode ebits mbits bits =
     (let ex = bits div 2 ^ mbits; fr = bits mod 2 ^ mbits; low = 1 - ieee_bias ebits - int mbits
      in if ex = 0 then (fr, low) else (fr + 2 ^ mbits, int ex - 1 + low))"

definition f64_is_finite :: "64 word \<Rightarrow> bool" where
  "f64_is_finite w \<longleftrightarrow> unat w mod 2 ^ 63 < ieee_infinity 11 52"

definition f32_is_finite :: "32 word \<Rightarrow> bool" where
  "f32_is_finite w \<longleftrightarrow> unat w mod 2 ^ 31 < ieee_infinity 8 23"

text \<open>Infinities stay infinite and a NaN stays a (quiet) NaN.\<close>

definition f64_of_f32 :: "32 word \<Rightarrow> 64 word" where
  "f64_of_f32 w =
     (let sign = unat w div 2 ^ 31; mag = unat w mod 2 ^ 31
      in of_nat (sign * 2 ^ 63 +
           (if mag < ieee_infinity 8 23 then (case ieee_decode 8 23 mag of (m, e) \<Rightarrow> ieee_encode 11 52 m e)
            else ieee_infinity 11 52 + (if mag = ieee_infinity 8 23 then 0 else 2 ^ 51))))"

definition f32_of_f64 :: "64 word \<Rightarrow> 32 word" where
  "f32_of_f64 w =
     (let sign = unat w div 2 ^ 63; mag = unat w mod 2 ^ 63
      in of_nat (sign * 2 ^ 31 +
           (if mag < ieee_infinity 11 52 then (case ieee_decode 11 52 mag of (m, e) \<Rightarrow> ieee_encode 8 23 m e)
            else ieee_infinity 8 23 + (if mag = ieee_infinity 11 52 then 0 else 2 ^ 22))))"

definition f64_of_u64 :: "u64 \<Rightarrow> 64 word" where
  "f64_of_u64 n = of_nat (ieee_encode 11 52 (unat n) 0)"

definition f64_of_i64 :: "i64 \<Rightarrow> 64 word" where
  "f64_of_i64 i =
     of_nat ((if sint i < 0 then 2 ^ 63 else 0) + ieee_encode 11 52 (nat \<bar>sint i\<bar>) 0)"

text \<open>\<open>Value::from(f64)\<close> and \<open>Value::as_f64\<close>\<close>

definition float_json :: "64 word \<Rightarrow> json" where
  "float_json w = (if f64_is_finite w then JNum (Float w) else JNull)"

fun as_f64 :: "json \<Rightarrow> (64 word) option" where
  "as_f64 (JNum (PosInt n)) = Some (f64_of_u64 n)"
| "as_f64 (JNum (NegInt i)) = Some (f64_of_i64 i)"
| "as_f64 (JNum (Float w)) = Some w"
| "as_f64 _ = None"

subsection \<open>Widening and narrowing\<close>

lemma bit_length_bounds: "0 < n \<Longrightarrow> 2 ^ (bit_length n - 1) \<le> n \<and> n < 2 ^ bit_length n"
proof (induction n rule: bit_length.induct)
  case (1 n)
  show ?case
  proof (cases "n div 2 = 0")
    case True
    with 1(2) have "n = 1" by auto
    then show ?thesis by (simp add: bit_length.simps[of "Suc 0"] bit_length.simps[of 0])
  next
    case False
    then have ih: "2 ^ (bit_length (n div 2) - 1) \<le> n div 2" "n div 2 < 2 ^ bit_length (n div 2)"
      using 1 by auto
    have pos: "bit_length (n div 2) \<noteq> 0" using False by (simp add: bit_length.simps[of "n div 2"])
    then have "(2 :: nat) ^ bit_length (n div 2) = 2 * 2 ^ (bit_length (n div 2) - 1)"
      by (metis Suc_diff_1 not_gr_zero power_Suc)
    moreover have "bit_length n = Suc (bit_length (n div 2))" using 1(2) by (simp add: bit_length.simps[of n])
    ultimately show ?thesis using ih by simp linarith
  qed
qed

lemma bit_length_eq:
  assumes "2 ^ k \<le> n" and "n < 2 ^ Suc k"
  shows "bit_length n = Suc k"
proof -
  have "0 < n" using assms(1) by (metis gr0I le_zero_eq power_not_zero zero_neq_numeral)
  note b = bit_length_bounds[OF this]
  have "bit_length n \<noteq> 0" using \<open>0 < n\<close> by (simp add: bit_length.simps)
  moreover have "k < bit_length n" using assms(1) b by (meson le_less_trans power_less_imp_less_exp one_less_numeral_iff semiring_norm(76))
  moreover have "bit_length n - 1 < Suc k" using assms(2) b by (meson le_less_trans power_less_imp_less_exp one_less_numeral_iff semiring_norm(76))
  ultimately show ?thesis by linarith
qed

end
