(* ===== verification/Tlv.thy ===== *)
theory Tlv
  imports Storage Floats Vendors
begin

section \<open>TLV and JSON (\<open>stack/src/tlv_json.rs\<close>, \<open>gen/src/lib.rs\<close>)\<close>

text \<open>
  Attribute values and command payloads in both directions. Parsing TLV bytes into elements and
  writing elements as bytes is rs-matter's: an element is what its accessors answer (any of them
  may fail), a writer is a function on some output that may refuse an operation. The cluster
  tables are generated by the build; they are an argument of every function that looks them up.
\<close>

subsection \<open>The generated tables\<close>

record gen_field =
  gf_code :: u32
  gf_name :: rstring
  gf_ty :: rstring
  gf_is_list :: bool

record gen_attr =
  ga_code :: u32
  ga_name :: rstring
  ga_ty :: rstring
  ga_is_list :: bool

record gen_cmd =
  gc_code :: u32
  gc_name :: rstring
  gc_input :: "rstring option"
  gc_output :: "rstring option"
  gc_is_timed :: bool

record gen_struct =
  gs_name :: rstring
  gs_fields :: "gen_field list"

record gen_event =
  ge_code :: u32
  ge_name :: rstring
  ge_fields :: "gen_field list"

record gen_cluster =
  cl_code :: u32
  cl_name :: rstring
  cl_attributes :: "gen_attr list"
  cl_commands :: "gen_cmd list"
  cl_structs :: "gen_struct list"
  cl_events :: "gen_event list"

text \<open>\<open>CLUSTERS\<close>, ascending by code, is the argument \<open>tables\<close>; the lookup is a binary search.\<close>

definition cluster :: "gen_cluster list \<Rightarrow> u32 \<Rightarrow> gen_cluster option" where
  "cluster tables c = map_option (nth tables) (bsearch c (map (\<lambda>k. (cl_code k, ())) tables) 0 (length tables))"

definition find_command_ci :: "gen_cluster \<Rightarrow> rstring \<Rightarrow> gen_cmd option" where
  "find_command_ci c name = List.find (\<lambda>m. eq_ignore_ascii_case (gc_name m) name) (cl_commands c)"

definition find_struct :: "gen_cluster \<Rightarrow> rstring \<Rightarrow> gen_struct option" where
  "find_struct c name = List.find (\<lambda>s. gs_name s = name) (cl_structs c)"

definition cluster_attr :: "gen_cluster \<Rightarrow> u32 \<Rightarrow> gen_attr option" where
  "cluster_attr c n = List.find (\<lambda>a. ga_code a = n) (cl_attributes c)"

definition cluster_event :: "gen_cluster \<Rightarrow> u32 \<Rightarrow> gen_event option" where
  "cluster_event c n = List.find (\<lambda>e. ge_code e = n) (cl_events c)"

subsection \<open>Elements\<close>

text \<open>Errors are rs-matter's codes; the source raises one of its own.\<close>

datatype tlv_error = InvalidTlv | StackCode rstring

datatype tlv_tag = AnonymousTag | ContextTag u8 | FullTag nat

datatype tlv_scalar =
    S8 "8 word" | S16 "16 word" | S32 "32 word" | S64 "64 word"
  | U8 u8 | U16 u16 | U32 u32 | U64 u64
  | TlvBool bool | F32 "32 word" | F64 "64 word" | TlvNull

text \<open>
  \<open>Broken\<close>: reading the control byte or the value fails. A string's octets, a container's
  content, each of its members and each member's tag may fail on their own.
\<close>

datatype tlv =
    Broken tlv_error
  | Utf8 "tlv_error + rstring"
  | Scalar tlv_scalar
  | Octets bytes
  | Structure "tlv_error + tlv_member list"
  | Sequence "tlv_error + tlv_member list"
  | EndOfContainer
and tlv_member =
    BadMember tlv_error
  | Member "tlv_error + tlv_tag" tlv

definition MAX_DEPTH :: nat where "MAX_DEPTH = 32"
definition MATTER_EPOCH_OFFSET_S :: u64 where "MATTER_EPOCH_OFFSET_S = 946684800"
definition MATTER_EPOCH_OFFSET_US :: u64 where "MATTER_EPOCH_OFFSET_US = 946684800000000"

subsection \<open>Base types\<close>

datatype base = BBool | BUnsigned nat | BSigned nat | BSingle | BDouble | BUtf8 | BOctets | BEpochS | BEpochUs

definition BASE_TYPES :: "(rstring \<times> base) list" where
  "BASE_TYPES =
     [(''boolean'', BBool), (''single'', BSingle), (''double'', BDouble),
      (''char_string'', BUtf8), (''long_char_string'', BUtf8),
      (''octet_string'', BOctets), (''long_octet_string'', BOctets),
      (''epoch_s'', BEpochS), (''epoch_us'', BEpochUs),
      (''int8u'', BUnsigned 1), (''enum8'', BUnsigned 1), (''bitmap8'', BUnsigned 1),
      (''percent'', BUnsigned 1), (''fabric_idx'', BUnsigned 1),
      (''action_id'', BUnsigned 1), (''priority'', BUnsigned 1), (''status'', BUnsigned 1),
      (''int16u'', BUnsigned 2), (''enum16'', BUnsigned 2), (''bitmap16'', BUnsigned 2),
      (''percent100ths'', BUnsigned 2), (''group_id'', BUnsigned 2),
      (''endpoint_no'', BUnsigned 2), (''vendor_id'', BUnsigned 2), (''entry_idx'', BUnsigned 2),
      (''int24u'', BUnsigned 3),
      (''int32u'', BUnsigned 4), (''bitmap32'', BUnsigned 4), (''cluster_id'', BUnsigned 4),
      (''attrib_id'', BUnsigned 4), (''field_id'', BUnsigned 4), (''command_id'', BUnsigned 4),
      (''event_id'', BUnsigned 4), (''devtype_id'', BUnsigned 4), (''trans_id'', BUnsigned 4),
      (''data_ver'', BUnsigned 4), (''elapsed_s'', BUnsigned 4),
      (''int40u'', BUnsigned 5), (''int48u'', BUnsigned 6), (''int56u'', BUnsigned 7),
      (''int64u'', BUnsigned 8), (''bitmap64'', BUnsigned 8), (''node_id'', BUnsigned 8),
      (''fabric_id'', BUnsigned 8), (''subject_id'', BUnsigned 8), (''event_no'', BUnsigned 8),
      (''systime_us'', BUnsigned 8), (''systime_ms'', BUnsigned 8), (''posix_ms'', BUnsigned 8),
      (''money'', BUnsigned 8),
      (''int8s'', BSigned 1),
      (''int16s'', BSigned 2), (''temperature'', BSigned 2),
      (''int24s'', BSigned 3), (''int32s'', BSigned 4),
      (''int40s'', BSigned 5), (''int48s'', BSigned 6), (''int56s'', BSigned 7),
      (''int64s'', BSigned 8), (''amperage_ma'', BSigned 8), (''voltage_mv'', BSigned 8),
      (''power_mw'', BSigned 8), (''power_mva'', BSigned 8), (''power_mvar'', BSigned 8),
      (''energy_mwh'', BSigned 8), (''energy_mvah'', BSigned 8), (''energy_mvarh'', BSigned 8)]"

definition base_type :: "rstring \<Rightarrow> base option" where
  "base_type ty = map_option snd (List.find (\<lambda>(name, _). eq_ignore_ascii_case name ty) BASE_TYPES)"

subsection \<open>Reading\<close>

definition scalar_json :: "tlv_scalar \<Rightarrow> json" where
  "scalar_json v =
     (case v of
        S8 w \<Rightarrow> jsigned (sint w) | S16 w \<Rightarrow> jsigned (sint w)
      | S32 w \<Rightarrow> jsigned (sint w) | S64 w \<Rightarrow> jsigned (sint w)
      | U8 w \<Rightarrow> junsigned w | U16 w \<Rightarrow> junsigned w | U32 w \<Rightarrow> junsigned w | U64 w \<Rightarrow> junsigned w
      | TlvBool b \<Rightarrow> JBool b
      | F32 w \<Rightarrow> float_json (f64_of_f32 w) | F64 w \<Rightarrow> float_json w
      | TlvNull \<Rightarrow> JNull)"

text \<open>Members whose tag is not a context tag are skipped in an object.\<close>

fun tlv_to_json_at :: "b64_codec \<Rightarrow> nat \<Rightarrow> tlv \<Rightarrow> tlv_error + json"
and object_members :: "b64_codec \<Rightarrow> nat \<Rightarrow> tlv_member list \<Rightarrow> jmap \<Rightarrow> tlv_error + jmap"
and array_members :: "b64_codec \<Rightarrow> nat \<Rightarrow> tlv_member list \<Rightarrow> tlv_error + json list" where
  "tlv_to_json_at b depth elem =
     (if depth > MAX_DEPTH then Err InvalidTlv
      else case elem of
        Broken e \<Rightarrow> Err e
      | Utf8 octets \<Rightarrow> and_then octets (\<lambda>s. Ok (JStr (from_utf8_lossy s)))
      | Scalar v \<Rightarrow> Ok (scalar_json v)
      | Octets bytes \<Rightarrow> Ok (JStr (b64_encode b bytes))
      | Structure (Inl e) \<Rightarrow> Err e
      | Structure (Inr ms) \<Rightarrow> and_then (object_members b (depth + 1) ms []) (\<lambda>obj. Ok (JObj obj))
      | Sequence (Inl e) \<Rightarrow> Err e
      | Sequence (Inr ms) \<Rightarrow> and_then (array_members b (depth + 1) ms) (\<lambda>arr. Ok (JArr arr))
      | EndOfContainer \<Rightarrow> Err InvalidTlv)"
| "object_members b depth [] obj = Ok obj"
| "object_members b depth (BadMember e # ms) obj = Err e"
| "object_members b depth (Member (Inl e) child # ms) obj = Err e"
| "object_members b depth (Member (Inr (ContextTag n)) child # ms) obj =
     and_then (tlv_to_json_at b depth child) (\<lambda>v. object_members b depth ms (om_insert (dec_of n) v obj))"
| "object_members b depth (Member (Inr _) child # ms) obj = object_members b depth ms obj"
| "array_members b depth [] = Ok []"
| "array_members b depth (BadMember e # ms) = Err e"
| "array_members b depth (Member _ child # ms) =
     and_then (tlv_to_json_at b depth child) (\<lambda>v. and_then (array_members b depth ms) (\<lambda>vs. Ok (v # vs)))"

definition tlv_to_json :: "b64_codec \<Rightarrow> tlv \<Rightarrow> tlv_error + json" where
  "tlv_to_json b elem = tlv_to_json_at b 0 elem"

definition checked_add :: "u64 \<Rightarrow> u64 \<Rightarrow> u64 option" where
  "checked_add a b = (if unat a + unat b < 2 ^ 64 then Some (a + b) else None)"

definition apply_epoch :: "rstring \<Rightarrow> json \<Rightarrow> tlv_error + json" where
  "apply_epoch ty v =
     (let shift = (\<lambda>offset. case as_u64 v of
            None \<Rightarrow> Ok v
          | Some matter \<Rightarrow> ok_or InvalidTlv (map_option junsigned (checked_add matter offset)))
      in case base_type ty of
           Some BEpochS \<Rightarrow> shift MATTER_EPOCH_OFFSET_S
         | Some BEpochUs \<Rightarrow> shift MATTER_EPOCH_OFFSET_US
         | _ \<Rightarrow> Ok v)"

definition attr_value_to_json ::
  "b64_codec \<Rightarrow> gen_cluster list \<Rightarrow> u32 \<Rightarrow> u32 \<Rightarrow> tlv \<Rightarrow> tlv_error + json" where
  "attr_value_to_json b tables c a elem =
     (let ty = (case Option.bind (cluster tables c) (\<lambda>k. cluster_attr k a) of None \<Rightarrow> [] | Some at \<Rightarrow> ga_ty at)
      in and_then (tlv_to_json b elem) (apply_epoch ty))"

text \<open>
  The name-based form: field names where the tables know them. A member the tables do not know
  keeps its tag; a field of a struct type is named in turn, on its own or in a list.
\<close>

definition field_of :: "gen_field list \<Rightarrow> u8 \<Rightarrow> gen_field option" where
  "field_of fs n = List.find (\<lambda>f. gf_code f = ucast n) fs"

function (sequential) tlv_to_json_named_at ::
    "b64_codec \<Rightarrow> gen_cluster \<Rightarrow> nat \<Rightarrow> tlv \<Rightarrow> gen_field list \<Rightarrow> tlv_error + json"
and named_members ::
    "b64_codec \<Rightarrow> gen_cluster \<Rightarrow> nat \<Rightarrow> tlv_member list \<Rightarrow> gen_field list \<Rightarrow> jmap \<Rightarrow> tlv_error + jmap"
and named_field_to_json :: "b64_codec \<Rightarrow> gen_cluster \<Rightarrow> nat \<Rightarrow> tlv \<Rightarrow> gen_field \<Rightarrow> tlv_error + json"
and named_items ::
    "b64_codec \<Rightarrow> gen_cluster \<Rightarrow> nat \<Rightarrow> tlv_member list \<Rightarrow> gen_field list \<Rightarrow> tlv_error + json list" where
  "tlv_to_json_named_at b cl depth elem fs =
     (if depth > MAX_DEPTH then Err InvalidTlv
      else case elem of
        Broken e \<Rightarrow> Err e
      | Utf8 octets \<Rightarrow> and_then octets (\<lambda>s. Ok (JStr (from_utf8_lossy s)))
      | Structure (Inl e) \<Rightarrow> Err e
      | Structure (Inr ms) \<Rightarrow> and_then (named_members b cl (depth + 1) ms fs []) (\<lambda>obj. Ok (JObj obj))
      | _ \<Rightarrow> tlv_to_json_at b depth elem)"
| "named_members b cl depth [] fs obj = Ok obj"
| "named_members b cl depth (BadMember e # ms) fs obj = Err e"
| "named_members b cl depth (Member (Inl e) child # ms) fs obj = Err e"
| "named_members b cl depth (Member (Inr (ContextTag n)) child # ms) fs obj =
     (case field_of fs n of
        Some f \<Rightarrow> and_then (named_field_to_json b cl depth child f)
                   (\<lambda>v. named_members b cl depth ms fs (om_insert (gf_name f) v obj))
      | None \<Rightarrow> and_then (tlv_to_json_at b depth child)
                   (\<lambda>v. named_members b cl depth ms fs (om_insert (dec_of n) v obj)))"
| "named_members b cl depth (Member (Inr _) child # ms) fs obj = named_members b cl depth ms fs obj"
| "named_field_to_json b cl depth elem f =
     (case elem of
        Broken e \<Rightarrow> Err e
      | Utf8 octets \<Rightarrow> and_then octets (\<lambda>s. Ok (JStr (from_utf8_lossy s)))
      | _ \<Rightarrow>
        (case find_struct cl (gf_ty f) of
           None \<Rightarrow> and_then (tlv_to_json_at b depth elem) (apply_epoch (gf_ty f))
         | Some nested \<Rightarrow>
             (case elem of
                Structure _ \<Rightarrow> tlv_to_json_named_at b cl depth elem (gs_fields nested)
              | Sequence (Inl e) \<Rightarrow> Err e
              | Sequence (Inr ms) \<Rightarrow>
                  and_then (named_items b cl (depth + 1) ms (gs_fields nested)) (\<lambda>arr. Ok (JArr arr))
              | _ \<Rightarrow> tlv_to_json_at b depth elem)))"
| "named_items b cl depth [] fs = Ok []"
| "named_items b cl depth (BadMember e # ms) fs = Err e"
| "named_items b cl depth (Member _ child # ms) fs =
     and_then (tlv_to_json_named_at b cl depth child fs)
       (\<lambda>v. and_then (named_items b cl depth ms fs) (\<lambda>vs. Ok (v # vs)))"
  by pat_completeness auto

termination
  by (relation "measure (\<lambda>x. case x of
        Inl (Inl (b, cl, d, elem, fs)) \<Rightarrow> 2 * size elem
      | Inl (Inr (b, cl, d, ms, fs, obj)) \<Rightarrow> 2 * size_list size ms
      | Inr (Inl (b, cl, d, elem, f)) \<Rightarrow> 2 * size elem + 1
      | Inr (Inr (b, cl, d, ms, fs)) \<Rightarrow> 2 * size_list size ms)") auto

definition tlv_to_json_named :: "b64_codec \<Rightarrow> tlv \<Rightarrow> gen_field list \<Rightarrow> gen_cluster \<Rightarrow> tlv_error + json" where
  "tlv_to_json_named b elem fs cl = tlv_to_json_named_at b cl 0 elem fs"

subsection \<open>Writing\<close>

text \<open>The operations of \<open>TLVWrite\<close>; a writer may refuse any of them.\<close>

datatype tlv_op =
    WNull tlv_tag | WBool tlv_tag bool
  | WU8 tlv_tag u8 | WU16 tlv_tag u16 | WU32 tlv_tag u32 | WU64 tlv_tag u64
  | WI8 tlv_tag "8 word" | WI16 tlv_tag "16 word" | WI32 tlv_tag "32 word" | WI64 tlv_tag i64
  | WF32 tlv_tag "32 word" | WF64 tlv_tag "64 word"
  | WUtf8 tlv_tag rstring | WStr tlv_tag bytes
  | StartStruct tlv_tag | StartArray tlv_tag | EndContainer

type_synonym 'w put = "tlv_op \<Rightarrow> 'w \<Rightarrow> tlv_error + 'w"

record type_hint =
  th_ty :: rstring
  th_is_list :: bool
  th_cluster :: "gen_cluster option"

definition to_matter_epoch :: "json \<Rightarrow> u64 \<Rightarrow> tlv_error + u64" where
  "to_matter_epoch v offset =
     and_then (ok_or InvalidTlv (as_u64 v)) (\<lambda>n. if offset \<le> n then Ok (n - offset) else Err InvalidTlv)"

definition json_f64 :: "json \<Rightarrow> tlv_error + 64 word" where
  "json_f64 v = ok_or InvalidTlv (as_f64 v)"

definition write_unsigned :: "'w put \<Rightarrow> tlv_tag \<Rightarrow> json \<Rightarrow> nat \<Rightarrow> 'w \<Rightarrow> tlv_error + 'w" where
  "write_unsigned put tag v bytes w =
     and_then (ok_or InvalidTlv (as_u64 v)) (\<lambda>n.
       if bytes = 1 then (if unat n < 2 ^ 8 then put (WU8 tag (ucast n)) w else Err InvalidTlv)
       else if bytes = 2 then (if unat n < 2 ^ 16 then put (WU16 tag (ucast n)) w else Err InvalidTlv)
       else if bytes = 4 then (if unat n < 2 ^ 32 then put (WU32 tag (ucast n)) w else Err InvalidTlv)
       else if bytes \<in> {3, 5, 6, 7} then
         (if unat n \<ge> 2 ^ (bytes * 8) then Err InvalidTlv else put (WU64 tag n) w)
       else put (WU64 tag n) w)"

definition write_signed :: "'w put \<Rightarrow> tlv_tag \<Rightarrow> json \<Rightarrow> nat \<Rightarrow> 'w \<Rightarrow> tlv_error + 'w" where
  "write_signed put tag v bytes w =
     and_then (ok_or InvalidTlv (as_i64 v)) (\<lambda>n.
       let fits = (\<lambda>bits. - (2 ^ (bits - 1)) \<le> sint n \<and> sint n < 2 ^ (bits - 1))
       in if bytes = 1 then (if fits 8 then put (WI8 tag (scast n)) w else Err InvalidTlv)
          else if bytes = 2 then (if fits 16 then put (WI16 tag (scast n)) w else Err InvalidTlv)
          else if bytes = 4 then (if fits 32 then put (WI32 tag (scast n)) w else Err InvalidTlv)
          else if bytes \<in> {3, 5, 6, 7} then
            (if \<not> fits (bytes * 8) then Err InvalidTlv else put (WI64 tag n) w)
          else put (WI64 tag n) w)"

definition write_base ::
  "b64_codec \<Rightarrow> 'w put \<Rightarrow> tlv_tag \<Rightarrow> json \<Rightarrow> base \<Rightarrow> 'w \<Rightarrow> tlv_error + 'w" where
  "write_base b put tag v base w =
     (case base of
        BBool \<Rightarrow> and_then (ok_or InvalidTlv (as_bool v)) (\<lambda>x. put (WBool tag x) w)
      | BSingle \<Rightarrow> and_then (json_f64 v) (\<lambda>n.
          let narrowed = f32_of_f64 n
          in if \<not> f32_is_finite narrowed then Err InvalidTlv else put (WF32 tag narrowed) w)
      | BDouble \<Rightarrow> and_then (json_f64 v) (\<lambda>n. put (WF64 tag n) w)
      | BUtf8 \<Rightarrow> and_then (ok_or InvalidTlv (as_str v)) (\<lambda>s. put (WUtf8 tag s) w)
      | BOctets \<Rightarrow> and_then (ok_or InvalidTlv (as_str v)) (\<lambda>s.
          and_then (ok_or InvalidTlv (b64_decode b s)) (\<lambda>raw. put (WStr tag raw) w))
      | BEpochS \<Rightarrow> and_then (to_matter_epoch v MATTER_EPOCH_OFFSET_S) (\<lambda>matter.
          if unat matter < 2 ^ 32 then put (WU32 tag (ucast matter)) w else Err InvalidTlv)
      | BEpochUs \<Rightarrow> and_then (to_matter_epoch v MATTER_EPOCH_OFFSET_US) (\<lambda>matter. put (WU64 tag matter) w)
      | BUnsigned bytes \<Rightarrow> write_unsigned put tag v bytes w
      | BSigned bytes \<Rightarrow> write_signed put tag v bytes w)"

text \<open>
  The functions that write a value call each other through \<open>recur\<close>, which stands for
  \<open>write_json\<close> on the parts of the value.
\<close>

type_synonym 'w json_writer = "tlv_tag \<Rightarrow> json \<Rightarrow> type_hint option \<Rightarrow> 'w \<Rightarrow> tlv_error + 'w"
type_synonym slot = "tlv_error + (u8 \<times> type_hint option)"

text \<open>The members by ascending tag; two keys for one tag are an error.\<close>

definition add_member ::
  "(rstring \<Rightarrow> slot) \<Rightarrow> rstring \<times> json \<Rightarrow> (u8, type_hint option \<times> json) omap
   \<Rightarrow> tlv_error + (u8, type_hint option \<times> json) omap" where
  "add_member resolve member slots =
     (case member of (key, v) \<Rightarrow>
        and_then (resolve key) (\<lambda>(ctx, hint).
          if om_contains slots ctx then Err InvalidTlv else Ok (om_insert ctx (hint, v) slots)))"

definition emit_struct ::
  "'w json_writer \<Rightarrow> 'w put \<Rightarrow> tlv_tag \<Rightarrow> jmap \<Rightarrow> (rstring \<Rightarrow> slot) \<Rightarrow> 'w \<Rightarrow> tlv_error + 'w" where
  "emit_struct recur put tag obj resolve w =
     and_then (try_fold (add_member resolve) obj []) (\<lambda>slots.
     and_then (put (StartStruct tag) w) (\<lambda>w.
     and_then (try_fold (\<lambda>(ctx, (hint, v)). recur (ContextTag ctx) v hint) slots w)
       (put EndContainer)))"

definition named_slot :: "gen_field list \<Rightarrow> gen_cluster \<Rightarrow> rstring \<Rightarrow> slot" where
  "named_slot fs cl key =
     and_then (ok_or InvalidTlv (List.find (\<lambda>f. eq_ignore_ascii_case (gf_name f) key) fs)) (\<lambda>f.
       if unat (gf_code f) < 2 ^ 8
       then Ok (ucast (gf_code f), Some \<lparr>th_ty = gf_ty f, th_is_list = gf_is_list f, th_cluster = Some cl\<rparr>)
       else Err InvalidTlv)"

definition write_json_named ::
  "'w json_writer \<Rightarrow> 'w put \<Rightarrow> tlv_tag \<Rightarrow> jmap \<Rightarrow> gen_field list \<Rightarrow> gen_cluster \<Rightarrow> 'w \<Rightarrow> tlv_error + 'w" where
  "write_json_named recur put tag obj fs cl w = emit_struct recur put tag obj (named_slot fs cl) w"

definition tag_slot :: "(gen_field list \<times> gen_cluster) option \<Rightarrow> rstring \<Rightarrow> slot" where
  "tag_slot nested key =
     and_then (ok_or InvalidTlv (parse_uint key)) (\<lambda>ctx.
       Ok (ctx, Option.bind nested (\<lambda>(fs, cl).
         map_option (\<lambda>f. \<lparr>th_ty = gf_ty f, th_is_list = gf_is_list f, th_cluster = Some cl\<rparr>) (field_of fs ctx))))"

definition write_tag_based_struct ::
  "'w json_writer \<Rightarrow> 'w put \<Rightarrow> tlv_tag \<Rightarrow> jmap \<Rightarrow> (gen_field list \<times> gen_cluster) option \<Rightarrow> 'w \<Rightarrow> tlv_error + 'w" where
  "write_tag_based_struct recur put tag obj nested w = emit_struct recur put tag obj (tag_slot nested) w"

definition write_heuristic :: "'w json_writer \<Rightarrow> 'w put \<Rightarrow> tlv_tag \<Rightarrow> json \<Rightarrow> 'w \<Rightarrow> tlv_error + 'w" where
  "write_heuristic recur put tag v w =
     (case v of
        JNull \<Rightarrow> put (WNull tag) w
      | JBool x \<Rightarrow> put (WBool tag x) w
      | JNum n \<Rightarrow>
          (case (as_u64 v, as_i64 v) of
             (Some u, _) \<Rightarrow> put (WU64 tag u) w
           | (None, Some i) \<Rightarrow> put (WI64 tag i) w
           | (None, None) \<Rightarrow> and_then (ok_or InvalidTlv (as_f64 v)) (\<lambda>x. put (WF64 tag x) w))
      | JStr s \<Rightarrow> put (WUtf8 tag s) w
      | JArr items \<Rightarrow>
          and_then (put (StartArray tag) w) (\<lambda>w.
          and_then (try_fold (\<lambda>item. recur AnonymousTag item None) items w) (put EndContainer))
      | JObj obj \<Rightarrow> write_tag_based_struct recur put tag obj None w)"

text \<open>A nested struct comes tag-based or name-based; both are accepted.\<close>

definition write_hinted_struct ::
  "'w json_writer \<Rightarrow> 'w put \<Rightarrow> tlv_tag \<Rightarrow> json \<Rightarrow> gen_struct \<Rightarrow> gen_cluster \<Rightarrow> 'w \<Rightarrow> tlv_error + 'w" where
  "write_hinted_struct recur put tag v nested cl w =
     and_then (ok_or InvalidTlv (as_object v)) (\<lambda>obj.
       if list_all (\<lambda>(k, _). (parse_uint k :: u8 option) \<noteq> None) obj
       then write_tag_based_struct recur put tag obj (Some (gs_fields nested, cl)) w
       else write_json_named recur put tag obj (gs_fields nested) cl w)"

definition write_hinted ::
  "b64_codec \<Rightarrow> 'w json_writer \<Rightarrow> 'w put \<Rightarrow> tlv_tag \<Rightarrow> json \<Rightarrow> type_hint \<Rightarrow> 'w \<Rightarrow> tlv_error + 'w" where
  "write_hinted b recur put tag v h w =
     (if v = JNull then put (WNull tag) w
      else case base_type (th_ty h) of
        Some base \<Rightarrow> write_base b put tag v base w
      | None \<Rightarrow>
          (case Option.bind (th_cluster h) (\<lambda>c. map_option (\<lambda>n. (n, c)) (find_struct c (th_ty h))) of
             Some (nested, cl) \<Rightarrow> write_hinted_struct recur put tag v nested cl w
           | None \<Rightarrow> write_heuristic recur put tag v w))"

text \<open>Each of them only writes parts that are smaller than the value it was given.\<close>

lemma members_of_object:
  assumes "try_fold (add_member resolve) obj [] = Inr slots" and "(ctx, (hint, v)) \<in> set slots"
  shows "v \<in> snd ` set obj"
proof -
  have "\<forall>(ctx, (hint, v)) \<in> set slots. v \<in> snd ` set obj"
  proof (rule try_fold_invariant[OF assms(1), where I = "\<lambda>s. \<forall>(ctx, (hint, v)) \<in> set s. v \<in> snd ` set obj"])
    fix kv s t
    assume "kv \<in> set obj" and s: "\<forall>(ctx, (hint, v)) \<in> set s. v \<in> snd ` set obj" and "add_member resolve kv s = Inr t"
    then obtain ctx hint where t: "t = om_insert ctx (hint, snd kv) s"
      by (auto simp: add_member_def and_then_Ok_iff case_prod_beta split: if_splits)
    note set_om_insert[of ctx "(hint, snd kv)" s]
    then show "\<forall>(ctx, (hint, v)) \<in> set t. v \<in> snd ` set obj"
      using s t \<open>kv \<in> set obj\<close> by fastforce
  qed simp
  then show ?thesis using assms(2) by auto
qed

lemma size_member: "v \<in> snd ` set obj \<Longrightarrow> size v < size (JObj obj)"
proof -
  assume "v \<in> snd ` set obj"
  then obtain k where "(k, v) \<in> set obj" by auto
  then have "size v < Suc (size_list (size_prod (\<lambda>x. 0) size) obj)"
    by (auto dest!: size_list_estimation'[where y = "size v" and f = "size_prod (\<lambda>x. 0) size"])
  then show "size v < size (JObj obj)" by simp
qed

lemma size_item: "v \<in> set items \<Longrightarrow> size v < size (JArr items)"
  by (auto dest: size_list_estimation'[OF _ order_refl, of v items size])

lemma and_then_cong [fundef_cong]:
  "r = r' \<Longrightarrow> (\<And>a. r' = Inr a \<Longrightarrow> f a = g a) \<Longrightarrow> and_then r f = and_then r' g"
  by (cases r') simp_all

lemma try_fold_fundef_cong [fundef_cong]:
  "xs = ys \<Longrightarrow> s = t \<Longrightarrow> (\<And>x s. x \<in> set ys \<Longrightarrow> f x s = g x s) \<Longrightarrow> try_fold f xs s = try_fold g ys t"
  using try_fold_cong[of ys f g t] by simp

definition same_below :: "json \<Rightarrow> 'w json_writer \<Rightarrow> 'w json_writer \<Rightarrow> bool" where
  "same_below v recur recur' \<longleftrightarrow> (\<forall>t u i x. size u < size v \<longrightarrow> recur t u i x = recur' t u i x)"

lemma emit_struct_below:
  assumes "same_below (JObj obj) recur recur'"
  shows "emit_struct recur put tag obj resolve w = emit_struct recur' put tag obj resolve w"
proof -
  have "try_fold (\<lambda>(ctx, (hint, v)). recur (ContextTag ctx) v hint) slots w =
      try_fold (\<lambda>(ctx, (hint, v)). recur' (ContextTag ctx) v hint) slots w"
    if "try_fold (add_member resolve) obj [] = Inr slots" for slots w
  proof (rule try_fold_cong)
    fix s w
    assume s: "s \<in> set slots"
    obtain ctx hint v where "s = (ctx, hint, v)" using prod_cases3 by blast
    with s show "(case s of (ctx, hint, v) \<Rightarrow> recur (ContextTag ctx) v hint) w =
        (case s of (ctx, hint, v) \<Rightarrow> recur' (ContextTag ctx) v hint) w"
      using assms size_member[OF members_of_object[OF that]] by (auto simp: same_below_def simp del: json.size)
  qed
  then show ?thesis unfolding emit_struct_def by (auto intro!: and_then_cong)
qed

lemma write_heuristic_below:
  assumes "same_below v recur recur'"
  shows "write_heuristic recur put tag v w = write_heuristic recur' put tag v w"
proof (cases v)
  case (JArr items)
  have "try_fold (\<lambda>item. recur AnonymousTag item None) items x =
      try_fold (\<lambda>item. recur' AnonymousTag item None) items x" for x
    using assms size_item unfolding JArr same_below_def by (intro try_fold_cong) blast
  then show ?thesis by (simp add: write_heuristic_def JArr)
next
  case (JObj obj)
  then show ?thesis using emit_struct_below assms by (simp add: write_heuristic_def write_tag_based_struct_def)
qed (simp_all add: write_heuristic_def)

lemma write_hinted_below:
  assumes "same_below v recur recur'"
  shows "write_hinted b recur put tag v h w = write_hinted b recur' put tag v h w"
proof -
  have "write_hinted_struct recur put tag v nested cl w = write_hinted_struct recur' put tag v nested cl w" for nested cl
    using emit_struct_below[of _ recur recur'] assms
    by (cases v) (simp_all add: write_hinted_struct_def write_tag_based_struct_def write_json_named_def)
  then show ?thesis
    using write_heuristic_below[OF assms] by (simp add: write_hinted_def split: option.splits)
qed

lemma write_hinted_cong [fundef_cong]:
  "\<lbrakk>b = b'; put = put'; tag = tag'; v = v'; h = h'; w = w';
    \<And>t u i x. size u < size v' \<Longrightarrow> recur t u i x = recur' t u i x\<rbrakk> \<Longrightarrow>
   write_hinted b recur put tag v h w = write_hinted b' recur' put' tag' v' h' w'"
  by simp (rule write_hinted_below, simp add: same_below_def)

lemma write_heuristic_cong [fundef_cong]:
  "\<lbrakk>put = put'; tag = tag'; v = v'; w = w'; \<And>t u i x. size u < size v' \<Longrightarrow> recur t u i x = recur' t u i x\<rbrakk> \<Longrightarrow>
   write_heuristic recur put tag v w = write_heuristic recur' put' tag' v' w'"
  by simp (rule write_heuristic_below, simp add: same_below_def)

function write_json ::
  "b64_codec \<Rightarrow> 'w put \<Rightarrow> tlv_tag \<Rightarrow> json \<Rightarrow> type_hint option \<Rightarrow> 'w \<Rightarrow> tlv_error + 'w" where
  "write_json b put tag v hint w =
     (case hint of
        Some h \<Rightarrow>
          if th_is_list h then
            (if v = JNull then put (WNull tag) w
             else and_then (ok_or InvalidTlv (as_array v)) (\<lambda>items.
                  and_then (put (StartArray tag) w) (\<lambda>w.
                  and_then (try_fold (\<lambda>item. write_json b put AnonymousTag item (Some (h\<lparr>th_is_list := False\<rparr>))) items w)
                    (put EndContainer))))
          else write_hinted b (write_json b put) put tag v h w
      | None \<Rightarrow> write_heuristic (write_json b put) put tag v w)"
  by pat_completeness auto
termination
  by (relation "measure (\<lambda>(b, put, tag, v, hint, w). size v)")
     (auto simp: ok_or_Ok_iff simp del: json.size dest: size_item)

declare write_json.simps [simp del]

end
