(* ===== verification/Reports.thy ===== *)
theory Reports
  imports Tlv StackApi
begin

section \<open>Reports of the device (\<open>stack/src/reports.rs\<close>, \<open>stack/src/ctx.rs\<close>)\<close>

text \<open>
  What a \<open>ReportData\<close> message becomes: attribute reports merged into path and value pairs,
  kept across the messages of one report, and events with a high-water mark per node. A message is
  what rs-matter's parser answers: each entry may fail to parse on its own. The shared state of the
  stack thread, \<open>StackCtx\<close>, is a record; its hash maps are partial functions; the events
  sent to the controller are the list \<open>cx_events\<close>.
\<close>

subsection \<open>Messages\<close>

record attr_path =
  wp_endpoint :: "u16 option"
  wp_cluster :: "u32 option"
  wp_attr :: "u32 option"
  wp_list_index :: "u16 option option"

datatype attr_resp = AttrData attr_path tlv | AttrStatus attr_path

datatype event_timestamp =
  EpochTimestamp u64 | SystemTimestamp u64 | DeltaEpochTimestamp u64 | DeltaSystemTimestamp u64

text \<open>The payload of an event may be absent (an element of no bytes).\<close>

record event_data =
  ev_endpoint :: "u16 option"
  ev_cluster :: "u32 option"
  ev_event :: "u32 option"
  ev_number :: u64
  ev_priority :: u8
  ev_timestamp :: event_timestamp
  ev_payload :: "tlv option"

datatype event_resp = EventData event_data | EventStatus

record report_data =
  rd_attr_reports :: "(tlv_error + attr_resp) list option"
  rd_event_reports :: "(tlv_error + event_resp) list option"
  rd_more_chunks :: "bool option"

subsection \<open>Merging attribute reports\<close>

record attr_accumulator =
  ac_out :: "(rstring \<times> json) list"
  ac_index :: "rstring \<Rightarrow> nat option"
  ac_orphan_appends :: "rstring list"
  ac_failures :: nat

definition empty_accumulator :: attr_accumulator where
  "empty_accumulator = \<lparr>ac_out = [], ac_index = Map.empty, ac_orphan_appends = [], ac_failures = 0\<rparr>"

datatype list_op = ReplaceAll | AppendOne | SetIndex u16

definition list_op_of :: "attr_path \<Rightarrow> list_op" where
  "list_op_of p =
     (case wp_list_index p of
        None \<Rightarrow> ReplaceAll
      | Some None \<Rightarrow> AppendOne
      | Some (Some i) \<Rightarrow> SetIndex i)"

definition add_pair :: "rstring \<Rightarrow> json \<Rightarrow> attr_accumulator \<Rightarrow> attr_accumulator" where
  "add_pair key v acc =
     acc\<lparr>ac_index := (ac_index acc)(key \<mapsto> length (ac_out acc)), ac_out := ac_out acc @ [(key, v)]\<rparr>"

definition set_pair :: "nat \<Rightarrow> json \<Rightarrow> attr_accumulator \<Rightarrow> attr_accumulator" where
  "set_pair i v acc = acc\<lparr>ac_out := (ac_out acc)[i := (fst (ac_out acc ! i), v)]\<rparr>"

definition acc_put :: "rstring \<Rightarrow> json \<Rightarrow> attr_accumulator \<Rightarrow> attr_accumulator" where
  "acc_put key v acc =
     (case ac_index acc key of
        Some i \<Rightarrow> if i < length (ac_out acc) then set_pair i v acc else acc
      | None \<Rightarrow> add_pair key v acc)"

definition acc_append :: "rstring \<Rightarrow> json \<Rightarrow> attr_accumulator \<Rightarrow> attr_accumulator" where
  "acc_append key v acc =
     (case ac_index acc key of
        None \<Rightarrow> add_pair key (JArr [v]) (acc\<lparr>ac_orphan_appends := ac_orphan_appends acc @ [key]\<rparr>)
      | Some i \<Rightarrow>
          if i < length (ac_out acc)
          then set_pair i (case snd (ac_out acc ! i) of JArr vs \<Rightarrow> JArr (vs @ [v]) | _ \<Rightarrow> JArr [v]) acc
          else acc)"

text \<open>\<open>Vec::resize\<close> with null, then the store at the index\<close>

definition store_at :: "nat \<Rightarrow> json \<Rightarrow> json list \<Rightarrow> json list" where
  "store_at i v vs = (vs @ replicate (i + 1 - length vs) JNull)[i := v]"

definition acc_set_index :: "rstring \<Rightarrow> u16 \<Rightarrow> json \<Rightarrow> attr_accumulator \<Rightarrow> attr_accumulator" where
  "acc_set_index key n v acc =
     (let acc = (case ac_index acc key of None \<Rightarrow> add_pair key (JArr []) acc | Some _ \<Rightarrow> acc);
          i = the (ac_index acc key)
      in set_pair i (case snd (ac_out acc ! i) of
            JArr vs \<Rightarrow> JArr (store_at (unat n) v vs)
          | _ \<Rightarrow> JArr (store_at (unat n) v [])) acc)"

definition attr_key :: "u16 \<Rightarrow> u32 \<Rightarrow> u32 \<Rightarrow> rstring" where
  "attr_key e c a = dec_of e @ ''/'' @ dec_of c @ ''/'' @ dec_of a"

definition acc_failure :: "attr_accumulator \<Rightarrow> attr_accumulator" where
  "acc_failure acc = acc\<lparr>ac_failures := ac_failures acc + 1\<rparr>"

definition absorb_report ::
  "b64_codec \<Rightarrow> gen_cluster list \<Rightarrow> tlv_error + attr_resp \<Rightarrow> attr_accumulator \<Rightarrow> attr_accumulator" where
  "absorb_report b tables r acc =
     (case r of
        Inl _ \<Rightarrow> acc_failure acc
      | Inr (AttrStatus _) \<Rightarrow> acc
      | Inr (AttrData p d) \<Rightarrow>
          (case (wp_endpoint p, wp_cluster p, wp_attr p) of
             (Some e, Some c, Some a) \<Rightarrow>
               (case attr_value_to_json b tables c a d of
                  Inl _ \<Rightarrow> acc_failure acc
                | Inr v \<Rightarrow>
                    (case list_op_of p of
                       ReplaceAll \<Rightarrow> acc_put (attr_key e c a) v acc
                     | AppendOne \<Rightarrow> acc_append (attr_key e c a) v acc
                     | SetIndex i \<Rightarrow> acc_set_index (attr_key e c a) i v acc))
           | _ \<Rightarrow> acc_failure acc))"

definition absorb ::
  "b64_codec \<Rightarrow> gen_cluster list \<Rightarrow> report_data \<Rightarrow> attr_accumulator \<Rightarrow> attr_accumulator" where
  "absorb b tables report acc =
     (case rd_attr_reports report of None \<Rightarrow> acc | Some rs \<Rightarrow> fold (absorb_report b tables) rs acc)"

definition into_pairs :: "attr_accumulator \<Rightarrow> (rstring \<times> json) list" where
  "into_pairs acc = ac_out acc"

text \<open>\<open>PendingReports\<close>: the changes are handed out with the last message of a report.\<close>

type_synonym pending_reports = "u64 \<Rightarrow> attr_accumulator option"

definition absorb_message ::
  "b64_codec \<Rightarrow> gen_cluster list \<Rightarrow> u64 \<Rightarrow> report_data \<Rightarrow> pending_reports
   \<Rightarrow> (rstring \<times> json) list option \<times> pending_reports" where
  "absorb_message b tables n report pending =
     (let acc = (case pending n of None \<Rightarrow> empty_accumulator | Some acc \<Rightarrow> acc);
          pending = pending(n := None);
          acc = absorb b tables report acc
      in if rd_more_chunks report = Some True then (None, pending(n \<mapsto> acc))
         else (Some (into_pairs acc), pending))"

definition pending_forget :: "u64 \<Rightarrow> pending_reports \<Rightarrow> pending_reports" where
  "pending_forget n pending = pending(n := None)"

subsection \<open>The shared state (\<open>ctx.rs\<close>)\<close>

text \<open>An instant or a duration is a number of ticks; a tick is a microsecond.\<close>

type_synonym instant = nat

definition from_secs :: "nat \<Rightarrow> instant" where
  "from_secs s = s * 1000000"

record stack_ctx =
  cx_fab_idx :: u8
  cx_subs :: "u64 \<Rightarrow> u32 option"
  cx_liveness :: "u64 \<Rightarrow> instant option"
  cx_last_event :: "u64 \<Rightarrow> u64 option"
  cx_pending :: pending_reports
  cx_addrs :: "u64 \<Rightarrow> rstring list option"
  cx_supervisors :: "u64 \<Rightarrow> nat option"
  cx_events :: "stack_event list"

definition stack_ctx_new :: "u8 \<Rightarrow> stack_ctx" where
  "stack_ctx_new fab =
     \<lparr>cx_fab_idx = fab, cx_subs = Map.empty, cx_liveness = Map.empty, cx_last_event = Map.empty,
      cx_pending = Map.empty, cx_addrs = Map.empty, cx_supervisors = Map.empty, cx_events = []\<rparr>"

definition send_event :: "stack_event \<Rightarrow> stack_ctx \<Rightarrow> stack_ctx" where
  "send_event e ctx = ctx\<lparr>cx_events := cx_events ctx @ [e]\<rparr>"

definition note_event :: "(u64 \<Rightarrow> u64 option) \<Rightarrow> u64 \<Rightarrow> u64 \<Rightarrow> bool \<times> (u64 \<Rightarrow> u64 option)" where
  "note_event marks n number =
     (case marks n of
        Some seen \<Rightarrow> if number \<le> seen then (False, marks) else (True, marks(n \<mapsto> number))
      | None \<Rightarrow> (True, marks(n \<mapsto> number)))"

definition ctx_note_event :: "u64 \<Rightarrow> u64 \<Rightarrow> stack_ctx \<Rightarrow> bool \<times> stack_ctx" where
  "ctx_note_event n number ctx =
     (case note_event (cx_last_event ctx) n number of (fresh, marks) \<Rightarrow> (fresh, ctx\<lparr>cx_last_event := marks\<rparr>))"

definition reset_event_high_water :: "u64 \<Rightarrow> stack_ctx \<Rightarrow> stack_ctx" where
  "reset_event_high_water n ctx = ctx\<lparr>cx_last_event := (cx_last_event ctx)(n := None)\<rparr>"

definition BUSY_MESSAGE :: rstring where
  "BUSY_MESSAGE =
     ''device is busy (a previous commissioning attempt may still hold its failsafe for ~60s)''"

definition IM_TIMEOUT_SECS :: nat where "IM_TIMEOUT_SECS = 30"
definition INTERVIEW_TIMEOUT_SECS :: nat where "INTERVIEW_TIMEOUT_SECS = 120"
definition COMMISSION_TIMEOUT_SECS :: nat where "COMMISSION_TIMEOUT_SECS = 60"

text \<open>An rs-matter error: its code, as far as it is matched on, and how it is displayed\<close>

datatype rs_code = CodeNotFound | CodeRxTimeout | CodeTxTimeout | CodeBusy | CodeOther

record rs_error =
  re_code :: rs_code
  re_display :: rstring

definition map_err :: "rs_error \<Rightarrow> stack_error" where
  "map_err e =
     (case re_code e of
        CodeNotFound \<Rightarrow> stack_error_new NodeUnreachable ''could not resolve node via mDNS''
      | CodeRxTimeout \<Rightarrow> stack_error_new Timeout (''Error::'' @ re_display e)
      | CodeTxTimeout \<Rightarrow> stack_error_new Timeout (''Error::'' @ re_display e)
      | CodeBusy \<Rightarrow> stack_error_new Busy BUSY_MESSAGE
      | CodeOther \<Rightarrow> stack_error_new Sdk (''Error::'' @ re_display e))"

definition map_err_established :: "rs_error \<Rightarrow> stack_error" where
  "map_err_established e =
     (case re_code e of
        CodeNotFound \<Rightarrow> stack_error_new Sdk ''device answered with IM status NotFound (0x8b)''
      | _ \<Rightarrow> map_err e)"

text \<open>The future races a timer: it finishes with a result or it does not in time.\<close>

datatype 'a race = Finished "rs_error + 'a" | TimerFirst

definition with_timeout_mapped ::
  "nat \<Rightarrow> 'a race \<Rightarrow> (rs_error \<Rightarrow> stack_error) \<Rightarrow> 'a stack_result" where
  "with_timeout_mapped secs fut f =
     (case fut of
        Finished (Inl e) \<Rightarrow> Err (f e)
      | Finished (Inr a) \<Rightarrow> Ok a
      | TimerFirst \<Rightarrow>
          Err (stack_error_new Timeout (''IM operation timed out after '' @ dec_of_nat secs @ ''s'')))"

subsection \<open>Events\<close>

definition walk_events :: "report_data \<Rightarrow> (event_data \<Rightarrow> 's \<Rightarrow> 's) \<Rightarrow> 's \<Rightarrow> 's" where
  "walk_events report f s =
     (case rd_event_reports report of
        None \<Rightarrow> s
      | Some evs \<Rightarrow> fold (\<lambda>r s. case r of Inr (EventData d) \<Rightarrow> f d s | _ \<Rightarrow> s) evs s)"

text \<open>A time of the system clock, in nanoseconds since 1970; \<open>i64::try_from\<close> fails above its maximum.\<close>

definition unix_millis :: "int \<Rightarrow> i64" where
  "unix_millis t =
     (if t < 0 then 0 else let ms = t div 1000000 in if ms < 2 ^ 63 then word_of_int ms else 0)"

definition clamp_i64 :: "u64 \<Rightarrow> i64" where
  "clamp_i64 n = (if unat n < 2 ^ 63 then n else 2 ^ 63 - 1)"

definition convert_timestamp :: "int \<Rightarrow> event_timestamp \<Rightarrow> i64 \<times> u8" where
  "convert_timestamp clock ts =
     (case ts of
        EpochTimestamp ms \<Rightarrow> (clamp_i64 ms, 1)
      | SystemTimestamp ms \<Rightarrow> (clamp_i64 ms, 0)
      | DeltaEpochTimestamp _ \<Rightarrow> (unix_millis clock, 2)
      | DeltaSystemTimestamp _ \<Rightarrow> (unix_millis clock, 2))"

definition event_json ::
  "b64_codec \<Rightarrow> gen_cluster list \<Rightarrow> u32 \<Rightarrow> u32 \<Rightarrow> tlv option \<Rightarrow> json" where
  "event_json b tables cluster_id event_id payload =
     (case payload of
        None \<Rightarrow> JNull
      | Some elem \<Rightarrow>
          (case (case Option.bind (cluster tables cluster_id)
                        (\<lambda>c. map_option (Pair c) (cluster_event c event_id)) of
                   Some (c, e) \<Rightarrow> tlv_to_json_named b elem (ge_fields e) c
                 | None \<Rightarrow> tlv_to_json b elem) of
             Inr v \<Rightarrow> v
           | Inl _ \<Rightarrow> JNull))"

definition node_event :: "b64_codec \<Rightarrow> gen_cluster list \<Rightarrow> int \<Rightarrow> event_data \<Rightarrow> node_event_data" where
  "node_event b tables clock d =
     (case convert_timestamp clock (ev_timestamp d) of
        (timestamp, timestamp_type) \<Rightarrow>
          let cluster_id = or_else 0 (ev_cluster d); event_id = or_else 0 (ev_event d)
          in \<lparr>ed_endpoint_id = or_else 0 (ev_endpoint d), ed_cluster_id = cluster_id,
              ed_event_id = event_id, ed_event_number = ev_number d, ed_priority = ev_priority d,
              ed_timestamp = timestamp, ed_timestamp_type = timestamp_type,
              ed_data = event_json b tables cluster_id event_id (ev_payload d)\<rparr>)"

subsection \<open>The report sink\<close>

datatype im_status = InvalidSubscription

text \<open>What rs-matter knows of the report: its subscription id and the CASE session it came on\<close>

record report_origin =
  ro_subscription_id :: "u32 option"
  ro_fabric_idx :: u8
  ro_peer_node_id :: u64

definition forward_event ::
  "b64_codec \<Rightarrow> gen_cluster list \<Rightarrow> int \<Rightarrow> u64 \<Rightarrow> event_data \<Rightarrow> stack_ctx \<Rightarrow> stack_ctx" where
  "forward_event b tables clock n d ctx =
     (case ctx_note_event n (ev_number d) ctx of
        (False, ctx) \<Rightarrow> ctx
      | (True, ctx) \<Rightarrow> send_event (NodeEvent n (node_event b tables clock d)) ctx)"

definition handle_report ::
  "b64_codec \<Rightarrow> gen_cluster list \<Rightarrow> instant \<Rightarrow> int \<Rightarrow> report_origin \<Rightarrow> report_data \<Rightarrow> stack_ctx
   \<Rightarrow> (im_status + unit) \<times> stack_ctx" where
  "handle_report b tables now clock sub report ctx =
     (case ro_subscription_id sub of
        None \<Rightarrow> (Err InvalidSubscription, ctx)
      | Some sub_id \<Rightarrow>
          if ro_fabric_idx sub \<noteq> cx_fab_idx ctx then (Err InvalidSubscription, ctx)
          else if cx_subs ctx (ro_peer_node_id sub) \<noteq> Some sub_id then (Err InvalidSubscription, ctx)
          else
            let n = ro_peer_node_id sub;
                ctx = ctx\<lparr>cx_liveness := (cx_liveness ctx)(n \<mapsto> now)\<rparr>
            in (case absorb_message b tables n report (cx_pending ctx) of
                  (changes, pending) \<Rightarrow>
                    let ctx = ctx\<lparr>cx_pending := pending\<rparr>;
                        ctx = (case changes of
                                 Some (c # cs) \<Rightarrow> send_event (AttributesChanged n (c # cs)) ctx
                               | _ \<Rightarrow> ctx)
                    in (Ok (), walk_events report (forward_event b tables clock n) ctx)))"

end
