(* ===== verification/Supervisor.thy ===== *)
theory Supervisor
  imports Reports
begin

section \<open>The supervisors (\<open>stack/src/supervisor.rs\<close>, the request loop of \<open>stack/src/runtime.rs\<close>)\<close>

text \<open>
  One task per commissioned node subscribes to it, watches that it keeps reporting, and subscribes
  again. The stack thread is single-threaded: what runs between two awaits is one action, a
  definition here, and the actions of the tasks, of the request loop and of the report sink
  interleave freely (\<open>sup_do\<close>, \<open>sup_run\<close>). Dropping a task handle only cancels the
  task; its future, and the guard it may hold, is dropped by the executor at some later action.
  The exchange with the device is rs-matter's: an action says how it went.
\<close>

definition MIN_INTERVAL_FLOOR_SECS :: u16 where "MIN_INTERVAL_FLOOR_SECS = 0"
definition MAX_INTERVAL_CEIL_SECS :: u16 where "MAX_INTERVAL_CEIL_SECS = 60"
definition LIVENESS_SLACK_SECS :: nat where "LIVENESS_SLACK_SECS = 15"
definition LIVENESS_POLL_SECS :: nat where "LIVENESS_POLL_SECS = 5"
definition BACKOFF_SCHEDULE_SECS :: "nat list" where "BACKOFF_SCHEDULE_SECS = [2, 5, 10, 30, 60]"

text \<open>A \<open>usize\<close> counter that saturates\<close>

definition USIZE_MAX :: nat where "USIZE_MAX = 18446744073709551615"

definition saturating_succ :: "nat \<Rightarrow> nat" where
  "saturating_succ n = (if n < USIZE_MAX then n + 1 else n)"

definition backoff_delay :: "nat \<Rightarrow> instant" where
  "backoff_delay idx =
     from_secs (BACKOFF_SCHEDULE_SECS ! min idx (length BACKOFF_SCHEDULE_SECS - 1))"

definition liveness_deadline :: "u16 \<Rightarrow> instant" where
  "liveness_deadline max_int = from_secs (unat max_int + LIVENESS_SLACK_SECS)"

text \<open>\<open>saturating_duration_since\<close> is the subtraction of natural numbers.\<close>

definition liveness_expired :: "instant option \<Rightarrow> instant \<Rightarrow> instant \<Rightarrow> instant \<Rightarrow> bool" where
  "liveness_expired seen established_at now deadline \<longleftrightarrow> deadline \<le> now - or_else established_at seen"

definition disown :: "u64 \<Rightarrow> u32 \<Rightarrow> stack_ctx \<Rightarrow> stack_ctx" where
  "disown n sub_id ctx =
     (if cx_subs ctx n = Some sub_id then ctx\<lparr>cx_subs := (cx_subs ctx)(n := None)\<rparr> else ctx)"

text \<open>\<open>SubscriptionGuard::drop\<close>\<close>

definition drop_guard :: "u64 \<Rightarrow> u32 \<Rightarrow> stack_ctx \<Rightarrow> stack_ctx" where
  "drop_guard n sub_id ctx =
     (let ctx = disown n sub_id ctx in ctx\<lparr>cx_liveness := (cx_liveness ctx)(n := None)\<rparr>)"

subsection \<open>Establishing a subscription\<close>

text \<open>
  \<open>establish\<close> in its three parts: what precedes the exchange, each chunk of the priming
  report, and what follows its completion without an await.
\<close>

definition begin_establish :: "u64 \<Rightarrow> stack_ctx \<Rightarrow> stack_ctx" where
  "begin_establish n ctx =
     (let ctx = reset_event_high_water n ctx
      in ctx\<lparr>cx_pending := pending_forget n (cx_pending ctx)\<rparr>)"

definition prime_chunk ::
  "b64_codec \<Rightarrow> gen_cluster list \<Rightarrow> u64 \<Rightarrow> report_data \<Rightarrow> attr_accumulator \<Rightarrow> stack_ctx
   \<Rightarrow> attr_accumulator \<times> stack_ctx" where
  "prime_chunk b tables n report acc ctx =
     (absorb b tables report acc,
      walk_events report (\<lambda>d ctx. snd (ctx_note_event n (ev_number d) ctx)) ctx)"

definition finish_establish ::
  "u64 \<Rightarrow> u32 \<Rightarrow> u16 \<Rightarrow> instant \<Rightarrow> attr_accumulator \<Rightarrow> stack_ctx \<Rightarrow> stack_ctx" where
  "finish_establish n sub_id max_int now acc ctx =
     (let ctx = ctx\<lparr>cx_subs := (cx_subs ctx)(n \<mapsto> sub_id)\<rparr>;
          ctx = ctx\<lparr>cx_liveness := (cx_liveness ctx)(n \<mapsto> now)\<rparr>;
          attributes = om_of_list (into_pairs acc);
          ctx = send_event (NodeState n (Connected max_int)) ctx
      in send_event (PrimingSnapshot n attributes) ctx)"

subsection \<open>The tasks\<close>

text \<open>
  Where a supervisor is parked: about to subscribe with this backoff index; in the exchange; in the
  watchdog with its subscription, the time of establishment, the deadline and the next poll; in
  the backoff timer. A watching task owns the guard of its subscription.
\<close>

datatype sup_phase =
    Trying nat
  | Priming nat attr_accumulator
  | Watching u32 instant instant instant
  | BackingOff nat instant

record sup_task =
  tk_node :: u64
  tk_phase :: sup_phase
  tk_cancelled :: bool

record sup_world =
  sw_ctx :: stack_ctx
  sw_tasks :: "nat \<Rightarrow> sup_task option"
  sw_next :: nat
  sw_now :: instant
  sw_open :: bool

definition sup_init :: "u8 \<Rightarrow> sup_world" where
  "sup_init fab =
     \<lparr>sw_ctx = stack_ctx_new fab, sw_tasks = Map.empty, sw_next = 0, sw_now = 0, sw_open = True\<rparr>"

definition set_phase :: "nat \<Rightarrow> sup_task \<Rightarrow> sup_phase \<Rightarrow> stack_ctx \<Rightarrow> sup_world \<Rightarrow> sup_world" where
  "set_phase t tk ph ctx w = w\<lparr>sw_ctx := ctx, sw_tasks := (sw_tasks w)(t \<mapsto> tk\<lparr>tk_phase := ph\<rparr>)\<rparr>"

definition next_poll :: "instant \<Rightarrow> instant" where
  "next_poll now = now + from_secs LIVENESS_POLL_SECS"

text \<open>\<open>supervise\<close>: the start of an attempt, its two outcomes, and the two timers\<close>

definition sup_attempt :: "nat \<Rightarrow> sup_task \<Rightarrow> sup_world \<Rightarrow> sup_world option" where
  "sup_attempt t tk w =
     (case tk_phase tk of
        Trying idx \<Rightarrow>
          Some (set_phase t tk (Priming idx empty_accumulator) (begin_establish (tk_node tk) (sw_ctx w)) w)
      | _ \<Rightarrow> None)"

definition sup_chunk ::
  "b64_codec \<Rightarrow> gen_cluster list \<Rightarrow> report_data \<Rightarrow> nat \<Rightarrow> sup_task \<Rightarrow> sup_world \<Rightarrow> sup_world option" where
  "sup_chunk b tables report t tk w =
     (case tk_phase tk of
        Priming idx acc \<Rightarrow>
          (case prime_chunk b tables (tk_node tk) report acc (sw_ctx w) of
             (acc, ctx) \<Rightarrow> Some (set_phase t tk (Priming idx acc) ctx w))
      | _ \<Rightarrow> None)"

definition sup_established :: "u32 \<Rightarrow> u16 \<Rightarrow> nat \<Rightarrow> sup_task \<Rightarrow> sup_world \<Rightarrow> sup_world option" where
  "sup_established sub_id max_int t tk w =
     (case tk_phase tk of
        Priming idx acc \<Rightarrow>
          Some (set_phase t tk
            (Watching sub_id (sw_now w) (liveness_deadline max_int) (next_poll (sw_now w)))
            (finish_establish (tk_node tk) sub_id max_int (sw_now w) acc (sw_ctx w)) w)
      | _ \<Rightarrow> None)"

definition sup_failed :: "nat \<Rightarrow> sup_task \<Rightarrow> sup_world \<Rightarrow> sup_world option" where
  "sup_failed t tk w =
     (case tk_phase tk of
        Priming idx acc \<Rightarrow>
          Some (set_phase t tk (BackingOff idx (sw_now w + backoff_delay idx))
            (send_event (NodeState (tk_node tk) Reconnecting) (sw_ctx w)) w)
      | _ \<Rightarrow> None)"

definition sup_poll :: "nat \<Rightarrow> sup_task \<Rightarrow> sup_world \<Rightarrow> sup_world option" where
  "sup_poll t tk w =
     (case tk_phase tk of
        Watching sub_id established_at deadline due \<Rightarrow>
          if sw_now w < due then None
          else if liveness_expired (cx_liveness (sw_ctx w) (tk_node tk)) established_at (sw_now w) deadline
          then Some (set_phase t tk (Trying 0)
                 (send_event (NodeState (tk_node tk) Reconnecting)
                   (drop_guard (tk_node tk) sub_id (sw_ctx w))) w)
          else Some (set_phase t tk (Watching sub_id established_at deadline (next_poll (sw_now w))) (sw_ctx w) w)
      | _ \<Rightarrow> None)"

definition sup_wake :: "nat \<Rightarrow> sup_task \<Rightarrow> sup_world \<Rightarrow> sup_world option" where
  "sup_wake t tk w =
     (case tk_phase tk of
        BackingOff idx due \<Rightarrow>
          if sw_now w < due then None else Some (set_phase t tk (Trying (saturating_succ idx)) (sw_ctx w) w)
      | _ \<Rightarrow> None)"

text \<open>The executor drops the future of a cancelled task.\<close>

definition drop_task :: "nat \<Rightarrow> sup_task \<Rightarrow> sup_world \<Rightarrow> sup_world" where
  "drop_task t tk w =
     w\<lparr>sw_tasks := (sw_tasks w)(t := None),
       sw_ctx := (case tk_phase tk of
                    Watching sub_id _ _ _ \<Rightarrow> drop_guard (tk_node tk) sub_id (sw_ctx w)
                  | _ \<Rightarrow> sw_ctx w)\<rparr>"

subsection \<open>The request loop\<close>

definition forget_node :: "u64 \<Rightarrow> stack_ctx \<Rightarrow> stack_ctx" where
  "forget_node n ctx =
     ctx\<lparr>cx_last_event := (cx_last_event ctx)(n := None),
         cx_addrs := (cx_addrs ctx)(n := None),
         cx_pending := pending_forget n (cx_pending ctx)\<rparr>"

definition cancel_task :: "nat option \<Rightarrow> (nat \<Rightarrow> sup_task option) \<Rightarrow> nat \<Rightarrow> sup_task option" where
  "cancel_task handle tasks =
     (case handle of
        None \<Rightarrow> tasks
      | Some t \<Rightarrow> tasks(t := map_option (tk_cancelled_update (\<lambda>_. True)) (tasks t)))"

definition start_supervisor :: "u64 \<Rightarrow> sup_world \<Rightarrow> sup_world" where
  "start_supervisor n w =
     (let t = sw_next w; displaced = cx_supervisors (sw_ctx w) n
      in w\<lparr>sw_next := t + 1,
           sw_ctx := (sw_ctx w)\<lparr>cx_supervisors := (cx_supervisors (sw_ctx w))(n \<mapsto> t)\<rparr>,
           sw_tasks := cancel_task displaced
             ((sw_tasks w)(t \<mapsto> \<lparr>tk_node = n, tk_phase = Trying 0, tk_cancelled = False\<rparr>))\<rparr>)"

definition stop_supervisor :: "u64 \<Rightarrow> sup_world \<Rightarrow> sup_world" where
  "stop_supervisor n w =
     (let task = cx_supervisors (sw_ctx w) n
      in w\<lparr>sw_ctx := forget_node n ((sw_ctx w)\<lparr>cx_supervisors := (cx_supervisors (sw_ctx w))(n := None)\<rparr>),
           sw_tasks := cancel_task task (sw_tasks w)\<rparr>)"

text \<open>\<open>Shutdown\<close>: every handle in the map is drained and dropped, and the loop ends.\<close>

definition stop_all :: "sup_world \<Rightarrow> sup_world" where
  "stop_all w =
     w\<lparr>sw_ctx := (sw_ctx w)\<lparr>cx_supervisors := Map.empty\<rparr>,
       sw_tasks := (\<lambda>t. map_option (\<lambda>tk. if cx_supervisors (sw_ctx w) (tk_node tk) = Some t
                                        then tk\<lparr>tk_cancelled := True\<rparr> else tk) (sw_tasks w t)),
       sw_open := False\<rparr>"

text \<open>\<open>NodeAddresses\<close> answers from the cache only.\<close>

definition cached_addresses :: "u64 \<Rightarrow> stack_ctx \<Rightarrow> rstring list" where
  "cached_addresses n ctx = or_else [] (cx_addrs ctx n)"

subsection \<open>All of it together\<close>

datatype sup_action =
    Start u64 | Stop u64 | ShutDown
  | Attempt nat | Chunk nat report_data | Established nat u32 u16 | AttemptFailed nat
  | Poll nat | Wake nat | DropTask nat
  | Report int report_origin report_data
  | Elapse nat

definition on_task ::
  "nat \<Rightarrow> bool \<Rightarrow> (nat \<Rightarrow> sup_task \<Rightarrow> sup_world \<Rightarrow> sup_world option) \<Rightarrow> sup_world \<Rightarrow> sup_world option" where
  "on_task t cancelled f w =
     (case sw_tasks w t of
        None \<Rightarrow> None
      | Some tk \<Rightarrow> if tk_cancelled tk = cancelled then f t tk w else None)"

fun sup_do :: "b64_codec \<Rightarrow> gen_cluster list \<Rightarrow> sup_action \<Rightarrow> sup_world \<Rightarrow> sup_world option" where
  "sup_do b tables (Start n) w = (if sw_open w then Some (start_supervisor n w) else None)"
| "sup_do b tables (Stop n) w = (if sw_open w then Some (stop_supervisor n w) else None)"
| "sup_do b tables ShutDown w = (if sw_open w then Some (stop_all w) else None)"
| "sup_do b tables (Attempt t) w = on_task t False sup_attempt w"
| "sup_do b tables (Chunk t report) w = on_task t False (sup_chunk b tables report) w"
| "sup_do b tables (Established t sub_id max_int) w = on_task t False (sup_established sub_id max_int) w"
| "sup_do b tables (AttemptFailed t) w = on_task t False sup_failed w"
| "sup_do b tables (Poll t) w = on_task t False sup_poll w"
| "sup_do b tables (Wake t) w = on_task t False sup_wake w"
| "sup_do b tables (DropTask t) w = on_task t True (\<lambda>t tk w. Some (drop_task t tk w)) w"
| "sup_do b tables (Report clock sub report) w =
     Some (w\<lparr>sw_ctx := snd (handle_report b tables (sw_now w) clock sub report (sw_ctx w))\<rparr>)"
| "sup_do b tables (Elapse d) w = Some (w\<lparr>sw_now := sw_now w + d\<rparr>)"

fun sup_run :: "b64_codec \<Rightarrow> gen_cluster list \<Rightarrow> sup_action list \<Rightarrow> sup_world \<Rightarrow> sup_world option" where
  "sup_run b tables [] w = Some w"
| "sup_run b tables (a # as) w = Option.bind (sup_do b tables a w) (sup_run b tables as)"

inductive sup_reachable :: "b64_codec \<Rightarrow> gen_cluster list \<Rightarrow> u8 \<Rightarrow> sup_world \<Rightarrow> bool"
  for b tables fab where
  init: "sup_reachable b tables fab (sup_init fab)"
| step: "\<lbrakk>sup_reachable b tables fab w; sup_do b tables a w = Some w'\<rbrakk> \<Longrightarrow> sup_reachable b tables fab w'"

end
