(* ===== verification/Tlv_Facts.thy ===== *)
theory Tlv_Facts
  imports Tlv
begin

section \<open>What the TLV conversion guarantees\<close>

text \<open>
  A tag-based value written without a hint is read back as itself; a value written under a base
  type is written as that type or refused; what the reader accepts is nested at most as deep as
  its limit; the epoch shift and its inverse.
\<close>

subsection \<open>Ordered maps under a change of keys and values\<close>

lemma om_of_list_map_values:
  fixes kvs :: "('k::linorder \<times> 'v) list"
  shows "om_of_list (map (\<lambda>(k, v). (k, g v)) kvs) = map (\<lambda>(k, v). (k, g v)) (om_of_list kvs)"
proof -
  have ins: "om_insert k (g v) (map (\<lambda>(k, v). (k, g v)) m) = map (\<lambda>(k, v). (k, g v)) (om_insert k v m)"
    for k v and m :: "('k \<times> 'v) list"
    by (induction k v m rule: om_insert.induct) auto
  have "fold (\<lambda>(k, v) m. om_insert k v m) (map (\<lambda>(k, v). (k, g v)) kvs) (map (\<lambda>(k, v). (k, g v)) m)
      = map (\<lambda>(k, v). (k, g v)) (fold (\<lambda>(k, v) m. om_insert k v m) kvs m)" for m :: "('k \<times> 'v) list"
    by (induction kvs arbitrary: m) (auto simp: ins)
  from this[of "[]"] show ?thesis by (simp add: om_of_list_def)
qed

lemma set_om_of_list: "distinct (map fst kvs) \<Longrightarrow> set (om_of_list kvs) = set kvs"
  using om_get_in_set[OF om_ok_of_list, of kvs]
  by (auto simp: om_get_of_list map_of_rev_distinct map_of_eq_Some_iff)

lemma om_eq_setI:
  assumes "om_ok m" and "om_ok n" and "set m = set n"
  shows "m = n"
proof (rule om_eqI[OF assms(1,2)])
  fix k
  show "om_get m k = om_get n k"
    using om_get_in_set[OF assms(1), of k] om_get_in_set[OF assms(2), of k] assms(3)
    by (cases "om_get m k"; cases "om_get n k") auto
qed

lemma om_of_list_renamed:
  assumes "om_ok m" and "inj_on f (fst ` set m)"
  shows "set (om_of_list (map (\<lambda>(k, v). (f k, v)) m)) = (\<lambda>(k, v). (f k, v)) ` set m"
    and "distinct (map fst (map (\<lambda>(k, v). (f k, v)) m))"
proof -
  show d: "distinct (map fst (map (\<lambda>(k, v). (f k, v)) m))"
    using comp_inj_on[of fst "set m" f] assms om_ok_distinct[OF assms(1)]
    by (simp add: comp_def case_prod_beta' distinct_map)
  show "set (om_of_list (map (\<lambda>(k, v). (f k, v)) m)) = (\<lambda>(k, v). (f k, v)) ` set m"
    by (simp add: set_om_of_list[OF d])
qed

lemma om_of_list_renamed_back:
  assumes "om_ok m" and "\<And>k. k \<in> fst ` set m \<Longrightarrow> g (f k) = k"
  shows "om_of_list (map (\<lambda>(c, v). (g c, v)) (om_of_list (map (\<lambda>(k, v). (f k, v)) m))) = m"
proof -
  let ?tagged = "om_of_list (map (\<lambda>(k, v). (f k, v)) m)"
  have "inj_on f (fst ` set m)" using assms(2) by (metis inj_onI)
  note t = om_of_list_renamed[OF assms(1) this]
  have "fst ` set ?tagged = f ` fst ` set m" unfolding t(1) by (simp add: image_image case_prod_beta')
  then have "inj_on g (fst ` set ?tagged)" using assms(2) by (auto simp: inj_on_def)
  note r = om_of_list_renamed[OF om_ok_of_list this]
  have "set (om_of_list (map (\<lambda>(c, v). (g c, v)) ?tagged)) = set m"
    using assms(2) by (force simp: r(1) t(1))
  then show ?thesis by (rule om_eq_setI[OF om_ok_of_list assms(1)])
qed


subsection \<open>The tag-based form\<close>

text \<open>
  A value in the form \<open>tlv_to_json\<close> produces: objects keyed by the decimal tag, finite
  floats, strings that are UTF-8. \<open>json_depth\<close> counts the containers around the deepest value.
\<close>

definition is_tag_key :: "rstring \<Rightarrow> bool" where
  "is_tag_key k \<longleftrightarrow> (case (parse_uint k :: u8 option) of None \<Rightarrow> False | Some n \<Rightarrow> k = dec_of n)"

fun tag_json :: "json \<Rightarrow> bool" where
  "tag_json (JNum (NegInt i)) = (sint i < 0)"
| "tag_json (JNum (Float w)) = f64_is_finite w"
| "tag_json (JStr s) = valid_utf8 s"
| "tag_json (JArr vs) = list_all tag_json vs"
| "tag_json (JObj m) = (om_ok m \<and> list_all (\<lambda>(k, v). is_tag_key k \<and> tag_json v) m)"
| "tag_json _ = True"

fun json_depth :: "json \<Rightarrow> nat" where
  "json_depth (JArr vs) = foldr (\<lambda>v n. max (Suc (json_depth v)) n) vs 0"
| "json_depth (JObj m) = foldr (\<lambda>(_, v) n. max (Suc (json_depth v)) n) m 0"
| "json_depth _ = 0"

lemma foldr_max_Suc_le: "foldr (\<lambda>v n. max (Suc (f v)) n) vs 0 \<le> d \<longleftrightarrow> (\<forall>v \<in> set vs. Suc (f v) \<le> d)"
  by (induction vs) auto

lemma foldr_max_Suc_snd_le:
  "foldr (\<lambda>(_, v) n. max (Suc (f v)) n) m 0 \<le> d \<longleftrightarrow> (\<forall>kv \<in> set m. Suc (f (snd kv)) \<le> d)"
  by (induction m) auto

text \<open>The element written for such a value, and the operations that write an element\<close>

definition tag_of :: "rstring \<Rightarrow> u8" where
  "tag_of k = the (parse_uint k)"

fun element_of :: "json \<Rightarrow> tlv" where
  "element_of JNull = Scalar TlvNull"
| "element_of (JBool b) = Scalar (TlvBool b)"
| "element_of (JNum (PosInt n)) = Scalar (U64 n)"
| "element_of (JNum (NegInt i)) = Scalar (S64 i)"
| "element_of (JNum (Float w)) = Scalar (F64 w)"
| "element_of (JStr s) = Utf8 (Ok s)"
| "element_of (JArr vs) = Sequence (Ok (map (\<lambda>v. Member (Ok AnonymousTag) (element_of v)) vs))"
| "element_of (JObj m) =
     Structure (Ok (map (\<lambda>(n, e). Member (Ok (ContextTag n)) e)
       (om_of_list (map (\<lambda>(k, v). (tag_of k, element_of v)) m))))"

fun scalar_op :: "tlv_tag \<Rightarrow> tlv_scalar \<Rightarrow> tlv_op" where
  "scalar_op t (S8 w) = WI8 t w" | "scalar_op t (S16 w) = WI16 t w"
| "scalar_op t (S32 w) = WI32 t w" | "scalar_op t (S64 w) = WI64 t w"
| "scalar_op t (U8 w) = WU8 t w" | "scalar_op t (U16 w) = WU16 t w"
| "scalar_op t (U32 w) = WU32 t w" | "scalar_op t (U64 w) = WU64 t w"
| "scalar_op t (TlvBool x) = WBool t x" | "scalar_op t (F32 w) = WF32 t w"
| "scalar_op t (F64 w) = WF64 t w" | "scalar_op t TlvNull = WNull t"

fun element_ops :: "tlv_tag \<Rightarrow> tlv \<Rightarrow> tlv_op list"
and member_ops :: "tlv_member \<Rightarrow> tlv_op list" where
  "element_ops t (Scalar v) = [scalar_op t v]"
| "element_ops t (Utf8 (Inr s)) = [WUtf8 t s]"
| "element_ops t (Octets s) = [WStr t s]"
| "element_ops t (Structure (Inr ms)) = StartStruct t # concat (map member_ops ms) @ [EndContainer]"
| "element_ops t (Sequence (Inr ms)) = StartArray t # concat (map member_ops ms) @ [EndContainer]"
| "element_ops t _ = []"
| "member_ops (Member (Inr t) e) = element_ops t e"
| "member_ops _ = []"

text \<open>A writer that only records what it is told\<close>

definition record_op :: "tlv_op list put" where
  "record_op op ops = Ok (ops @ [op])"

subsection \<open>Reading the element of a value\<close>

lemma object_members_ok:
  assumes "\<forall>(n, v) \<in> set l. tlv_to_json_at b d (e v) = Ok v"
  shows "object_members b d (map (\<lambda>(n, e). Member (Ok (ContextTag n)) e) (map (\<lambda>(n, v). (n, e v)) l)) obj
    = Ok (fold (\<lambda>(n, v) m. om_insert n v m) (map (\<lambda>(n, v). (dec_of n, v)) l) obj)"
  using assms by (induction l arbitrary: obj) (auto simp del: tlv_to_json_at.simps)

lemma array_members_ok:
  assumes "\<forall>v \<in> set vs. tlv_to_json_at b d (e v) = Ok v"
  shows "array_members b d (map (\<lambda>v. Member (Ok AnonymousTag) (e v)) vs) = Ok vs"
  using assms by (induction vs) (auto simp del: tlv_to_json_at.simps)

lemma tag_of_dec: "is_tag_key k \<Longrightarrow> dec_of (tag_of k) = k \<and> parse_uint k = Some (tag_of k)"
  by (auto simp: is_tag_key_def tag_of_def split: option.splits)

definition by_tag :: "jmap \<Rightarrow> (u8, json) omap" where
  "by_tag m = om_of_list (map (\<lambda>(k, v). (tag_of k, v)) m)"

lemma by_tag_keys:
  assumes "om_ok m" and "\<forall>(k, v) \<in> set m. is_tag_key k"
  shows "inj_on tag_of (fst ` set m)"
    and "om_of_list (map (\<lambda>(n, v). (dec_of n, v)) (by_tag m)) = m"
    and "set (by_tag m) = (\<lambda>(k, v). (tag_of k, v)) ` set m"
proof -
  have inv: "dec_of (tag_of k) = k" if "k \<in> fst ` set m" for k using that assms(2) tag_of_dec by auto
  then show inj: "inj_on tag_of (fst ` set m)" by (metis inj_onI)
  show "om_of_list (map (\<lambda>(n, v). (dec_of n, v)) (by_tag m)) = m"
    unfolding by_tag_def by (rule om_of_list_renamed_back[where f = tag_of and g = dec_of, OF assms(1)]) (rule inv)
  show "set (by_tag m) = (\<lambda>(k, v). (tag_of k, v)) ` set m"
    unfolding by_tag_def by (rule om_of_list_renamed(1)[OF assms(1) inj])
qed

lemma element_of_obj: "element_of (JObj m) =
  Structure (Ok (map (\<lambda>(n, e). Member (Ok (ContextTag n)) e) (map (\<lambda>(n, v). (n, element_of v)) (by_tag m))))"
proof -
  have "map (\<lambda>(k, v). (tag_of k, element_of v)) m = map (\<lambda>(n, v). (n, element_of v)) (map (\<lambda>(k, v). (tag_of k, v)) m)"
    by (simp add: case_prod_beta')
  then show ?thesis by (simp only: element_of.simps om_of_list_map_values by_tag_def)
qed

lemma read_element_of: "tag_json v \<Longrightarrow> json_depth v + d \<le> MAX_DEPTH \<Longrightarrow> tlv_to_json_at b d (element_of v) = Ok v"
proof (induction v arbitrary: d rule: tag_json.induct)
  case (4 vs)
  have "tlv_to_json_at b (d + 1) (element_of v) = Ok v" if "v \<in> set vs" for v
  proof -
    have "Suc (json_depth v) + d \<le> MAX_DEPTH"
      using 4(3) that foldr_max_Suc_le[of json_depth vs "MAX_DEPTH - d"] by (auto simp: le_diff_conv2)
    then show ?thesis using 4(1)[OF that, of "d + 1"] 4(2) that by (auto simp: list_all_iff simp del: tlv_to_json_at.simps)
  qed
  then show ?case using 4(3) array_members_ok[of vs b "d + 1" element_of] by simp
next
  case (5 m)
  have ok: "om_ok m" "\<forall>(k, v) \<in> set m. is_tag_key k" using 5(2) by (auto simp: list_all_iff)
  have "tlv_to_json_at b (d + 1) (element_of v) = Ok v" if "(k, v) \<in> set m" for k v
  proof -
    have "Suc (json_depth v) + d \<le> MAX_DEPTH"
      using 5(3) that foldr_max_Suc_snd_le[of json_depth m "MAX_DEPTH - d"] by force
    then show ?thesis using 5(1)[OF that refl, of "d + 1"] 5(2) that by (auto simp: list_all_iff simp del: tlv_to_json_at.simps)
  qed
  then have "\<forall>(n, v) \<in> set (by_tag m). tlv_to_json_at b (d + 1) (element_of v) = Ok v"
    by (auto simp: by_tag_keys(3)[OF ok] simp del: tlv_to_json_at.simps)
  from object_members_ok[OF this, of "[]"] show ?case
    using 5(3) by_tag_keys(2)[OF ok] by (simp add: element_of_obj om_of_list_def del: element_of.simps)
qed (auto simp: scalar_json_def float_json_def junsigned_def jsigned_def from_utf8_lossy_valid)


subsection \<open>Writing the element of a value\<close>

lemma add_members_by_tag:
  assumes "distinct (map (\<lambda>(k, v). tag_of k) m)" and "\<forall>(k, v) \<in> set m. is_tag_key k"
    and "\<forall>(k, v) \<in> set m. \<not> om_contains slots (tag_of k)"
  shows "try_fold (add_member (tag_slot None)) m slots
    = Ok (fold (\<lambda>(n, s) t. om_insert n s t) (map (\<lambda>(k, v). (tag_of k, (None, v))) m) slots)"
  using assms
proof (induction m arbitrary: slots)
  case (Cons kv m)
  obtain k v where kv: "kv = (k, v)" by (cases kv)
  have step: "add_member (tag_slot None) (k, v) slots = Ok (om_insert (tag_of k) (None, v) slots)"
    using Cons.prems tag_of_dec[of k] by (simp add: kv add_member_def tag_slot_def)
  have "distinct (map (\<lambda>(k, v). tag_of k) m)" "\<forall>(k, v) \<in> set m. is_tag_key k"
    using Cons.prems(1,2) by simp_all
  moreover have "\<forall>(j, u) \<in> set m. \<not> om_contains (om_insert (tag_of k) (None, v) slots) (tag_of j)"
  proof clarify
    fix j u
    assume m: "(j, u) \<in> set m" and "om_contains (om_insert (tag_of k) (None, v) slots) (tag_of j)"
    moreover have "tag_of j \<noteq> tag_of k"
      using Cons.prems(1) imageI[OF m, of "\<lambda>(k, v). tag_of k"] by (auto simp: kv)
    ultimately show False using Cons.prems(3) by (auto simp: om_contains_def om_get_insert)
  qed
  ultimately show ?case by (simp add: kv step Cons.IH)
qed simp

lemma record_members:
  assumes "\<And>x ops. x \<in> set xs \<Longrightarrow> f x ops = Ok (ops @ g x)"
  shows "try_fold f xs ops = Ok (ops @ concat (map g xs))"
  using assms by (induction xs arbitrary: ops) auto

lemma write_record:
  "tag_json v \<Longrightarrow> write_json b record_op tag v None ops = Ok (ops @ element_ops tag (element_of v))"
proof (induction v arbitrary: tag ops rule: tag_json.induct)
  case (4 vs)
  have "try_fold (\<lambda>item. write_json b record_op AnonymousTag item None) vs (ops @ [StartArray tag])
      = Ok (ops @ [StartArray tag] @ concat (map (\<lambda>v. element_ops AnonymousTag (element_of v)) vs))"
    by (subst record_members[where g = "\<lambda>v. element_ops AnonymousTag (element_of v)"])
       (use 4 in \<open>simp_all add: list_all_iff\<close>)
  then show ?case by (subst write_json.simps) (simp add: write_heuristic_def comp_def record_op_def)
next
  case (5 m)
  have ok: "om_ok m" "\<forall>(k, v) \<in> set m. is_tag_key k" using 5(2) by (auto simp: list_all_iff)
  let ?slots = "map (\<lambda>(n, v). (n, (None :: type_hint option, v))) (by_tag m)"
  have "distinct (map (\<lambda>(k, v). tag_of k) m)"
    using by_tag_keys(1)[OF ok] om_ok_distinct[OF ok(1)]
    by (simp add: distinct_map comp_inj_on[of fst "set m" tag_of, unfolded comp_def] case_prod_beta')
  from add_members_by_tag[OF this ok(2), of "[]"]
  have slots: "try_fold (add_member (tag_slot None)) m [] = Ok ?slots"
    by (simp add: om_contains_def by_tag_def flip: om_of_list_def om_of_list_map_values)
       (simp add: comp_def case_prod_beta')
  have "write_json b record_op (ContextTag n) v None ops = Ok (ops @ element_ops (ContextTag n) (element_of v))"
    if "(n, v) \<in> set (by_tag m)" for n v ops
    using that 5 by (auto simp: by_tag_keys(3)[OF ok] list_all_iff)
  note written = this
  have "try_fold (\<lambda>(ctx, (hint, v)). write_json b record_op (ContextTag ctx) v hint) ?slots x
      = Ok (x @ concat (map (\<lambda>(ctx, (hint, v)). element_ops (ContextTag ctx) (element_of v)) ?slots))" for x
    by (rule record_members) (auto simp: written)
  then show ?case
    by (subst write_json.simps)
       (simp add: write_heuristic_def write_tag_based_struct_def emit_struct_def slots element_of_obj
          comp_def case_prod_beta' record_op_def del: element_of.simps)
qed (auto simp: write_json.simps[of b record_op _ _ None] write_heuristic_def record_op_def)

text \<open>A codec to apply the properties to: two letters a byte\<close>

definition nibble_letters :: "u8 \<Rightarrow> rstring" where
  "nibble_letters w = [char_of (65 + unat w div 16), char_of (65 + unat w mod 16)]"

fun letters_bytes :: "rstring \<Rightarrow> bytes option" where
  "letters_bytes [] = Some []"
| "letters_bytes (h # l # s) =
     map_option (Cons (of_nat ((byte h - 65) * 16 + (byte l - 65)))) (letters_bytes s)"
| "letters_bytes [_] = None"

definition letter_codec :: b64_codec where
  "letter_codec = \<lparr>b64_encode = (\<lambda>bs. concat (map nibble_letters bs)), b64_decode = letters_bytes\<rparr>"

lemma witness_parts: "valid_utf8 ''on''" "is_tag_key ''7''" "is_tag_key ''2''" "is_tag_key ''10''"
  by (rule ascii_valid_utf8, code_simp) code_simp+

text \<open>
  C11: A value in the tag-based form, nested no deeper than the reader's limit, survives the trip to
  the device and back: writing it without a hint emits the operations of an element, and reading
  that element gives the value.
\<close>

theorem tag_json_roundtrip:
  assumes "tag_json v" and "json_depth v \<le> MAX_DEPTH"
  shows "\<exists>e. write_json b record_op tag v None [] = Ok (element_ops tag e) \<and> tlv_to_json b e = Ok v"
  using write_record[OF assms(1), of b tag "[]"] read_element_of[OF assms(1), of 0 b] assms(2)
  by (auto simp: tlv_to_json_def)

lemma tag_json_roundtrip_witness:
  "\<exists>e. write_json letter_codec record_op AnonymousTag
          (JObj [(''10'', JArr [JNum (NegInt (- 3)), JNull]), (''2'', JStr ''on''), (''7'', JObj [])]) None []
        = Ok (element_ops AnonymousTag e)
      \<and> tlv_to_json letter_codec e
        = Ok (JObj [(''10'', JArr [JNum (NegInt (- 3)), JNull]), (''2'', JStr ''on''), (''7'', JObj [])])"
proof (rule tag_json_roundtrip)
  show "tag_json (JObj [(''10'', JArr [JNum (NegInt (- 3)), JNull]), (''2'', JStr ''on''), (''7'', JObj [])])"
    by (simp add: witness_parts) code_simp
  show "json_depth (JObj [(''10'', JArr [JNum (NegInt (- 3)), JNull]), (''2'', JStr ''on''), (''7'', JObj [])])
      \<le> MAX_DEPTH"
    by code_simp
qed

subsection \<open>The form of what is read\<close>

lemma tag_key_dec [simp]: "is_tag_key (dec_of (n :: u8))"
  by (simp add: is_tag_key_def parse_uint_dec_of)

lemma tag_json_jsigned: "- (2 ^ 63) \<le> i \<Longrightarrow> i < 2 ^ 63 \<Longrightarrow> tag_json (jsigned i)"
  by (simp add: jsigned_def signed_of_int signed_take_bit_int_eq_self)

lemma sint_in_64:
  fixes w :: "'a::len word"
  assumes "LENGTH('a) \<le> 64"
  shows "- (2 ^ 63) \<le> sint w" and "sint w < 2 ^ 63"
proof -
  have "(2 :: int) ^ (LENGTH('a) - 1) \<le> 2 ^ 63" using assms by (intro power_increasing) auto
  then show "- (2 ^ 63) \<le> sint w" "sint w < 2 ^ 63"
    using sint_ge[of w] sint_lt[of w] by linarith+
qed

lemma tag_json_scalar: "tag_json (scalar_json sc)"
  by (cases sc) (auto simp: scalar_json_def junsigned_def float_json_def intro!: tag_json_jsigned
        sint_in_64[of "_ :: 8 word", simplified] sint_in_64[of "_ :: 16 word", simplified]
        sint_in_64[of "_ :: 32 word", simplified] sint_in_64[of "_ :: 64 word", simplified])

lemma json_depth_scalar [simp]: "json_depth (scalar_json sc) = 0"
  by (cases sc) (auto simp: scalar_json_def junsigned_def jsigned_def float_json_def)

definition readable :: "nat \<Rightarrow> json \<Rightarrow> bool" where
  "readable d v \<longleftrightarrow> tag_json v \<and> json_depth v + d \<le> MAX_DEPTH"

definition readable_members :: "nat \<Rightarrow> jmap \<Rightarrow> bool" where
  "readable_members d m \<longleftrightarrow> om_ok m \<and> (\<forall>(k, v) \<in> set m. is_tag_key k \<and> readable d v)"

lemma readable_members_insert:
  "readable_members d m \<Longrightarrow> readable d v \<Longrightarrow> readable_members d (om_insert (dec_of (n :: u8)) v m)"
  using set_om_insert[of "dec_of n" v m] by (auto simp: readable_members_def om_ok_insert)

lemma readable_JArr: "d \<le> MAX_DEPTH \<Longrightarrow> list_all (readable (d + 1)) vs \<Longrightarrow> readable d (JArr vs)"
  using foldr_max_Suc_le[of json_depth vs "MAX_DEPTH - d"]
  by (auto simp: readable_def list_all_iff le_diff_conv2)

lemma readable_JObj: "d \<le> MAX_DEPTH \<Longrightarrow> readable_members (d + 1) m \<Longrightarrow> readable d (JObj m)"
  using foldr_max_Suc_snd_le[of json_depth m "MAX_DEPTH - d"]
  by (fastforce simp: readable_def readable_members_def list_all_iff le_diff_conv2)

lemma tlv_to_json_cases:
  obtains (Structure) ms where "e = Structure (Ok ms)" | (Sequence) ms where "e = Sequence (Ok ms)"
    | (Scalar) sc where "e = Scalar sc" | (Utf8) s where "e = Utf8 s" | (Octets) bs where "e = Octets bs"
    | (Broken) x where "e = Broken x" | (BadStructure) x where "e = Structure (Inl x)"
    | (BadSequence) x where "e = Sequence (Inl x)" | (End) "e = EndOfContainer"
  by (cases e; auto) (metis sumE)+

definition text_codec :: "b64_codec \<Rightarrow> bool" where
  "text_codec b \<longleftrightarrow> (\<forall>bs. valid_utf8 (b64_encode b bs))"

lemma read_readable:
  "tlv_to_json_at b d e = Ok v \<Longrightarrow> text_codec b \<Longrightarrow> readable d v"
  "object_members b d ms m = Ok m' \<Longrightarrow> text_codec b \<Longrightarrow> readable_members d m \<Longrightarrow> readable_members d m'"
  "array_members b d ms = Ok vs \<Longrightarrow> text_codec b \<Longrightarrow> list_all (readable d) vs"
proof (induction b d e and b d ms m and b d ms arbitrary: v and m' and vs
    rule: tlv_to_json_at_object_members_array_members.induct)
  case (1 b d e)
  then have d: "d \<le> MAX_DEPTH" by (simp split: if_splits)
  note read = 1(3) [unfolded tlv_to_json_at.simps[of b d e]] and codec = 1(4)
  show ?case
  proof (cases e rule: tlv_to_json_cases)
    case (Structure ms)
    then obtain m where m: "object_members b (d + 1) ms [] = Ok m" "v = JObj m"
      using read d by (auto simp: and_then_Ok_iff)
    have "readable_members (d + 1) m"
      using 1(1)[OF _ Structure refl m(1) codec] d by (simp add: readable_members_def)
    then show ?thesis using readable_JObj d m(2) by blast
  next
    case (Sequence ms)
    then obtain vs where vs: "array_members b (d + 1) ms = Ok vs" "v = JArr vs"
      using read d by (auto simp: and_then_Ok_iff)
    have "list_all (readable (d + 1)) vs" using 1(2)[OF _ Sequence refl vs(1) codec] d by simp
    then show ?thesis using readable_JArr d vs(2) by blast
  qed (use read d codec in \<open>auto simp: text_codec_def readable_def tag_json_scalar valid_utf8_from_utf8_lossy
        and_then_Ok_iff split: if_splits\<close>)
qed (auto simp: and_then_Ok_iff readable_members_insert simp del: tlv_to_json_at.simps)

text \<open>
  C12: Whatever the device sends, a value that reaches the client is in the tag-based form: objects
  with distinct keys in order that are decimal tags, strings that are UTF-8, finite floats, and
  nesting within the limit. So it can be sent back as it is.
\<close>

theorem tlv_to_json_tag_form:
  assumes "text_codec b" and "tlv_to_json b e = Ok v"
  shows "tag_json v \<and> json_depth v \<le> MAX_DEPTH"
  using read_readable(1)[of b 0 e v] assms by (simp add: tlv_to_json_def readable_def)

lemma text_letter_codec: "text_codec letter_codec"
proof -
  have "list_all (\<lambda>c. byte c < 128) (nibble_letters w)" for w
  proof -
    have "unat w < 2 ^ LENGTH(8)" by (rule unsigned_less)
    then have "unat w div 16 < 16" "unat w mod 16 < 16" by simp_all
    then show ?thesis by (simp add: nibble_letters_def byte_char_of)
  qed
  then show ?thesis
    by (auto simp: text_codec_def letter_codec_def list_all_iff intro!: ascii_valid_utf8)
qed

lemma tlv_to_json_tag_form_witness:
  "tag_json (JObj [(''1'', JStr ''BD''), (''3'', JArr [JNum (PosInt 7)])]) \<and>
   json_depth (JObj [(''1'', JStr ''BD''), (''3'', JArr [JNum (PosInt 7)])]) \<le> MAX_DEPTH"
  by (rule tlv_to_json_tag_form[OF text_letter_codec, of "Structure (Ok
        [Member (Ok (ContextTag 3)) (Sequence (Ok [Member (Ok AnonymousTag) (Scalar (U8 7))])),
         Member (Ok (ContextTag 1)) (Octets [19])])"]) code_simp

subsection \<open>Writing under a base type\<close>

text \<open>
  The TLV types a base type admits: the narrowest width that holds it for one, two and four
  bytes, 64 bits otherwise, and the value within the bytes the type is declared with.
\<close>

fun op_tag :: "tlv_op \<Rightarrow> tlv_tag" where
  "op_tag (WNull t) = t" | "op_tag (WBool t _) = t"
| "op_tag (WU8 t _) = t" | "op_tag (WU16 t _) = t" | "op_tag (WU32 t _) = t" | "op_tag (WU64 t _) = t"
| "op_tag (WI8 t _) = t" | "op_tag (WI16 t _) = t" | "op_tag (WI32 t _) = t" | "op_tag (WI64 t _) = t"
| "op_tag (WF32 t _) = t" | "op_tag (WF64 t _) = t" | "op_tag (WUtf8 t _) = t" | "op_tag (WStr t _) = t"
| "op_tag (StartStruct t) = t" | "op_tag (StartArray t) = t" | "op_tag EndContainer = AnonymousTag"

definition op_of_base :: "base \<Rightarrow> tlv_op \<Rightarrow> bool" where
  "op_of_base base op \<longleftrightarrow>
     (case op of
        WBool _ _ \<Rightarrow> base = BBool
      | WF32 _ x \<Rightarrow> base = BSingle \<and> f32_is_finite x
      | WF64 _ _ \<Rightarrow> base = BDouble
      | WUtf8 _ _ \<Rightarrow> base = BUtf8
      | WStr _ _ \<Rightarrow> base = BOctets
      | WU8 _ _ \<Rightarrow> base = BUnsigned 1
      | WU16 _ _ \<Rightarrow> base = BUnsigned 2
      | WU32 _ _ \<Rightarrow> base \<in> {BUnsigned 4, BEpochS}
      | WU64 _ n \<Rightarrow> base = BEpochUs
          \<or> (\<exists>k \<in> {3, 5, 6, 7, 8}. base = BUnsigned k \<and> unat n < 2 ^ (8 * k))
      | WI8 _ _ \<Rightarrow> base = BSigned 1
      | WI16 _ _ \<Rightarrow> base = BSigned 2
      | WI32 _ _ \<Rightarrow> base = BSigned 4
      | WI64 _ n \<Rightarrow>
          (\<exists>k \<in> {3, 5, 6, 7, 8}. base = BSigned k \<and> - (2 ^ (8 * k - 1)) \<le> sint n \<and> sint n < 2 ^ (8 * k - 1))
      | _ \<Rightarrow> False)"

fun base_bytes :: "base \<Rightarrow> nat" where
  "base_bytes (BUnsigned k) = k" | "base_bytes (BSigned k) = k" | "base_bytes _ = 1"

lemma base_type_bytes:
  assumes "base_type ty = Some base"
  shows "base_bytes base \<in> {1, 2, 3, 4, 5, 6, 7, 8}"
proof -
  have "list_all (\<lambda>(_, base). base_bytes base \<in> {1, 2, 3, 4, 5, 6, 7, 8}) BASE_TYPES"
    by (simp add: BASE_TYPES_def)
  moreover obtain name where "List.find (\<lambda>(name, _). eq_ignore_ascii_case name ty) BASE_TYPES = Some (name, base)"
    using assms by (auto simp: base_type_def)
  then have "(name, base) \<in> set BASE_TYPES" by (metis find_Some_iff nth_mem)
  ultimately show ?thesis by (auto simp: list_all_iff)
qed

lemma write_unsigned_typed:
  assumes "write_unsigned put tag v k w = Ok w'" and "k \<in> {1, 2, 3, 4, 5, 6, 7, 8}"
  shows "\<exists>op. put op w = Ok w' \<and> op_tag op = tag \<and> op_of_base (BUnsigned k) op"
proof -
  obtain n where n: "as_u64 v = Some n" using assms(1) by (auto simp: write_unsigned_def and_then_Ok_iff ok_or_Ok_iff)
  have "unat n < 2 ^ 64" using unsigned_less[of n] by simp
  then show ?thesis
    using assms n by (auto simp: op_of_base_def write_unsigned_def and_then_Ok_iff ok_or_Ok_iff mult.commute split: if_splits)
qed

lemma write_signed_typed:
  assumes "write_signed put tag v k w = Ok w'" and "k \<in> {1, 2, 3, 4, 5, 6, 7, 8}"
  shows "\<exists>op. put op w = Ok w' \<and> op_tag op = tag \<and> op_of_base (BSigned k) op"
proof -
  obtain n where n: "as_i64 v = Some n" using assms(1) by (auto simp: write_signed_def and_then_Ok_iff ok_or_Ok_iff)
  have "- (2 ^ 63) \<le> sint n" "sint n < 2 ^ 63" using sint_ge[of n] sint_lt[of n] by simp_all
  then show ?thesis
    using assms n by (auto simp: op_of_base_def write_signed_def and_then_Ok_iff ok_or_Ok_iff mult.commute Let_def split: if_splits)
qed

lemma write_base_typed:
  assumes "write_base b put tag v base w = Ok w'" and "base_bytes base \<in> {1, 2, 3, 4, 5, 6, 7, 8}"
  shows "\<exists>op. put op w = Ok w' \<and> op_tag op = tag \<and> op_of_base base op"
  using assms write_unsigned_typed[of put tag v _ w w'] write_signed_typed[of put tag v _ w w']
  by (cases base) (auto simp: op_of_base_def write_base_def and_then_Ok_iff ok_or_Ok_iff Let_def split: if_splits)

text \<open>
  A value written under the name of a base type reaches the device as one value of that type, in
  the range the type declares, or is refused: no value is written at a wrong width or cut to fit.
\<close>

theorem hinted_write_is_typed:
  assumes "base_type (th_ty h) = Some base" and "\<not> th_is_list h" and "v \<noteq> JNull"
    and "write_json b put tag v (Some h) w = Ok w'"
  shows "\<exists>op. put op w = Ok w' \<and> op_tag op = tag \<and> op_of_base base op"
proof (rule write_base_typed[OF _ base_type_bytes[OF assms(1)]])
  show "write_base b put tag v base w = Ok w'"
    using assms by (simp add: write_json.simps[of b put tag v "Some h"] write_hinted_def)
qed

lemma hinted_write_is_typed_witness:
  "\<exists>op. record_op op [] = Ok [WU16 (ContextTag 3) 300] \<and> op_tag op = ContextTag 3 \<and> op_of_base (BUnsigned 2) op"
proof (rule hinted_write_is_typed)
  let ?h = "\<lparr>th_ty = ''PERCENT100THS'', th_is_list = False, th_cluster = None\<rparr>"
  have base: "base_type ''PERCENT100THS'' = Some (BUnsigned 2)" by code_simp
  show "base_type (th_ty ?h) = Some (BUnsigned 2)" "\<not> th_is_list ?h" by (simp_all add: base)
  show "JNum (PosInt 300) \<noteq> JNull" by simp
  show "write_json b record_op (ContextTag 3) (JNum (PosInt 300)) (Some ?h) [] = Ok [WU16 (ContextTag 3) 300]" for b
    by (simp add: write_json.simps[of b] write_hinted_def base write_base_def write_unsigned_def record_op_def)
qed

subsection \<open>Epochs\<close>

lemma epoch_add_exact:
  assumes "checked_add n offset = Some m"
  shows "unat m = unat n + unat offset" and "offset \<le> m" and "m - offset = n"
proof -
  show m: "unat m = unat n + unat offset"
    using assms unat_word_ariths(1)[of n offset] by (auto simp: checked_add_def split: if_splits)
  then show "offset \<le> m" by (simp add: word_le_nat_alt)
  show "m - offset = n" using assms by (auto simp: checked_add_def split: if_splits)
qed

text \<open>
  The client's Unix time and the device's Matter time agree in both directions: a time read from
  the device and shifted to Unix, written back under the same type, is the device's own number;
  neither shift wraps.
\<close>

theorem epoch_roundtrip:
  assumes "base_type ty = Some base" and "base = BEpochS \<and> unat n < 2 ^ 32 \<or> base = BEpochUs"
    and "apply_epoch ty (JNum (PosInt n)) = Ok v"
  shows "write_base b put tag v base w = put (if base = BEpochS then WU32 tag (ucast n) else WU64 tag n) w"
  using assms epoch_add_exact[of n MATTER_EPOCH_OFFSET_S] epoch_add_exact[of n MATTER_EPOCH_OFFSET_US]
  by (auto simp: apply_epoch_def Let_def ok_or_Ok_iff write_base_def to_matter_epoch_def junsigned_def
      split: option.splits)

lemma epoch_roundtrip_witness:
  "write_base b record_op AnonymousTag (JNum (PosInt 946684801)) BEpochS [] = record_op (WU32 AnonymousTag 1) []"
  using epoch_roundtrip[of "''epoch_s''" BEpochS 1 "JNum (PosInt 946684801)" b record_op AnonymousTag "[]"]
proof -
  have base: "base_type ''epoch_s'' = Some BEpochS" by code_simp
  have "apply_epoch ''epoch_s'' (JNum (PosInt 1)) = Ok (JNum (PosInt 946684801))"
    by (simp add: apply_epoch_def base checked_add_def MATTER_EPOCH_OFFSET_S_def junsigned_def)
  from epoch_roundtrip[OF base _ this, of b record_op AnonymousTag "[]"] show ?thesis by simp
qed

end
