(* ===== verification/Report_Facts.thy ===== *)
theory Report_Facts
  imports Reports Tlv_Facts
begin

section \<open>What the report path guarantees\<close>

text \<open>
  The accumulator is, path by path, a fold over the changes of the report; how a report is split
  into messages makes no difference; an entry that cannot be used costs nothing but itself; a report
  acts only on the node it came from, and no event number of a node is forwarded twice.
\<close>

subsection \<open>One path at a time\<close>

text \<open>What an entry asks for, if it can be used at all\<close>

definition report_change ::
  "b64_codec \<Rightarrow> gen_cluster list \<Rightarrow> tlv_error + attr_resp \<Rightarrow> (rstring \<times> list_op \<times> json) option" where
  "report_change b tables r =
     (case r of
        Inr (AttrData p d) \<Rightarrow>
          (case (wp_endpoint p, wp_cluster p, wp_attr p) of
             (Some e, Some c, Some a) \<Rightarrow>
               (case attr_value_to_json b tables c a d of
                  Inr v \<Rightarrow> Some (attr_key e c a, list_op_of p, v)
                | Inl _ \<Rightarrow> None)
           | _ \<Rightarrow> None)
      | _ \<Rightarrow> None)"

fun merge_value :: "list_op \<Rightarrow> json \<Rightarrow> json option \<Rightarrow> json" where
  "merge_value ReplaceAll v _ = v"
| "merge_value AppendOne v (Some (JArr vs)) = JArr (vs @ [v])"
| "merge_value AppendOne v _ = JArr [v]"
| "merge_value (SetIndex i) v (Some (JArr vs)) = JArr (store_at (unat i) v vs)"
| "merge_value (SetIndex i) v _ = JArr (store_at (unat i) v [])"

definition acc_ok :: "attr_accumulator \<Rightarrow> bool" where
  "acc_ok acc \<longleftrightarrow>
     (\<forall>k i. ac_index acc k = Some i \<longrightarrow> i < length (ac_out acc) \<and> fst (ac_out acc ! i) = k)
   \<and> (\<forall>i < length (ac_out acc). ac_index acc (fst (ac_out acc ! i)) = Some i)"

lemma acc_ok_index: "acc_ok acc \<Longrightarrow> ac_index acc k = Some i \<Longrightarrow> i < length (ac_out acc) \<and> fst (ac_out acc ! i) = k"
  by (auto simp: acc_ok_def)

lemma acc_ok_nth: "acc_ok acc \<Longrightarrow> i < length (ac_out acc) \<Longrightarrow> ac_index acc (fst (ac_out acc ! i)) = Some i"
  by (simp add: acc_ok_def)

definition acc_value :: "attr_accumulator \<Rightarrow> rstring \<Rightarrow> json option" where
  "acc_value acc = map_of (ac_out acc)"

lemma acc_ok_empty [simp]: "acc_ok empty_accumulator"
  by (simp add: acc_ok_def empty_accumulator_def)

lemma acc_value_empty [simp]: "acc_value empty_accumulator = Map.empty"
  by (simp add: acc_value_def empty_accumulator_def)

lemma acc_ok_distinct: "acc_ok acc \<Longrightarrow> distinct (map fst (ac_out acc))"
  unfolding distinct_conv_nth using acc_ok_nth by (metis length_map nth_map option.inject)

lemma acc_value_index:
  assumes "acc_ok acc"
  shows "acc_value acc k = map_option (\<lambda>i. snd (ac_out acc ! i)) (ac_index acc k)"
proof (cases "ac_index acc k")
  case None
  have "k \<notin> fst ` set (ac_out acc)"
  proof
    assume "k \<in> fst ` set (ac_out acc)"
    then obtain i where "i < length (ac_out acc)" "fst (ac_out acc ! i) = k" by (auto simp: in_set_conv_nth)
    then show False using acc_ok_nth[OF assms, of i] None by simp
  qed
  then show ?thesis using None by (simp add: acc_value_def map_of_eq_None_iff)
next
  case (Some i)
  then have "i < length (ac_out acc)" "fst (ac_out acc ! i) = k" using acc_ok_index[OF assms] by auto
  then have "(k, snd (ac_out acc ! i)) \<in> set (ac_out acc)" by (metis nth_mem prod.collapse)
  then show ?thesis using Some acc_ok_distinct[OF assms] by (simp add: acc_value_def)
qed

lemma add_pair_facts:
  assumes "acc_ok acc" and "ac_index acc k = None"
  shows "acc_ok (add_pair k v acc)" and "acc_value (add_pair k v acc) = (acc_value acc)(k \<mapsto> v)"
    and "ac_index (add_pair k v acc) k = Some (length (ac_out acc))"
proof -
  have "fst (ac_out acc ! i) \<noteq> k" if "i < length (ac_out acc)" for i
    using acc_ok_nth[OF assms(1) that] assms(2) by auto
  then show "acc_ok (add_pair k v acc)"
    using acc_ok_nth[OF assms(1)] acc_ok_index[OF assms(1)]
    by (auto simp: acc_ok_def add_pair_def nth_append less_Suc_eq)
  have "acc_value acc k = None" using acc_value_index[OF assms(1), of k] assms(2) by simp
  then show "acc_value (add_pair k v acc) = (acc_value acc)(k \<mapsto> v)"
    by (auto simp: acc_value_def add_pair_def map_add_def split: option.splits)
qed (simp add: add_pair_def)

lemma set_pair_facts:
  assumes "acc_ok acc" and "ac_index acc k = Some i"
  shows "acc_ok (set_pair i v acc)" and "acc_value (set_pair i v acc) = (acc_value acc)(k \<mapsto> v)"
proof -
  have i: "i < length (ac_out acc)" "fst (ac_out acc ! i) = k" using acc_ok_index[OF assms] by auto
  show ok: "acc_ok (set_pair i v acc)"
    using acc_ok_nth[OF assms(1)] acc_ok_index[OF assms(1)] i
    by (auto simp: acc_ok_def set_pair_def nth_list_update)
  show "acc_value (set_pair i v acc) = (acc_value acc)(k \<mapsto> v)"
  proof
    fix j
    show "acc_value (set_pair i v acc) j = ((acc_value acc)(k \<mapsto> v)) j"
    proof (cases "j = k")
      case True
      then show ?thesis using i assms(2) acc_value_index[OF ok, of j] by (simp add: set_pair_def)
    next
      case False
      then have "ac_index acc j \<noteq> Some i" using acc_ok_index[OF assms(1), of j i] i by auto
      then show ?thesis
        using False acc_value_index[OF ok, of j] acc_value_index[OF assms(1), of j]
        by (cases "ac_index acc j") (auto simp: set_pair_def)
    qed
  qed
qed

definition apply_change :: "rstring \<times> list_op \<times> json \<Rightarrow> (rstring \<Rightarrow> json option) \<Rightarrow> rstring \<Rightarrow> json option" where
  "apply_change c m = (case c of (k, op, v) \<Rightarrow> m(k \<mapsto> merge_value op v (m k)))"

lemma acc_put_facts:
  assumes "acc_ok acc"
  shows "acc_ok (acc_put k v acc) \<and> acc_value (acc_put k v acc) = apply_change (k, ReplaceAll, v) (acc_value acc)"
  using assms add_pair_facts[OF assms] set_pair_facts[OF assms]
  by (auto simp: acc_put_def apply_change_def dest: acc_ok_index split: option.splits)

lemma acc_append_facts:
  assumes "acc_ok acc"
  shows "acc_ok (acc_append k v acc) \<and> acc_value (acc_append k v acc) = apply_change (k, AppendOne, v) (acc_value acc)"
proof (cases "ac_index acc k")
  case None
  let ?acc = "acc\<lparr>ac_orphan_appends := ac_orphan_appends acc @ [k]\<rparr>"
  have "acc_ok ?acc" "ac_index ?acc k = None" "acc_value ?acc = acc_value acc"
    using assms None by (simp_all add: acc_ok_def acc_value_def)
  then show ?thesis
    using None acc_value_index[OF assms, of k] add_pair_facts[of ?acc k "JArr [v]"]
    by (simp add: acc_append_def apply_change_def)
next
  case (Some i)
  then show ?thesis
    using acc_value_index[OF assms, of k] set_pair_facts[OF assms Some] acc_ok_index[OF assms Some]
    by (simp add: acc_append_def apply_change_def split: json.splits)
qed

lemma acc_set_index_facts:
  assumes "acc_ok acc"
  shows "acc_ok (acc_set_index k n v acc)
    \<and> acc_value (acc_set_index k n v acc) = apply_change (k, SetIndex n, v) (acc_value acc)"
proof (cases "ac_index acc k")
  case None
  let ?acc = "add_pair k (JArr []) acc"
  note added = add_pair_facts[OF assms None, of "JArr []"]
  note stored = set_pair_facts[OF added(1,3)]
  show ?thesis
    using None acc_value_index[OF assms, of k] added(2,3) stored
    by (simp add: acc_set_index_def apply_change_def Let_def) (simp add: add_pair_def)
next
  case (Some i)
  then show ?thesis
    using acc_value_index[OF assms, of k] set_pair_facts[OF assms Some]
    by (simp add: acc_set_index_def apply_change_def Let_def split: json.splits)
qed

lemma absorb_report_facts:
  assumes "acc_ok acc"
  shows "acc_ok (absorb_report b tables r acc) \<and> acc_value (absorb_report b tables r acc) =
    (case report_change b tables r of None \<Rightarrow> acc_value acc | Some c \<Rightarrow> apply_change c (acc_value acc))"
proof -
  have failed: "acc_ok (acc_failure acc)" "acc_value (acc_failure acc) = acc_value acc"
    using assms by (simp_all add: acc_failure_def acc_ok_def acc_value_def)
  show ?thesis
    using assms failed acc_put_facts[OF assms] acc_append_facts[OF assms] acc_set_index_facts[OF assms]
    by (simp add: absorb_report_def report_change_def split: sum.split attr_resp.split option.split list_op.split)
qed

definition changes_of :: "b64_codec \<Rightarrow> gen_cluster list \<Rightarrow> (tlv_error + attr_resp) list \<Rightarrow> (rstring \<times> list_op \<times> json) list" where
  "changes_of b tables rs = List.map_filter (report_change b tables) rs"

lemma absorb_reports_facts:
  "acc_ok acc \<Longrightarrow> acc_ok (fold (absorb_report b tables) rs acc) \<and>
   acc_value (fold (absorb_report b tables) rs acc) = fold apply_change (changes_of b tables rs) (acc_value acc)"
proof (induction rs arbitrary: acc)
  case (Cons r rs)
  then show ?case
    using absorb_report_facts[OF Cons.prems, of b tables r]
    by (auto simp: changes_of_def map_filter_simps split: option.splits)
qed (simp add: changes_of_def map_filter_simps)

text \<open>The changes to one path are a fold of their own.\<close>

lemma fold_apply_change:
  "fold apply_change cs m k =
   fold (\<lambda>(_, op, v) u. Some (merge_value op v u)) (filter (\<lambda>(j, _). j = k) cs) (m k)"
  by (induction cs arbitrary: m) (auto simp: apply_change_def)

text \<open>The paths come out in the order of their first report.\<close>

definition note_path :: "rstring \<times> list_op \<times> json \<Rightarrow> rstring list \<Rightarrow> rstring list" where
  "note_path c ks = (if fst c \<in> set ks then ks else ks @ [fst c])"

lemma absorb_report_keys:
  assumes "acc_ok acc"
  shows "map fst (ac_out (absorb_report b tables r acc)) =
    (case report_change b tables r of None \<Rightarrow> id | Some c \<Rightarrow> note_path c) (map fst (ac_out acc))"
proof -
  have set: "map fst (ac_out (set_pair i v acc)) = map fst (ac_out acc)" if "ac_index acc k = Some i" for i k v
    using acc_ok_index[OF assms that] by (simp add: set_pair_def map_update list_update_same_conv)
  have known: "k \<in> fst ` set (ac_out acc) \<longleftrightarrow> ac_index acc k \<noteq> None" for k
    using acc_value_index[OF assms, of k] map_of_eq_None_iff[of "ac_out acc" k]
    by (cases "ac_index acc k") (simp_all add: acc_value_def)
  have "map fst (ac_out (acc_put k v acc)) = note_path (k, x) (map fst (ac_out acc))"
    "map fst (ac_out (acc_append k v acc)) = note_path (k, x) (map fst (ac_out acc))"
    "map fst (ac_out (acc_set_index k n v acc)) = note_path (k, x) (map fst (ac_out acc))" for k v n x
    using known[of k] set[of k]
    by (auto simp: acc_put_def acc_append_def acc_set_index_def note_path_def add_pair_def set_pair_def Let_def
        split: option.splits)
  then show ?thesis
    by (auto simp: absorb_report_def report_change_def acc_failure_def
        split: sum.split attr_resp.split option.split list_op.split)
qed

lemma absorb_reports_keys:
  "acc_ok acc \<Longrightarrow> map fst (ac_out (fold (absorb_report b tables) rs acc)) =
     fold note_path (changes_of b tables rs) (map fst (ac_out acc))"
proof (induction rs arbitrary: acc)
  case (Cons r rs)
  then show ?case
    using absorb_report_facts[OF Cons.prems, of b tables r] absorb_report_keys[OF Cons.prems, of b tables r]
    by (auto simp: changes_of_def map_filter_simps split: option.splits)
qed (simp add: changes_of_def map_filter_simps)

lemma pairs_of_changes:
  "into_pairs (fold (absorb_report b tables) rs empty_accumulator) =
     map (\<lambda>k. (k, the (fold apply_change (changes_of b tables rs) Map.empty k)))
       (fold note_path (changes_of b tables rs) [])"
proof -
  let ?acc = "fold (absorb_report b tables) rs empty_accumulator"
  have ok: "acc_ok ?acc" and val: "acc_value ?acc = fold apply_change (changes_of b tables rs) Map.empty"
    using absorb_reports_facts[OF acc_ok_empty, of b tables rs] by simp_all
  have keys: "map fst (ac_out ?acc) = fold note_path (changes_of b tables rs) []"
    using absorb_reports_keys[OF acc_ok_empty, of b tables rs] by (simp add: empty_accumulator_def)
  have "ac_out ?acc = map (\<lambda>k. (k, the (acc_value ?acc k))) (map fst (ac_out ?acc))"
  proof (rule nth_equalityI)
    fix i
    assume "i < length (ac_out ?acc)"
    then show "ac_out ?acc ! i = map (\<lambda>k. (k, the (acc_value ?acc k))) (map fst (ac_out ?acc)) ! i"
      using acc_value_index[OF ok] acc_ok_nth[OF ok, of i] by (simp add: prod_eqI)
  qed simp
  then show ?thesis by (simp add: into_pairs_def keys val)
qed

subsection \<open>Messages of one report\<close>

definition reports_in :: "report_data \<Rightarrow> (tlv_error + attr_resp) list" where
  "reports_in m = (case rd_attr_reports m of None \<Rightarrow> [] | Some rs \<Rightarrow> rs)"

lemma absorb_fold: "absorb b tables m = fold (absorb_report b tables) (reports_in m)"
  by (rule ext) (simp add: absorb_def reports_in_def split: option.splits)

text \<open>A run of messages of one node, and the batches it hands out\<close>

fun absorb_messages ::
  "b64_codec \<Rightarrow> gen_cluster list \<Rightarrow> u64 \<Rightarrow> report_data list \<Rightarrow> pending_reports
   \<Rightarrow> (rstring \<times> json) list list \<times> pending_reports" where
  "absorb_messages b tables n [] pending = ([], pending)"
| "absorb_messages b tables n (m # ms) pending =
     (case absorb_message b tables n m pending of
        (batch, pending) \<Rightarrow>
          (case absorb_messages b tables n ms pending of
             (batches, pending) \<Rightarrow> ((case batch of None \<Rightarrow> batches | Some ps \<Rightarrow> ps # batches), pending)))"

text \<open>All messages but the last announce that more follow.\<close>

fun whole_report :: "report_data list \<Rightarrow> bool" where
  "whole_report [] = False"
| "whole_report [m] = (rd_more_chunks m \<noteq> Some True)"
| "whole_report (m # ms) = (rd_more_chunks m = Some True \<and> whole_report ms)"

lemma absorb_whole_report:
  "whole_report ms \<Longrightarrow> absorb_messages b tables n ms pending =
    ([into_pairs (fold (absorb_report b tables) (concat (map reports_in ms)) (or_else empty_accumulator (pending n)))],
     pending(n := None))"
  by (induction ms arbitrary: pending rule: whole_report.induct)
     (auto simp: absorb_message_def absorb_fold Let_def or_else_def split: option.splits)

text \<open>Messages to apply the properties to: the list \<open>0/29/3\<close>, which no table describes\<close>

definition sample_path :: "u16 option option \<Rightarrow> attr_path" where
  "sample_path i = \<lparr>wp_endpoint = Some 0, wp_cluster = Some 29, wp_attr = Some 3, wp_list_index = i\<rparr>"

definition sample_message :: "(attr_path \<times> tlv) list \<Rightarrow> bool option \<Rightarrow> report_data" where
  "sample_message rs more_chunks =
     \<lparr>rd_attr_reports = Some (map (\<lambda>(p, e). Ok (AttrData p e)) rs), rd_event_reports = None, rd_more_chunks = more_chunks\<rparr>"

lemma sample_message_simps [simp]:
  "reports_in (sample_message rs more_chunks) = map (\<lambda>(p, e). Ok (AttrData p e)) rs"
  "rd_more_chunks (sample_message rs more_chunks) = more_chunks"
  by (simp_all add: sample_message_def reports_in_def)

lemma sample_change:
  "report_change b [] (Inr (AttrData (sample_path i) e)) =
   (case tlv_to_json b e of Inl _ \<Rightarrow> None | Inr v \<Rightarrow> Some (''0/29/3'', list_op_of (sample_path i), v))"
proof -
  have "attr_key 0 29 3 = ''0/29/3''" "cluster [] 29 = None" "base_type [] = None" by code_simp+
  then show ?thesis
    by (simp add: report_change_def sample_path_def attr_value_to_json_def apply_epoch_def split: sum.splits)
qed

lemma sample_op [simp]:
  "list_op_of (sample_path None) = ReplaceAll" "list_op_of (sample_path (Some None)) = AppendOne"
  by (simp_all add: list_op_of_def sample_path_def)

lemma sample_reads:
  "tlv_to_json b (Scalar (U8 w)) = Ok (junsigned w)" "tlv_to_json b (Sequence (Ok [])) = Ok (JArr [])"
  by (simp_all add: tlv_to_json_def scalar_json_def MAX_DEPTH_def)

text \<open>
  C6: A report split over several messages reaches the client as one batch, released with the last
  message: the paths in the order of their first report, each with the value that folding its own
  changes gives. Where the messages were cut makes no difference, and nothing is left pending.
\<close>

theorem report_is_one_batch:
  assumes "whole_report ms" and "pending n = None"
  shows "absorb_messages b tables n ms pending =
    ([let cs = changes_of b tables (concat (map reports_in ms))
      in map (\<lambda>k. (k, the (fold apply_change cs Map.empty k))) (fold note_path cs [])], pending)"
  using absorb_whole_report[OF assms(1), of b tables n pending] assms(2)
  by (simp add: or_else_def pairs_of_changes fun_upd_idem Let_def)

lemma report_is_one_batch_witness:
  "absorb_messages letter_codec [] 5
     [sample_message [(sample_path None, Scalar (U8 1))] (Some True), sample_message [(sample_path None, Scalar (U8 2))] None]
     Map.empty
   = ([[(''0/29/3'', JNum (PosInt 2))]], Map.empty)"
  using report_is_one_batch[where n = 5 and pending = Map.empty and b = letter_codec and tables = "[]"
    and ms = "[sample_message [(sample_path None, Scalar (U8 1))] (Some True), sample_message [(sample_path None, Scalar (U8 2))] None]"]
  by (simp add: changes_of_def map_filter_simps sample_change note_path_def apply_change_def
      sample_reads junsigned_def del: absorb_messages.simps)

text \<open>
  A list attribute sent in chunks arrives whole: if the reports for a path, over all messages and
  whatever else lies between them, are the opening empty array followed by elements to append, then
  the value handed out is the array of exactly these elements, in order.
\<close>

theorem chunked_list_is_reassembled:
  assumes "whole_report ms" and "pending n = None"
    and "filter (\<lambda>(j, _). j = k) (changes_of b tables (concat (map reports_in ms)))
      = (k, ReplaceAll, JArr []) # map (\<lambda>v. (k, AppendOne, v)) vs"
  shows "map (\<lambda>pairs. map_of pairs k) (fst (absorb_messages b tables n ms pending)) = [Some (JArr vs)]"
proof -
  let ?rs = "concat (map reports_in ms)"
  have appended: "fold (\<lambda>(_, op, v) u. Some (merge_value op v u)) (map (\<lambda>v. (k, AppendOne, v)) vs) (Some (JArr us))
      = Some (JArr (us @ vs))" for us
    by (induction vs arbitrary: us) simp_all
  have "acc_value (fold (absorb_report b tables) ?rs empty_accumulator) = fold apply_change (changes_of b tables ?rs) Map.empty"
    using absorb_reports_facts[OF acc_ok_empty, of b tables ?rs] by simp
  then have "map_of (into_pairs (fold (absorb_report b tables) ?rs empty_accumulator)) k
      = fold apply_change (changes_of b tables ?rs) Map.empty k"
    by (simp add: into_pairs_def acc_value_def)
  also have "\<dots> = Some (JArr vs)" using appended[of "[]"] by (simp add: fold_apply_change assms(3))
  finally show ?thesis
    using absorb_whole_report[OF assms(1), of b tables n pending] assms(2) by (simp add: or_else_def)
qed

lemma chunked_list_is_reassembled_witness:
  "map (\<lambda>pairs. map_of pairs ''0/29/3'') (fst (absorb_messages letter_codec [] 5
     [sample_message [(sample_path None, Sequence (Ok [])), (sample_path (Some None), Scalar (U8 4))] (Some True),
      sample_message [(sample_path (Some None), Scalar (U8 6))] None] Map.empty))
   = [Some (JArr [JNum (PosInt 4), JNum (PosInt 6)])]"
  by (rule chunked_list_is_reassembled)
     (simp_all add: changes_of_def map_filter_simps sample_change sample_reads junsigned_def)

lemma pair_ops_failures:
  "add_pair k v (acc\<lparr>ac_failures := m\<rparr>) = (add_pair k v acc)\<lparr>ac_failures := m\<rparr>"
  "set_pair i v (acc\<lparr>ac_failures := m\<rparr>) = (set_pair i v acc)\<lparr>ac_failures := m\<rparr>"
  by (simp_all add: add_pair_def set_pair_def)

lemma merge_ops_failures:
  "acc_put k v (acc\<lparr>ac_failures := m\<rparr>) = (acc_put k v acc)\<lparr>ac_failures := m\<rparr>"
  "acc_append k v (acc\<lparr>ac_failures := m\<rparr>) = (acc_append k v acc)\<lparr>ac_failures := m\<rparr>"
  "acc_set_index k n v (acc\<lparr>ac_failures := m\<rparr>) = (acc_set_index k n v acc)\<lparr>ac_failures := m\<rparr>"
proof -
  show "acc_put k v (acc\<lparr>ac_failures := m\<rparr>) = (acc_put k v acc)\<lparr>ac_failures := m\<rparr>"
    by (simp add: acc_put_def pair_ops_failures split: option.split)
  have "add_pair k u (acc\<lparr>ac_failures := m, ac_orphan_appends := ks\<rparr>)
      = (add_pair k u (acc\<lparr>ac_orphan_appends := ks\<rparr>))\<lparr>ac_failures := m\<rparr>" for u ks
    by (simp add: add_pair_def)
  then show "acc_append k v (acc\<lparr>ac_failures := m\<rparr>) = (acc_append k v acc)\<lparr>ac_failures := m\<rparr>"
    by (simp add: acc_append_def pair_ops_failures split: option.split)
  show "acc_set_index k n v (acc\<lparr>ac_failures := m\<rparr>) = (acc_set_index k n v acc)\<lparr>ac_failures := m\<rparr>"
    by (cases "ac_index acc k") (simp_all add: acc_set_index_def pair_ops_failures Let_def)
qed

definition same_pairs :: "attr_accumulator \<Rightarrow> attr_accumulator \<Rightarrow> bool" where
  "same_pairs acc acc' \<longleftrightarrow> (\<exists>m. acc' = acc\<lparr>ac_failures := m\<rparr>)"

lemma same_pairs_iff: "same_pairs acc acc' \<longleftrightarrow> acc\<lparr>ac_failures := 0\<rparr> = acc'\<lparr>ac_failures := 0\<rparr>"
proof
  assume eq: "acc\<lparr>ac_failures := 0\<rparr> = acc'\<lparr>ac_failures := 0\<rparr>"
  have "acc' = (acc'\<lparr>ac_failures := 0\<rparr>)\<lparr>ac_failures := ac_failures acc'\<rparr>" by simp
  then have "acc' = acc\<lparr>ac_failures := ac_failures acc'\<rparr>" by (simp flip: eq)
  then show "same_pairs acc acc'" unfolding same_pairs_def by (rule exI)
qed (auto simp: same_pairs_def)

lemma absorb_report_same_pairs:
  assumes "same_pairs acc acc'"
  shows "same_pairs (absorb_report b tables r acc) (absorb_report b tables r acc')"
proof -
  obtain m where m: "acc' = acc\<lparr>ac_failures := m\<rparr>" using assms by (auto simp: same_pairs_def)
  have "same_pairs (acc_failure acc) (acc_failure acc')" by (simp add: m acc_failure_def same_pairs_iff)
  then show ?thesis
    using assms by (auto simp: absorb_report_def m merge_ops_failures same_pairs_iff
        split: sum.split attr_resp.split option.split list_op.split)
qed

lemma fold_same_pairs:
  "same_pairs acc acc' \<Longrightarrow> same_pairs (fold (absorb_report b tables) rs acc) (fold (absorb_report b tables) rs acc')"
  by (induction rs arbitrary: acc acc') (simp_all add: absorb_report_same_pairs)

text \<open>
  One entry that cannot be used - garbage, a wildcard path, a value that does not convert -
  costs only itself: every other path of the message ends up as if the entry had not been there.
\<close>

theorem bad_entries_cost_only_themselves:
  "into_pairs (fold (absorb_report b tables) rs acc) =
   into_pairs (fold (absorb_report b tables) (filter (\<lambda>r. report_change b tables r \<noteq> None) rs) acc)"
proof -
  have skip: "same_pairs (absorb_report b tables r acc) acc" if "report_change b tables r = None" for r acc
    using that by (auto simp: absorb_report_def report_change_def acc_failure_def same_pairs_iff
        split: sum.splits attr_resp.splits option.splits)
  have trans: "same_pairs x y \<Longrightarrow> same_pairs y z \<Longrightarrow> same_pairs x z" for x y z by (simp add: same_pairs_iff)
  have "same_pairs (fold (absorb_report b tables) rs acc)
      (fold (absorb_report b tables) (filter (\<lambda>r. report_change b tables r \<noteq> None) rs) acc)"
  proof (induction rs arbitrary: acc)
    case (Cons r rs)
    show ?case
    proof (cases "report_change b tables r = None")
      case True
      from trans[OF fold_same_pairs[OF skip[OF True]] Cons.IH] show ?thesis by (simp add: True)
    next
      case False
      then show ?thesis using Cons.IH by simp
    qed
  qed (simp add: same_pairs_iff)
  then show ?thesis by (auto simp: same_pairs_def into_pairs_def)
qed

subsection \<open>Event numbers\<close>

definition sent_numbers :: "u64 \<Rightarrow> stack_event list \<Rightarrow> u64 list" where
  "sent_numbers n evs =
     List.map_filter (\<lambda>e. case e of NodeEvent m d \<Rightarrow> if m = n then Some (ed_event_number d) else None | _ \<Rightarrow> None) evs"

lemma sent_numbers_simps [simp]:
  "sent_numbers n [] = []" "sent_numbers n (xs @ ys) = sent_numbers n xs @ sent_numbers n ys"
  "sent_numbers n [AttributesChanged m cs] = []"
  "sent_numbers n [NodeState m s] = []" "sent_numbers n [PrimingSnapshot m obj] = []"
  "sent_numbers n [NodeEvent m d] = (if m = n then [ed_event_number d] else [])"
proof -
  show "sent_numbers n (xs @ ys) = sent_numbers n xs @ sent_numbers n ys"
    by (induction xs) (simp_all add: sent_numbers_def map_filter_simps split: option.splits)
qed (simp_all add: sent_numbers_def map_filter_simps)

text \<open>Numbers forwarded one after the other take the mark from \<open>old\<close> to \<open>new\<close>.\<close>

fun climbs :: "u64 option \<Rightarrow> u64 list \<Rightarrow> u64 option \<Rightarrow> bool" where
  "climbs old [] new = (new = old)"
| "climbs old (x # xs) new = ((case old of None \<Rightarrow> True | Some m \<Rightarrow> m < x) \<and> climbs (Some x) xs new)"

lemma climbs_append: "climbs old xs mid \<Longrightarrow> climbs mid ys new \<Longrightarrow> climbs old (xs @ ys) new"
  by (induction xs arbitrary: old) auto

lemma climbs_sorted: "climbs old xs new \<Longrightarrow> sorted_wrt (<) ((case old of None \<Rightarrow> [] | Some m \<Rightarrow> [m]) @ xs)"
proof (induction xs arbitrary: old)
  case (Cons x xs)
  then have "sorted_wrt (<) (x # xs)" by fastforce
  then show ?case using Cons.prems by (cases old) auto
qed (simp split: option.splits)

definition forwards :: "u64 \<Rightarrow> stack_ctx \<Rightarrow> stack_ctx \<Rightarrow> bool" where
  "forwards n ctx ctx' \<longleftrightarrow>
     (\<exists>new. cx_events ctx' = cx_events ctx @ new \<and>
            climbs (cx_last_event ctx n) (sent_numbers n new) (cx_last_event ctx' n))"

lemma forwards_refl [simp]: "forwards n ctx ctx"
  by (auto simp: forwards_def intro!: exI[of _ "[]"])

lemma forwards_trans: "forwards n a b \<Longrightarrow> forwards n b c \<Longrightarrow> forwards n a c"
  unfolding forwards_def by (metis append.assoc climbs_append sent_numbers_simps(2))

lemma forwards_event: "forwards n ctx (forward_event b tables clock m d ctx)"
proof (cases "fst (ctx_note_event m (ev_number d) ctx)")
  case True
  let ?ctx = "snd (ctx_note_event m (ev_number d) ctx)"
  let ?new = "[NodeEvent m (node_event b tables clock d)]"
  have "forward_event b tables clock m d ctx = send_event (NodeEvent m (node_event b tables clock d)) ?ctx"
    using True by (cases "ctx_note_event m (ev_number d) ctx") (simp add: forward_event_def)
  moreover have "cx_events ?ctx = cx_events ctx" by (simp add: ctx_note_event_def split: prod.splits)
  moreover have "ed_event_number (node_event b tables clock d) = ev_number d"
    by (simp add: node_event_def Let_def split: prod.splits)
  moreover have "cx_last_event ?ctx = (cx_last_event ctx)(m \<mapsto> ev_number d)"
    "case cx_last_event ctx m of None \<Rightarrow> True | Some k \<Rightarrow> k < ev_number d"
    using True by (auto simp: ctx_note_event_def note_event_def not_le split: prod.splits option.splits if_splits)
  ultimately show ?thesis
    by (auto simp: forwards_def send_event_def intro!: exI[of _ ?new])
next
  case False
  then have "forward_event b tables clock m d ctx = ctx"
    by (auto simp: forward_event_def ctx_note_event_def note_event_def split: option.splits if_splits)
  then show ?thesis by simp
qed

lemma walk_events_induct:
  assumes "I s" and "\<And>d s. I s \<Longrightarrow> I (f d s)"
  shows "I (walk_events report f s)"
proof -
  have "I (fold (\<lambda>r s. case r of Inr (EventData d) \<Rightarrow> f d s | _ \<Rightarrow> s) rs s)" if "I s"
    for rs :: "(tlv_error + event_resp) list" and s
    using that by (induction rs arbitrary: s) (auto split: sum.split event_resp.split intro: assms(2))
  then show ?thesis using assms(1) by (simp add: walk_events_def split: option.split)
qed

text \<open>What an accepted report does: it touches the liveness, the pending report, and walks the events.\<close>

definition take_attributes ::
  "b64_codec \<Rightarrow> gen_cluster list \<Rightarrow> instant \<Rightarrow> u64 \<Rightarrow> report_data \<Rightarrow> stack_ctx \<Rightarrow> stack_ctx" where
  "take_attributes b tables now n report ctx =
     (case absorb_message b tables n report (cx_pending ctx) of
        (changes, pending) \<Rightarrow>
          let ctx = ctx\<lparr>cx_liveness := (cx_liveness ctx)(n \<mapsto> now), cx_pending := pending\<rparr>
          in (case changes of Some (c # cs) \<Rightarrow> send_event (AttributesChanged n (c # cs)) ctx | _ \<Rightarrow> ctx))"

lemma handle_report_cases:
  obtains (disowned) "handle_report b tables now clock sub report ctx = (Err InvalidSubscription, ctx)"
    "ro_subscription_id sub = None \<or> ro_fabric_idx sub \<noteq> cx_fab_idx ctx
     \<or> cx_subs ctx (ro_peer_node_id sub) \<noteq> ro_subscription_id sub"
  | (accepted) "handle_report b tables now clock sub report ctx =
      (Ok (), walk_events report (forward_event b tables clock (ro_peer_node_id sub))
                (take_attributes b tables now (ro_peer_node_id sub) report ctx))"
    "ro_subscription_id sub \<noteq> None" "ro_fabric_idx sub = cx_fab_idx ctx"
    "cx_subs ctx (ro_peer_node_id sub) = ro_subscription_id sub"
proof (cases "ro_subscription_id sub = None \<or> ro_fabric_idx sub \<noteq> cx_fab_idx ctx
     \<or> cx_subs ctx (ro_peer_node_id sub) \<noteq> ro_subscription_id sub")
  case True
  then show ?thesis by (intro disowned) (auto simp: handle_report_def split: option.splits)
next
  case False
  then show ?thesis
    by (intro accepted) (auto simp: handle_report_def take_attributes_def Let_def split: option.splits prod.splits)
qed

lemma forwards_take_attributes: "forwards n ctx (take_attributes b tables now m report ctx)"
proof -
  obtain changes pending where "absorb_message b tables m report (cx_pending ctx) = (changes, pending)"
    by fastforce
  then show ?thesis
    by (auto simp: take_attributes_def forwards_def send_event_def Let_def split: option.splits list.splits)
qed

definition handle_reports ::
  "b64_codec \<Rightarrow> gen_cluster list \<Rightarrow> (instant \<times> int \<times> report_origin \<times> report_data) list \<Rightarrow> stack_ctx \<Rightarrow> stack_ctx" where
  "handle_reports b tables ms ctx =
     fold (\<lambda>(now, clock, sub, report) ctx. snd (handle_report b tables now clock sub report ctx)) ms ctx"

lemma forwards_handle_report: "forwards n ctx (snd (handle_report b tables now clock sub report ctx))"
proof (cases rule: handle_report_cases[of b tables now clock sub report ctx])
  case accepted
  have "forwards n ctx (walk_events report (forward_event b tables clock (ro_peer_node_id sub))
      (take_attributes b tables now (ro_peer_node_id sub) report ctx))"
    by (rule walk_events_induct) (auto intro: forwards_take_attributes forwards_event forwards_trans)
  then show ?thesis by (simp add: accepted(1))
qed simp

lemma forwards_handle_reports: "forwards n ctx (handle_reports b tables ms ctx)"
proof (induction ms arbitrary: ctx)
  case (Cons m ms)
  then show ?case
    using forwards_trans[OF forwards_handle_report Cons.IH]
    by (cases m) (simp add: handle_reports_def)
qed (simp add: handle_reports_def)

text \<open>
  C8: Events are never forwarded twice: whatever reports arrive, from whatever nodes, the numbers of
  the events of a node that go to the controller increase strictly, from above the node's mark.
\<close>

theorem events_are_forwarded_once:
  "\<exists>new. cx_events (handle_reports b tables ms ctx) = cx_events ctx @ new \<and>
     sorted_wrt (<) ((case cx_last_event ctx n of None \<Rightarrow> [] | Some m \<Rightarrow> [m]) @ sent_numbers n new)"
  using forwards_handle_reports[of n ctx b tables ms] climbs_sorted unfolding forwards_def by fast

subsection \<open>Isolation of the nodes\<close>

fun event_node :: "stack_event \<Rightarrow> u64" where
  "event_node (NodeState n _) = n"
| "event_node (PrimingSnapshot n _) = n"
| "event_node (AttributesChanged n _) = n"
| "event_node (NodeEvent n _) = n"

text \<open>Between two states only what belongs to the node has changed, and only its events were sent.\<close>

definition only_about :: "u64 \<Rightarrow> stack_ctx \<Rightarrow> stack_ctx \<Rightarrow> bool" where
  "only_about n ctx ctx' \<longleftrightarrow>
     (\<exists>new. cx_events ctx' = cx_events ctx @ new \<and> (\<forall>e \<in> set new. event_node e = n))
   \<and> (\<forall>m. m \<noteq> n \<longrightarrow> cx_subs ctx' m = cx_subs ctx m \<and> cx_liveness ctx' m = cx_liveness ctx m
        \<and> cx_last_event ctx' m = cx_last_event ctx m \<and> cx_pending ctx' m = cx_pending ctx m
        \<and> cx_addrs ctx' m = cx_addrs ctx m \<and> cx_supervisors ctx' m = cx_supervisors ctx m)
   \<and> cx_fab_idx ctx' = cx_fab_idx ctx"

lemma only_about_refl [simp]: "only_about n ctx ctx"
  by (auto simp: only_about_def intro!: exI[of _ "[]"])

lemma only_about_trans: "only_about n a b \<Longrightarrow> only_about n b c \<Longrightarrow> only_about n a c"
  unfolding only_about_def by (elim conjE exE, intro conjI) (auto intro!: exI)

lemma only_about_forward_event: "only_about n ctx (forward_event b tables clock n d ctx)"
  by (auto simp: forward_event_def ctx_note_event_def note_event_def only_about_def send_event_def
      split: option.split if_splits intro!: exI)

lemma only_about_take_attributes: "only_about n ctx (take_attributes b tables now n report ctx)"
  by (auto simp: take_attributes_def absorb_message_def only_about_def send_event_def Let_def
      split: option.split list.split intro!: exI)

text \<open>
  C9: No node speaks for another: a report is taken in only if it came over a session of the fabric
  the controller operates, from a node whose current subscription it names, and it then changes
  nothing but that node's entries; any other report is disowned and changes nothing at all.
\<close>

theorem report_acts_on_its_sender:
  "handle_report b tables now clock sub report ctx = (Err InvalidSubscription, ctx)
   \<or> (\<exists>ctx' s. handle_report b tables now clock sub report ctx = (Ok (), ctx')
        \<and> ro_subscription_id sub = Some s \<and> cx_subs ctx (ro_peer_node_id sub) = Some s
        \<and> ro_fabric_idx sub = cx_fab_idx ctx \<and> only_about (ro_peer_node_id sub) ctx ctx')"
proof (cases rule: handle_report_cases[of b tables now clock sub report ctx])
  case accepted
  have "only_about (ro_peer_node_id sub) ctx (walk_events report (forward_event b tables clock (ro_peer_node_id sub))
      (take_attributes b tables now (ro_peer_node_id sub) report ctx))"
    by (rule walk_events_induct)
       (auto intro: only_about_take_attributes only_about_forward_event only_about_trans)
  then show ?thesis using accepted by auto
qed simp

subsection \<open>Timestamps\<close>

lemma sint_of_int_nonneg:
  assumes "0 \<le> i" and "i < 2 ^ 63"
  shows "sint (word_of_int i :: 64 word) = i"
  using assms by (simp add: signed_of_int signed_take_bit_int_eq_self)

text \<open>A device's clock beyond the range of the signed type is held at its maximum.\<close>

lemma clamp_i64_value: "sint (clamp_i64 n) = min (int (unat n)) (2 ^ 63 - 1)"
proof (cases "unat n < 2 ^ 63")
  case True
  then have "int (unat n) < int (2 ^ 63)" by (simp only: of_nat_less_iff)
  then have bound: "uint n < 2 ^ 63" by simp
  then have "sint (word_of_int (uint n) :: 64 word) = uint n" by (intro sint_of_int_nonneg) simp_all
  then have "sint n = uint n" by (simp only: word_of_int_uint)
  then show ?thesis using bound True by (simp add: clamp_i64_def)
next
  case False
  then have "int (2 ^ 63) \<le> int (unat n)" by (simp only: of_nat_le_iff not_less)
  then show ?thesis using False by (simp add: clamp_i64_def)
qed

lemma unix_millis_nonneg: "0 \<le> sint (unix_millis t)"
  by (simp add: unix_millis_def Let_def sint_of_int_nonneg pos_imp_zdiv_nonneg_iff)

lemma convert_timestamp_nonneg: "0 \<le> sint (fst (convert_timestamp clock ts))"
  by (cases ts) (simp_all add: convert_timestamp_def clamp_i64_value unix_millis_nonneg)

end
