(* ===== verification/Supervisor_Facts.thy ===== *)
theory Supervisor_Facts
  imports Supervisor Report_Facts
begin

section \<open>What the supervisors guarantee\<close>

text \<open>
  Two invariants of every reachable state: what the subscription maps hold is owned by a task that
  watches it and will release it, and a node has at most one live supervisor. From them: reports of
  a node without a task are disowned, stopping a node leaves nothing of it behind. Then the outcome
  of an establishment, the timers, and that a live supervisor always gets to its next attempt.
\<close>

subsection \<open>Subscriptions are owned\<close>

fun sub_of :: "sup_phase \<Rightarrow> u32 option" where
  "sub_of (Watching s _ _ _) = Some s"
| "sub_of _ = None"

definition watching :: "(nat \<Rightarrow> sup_task option) \<Rightarrow> u64 \<Rightarrow> u32 \<Rightarrow> bool" where
  "watching tasks n s \<longleftrightarrow> (\<exists>t tk. tasks t = Some tk \<and> tk_node tk = n \<and> sub_of (tk_phase tk) = Some s)"

definition owned :: "stack_ctx \<Rightarrow> (nat \<Rightarrow> sup_task option) \<Rightarrow> bool" where
  "owned ctx tasks \<longleftrightarrow>
     (\<forall>n s. cx_subs ctx n = Some s \<longrightarrow> watching tasks n s)
   \<and> (\<forall>n. cx_liveness ctx n \<noteq> None \<longrightarrow> (\<exists>s. watching tasks n s))"

lemma owned_more:
  assumes "owned ctx tasks" and "\<And>n s. watching tasks n s \<Longrightarrow> watching tasks' n s"
    and "cx_subs ctx' = cx_subs ctx" and "cx_liveness ctx' = cx_liveness ctx"
  shows "owned ctx' tasks'"
  using assms unfolding owned_def by metis

lemma watching_set_phase:
  assumes "tasks t = Some tk" and "sub_of (tk_phase tk) = None \<or> sub_of (tk_phase tk) = sub_of ph"
    and "watching tasks n s"
  shows "watching (tasks(t \<mapsto> tk\<lparr>tk_phase := ph\<rparr>)) n s"
proof -
  obtain u uk where u: "tasks u = Some uk" "tk_node uk = n" "sub_of (tk_phase uk) = Some s"
    using assms(3) by (auto simp: watching_def)
  then show ?thesis using assms(1,2) unfolding watching_def by (cases "u = t") (auto intro!: exI[of _ u])
qed

lemma owned_set_phase:
  assumes "owned (sw_ctx w) (sw_tasks w)" and "sw_tasks w t = Some tk"
    and "sub_of (tk_phase tk) = None \<or> sub_of (tk_phase tk) = sub_of ph"
    and "cx_subs ctx = cx_subs (sw_ctx w)" and "cx_liveness ctx = cx_liveness (sw_ctx w)"
  shows "owned (sw_ctx (set_phase t tk ph ctx w)) (sw_tasks (set_phase t tk ph ctx w))"
proof -
  have "watching ((sw_tasks w)(t \<mapsto> tk\<lparr>tk_phase := ph\<rparr>)) n s" if "watching (sw_tasks w) n s" for n s
    by (rule watching_set_phase[where tasks = "sw_tasks w" and t = t and tk = tk, OF assms(2,3) that])
  from owned_more[OF assms(1) this assms(4,5)] show ?thesis by (simp add: set_phase_def)
qed

lemma owned_release:
  assumes "owned ctx tasks" and "tasks t = Some tk" and "sub_of (tk_phase tk) = Some s"
  shows "owned (drop_guard (tk_node tk) s ctx) (tasks(t := x))"
proof -
  have other: "watching (tasks(t := x)) n r" if w: "watching tasks n r" and ne: "n \<noteq> tk_node tk \<or> r \<noteq> s" for n r
  proof -
    obtain u uk where u: "tasks u = Some uk" "tk_node uk = n" "sub_of (tk_phase uk) = Some r"
      using w by (auto simp: watching_def)
    moreover have "u \<noteq> t" using u assms(2,3) ne by auto
    ultimately show ?thesis by (auto simp: watching_def intro!: exI[of _ u])
  qed
  show ?thesis
    using assms(1) other unfolding owned_def
    by (auto simp: drop_guard_def disown_def Let_def split: if_splits) (metis option.exhaust)+
qed

lemma watching_iff:
  "watching tasks n s \<longleftrightarrow>
   (\<exists>t p. map_option (\<lambda>tk. (tk_node tk, tk_phase tk)) (tasks t) = Some (n, p) \<and> sub_of p = Some s)"
  unfolding watching_def by auto

lemma watching_same:
  "(\<And>t. map_option (\<lambda>tk. (tk_node tk, tk_phase tk)) (tasks' t) = map_option (\<lambda>tk. (tk_node tk, tk_phase tk)) (tasks t))
   \<Longrightarrow> watching tasks' n s \<longleftrightarrow> watching tasks n s"
  by (simp add: watching_iff)

lemma watching_cancel: "watching (cancel_task h tasks) n s \<longleftrightarrow> watching tasks n s"
  by (rule watching_same) (simp add: cancel_task_def option.map_comp comp_def split: option.split)

lemma watching_stop_all: "watching (sw_tasks (stop_all w)) n s \<longleftrightarrow> watching (sw_tasks w) n s"
  by (rule watching_same) (simp add: stop_all_def option.map_comp comp_def if_distrib cong: if_cong)

lemma quiet_events:
  "cx_subs (walk_events report (\<lambda>d ctx. snd (ctx_note_event n (ev_number d) ctx)) ctx) = cx_subs ctx \<and>
   cx_liveness (walk_events report (\<lambda>d ctx. snd (ctx_note_event n (ev_number d) ctx)) ctx) = cx_liveness ctx"
  by (rule walk_events_induct) (simp_all add: ctx_note_event_def split: prod.splits)

lemma owned_handle_report:
  assumes "owned ctx tasks"
  shows "owned (snd (handle_report b tables now clock sub report ctx)) tasks"
proof (cases rule: handle_report_cases[of b tables now clock sub report ctx])
  case accepted
  let ?n = "ro_peer_node_id sub"
  have ex_watching: "\<exists>s. watching tasks ?n s"
    using assms accepted(2,4) unfolding owned_def by (metis option.exhaust)
  have "owned (take_attributes b tables now ?n report ctx) tasks"
    using assms accepted(2,4) ex_watching
    by (auto simp: take_attributes_def owned_def send_event_def Let_def split: prod.split option.split list.split)
  then have "owned (walk_events report (forward_event b tables clock ?n) (take_attributes b tables now ?n report ctx)) tasks"
    by (rule walk_events_induct)
       (auto simp: owned_def forward_event_def ctx_note_event_def send_event_def split: prod.splits bool.splits)
  then show ?thesis by (simp add: accepted(1))
qed (simp add: assms)

lemma owned_established:
  assumes "owned (sw_ctx w) (sw_tasks w)" and "sw_tasks w t = Some tk" and "sub_of (tk_phase tk) = None"
  shows "owned (finish_establish (tk_node tk) s m now acc (sw_ctx w))
    ((sw_tasks w)(t \<mapsto> tk\<lparr>tk_phase := Watching s e d p\<rparr>))"
proof -
  have "watching ((sw_tasks w)(t \<mapsto> tk\<lparr>tk_phase := Watching s e d p\<rparr>)) n r" if "watching (sw_tasks w) n r" for n r
    by (rule watching_set_phase[where tasks = "sw_tasks w" and t = t and tk = tk, OF assms(2) _ that]) (simp add: assms(3))
  moreover have "watching ((sw_tasks w)(t \<mapsto> tk\<lparr>tk_phase := Watching s e d p\<rparr>)) (tk_node tk) s"
    by (auto simp: watching_def intro!: exI[of _ t])
  ultimately show ?thesis
    using assms(1) unfolding owned_def by (auto simp: finish_establish_def send_event_def Let_def) blast+
qed

definition sup_owned :: "sup_world \<Rightarrow> bool" where
  "sup_owned w \<longleftrightarrow> owned (sw_ctx w) (sw_tasks w)"

lemma on_task_Some:
  "on_task t c f w = Some w' \<longleftrightarrow> (\<exists>tk. sw_tasks w t = Some tk \<and> tk_cancelled tk = c \<and> f t tk w = Some w')"
  by (auto simp: on_task_def split: option.splits)

lemma watching_spawn:
  assumes "watching tasks n s" and "tasks t = None"
  shows "watching (tasks(t \<mapsto> x)) n s"
proof -
  obtain u uk where "tasks u = Some uk" "tk_node uk = n" "sub_of (tk_phase uk) = Some s"
    using assms(1) by (auto simp: watching_def)
  then show ?thesis using assms(2) by (auto simp: watching_def intro!: exI[of _ u])
qed

lemma watching_drop:
  assumes "watching tasks n s" and "tasks t = Some tk" and "sub_of (tk_phase tk) = None"
  shows "watching (tasks(t := None)) n s"
proof -
  obtain u uk where "tasks u = Some uk" "tk_node uk = n" "sub_of (tk_phase uk) = Some s"
    using assms(1) by (auto simp: watching_def)
  then show ?thesis using assms(2,3) by (auto simp: watching_def intro!: exI[of _ u])
qed

lemma sub_of_None [simp]: "sub_of (Trying i) = None" "sub_of (Priming i acc) = None" "sub_of (BackingOff i u) = None"
  by simp_all

subsection \<open>One live supervisor per node\<close>

text \<open>The node a task still works for: none once it is cancelled\<close>

definition works_for :: "(nat \<Rightarrow> sup_task option) \<Rightarrow> nat \<Rightarrow> u64 option" where
  "works_for tasks t = Option.bind (tasks t) (\<lambda>tk. if tk_cancelled tk then None else Some (tk_node tk))"

definition inverse_maps :: "('a \<Rightarrow> 'b option) \<Rightarrow> ('b \<Rightarrow> 'a option) \<Rightarrow> bool" where
  "inverse_maps f g \<longleftrightarrow> (\<forall>a b. f a = Some b \<longleftrightarrow> g b = Some a)"

definition unlink :: "'b option \<Rightarrow> ('b \<Rightarrow> 'a option) \<Rightarrow> 'b \<Rightarrow> 'a option" where
  "unlink h g = (case h of None \<Rightarrow> g | Some b \<Rightarrow> g(b := None))"

lemma unlink_iff:
  assumes "inverse_maps f g"
  shows "unlink (f a) g b = Some c \<longleftrightarrow> g b = Some c \<and> c \<noteq> a"
proof (cases "f a")
  case None
  then have "g b \<noteq> Some a" using assms unfolding inverse_maps_def by (metis option.distinct(1))
  then show ?thesis using None by (auto simp: unlink_def)
next
  case (Some b0)
  then have "g b = Some a \<longleftrightarrow> b = b0" using assms unfolding inverse_maps_def by (metis option.inject)
  then show ?thesis using Some by (auto simp: unlink_def)
qed

lemma inverse_maps_remove: "inverse_maps f g \<Longrightarrow> inverse_maps (f(a := None)) (unlink (f a) g)"
  unfolding inverse_maps_def[of "f(a := None)"] by (simp add: unlink_iff) (auto simp: inverse_maps_def)

lemma inverse_maps_insert:
  "inverse_maps f g \<Longrightarrow> g b = None \<Longrightarrow> inverse_maps (f(a \<mapsto> b)) ((unlink (f a) g)(b \<mapsto> a))"
  unfolding inverse_maps_def[of "f(a \<mapsto> b)"] by (auto simp: unlink_iff) (auto simp: inverse_maps_def)

definition handles_ok :: "sup_world \<Rightarrow> bool" where
  "handles_ok w \<longleftrightarrow>
     inverse_maps (cx_supervisors (sw_ctx w)) (works_for (sw_tasks w))
   \<and> (\<forall>t. sw_next w \<le> t \<longrightarrow> sw_tasks w t = None)"

lemma works_for_set_phase:
  "sw_tasks w t = Some tk \<Longrightarrow> works_for (sw_tasks (set_phase t tk ph ctx w)) = works_for (sw_tasks w)"
  by (rule ext) (simp add: works_for_def set_phase_def)

lemma works_for_cancel: "works_for (cancel_task h tasks) = unlink h (works_for tasks)"
proof (cases h)
  case (Some t)
  then show ?thesis
    by (intro ext) (cases "tasks t"; simp add: works_for_def cancel_task_def unlink_def)
qed (simp add: cancel_task_def unlink_def)

lemma works_for_spawn:
  "works_for (tasks(t \<mapsto> \<lparr>tk_node = n, tk_phase = ph, tk_cancelled = False\<rparr>)) = (works_for tasks)(t \<mapsto> n)"
  by (rule ext) (simp add: works_for_def)

lemma handles_ok_set_phase:
  assumes "handles_ok w" and "sw_tasks w t = Some tk" and "cx_supervisors ctx = cx_supervisors (sw_ctx w)"
  shows "handles_ok (set_phase t tk ph ctx w)"
  using assms works_for_set_phase[OF assms(2), of ph ctx] by (auto simp: handles_ok_def set_phase_def)

lemma handles_ok_start:
  assumes "handles_ok w"
  shows "handles_ok (start_supervisor n w)"
proof -
  have inv: "inverse_maps (cx_supervisors (sw_ctx w)) (works_for (sw_tasks w))"
    and fresh: "works_for (sw_tasks w) (sw_next w) = None"
    using assms by (simp_all add: handles_ok_def works_for_def)
  have "cx_supervisors (sw_ctx w) n \<noteq> Some (sw_next w)" using inv fresh by (simp add: inverse_maps_def)
  then have "works_for (sw_tasks (start_supervisor n w)) =
      (unlink (cx_supervisors (sw_ctx w) n) (works_for (sw_tasks w)))(sw_next w \<mapsto> n)"
    by (auto simp: start_supervisor_def Let_def works_for_cancel works_for_spawn unlink_def split: option.split)
  then have "inverse_maps (cx_supervisors (sw_ctx (start_supervisor n w))) (works_for (sw_tasks (start_supervisor n w)))"
    using inverse_maps_insert[OF inv fresh] by (simp add: start_supervisor_def Let_def)
  moreover have "sw_tasks (start_supervisor n w) t = None" if "sw_next (start_supervisor n w) \<le> t" for t
    using assms that by (auto simp: handles_ok_def start_supervisor_def cancel_task_def Let_def split: option.split)
  ultimately show ?thesis by (simp add: handles_ok_def)
qed

lemma handles_ok_stop:
  assumes "handles_ok w"
  shows "handles_ok (stop_supervisor n w)"
proof -
  have "sw_tasks (stop_supervisor n w) t = None" if "sw_next w \<le> t" for t
    using assms that by (auto simp: handles_ok_def stop_supervisor_def cancel_task_def Let_def split: option.split)
  then show ?thesis
    using assms inverse_maps_remove[of "cx_supervisors (sw_ctx w)" "works_for (sw_tasks w)" n]
    by (simp add: handles_ok_def) (simp add: stop_supervisor_def forget_node_def works_for_cancel Let_def)
qed

lemma handles_ok_stop_all:
  assumes "handles_ok w"
  shows "handles_ok (stop_all w)"
proof -
  have "works_for (sw_tasks (stop_all w)) t = None" for t
  proof (cases "sw_tasks w t")
    case (Some tk)
    then have "cx_supervisors (sw_ctx w) (tk_node tk) = Some t" if "\<not> tk_cancelled tk"
      using assms that by (simp add: handles_ok_def inverse_maps_def works_for_def)
    then show ?thesis using Some by (auto simp: works_for_def stop_all_def)
  qed (simp add: works_for_def stop_all_def)
  then show ?thesis using assms by (simp add: handles_ok_def inverse_maps_def) (simp add: stop_all_def)
qed

lemma handles_ok_drop:
  assumes "handles_ok w" and "sw_tasks w t = Some tk" and "tk_cancelled tk"
  shows "handles_ok (drop_task t tk w)"
proof -
  have "works_for ((sw_tasks w)(t := None)) = works_for (sw_tasks w)"
    using assms(2,3) by (intro ext) (simp add: works_for_def)
  then show ?thesis
    using assms(1)
    by (auto simp: handles_ok_def drop_task_def drop_guard_def disown_def Let_def split: sup_phase.split)
qed

subsection \<open>Both hold in every reachable state\<close>

definition sup_inv :: "sup_world \<Rightarrow> bool" where
  "sup_inv w \<longleftrightarrow> owned (sw_ctx w) (sw_tasks w) \<and> handles_ok w"

lemma sup_inv_phase:
  assumes "sup_inv w" and "sw_tasks w t = Some tk" and "sub_of (tk_phase tk) = None \<or> sub_of (tk_phase tk) = sub_of ph"
    and "cx_subs ctx = cx_subs (sw_ctx w)" and "cx_liveness ctx = cx_liveness (sw_ctx w)"
    and "cx_supervisors ctx = cx_supervisors (sw_ctx w)"
  shows "sup_inv (set_phase t tk ph ctx w)"
  using assms owned_set_phase handles_ok_set_phase by (auto simp: sup_inv_def)

lemma sup_inv_attempt: "sup_inv w \<Longrightarrow> sw_tasks w t = Some tk \<Longrightarrow> sup_attempt t tk w = Some w' \<Longrightarrow> sup_inv w'"
  by (auto simp: sup_attempt_def begin_establish_def reset_event_high_water_def Let_def split: sup_phase.splits
      intro!: sup_inv_phase)

lemma noted_supervisors:
  "cx_supervisors (walk_events report (\<lambda>d ctx. snd (ctx_note_event n (ev_number d) ctx)) ctx) = cx_supervisors ctx"
  by (rule walk_events_induct[where I = "\<lambda>c. cx_supervisors c = cx_supervisors ctx"])
     (simp_all add: ctx_note_event_def split: prod.splits)

lemma sup_inv_chunk: "sup_inv w \<Longrightarrow> sw_tasks w t = Some tk \<Longrightarrow> sup_chunk b tables r t tk w = Some w' \<Longrightarrow> sup_inv w'"
  by (auto simp: sup_chunk_def prime_chunk_def quiet_events noted_supervisors split: sup_phase.splits intro!: sup_inv_phase)

lemma sup_inv_failed: "sup_inv w \<Longrightarrow> sw_tasks w t = Some tk \<Longrightarrow> sup_failed t tk w = Some w' \<Longrightarrow> sup_inv w'"
  by (auto simp: sup_failed_def send_event_def split: sup_phase.splits intro!: sup_inv_phase)

lemma sup_inv_wake: "sup_inv w \<Longrightarrow> sw_tasks w t = Some tk \<Longrightarrow> sup_wake t tk w = Some w' \<Longrightarrow> sup_inv w'"
  by (auto simp: sup_wake_def split: sup_phase.splits if_splits intro!: sup_inv_phase)

lemma sup_inv_established:
  assumes "sup_inv w" and "sw_tasks w t = Some tk" and "sup_established s m t tk w = Some w'"
  shows "sup_inv w'"
proof -
  obtain idx acc where ph: "tk_phase tk = Priming idx acc"
    and w': "w' = set_phase t tk (Watching s (sw_now w) (liveness_deadline m) (next_poll (sw_now w)))
      (finish_establish (tk_node tk) s m (sw_now w) acc (sw_ctx w)) w"
    using assms(3) by (auto simp: sup_established_def split: sup_phase.splits)
  have "handles_ok w'"
    unfolding w' using assms(1,2)
    by (intro handles_ok_set_phase) (auto simp: sup_inv_def finish_establish_def send_event_def Let_def)
  moreover have "owned (sw_ctx w') (sw_tasks w')"
    using owned_established[of w t tk] assms(1,2) ph by (simp add: w' set_phase_def sup_inv_def)
  ultimately show ?thesis by (simp add: sup_inv_def)
qed

lemma sup_inv_poll:
  assumes "sup_inv w" and "sw_tasks w t = Some tk" and "sup_poll t tk w = Some w'"
  shows "sup_inv w'"
proof -
  obtain s e d p where ph: "tk_phase tk = Watching s e d p"
    using assms(3) by (auto simp: sup_poll_def split: sup_phase.splits)
  consider (keep) "w' = set_phase t tk (Watching s e d (next_poll (sw_now w))) (sw_ctx w) w"
    | (give_up) "w' = set_phase t tk (Trying 0)
        (send_event (NodeState (tk_node tk) Reconnecting) (drop_guard (tk_node tk) s (sw_ctx w))) w"
    using assms(3) ph by (auto simp: sup_poll_def split: if_splits)
  then show ?thesis
  proof cases
    case keep
    then show ?thesis using assms(1,2) ph by (auto intro!: sup_inv_phase)
  next
    case give_up
    have "owned (sw_ctx w') (sw_tasks w')"
      using owned_release[of "sw_ctx w" "sw_tasks w" t tk s] assms(1,2) ph
      by (simp add: give_up set_phase_def sup_inv_def send_event_def owned_def)
    moreover have "handles_ok w'"
      unfolding give_up using assms(1,2)
      by (intro handles_ok_set_phase) (auto simp: sup_inv_def drop_guard_def disown_def send_event_def Let_def)
    ultimately show ?thesis by (simp add: sup_inv_def)
  qed
qed

lemma sup_inv_drop:
  assumes "sup_inv w" and "sw_tasks w t = Some tk" and "tk_cancelled tk"
  shows "sup_inv (drop_task t tk w)"
proof (cases "sub_of (tk_phase tk)")
  case None
  then have "sw_ctx (drop_task t tk w) = sw_ctx w" by (simp add: drop_task_def split: sup_phase.split) auto
  moreover have "owned (sw_ctx w) ((sw_tasks w)(t := None))"
  proof (rule owned_more[OF _ _ refl refl])
    show "owned (sw_ctx w) (sw_tasks w)" using assms(1) by (simp add: sup_inv_def)
    show "watching ((sw_tasks w)(t := None)) n s" if "watching (sw_tasks w) n s" for n s
      by (rule watching_drop[where tasks = "sw_tasks w" and tk = tk, OF that assms(2) None])
  qed
  ultimately show ?thesis using handles_ok_drop[OF _ assms(2,3)] assms(1) by (simp add: sup_inv_def) (simp add: drop_task_def)
next
  case (Some s)
  then have "sw_ctx (drop_task t tk w) = drop_guard (tk_node tk) s (sw_ctx w)"
    by (cases "tk_phase tk") (auto simp: drop_task_def)
  then show ?thesis
    using owned_release[where tasks = "sw_tasks w" and tk = tk, OF _ assms(2) Some] handles_ok_drop[OF _ assms(2,3)] assms(1)
    by (simp add: sup_inv_def) (simp add: drop_task_def)
qed

lemma sup_inv_report:
  assumes "sup_inv w"
  shows "sup_inv (w\<lparr>sw_ctx := snd (handle_report b tables now clock sub report (sw_ctx w))\<rparr>)"
proof -
  have "cx_supervisors (snd (handle_report b tables now clock sub report (sw_ctx w))) = cx_supervisors (sw_ctx w)"
  proof (cases rule: handle_report_cases[of b tables now clock sub report "sw_ctx w"])
    case accepted
    have "cx_supervisors (walk_events report (forward_event b tables clock (ro_peer_node_id sub))
        (take_attributes b tables now (ro_peer_node_id sub) report (sw_ctx w))) = cx_supervisors (sw_ctx w)"
      by (rule walk_events_induct)
         (auto simp: take_attributes_def forward_event_def ctx_note_event_def send_event_def Let_def
           split: prod.splits bool.splits option.splits list.splits)
    then show ?thesis by (simp add: accepted(1))
  qed simp
  then show ?thesis using assms owned_handle_report by (simp add: sup_inv_def handles_ok_def)
qed

lemma sup_inv_step:
  assumes "sup_inv w" and "sup_do b tables a w = Some w'"
  shows "sup_inv w'"
proof (cases a)
  case (Start n)
  have w': "w' = start_supervisor n w" using assms(2) Start by (simp split: if_splits)
  have fresh: "sw_tasks w (sw_next w) = None" using assms(1) by (simp add: sup_inv_def handles_ok_def)
  have "owned (sw_ctx w') (sw_tasks w')"
    unfolding w'
  proof (rule owned_more[where ctx = "sw_ctx w" and tasks = "sw_tasks w"])
    fix m s
    assume "watching (sw_tasks w) m s"
    from watching_spawn[OF this fresh]
    show "watching (sw_tasks (start_supervisor n w)) m s"
      by (simp add: start_supervisor_def Let_def watching_cancel del: fun_upd_apply)
  qed (use assms(1) in \<open>simp_all add: sup_inv_def start_supervisor_def Let_def\<close>)
  then show ?thesis using assms(1) handles_ok_start by (simp add: w' sup_inv_def)
next
  case (Stop n)
  have w': "w' = stop_supervisor n w" using assms(2) Stop by (simp split: if_splits)
  have "owned (sw_ctx w') (sw_tasks w')"
    unfolding w' by (rule owned_more[where ctx = "sw_ctx w" and tasks = "sw_tasks w"])
      (use assms(1) in \<open>simp_all add: stop_supervisor_def forget_node_def sup_inv_def Let_def watching_cancel\<close>)
  then show ?thesis using assms(1) handles_ok_stop by (simp add: w' sup_inv_def)
next
  case ShutDown
  have w': "w' = stop_all w" using assms(2) ShutDown by (simp split: if_splits)
  have "owned (sw_ctx w') (sw_tasks w')"
    unfolding w' by (rule owned_more[where ctx = "sw_ctx w" and tasks = "sw_tasks w"])
      (use assms(1) watching_stop_all[of w] in \<open>simp_all add: sup_inv_def\<close>, simp_all add: stop_all_def)
  then show ?thesis using assms(1) handles_ok_stop_all by (simp add: w' sup_inv_def)
next
  case (Elapse d)
  then show ?thesis using assms by (auto simp: sup_inv_def handles_ok_def)
next
  case (Report clock sub report)
  then show ?thesis using assms sup_inv_report by auto
qed (use assms in \<open>auto simp: on_task_Some intro: sup_inv_attempt sup_inv_chunk sup_inv_established sup_inv_failed
      sup_inv_poll sup_inv_wake sup_inv_drop\<close>)

lemma sup_inv_reachable: "sup_reachable b tables fab w \<Longrightarrow> sup_inv w"
proof (induction rule: sup_reachable.induct)
  case init
  then show ?case
    by (simp add: sup_inv_def sup_init_def stack_ctx_new_def owned_def handles_ok_def inverse_maps_def works_for_def)
qed (rule sup_inv_step)

text \<open>
  C36: A node has at most one live supervisor, however starts, stops and the executor's deferred drops
  interleave: a second start displaces the first.
\<close>

theorem one_live_supervisor:
  assumes "sup_reachable b tables fab w" and "sw_tasks w t = Some tk" and "sw_tasks w u = Some uk"
    and "\<not> tk_cancelled tk" and "\<not> tk_cancelled uk" and "tk_node tk = tk_node uk"
  shows "t = u"
proof -
  have "works_for (sw_tasks w) t = Some (tk_node tk)" "works_for (sw_tasks w) u = Some (tk_node tk)"
    using assms by (simp_all add: works_for_def)
  then have "cx_supervisors (sw_ctx w) (tk_node tk) = Some t" "cx_supervisors (sw_ctx w) (tk_node tk) = Some u"
    using sup_inv_reachable[OF assms(1)] by (simp_all add: sup_inv_def handles_ok_def inverse_maps_def)
  then show ?thesis by simp
qed

text \<open>
  C7: A subscription is accepted exactly as long as some task holds it: once no task of a node is
  left - stopped, displaced or silent, cancelled at whatever await - every report of the node is
  disowned, so that the device drops its half.
\<close>

theorem reports_of_unwatched_node_disowned:
  assumes "sup_reachable b tables fab w"
    and "\<forall>t tk. sw_tasks w t = Some tk \<longrightarrow> tk_node tk = ro_peer_node_id sub \<longrightarrow> sub_of (tk_phase tk) = None"
  shows "handle_report b tables now clock sub report (sw_ctx w) = (Err InvalidSubscription, sw_ctx w)"
proof (cases rule: handle_report_cases[of b tables now clock sub report "sw_ctx w"])
  case accepted
  then obtain s where "cx_subs (sw_ctx w) (ro_peer_node_id sub) = Some s" by auto
  then have "watching (sw_tasks w) (ro_peer_node_id sub) s"
    using sup_inv_reachable[OF assms(1)] by (simp add: sup_inv_def owned_def)
  then show ?thesis using assms(2) by (auto simp: watching_def)
qed simp

lemma sup_run_reachable:
  "sup_reachable b tables fab w \<Longrightarrow> sup_run b tables as w = Some w' \<Longrightarrow> sup_reachable b tables fab w'"
  by (induction as arbitrary: w) (auto simp: bind_eq_Some_conv intro: sup_reachable.step)

subsection \<open>Stopping a node\<close>

text \<open>
  Removing a node leaves nothing of it behind: once its supervisor is stopped and the executor has
  dropped the task, none of the shared maps has an entry for the node, whatever the task was doing.
\<close>

theorem stopping_clears_the_node:
  assumes "sup_reachable b tables fab w" and "sw_open w" and "cx_supervisors (sw_ctx w) n = Some t"
    and "\<forall>u uk. sw_tasks w u = Some uk \<longrightarrow> tk_node uk = n \<longrightarrow> u = t"
  shows "\<exists>w'. sup_run b tables [Stop n, DropTask t] w = Some w'
    \<and> cx_subs (sw_ctx w') n = None \<and> cx_liveness (sw_ctx w') n = None \<and> cx_last_event (sw_ctx w') n = None
    \<and> cx_pending (sw_ctx w') n = None \<and> cx_addrs (sw_ctx w') n = None \<and> cx_supervisors (sw_ctx w') n = None"
proof -
  have inv: "sup_inv w" by (rule sup_inv_reachable[OF assms(1)])
  obtain tk where tk: "sw_tasks w t = Some tk" "\<not> tk_cancelled tk" "tk_node tk = n"
    using inv assms(3) by (auto simp: sup_inv_def handles_ok_def inverse_maps_def works_for_def bind_eq_Some_conv split: if_splits)
  let ?w1 = "stop_supervisor n w"
  let ?w2 = "drop_task t (tk\<lparr>tk_cancelled := True\<rparr>) ?w1"
  have t1: "sw_tasks ?w1 t = Some (tk\<lparr>tk_cancelled := True\<rparr>)"
    using tk assms(3) by (simp add: stop_supervisor_def Let_def cancel_task_def)
  have run: "sup_run b tables [Stop n, DropTask t] w = Some ?w2"
    using assms(2) t1 by (simp add: on_task_def)
  have gone: "\<not> watching (sw_tasks ?w2) n s" for s
    using assms(3,4) by (auto simp: watching_def drop_task_def stop_supervisor_def Let_def cancel_task_def)
  have "sup_inv ?w2" by (rule sup_inv_reachable[OF sup_run_reachable[OF assms(1) run]])
  then have "cx_subs (sw_ctx ?w2) n = None" "cx_liveness (sw_ctx ?w2) n = None"
    using gone unfolding sup_inv_def owned_def by (metis option.exhaust)+
  moreover have "cx_last_event (sw_ctx ?w2) n = None" "cx_pending (sw_ctx ?w2) n = None"
    "cx_addrs (sw_ctx ?w2) n = None" "cx_supervisors (sw_ctx ?w2) n = None"
    by (auto simp: drop_task_def stop_supervisor_def forget_node_def pending_forget_def drop_guard_def disown_def Let_def
        split: sup_phase.split)
  ultimately show ?thesis using run by blast
qed

subsection \<open>Establishing a subscription\<close>

lemma sup_run_append:
  "sup_run b tables (xs @ ys) w = Option.bind (sup_run b tables xs w) (sup_run b tables ys)"
  by (induction xs arbitrary: w) (auto split: bind_splits)

lemma noted_events:
  "cx_events (walk_events report (\<lambda>d ctx. snd (ctx_note_event n (ev_number d) ctx)) ctx) = cx_events ctx"
  by (rule walk_events_induct[where I = "\<lambda>c. cx_events c = cx_events ctx"])
     (simp_all add: ctx_note_event_def split: prod.splits)

lemma run_chunks:
  assumes "sw_tasks w t = Some tk" and "\<not> tk_cancelled tk" and "tk_phase tk = Priming idx acc"
  shows "\<exists>w'. sup_run b tables (map (Chunk t) cs) w = Some w'
    \<and> sw_tasks w' t = Some (tk\<lparr>tk_phase := Priming idx (fold (absorb b tables) cs acc)\<rparr>)
    \<and> cx_events (sw_ctx w') = cx_events (sw_ctx w) \<and> sw_now w' = sw_now w"
  using assms
proof (induction cs arbitrary: w tk acc)
  case (Cons c cs)
  obtain w1 where w1: "sup_do b tables (Chunk t c) w = Some w1"
    "sw_tasks w1 t = Some (tk\<lparr>tk_phase := Priming idx (absorb b tables c acc)\<rparr>)"
    "cx_events (sw_ctx w1) = cx_events (sw_ctx w)" "sw_now w1 = sw_now w"
    using Cons.prems by (simp add: on_task_def sup_chunk_def prime_chunk_def set_phase_def noted_events)
  from Cons.IH[OF w1(2)] Cons.prems(2) show ?case using w1 by simp
qed simp

text \<open>
  What the client learns when a subscription is established: first that the node is connected, then
  one snapshot, which merges the priming report over all its chunks; none of the events in that
  report is forwarded; and from that moment the reports of the subscription are accepted.
\<close>

theorem establishment_announces_then_snapshots:
  assumes "sw_tasks w t = Some tk" and "\<not> tk_cancelled tk" and "tk_phase tk = Trying idx"
  shows "\<exists>w'. sup_run b tables (Attempt t # map (Chunk t) cs @ [Established t s m]) w = Some w'
    \<and> cx_events (sw_ctx w') = cx_events (sw_ctx w) @
        [NodeState (tk_node tk) (Connected m),
         PrimingSnapshot (tk_node tk) (om_of_list (into_pairs (fold (absorb b tables) cs empty_accumulator)))]
    \<and> cx_subs (sw_ctx w') (tk_node tk) = Some s"
proof -
  let ?tk = "tk\<lparr>tk_phase := Priming idx empty_accumulator\<rparr>"
  let ?w = "set_phase t tk (Priming idx empty_accumulator) (begin_establish (tk_node tk) (sw_ctx w)) w"
  have "sup_do b tables (Attempt t) w = Some ?w" using assms by (simp add: on_task_def sup_attempt_def)
  moreover have tk: "sw_tasks ?w t = Some ?tk" "cx_events (sw_ctx ?w) = cx_events (sw_ctx w)"
    by (simp_all add: set_phase_def begin_establish_def reset_event_high_water_def)
  moreover obtain w1 where w1: "sup_run b tables (map (Chunk t) cs) ?w = Some w1"
    "sw_tasks w1 t = Some (?tk\<lparr>tk_phase := Priming idx (fold (absorb b tables) cs empty_accumulator)\<rparr>)"
    "cx_events (sw_ctx w1) = cx_events (sw_ctx ?w)"
    using run_chunks[OF tk(1), where cs = cs and b = b and tables = tables] assms(2) by auto
  ultimately show ?thesis
    using assms(2)
    by (simp add: sup_run_append on_task_def sup_established_def set_phase_def finish_establish_def send_event_def Let_def)
qed

subsection \<open>Timers\<close>

lemma from_secs_le [simp]: "from_secs s \<le> from_secs r \<longleftrightarrow> s \<le> r"
  by (simp add: from_secs_def)

text \<open>
  A node that cannot be reached is tried again and again at growing intervals: the delay before a
  retry never shrinks as failures accumulate, is two seconds at first and never more than a minute.
\<close>

theorem backoff_grows_to_a_minute:
  "i \<le> j \<Longrightarrow> from_secs 2 \<le> backoff_delay i \<and> backoff_delay i \<le> backoff_delay j \<and> backoff_delay j \<le> from_secs 60"
proof -
  assume "i \<le> j"
  moreover have "backoff_delay k = from_secs
      (if k = 0 then 2 else if k = 1 then 5 else if k = 2 then 10 else if k = 3 then 30 else 60)" for k
  proof -
    consider "k = 0" | "k = 1" | "k = 2" | "k = 3" | "4 \<le> k" by linarith
    then show ?thesis by cases (auto simp: backoff_delay_def BACKOFF_SCHEDULE_SECS_def min_def numeral_eq_Suc)
  qed
  ultimately show ?thesis by simp
qed

lemma backoff_grows_to_a_minute_witness:
  "from_secs 2 \<le> backoff_delay 1 \<and> backoff_delay 1 \<le> backoff_delay 9 \<and> backoff_delay 9 \<le> from_secs 60"
  by (rule backoff_grows_to_a_minute) simp

text \<open>
  A subscription is given up exactly when the node has been silent for the interval it promised
  plus fifteen seconds: while it reports in time a poll changes nothing but the time of the next
  poll; otherwise the subscription and its liveness are released before the client is told.
\<close>

theorem watchdog_decides_on_silence:
  assumes "sw_tasks w t = Some tk" and "\<not> tk_cancelled tk"
    and "tk_phase tk = Watching s e (liveness_deadline m) p" and "p \<le> sw_now w"
    and "cx_liveness (sw_ctx w) (tk_node tk) = Some seen" and "seen \<le> sw_now w"
  shows "sup_do b tables (Poll t) w = Some
    (if sw_now w < seen + from_secs (unat m + 15)
     then set_phase t tk (Watching s e (liveness_deadline m) (sw_now w + from_secs 5)) (sw_ctx w) w
     else set_phase t tk (Trying 0)
       (send_event (NodeState (tk_node tk) Reconnecting)
         ((sw_ctx w)\<lparr>cx_subs := (if cx_subs (sw_ctx w) (tk_node tk) = Some s
                               then (cx_subs (sw_ctx w))(tk_node tk := None) else cx_subs (sw_ctx w)),
                     cx_liveness := (cx_liveness (sw_ctx w))(tk_node tk := None)\<rparr>)) w)"
  using assms
  by (auto simp: on_task_def sup_poll_def liveness_expired_def or_else_def liveness_deadline_def next_poll_def
      LIVENESS_SLACK_SECS_def LIVENESS_POLL_SECS_def drop_guard_def disown_def Let_def not_less le_diff_conv2)

subsection \<open>A live supervisor keeps trying\<close>

text \<open>What happens to a task when only time passes and its own timers fire\<close>

definition own_action :: "nat \<Rightarrow> sup_action \<Rightarrow> bool" where
  "own_action t a \<longleftrightarrow> (case a of Elapse _ \<Rightarrow> True | Attempt u \<Rightarrow> u = t | AttemptFailed u \<Rightarrow> u = t
     | Poll u \<Rightarrow> u = t | Wake u \<Rightarrow> u = t | _ \<Rightarrow> False)"

text \<open>
  C10: A supervisor never gets stuck: wherever it is, with nothing heard from the node, its timers bring
  it to a new subscribe attempt, unless it is cancelled.
\<close>

theorem supervisor_always_retries:
  assumes "sw_tasks w t = Some tk" and "\<not> tk_cancelled tk"
  shows "\<exists>as w' tk' i. list_all (own_action t) as \<and> sup_run b tables as w = Some w'
    \<and> sw_tasks w' t = Some tk' \<and> tk_node tk' = tk_node tk \<and> tk_phase tk' = Priming i empty_accumulator"
proof -
  have attempt: "\<exists>w' tk' i. sup_run b tables [Attempt t] v = Some w' \<and> sw_tasks w' t = Some tk'
      \<and> tk_node tk' = tk_node tk \<and> tk_phase tk' = Priming i empty_accumulator"
    if "sw_tasks v t = Some vk" "\<not> tk_cancelled vk" "tk_node vk = tk_node tk" "tk_phase vk = Trying j" for v vk j
    using that by (simp add: on_task_def sup_attempt_def set_phase_def)
  have by_run: ?thesis if "sup_run b tables as w = Some v" "list_all (own_action t) as"
    "sw_tasks v t = Some vk" "\<not> tk_cancelled vk" "tk_node vk = tk_node tk" "tk_phase vk = Trying j" for as v vk j
  proof -
    from attempt[OF that(3-6)] obtain w' tk' i where "sup_run b tables [Attempt t] v = Some w'"
      "sw_tasks w' t = Some tk'" "tk_node tk' = tk_node tk" "tk_phase tk' = Priming i empty_accumulator" by blast
    then show ?thesis
      using that(1,2) by (intro exI[of _ "as @ [Attempt t]"] exI[of _ w']) (simp add: sup_run_append own_action_def)
  qed
  show ?thesis
  proof (cases "tk_phase tk")
    case (Trying idx)
    then show ?thesis using by_run[of "[]" w tk idx] assms by simp
  next
    case (Priming idx acc)
    then show ?thesis
      using by_run[of "[AttemptFailed t, Elapse (backoff_delay idx), Wake t]"] assms
      by (simp add: on_task_def sup_failed_def sup_wake_def set_phase_def own_action_def)
  next
    case (BackingOff idx due)
    then show ?thesis
      using by_run[of "[Elapse due, Wake t]"] assms
      by (simp add: on_task_def sup_wake_def set_phase_def own_action_def)
  next
    case (Watching s e d p)
    let ?wait = "p + d + or_else e (cx_liveness (sw_ctx w) (tk_node tk))"
    have "liveness_expired (cx_liveness (sw_ctx w) (tk_node tk)) e (sw_now w + ?wait) d"
      by (simp add: liveness_expired_def)
    then show ?thesis
      using by_run[of "[Elapse ?wait, Poll t]"] assms Watching
      by (simp add: on_task_def sup_poll_def set_phase_def own_action_def)
  qed
qed

subsection \<open>A world to apply the properties to\<close>

text \<open>Node 7 was started twice; its first task, cancelled, still holds subscription 9.\<close>

definition sample_actions :: "sup_action list" where
  "sample_actions = [Start 7, Attempt 0, Established 0 9 60, Start 7, Elapse 5000000]"

definition sample_world :: sup_world where
  "sample_world = the (sup_run letter_codec [] sample_actions (sup_init 1))"

lemmas sup_evaluate =
  sample_actions_def sup_init_def stack_ctx_new_def start_supervisor_def stop_supervisor_def cancel_task_def
  on_task_def sup_attempt_def sup_established_def set_phase_def begin_establish_def reset_event_high_water_def
  finish_establish_def send_event_def Let_def

lemma sample_run: "sup_run letter_codec [] sample_actions (sup_init 1) = Some sample_world"
  by (simp add: sample_world_def sup_evaluate)

lemma sample_reachable: "sup_reachable letter_codec [] 1 sample_world"
  by (rule sup_run_reachable[OF sup_reachable.init sample_run])

lemma sample_tasks:
  "sw_tasks sample_world =
     [0 \<mapsto> \<lparr>tk_node = 7, tk_phase = Watching 9 0 (liveness_deadline 60) (next_poll 0), tk_cancelled = True\<rparr>,
      Suc 0 \<mapsto> \<lparr>tk_node = 7, tk_phase = Trying 0, tk_cancelled = False\<rparr>]"
  "sw_open sample_world" "cx_supervisors (sw_ctx sample_world) = [7 \<mapsto> Suc 0]"
  by (simp_all add: sample_world_def sup_evaluate fun_upd_twist)

lemma one_live_supervisor_witness: "Suc 0 = Suc 0 \<and> works_for (sw_tasks sample_world) (Suc 0) = Some 7"
  using one_live_supervisor[OF sample_reachable, of "Suc 0" _ "Suc 0"] by (simp add: sample_tasks works_for_def)

lemma reports_of_unwatched_node_disowned_witness:
  "handle_report letter_codec [] 0 0 \<lparr>ro_subscription_id = Some 9, ro_fabric_idx = 1, ro_peer_node_id = 8\<rparr>
     (sample_message [] None) (sw_ctx sample_world) = (Err InvalidSubscription, sw_ctx sample_world)"
  by (rule reports_of_unwatched_node_disowned[OF sample_reachable]) (simp add: sample_tasks)

definition stopped_once :: sup_world where
  "stopped_once = the (sup_run letter_codec [] [DropTask 0] sample_world)"

lemma stopping_clears_the_node_witness:
  "\<exists>w w'. sup_run letter_codec [] [Stop 7, DropTask 1] w = Some w'
    \<and> cx_subs (sw_ctx w') 7 = None \<and> cx_liveness (sw_ctx w') 7 = None \<and> cx_last_event (sw_ctx w') 7 = None
    \<and> cx_pending (sw_ctx w') 7 = None \<and> cx_addrs (sw_ctx w') 7 = None \<and> cx_supervisors (sw_ctx w') 7 = None"
proof -
  have run: "sup_run letter_codec [] [DropTask 0] sample_world = Some stopped_once"
    by (simp add: stopped_once_def on_task_def sample_tasks)
  have w: "stopped_once = drop_task 0 \<lparr>tk_node = 7, tk_phase = Watching 9 0 (liveness_deadline 60) (next_poll 0),
      tk_cancelled = True\<rparr> sample_world"
    by (simp add: stopped_once_def on_task_def sample_tasks)
  have "sw_open stopped_once" "cx_supervisors (sw_ctx stopped_once) 7 = Some 1"
    "\<forall>u uk. sw_tasks stopped_once u = Some uk \<longrightarrow> tk_node uk = 7 \<longrightarrow> u = 1"
    by (auto simp: w drop_task_def drop_guard_def disown_def Let_def sample_tasks)
  then show ?thesis
    using stopping_clears_the_node[OF sup_run_reachable[OF sample_reachable run], of 7 1] by blast
qed

lemma establishment_announces_then_snapshots_witness:
  "\<exists>w'. sup_run letter_codec [] (Attempt (Suc 0) # map (Chunk (Suc 0)) [sample_message [] None] @ [Established (Suc 0) 4 60]) sample_world = Some w'
    \<and> cx_events (sw_ctx w') = cx_events (sw_ctx sample_world) @
        [NodeState 7 (Connected 60),
         PrimingSnapshot 7 (om_of_list (into_pairs (fold (absorb letter_codec []) [sample_message [] None] empty_accumulator)))]
    \<and> cx_subs (sw_ctx w') 7 = Some 4"
  using establishment_announces_then_snapshots[where w = sample_world and t = "Suc 0" and b = letter_codec
      and tables = "[]" and cs = "[sample_message [] None]" and s = 4 and m = 60 and idx = 0]
  by (simp add: sample_tasks del: sup_run.simps)

definition watching_world :: sup_world where
  "watching_world = the (sup_run letter_codec [] [Start 7, Attempt 0, Established 0 9 60, Elapse 75000000] (sup_init 1))"

lemma watchdog_decides_on_silence_witness:
  "map_option (\<lambda>w. map_option tk_phase (sw_tasks w 0)) (sup_do letter_codec [] (Poll 0) watching_world) = Some (Some (Trying 0))"
proof -
  have w: "sw_tasks watching_world 0 =
      Some \<lparr>tk_node = 7, tk_phase = Watching 9 0 (liveness_deadline 60) (next_poll 0), tk_cancelled = False\<rparr>"
    "cx_liveness (sw_ctx watching_world) 7 = Some 0" "sw_now watching_world = 75000000"
    by (simp_all add: watching_world_def sup_evaluate)
  let ?tk = "\<lparr>tk_node = 7, tk_phase = Watching 9 0 (liveness_deadline 60) (next_poll 0), tk_cancelled = False\<rparr>"
  have due: "next_poll 0 \<le> sw_now watching_world" "(0 :: instant) \<le> sw_now watching_world"
    and late: "\<not> sw_now watching_world < 0 + from_secs (unat (60 :: u16) + 15)"
    by (simp_all add: w next_poll_def from_secs_def LIVENESS_POLL_SECS_def)
  show ?thesis
    using watchdog_decides_on_silence[OF w(1), of 9 0 60 "next_poll 0" 0 letter_codec "[]"] due late w
    by (simp add: set_phase_def)
qed

lemma supervisor_always_retries_witness:
  "\<exists>as w' tk' i. list_all (own_action (Suc 0)) as \<and> sup_run letter_codec [] as sample_world = Some w'
    \<and> sw_tasks w' (Suc 0) = Some tk' \<and> tk_node tk' = 7 \<and> tk_phase tk' = Priming i empty_accumulator"
  using supervisor_always_retries[where w = sample_world and t = "Suc 0" and b = letter_codec and tables = "[]"]
  by (simp add: sample_tasks)

end
