(* ===== verification/Decode.thy ===== *)
theory Decode
  imports Jsdb Storage
begin

section \<open>Tagged values of matter.js (\<open>migrate/src/decode.rs\<close>)\<close>

text \<open>
  matter.js stores whatever JSON cannot hold as a string with a tagged document inside. The reader
  of that form is here, with its errors; the JSON reader and printer, the hex crate and the texts
  the standard library gives (a quoted string, a number that does not parse) are parameters.
\<close>

record codec =
  cd_parse :: "rstring \<Rightarrow> rstring + json"       \<comment> \<open>\<open>serde_json::from_str\<close>, the error as it prints\<close>
  cd_print :: "json \<Rightarrow> rstring"                 \<comment> \<open>\<open>Value::to_string\<close>\<close>
  cd_hex_decode :: "rstring \<Rightarrow> rstring + bytes"
  cd_hex_encode :: "bytes \<Rightarrow> rstring"
  cd_quoted :: "rstring \<Rightarrow> rstring"             \<comment> \<open>\<open>{:?}\<close> of a string\<close>
  cd_int_error :: "rstring \<Rightarrow> rstring"          \<comment> \<open>why \<open>parse::<u64>\<close> refuses it\<close>

datatype decode_error =
    UnknownTag rstring
  | Malformed rstring
  | WrongType rstring rstring

definition TAG_PREFIX :: rstring where "TAG_PREFIX = ''{\"__object__\":\"''"

definition BIGINT_TAGS :: "rstring list" where
  "BIGINT_TAGS = [''BigInt'', ''EventNumber'', ''FabricId'', ''NodeId'']"

definition NUMBER_TAGS :: "rstring list" where
  "NUMBER_TAGS =
     [''AttributeId'', ''CaseAuthenticatedTag'', ''ClusterId'', ''CommandId'', ''DataVersion'',
      ''DeviceTypeId'', ''EndpointNumber'', ''EntryIndex'', ''EventId'', ''FabricIndex'',
      ''FieldId'', ''GroupId'', ''VendorId'']"

datatype tagged =
    TaggedU64 u64
  | TaggedBytes bytes
  | TaggedMap "(json \<times> json) list"
  | TaggedUndefined

text \<open>It only builds a map, so it answers the entries.\<close>

fun pair_entries :: "json list \<Rightarrow> decode_error + (json \<times> json) list" where
  "pair_entries [] = Ok []"
| "pair_entries (item # items) =
     (case as_array item of
        Some [k, v] \<Rightarrow> and_then (pair_entries items) (\<lambda>out. Ok ((k, v) # out))
      | _ \<Rightarrow> Err (Malformed ''Map entry is not a [key, value] pair''))"

definition entries_from_array :: "json \<Rightarrow> decode_error + (json \<times> json) list" where
  "entries_from_array v =
     (case v of JArr items \<Rightarrow> pair_entries items | _ \<Rightarrow> Err (Malformed ''Map __value__ is not an array''))"

definition parse_tagged_inner :: "codec \<Rightarrow> rstring \<Rightarrow> decode_error + tagged" where
  "parse_tagged_inner cd s =
     and_then (map_err Malformed (cd_parse cd s)) (\<lambda>doc.
     and_then (ok_or (Malformed ''__object__ is not a string'') (Option.bind (jget doc ''__object__'') as_str)) (\<lambda>tag.
       let v = jget doc ''__value__''; text = Option.bind v as_str
       in if tag = ''Undefined'' then Ok TaggedUndefined
          else if tag \<in> set BIGINT_TAGS then
            and_then (ok_or (Malformed (tag @ '' without a string __value__'')) text) (\<lambda>payload.
            and_then (ok_or (Malformed (tag @ '' '' @ cd_quoted cd payload @ '': '' @ cd_int_error cd payload))
                        (parse_uint payload)) (\<lambda>n. Ok (TaggedU64 n)))
          else if tag \<in> set NUMBER_TAGS then
            and_then (ok_or (Malformed (tag @ '' without a u64 __value__'')) (Option.bind v as_u64)) (\<lambda>n.
              Ok (TaggedU64 n))
          else if tag = ''Uint8Array'' then
            and_then (ok_or (Malformed ''Uint8Array without a string __value__'') text) (\<lambda>payload.
            and_then (map_err (\<lambda>e. Malformed (''Uint8Array hex: '' @ e)) (cd_hex_decode cd payload)) (\<lambda>bytes.
              Ok (TaggedBytes bytes)))
          else if tag = ''Map'' then
            and_then (ok_or (Malformed ''Map without a string __value__'') text) (\<lambda>payload.
            and_then (map_err (\<lambda>e. Malformed (''Map: '' @ e)) (cd_parse cd payload)) (\<lambda>inner.
            and_then (entries_from_array inner) (\<lambda>entries. Ok (TaggedMap entries))))
          else Err (UnknownTag tag)))"

definition parse_tagged :: "codec \<Rightarrow> json \<Rightarrow> (decode_error + tagged) option" where
  "parse_tagged cd v =
     Option.bind (as_str v) (\<lambda>s.
       if starts_with TAG_PREFIX s \<and> ends_with ''}'' s then Some (parse_tagged_inner cd s) else None)"

text \<open>The ellipsis, as the three bytes it is\<close>

definition ellipsis :: rstring where
  "ellipsis = [char_of (226 :: nat), char_of (128 :: nat), char_of (166 :: nat)]"

definition short_debug :: "codec \<Rightarrow> json \<Rightarrow> rstring" where
  "short_debug cd v =
     (let s = cd_print cd v in if length (utf8_chars s) > 80 then take_chars 80 s @ ellipsis else s)"

definition wrong_type :: "codec \<Rightarrow> rstring \<Rightarrow> json \<Rightarrow> decode_error" where
  "wrong_type cd expected v = WrongType expected (short_debug cd v)"

definition decode_u64 :: "codec \<Rightarrow> json \<Rightarrow> decode_error + u64" where
  "decode_u64 cd v =
     (case parse_tagged cd v of
        Some (Inr (TaggedU64 n)) \<Rightarrow> Ok n
      | Some (Inr _) \<Rightarrow> Err (wrong_type cd ''u64'' v)
      | Some (Inl e) \<Rightarrow> Err e
      | None \<Rightarrow> ok_or (wrong_type cd ''u64'' v) (as_u64 v))"

definition decode_bytes :: "codec \<Rightarrow> json \<Rightarrow> decode_error + bytes" where
  "decode_bytes cd v =
     (case parse_tagged cd v of
        Some (Inr (TaggedBytes b)) \<Rightarrow> Ok b
      | Some (Inr _) \<Rightarrow> Err (wrong_type cd ''Uint8Array'' v)
      | Some (Inl e) \<Rightarrow> Err e
      | None \<Rightarrow> Err (wrong_type cd ''Uint8Array'' v))"

definition decode_str :: "codec \<Rightarrow> json \<Rightarrow> decode_error + rstring" where
  "decode_str cd v =
     (case parse_tagged cd v of
        Some (Inr _) \<Rightarrow> Err (wrong_type cd ''plain string'' v)
      | Some (Inl e) \<Rightarrow> Err e
      | None \<Rightarrow> ok_or (wrong_type cd ''plain string'' v) (as_str v))"

definition decode_map_entries :: "codec \<Rightarrow> json \<Rightarrow> decode_error + (json \<times> json) list" where
  "decode_map_entries cd v =
     (case parse_tagged cd v of
        Some (Inr (TaggedMap e)) \<Rightarrow> Ok e
      | Some (Inr _) \<Rightarrow> Err (wrong_type cd ''Map'' v)
      | Some (Inl e) \<Rightarrow> Err e
      | None \<Rightarrow>
          (case entries_from_array v of
             Inr e \<Rightarrow> Ok e
           | Inl e \<Rightarrow> if as_array v = None then Err (wrong_type cd ''Map'' v) else Err e))"

definition is_undefined :: "codec \<Rightarrow> json \<Rightarrow> bool" where
  "is_undefined cd v = (parse_tagged cd v = Some (Ok TaggedUndefined))"

end
