(* ===== verification/Convert.thy ===== *)
theory Convert
  imports Decode Addr
begin

section \<open>From the matter.js state to the new one (\<open>migrate/src/convert.rs\<close>)\<close>

text \<open>
  The identity of the source fabric, read strictly; the planned nodes with the fabric index their
  cached tables give; the new configuration. The date format and the clock are parameters.
\<close>

datatype convert_error =
    Missing rstring
  | Decode rstring decode_error
  | Invalid rstring

record source_fabric =
  src_fabric_id :: u64
  src_controller_node_id :: u64
  src_vendor_id :: u16
  src_label :: rstring
  src_ipk_epoch_key :: bytes
  src_operational_ipk :: bytes
  src_operational_id :: bytes
  src_ca_private_key :: bytes
  src_rcac_tlv :: bytes

definition source_fabric_debug :: "source_fabric \<Rightarrow> (rstring \<times> rstring) list" where
  "source_fabric_debug f =
     [(''fabric_id'', dec_of (src_fabric_id f)),
      (''controller_node_id'', dec_of (src_controller_node_id f)),
      (''vendor_id'', dec_of (src_vendor_id f)),
      (''label'', src_label f),
      (''ipk_epoch_key'', redacted (src_ipk_epoch_key f)),
      (''operational_ipk'', redacted (src_operational_ipk f)),
      (''operational_id'', summarised (src_operational_id f)),
      (''ca_private_key'', redacted (src_ca_private_key f)),
      (''rcac_tlv'', summarised (src_rcac_tlv f))]"

datatype fabric_index_source = MatchedByRootPublicKey | FallbackZero rstring

record node_plan =
  np_record :: node_record
  np_fabric_index :: fabric_index_source

subsection \<open>Fields\<close>

definition need :: "jmap \<Rightarrow> rstring \<Rightarrow> rstring \<Rightarrow> convert_error + json" where
  "need obj key full = ok_or (Missing full) (om_get obj key)"

definition object_field :: "json \<Rightarrow> rstring \<Rightarrow> convert_error + jmap" where
  "object_field v full = ok_or (Invalid (full @ '' is not an object'')) (as_object v)"

definition u64_field :: "codec \<Rightarrow> json \<Rightarrow> rstring \<Rightarrow> convert_error + u64" where
  "u64_field cd v p = map_err (Decode p) (decode_u64 cd v)"

definition bytes_field :: "codec \<Rightarrow> json \<Rightarrow> rstring \<Rightarrow> convert_error + bytes" where
  "bytes_field cd v p = map_err (Decode p) (decode_bytes cd v)"

definition str_field :: "codec \<Rightarrow> json \<Rightarrow> rstring \<Rightarrow> convert_error + rstring" where
  "str_field cd v p = map_err (Decode p) (decode_str cd v)"

definition check_len :: "bytes \<Rightarrow> nat \<Rightarrow> rstring \<Rightarrow> convert_error + unit" where
  "check_len bs expected field =
     (if length bs \<noteq> expected
      then Err (Invalid (field @ '' must be '' @ dec_of_nat expected @ '' bytes, got '' @ dec_of_nat (length bs)))
      else Ok ())"

subsection \<open>The source fabric\<close>

text \<open>A key of a fixed length, and the fabric's and the certificates' part of the reading\<close>

definition key_field :: "codec \<Rightarrow> jmap \<Rightarrow> rstring \<Rightarrow> nat \<Rightarrow> rstring \<Rightarrow> convert_error + bytes" where
  "key_field cd obj key n full =
     and_then (need obj key full) (\<lambda>v.
     and_then (bytes_field cd v full) (\<lambda>bs.
     and_then (check_len bs n full) (\<lambda>_. Ok bs)))"

definition number_field :: "codec \<Rightarrow> jmap \<Rightarrow> rstring \<Rightarrow> rstring \<Rightarrow> convert_error + u64" where
  "number_field cd obj key full = and_then (need obj key full) (\<lambda>v. u64_field cd v full)"

definition read_source_fabric :: "codec \<Rightarrow> data \<Rightarrow> convert_error + source_fabric" where
  "read_source_fabric cd db =
     and_then (ok_or (Missing ''credentials'') (jsdb_get db ''credentials'')) (\<lambda>credentials.
     and_then (need credentials ''fabric'' ''credentials.fabric'') (\<lambda>fabric_value.
     and_then (object_field fabric_value ''credentials.fabric'') (\<lambda>fabric.
     and_then (number_field cd fabric ''fabricId'' ''credentials.fabric.fabricId'') (\<lambda>fabric_id.
     and_then (number_field cd fabric ''nodeId'' ''credentials.fabric.nodeId'') (\<lambda>controller_node_id.
     and_then (number_field cd fabric ''rootVendorId'' ''credentials.fabric.rootVendorId'') (\<lambda>root_vendor_id.
     and_then (if unat root_vendor_id < 2 ^ 16 then Ok (ucast root_vendor_id)
               else Err (Invalid (''credentials.fabric.rootVendorId '' @ dec_of root_vendor_id @ '' does not fit in a u16'')))
       (\<lambda>vendor_id.
     and_then (case om_get fabric ''label'' of
                 Some v \<Rightarrow> str_field cd v ''credentials.fabric.label'' | None \<Rightarrow> Ok []) (\<lambda>label.
     and_then (key_field cd fabric ''identityProtectionKey'' 16 ''credentials.fabric.identityProtectionKey'') (\<lambda>ipk.
     and_then (key_field cd fabric ''operationalIdentityProtectionKey'' 16
                 ''credentials.fabric.operationalIdentityProtectionKey'') (\<lambda>operational_ipk.
     and_then (key_field cd fabric ''operationalId'' 8 ''credentials.fabric.operationalId'') (\<lambda>operational_id.
     and_then (ok_or (Missing ''certificates'') (jsdb_get db ''certificates'')) (\<lambda>certificates.
     and_then (need certificates ''rootKeyPair'' ''certificates.rootKeyPair'') (\<lambda>pair_value.
     and_then (object_field pair_value ''certificates.rootKeyPair'') (\<lambda>root_key_pair.
     and_then (key_field cd root_key_pair ''privateKey'' 32 ''certificates.rootKeyPair.privateKey'') (\<lambda>ca_private_key.
     and_then (need certificates ''rootCertBytes'' ''certificates.rootCertBytes'') (\<lambda>cert_value.
     and_then (bytes_field cd cert_value ''certificates.rootCertBytes'') (\<lambda>rcac_tlv.
       Ok \<lparr>src_fabric_id = fabric_id, src_controller_node_id = controller_node_id,
           src_vendor_id = vendor_id, src_label = label, src_ipk_epoch_key = ipk,
           src_operational_ipk = operational_ipk, src_operational_id = operational_id,
           src_ca_private_key = ca_private_key, src_rcac_tlv = rcac_tlv\<rparr>)))))))))))))))))"

subsection \<open>The fabric index of each node\<close>

text \<open>What an entry of a cached table claims: a node id of ours and its index\<close>

definition fabric_claim :: "codec \<Rightarrow> bytes \<Rightarrow> json \<Rightarrow> (u64 \<times> u64) option" where
  "fabric_claim cd root_public_key entry =
     Option.bind (as_object entry) (\<lambda>obj.
     Option.bind (om_get obj ''rootPublicKey'') (\<lambda>pk_value.
       case decode_bytes cd pk_value of
         Inl _ \<Rightarrow> None
       | Inr pk \<Rightarrow>
           if pk \<noteq> root_public_key then None
           else (case (om_get obj ''nodeId'', om_get obj ''fabricIndex'') of
                   (Some node_id_value, Some index_value) \<Rightarrow>
                     (case (decode_u64 cd node_id_value, decode_u64 cd index_value) of
                        (Inr node_id, Inr index) \<Rightarrow> Some (node_id, index)
                      | _ \<Rightarrow> None)
                 | _ \<Rightarrow> None)))"

type_synonym index_table = "(u64, rstring + u8) omap"

definition record_claim :: "rstring \<Rightarrow> u64 \<times> u64 \<Rightarrow> index_table \<Rightarrow> index_table" where
  "record_claim ctx claim table =
     (case claim of (node_id, index) \<Rightarrow>
        if \<not> (1 \<le> index \<and> index \<le> 254)
        then om_insert node_id
               (Err (''the cached fabric entry for this node (at '' @ ctx
                     @ '') has an out-of-range fabricIndex '' @ dec_of index)) table
        else (case om_get table node_id of
                None \<Rightarrow> om_insert node_id (Ok (ucast index)) table
              | Some (Inr prev) \<Rightarrow>
                  if prev = ucast index then table
                  else om_insert node_id
                         (Err (''two cached fabric tables claim node '' @ dec_of node_id
                               @ '' on our fabric with different fabric indexes; refusing to pick'')) table
              | Some (Inl _) \<Rightarrow> table))"

definition record_entry :: "codec \<Rightarrow> bytes \<Rightarrow> rstring \<Rightarrow> json \<Rightarrow> index_table \<Rightarrow> index_table" where
  "record_entry cd root_public_key ctx entry table =
     (case fabric_claim cd root_public_key entry of
        None \<Rightarrow> table | Some claim \<Rightarrow> record_claim ctx claim table)"

definition cached_entries :: "data \<Rightarrow> rstring \<Rightarrow> json list" where
  "cached_entries db ctx =
     (if starts_with ''nodes.peer'' ctx \<and> ends_with ''.endpoints.0.62'' ctx
      then (case Option.bind (jsdb_field db ctx ''1'') as_array of None \<Rightarrow> [] | Some array \<Rightarrow> array)
      else [])"

definition fabric_index_by_node_id :: "codec \<Rightarrow> data \<Rightarrow> bytes \<Rightarrow> index_table" where
  "fabric_index_by_node_id cd db root_public_key =
     fold (\<lambda>ctx. fold (record_entry cd root_public_key ctx) (cached_entries db ctx)) (context_keys db) []"

subsection \<open>The planned nodes\<close>

text \<open>\<open>format_node_date\<close> of milliseconds since 1970, and of the clock when the k-th entry is read\<close>

record dates =
  dt_of_millis :: "u64 \<Rightarrow> rstring"
  dt_now :: "nat \<Rightarrow> rstring"

definition em_dash :: rstring where
  "em_dash = [char_of (226 :: nat), char_of (128 :: nat), char_of (148 :: nat)]"

definition resolve_index :: "index_table \<Rightarrow> u64 \<Rightarrow> u8 \<times> fabric_index_source" where
  "resolve_index index_by_node node_id =
     (case om_get index_by_node node_id of
        Some (Inr index) \<Rightarrow> (index, MatchedByRootPublicKey)
      | Some (Inl reason) \<Rightarrow>
          (0, FallbackZero (reason @ '' '' @ em_dash @ '' removing this device will leave our fabric behind on it''))
      | None \<Rightarrow>
          (0, FallbackZero (''no cached fabric table names this node on our fabric (searched every nodes.peer*.endpoints.0.62 cache) ''
               @ em_dash @ '' removing this device will leave our fabric behind on it'')))"

definition plan_node ::
  "codec \<Rightarrow> dates \<Rightarrow> index_table \<Rightarrow> nat \<times> json \<times> json \<Rightarrow> convert_error + node_plan" where
  "plan_node cd dt index_by_node numbered =
     (case numbered of (k, key, v) \<Rightarrow>
        and_then (u64_field cd key ''nodes.commissionedNodes[key]'') (\<lambda>node_id.
        and_then (object_field v ''nodes.commissionedNodes[value]'') (\<lambda>obj.
        and_then (case Option.bind (om_get obj ''discoveryData'') (\<lambda>d. jget d ''discoveredAt'') of
                    Some ms_value \<Rightarrow>
                      and_then (u64_field cd ms_value ''nodes.commissionedNodes[value].discoveryData.discoveredAt'')
                        (\<lambda>ms. Ok (dt_of_millis dt ms))
                  | None \<Rightarrow> Ok (dt_now dt k)) (\<lambda>date.
        and_then (case Option.bind (om_get obj ''operationalServerAddress'') (\<lambda>a. jget a ''ip'') of
                    Some ip_value \<Rightarrow>
                      and_then (str_field cd ip_value ''nodes.commissionedNodes[value].operationalServerAddress.ip'')
                        (\<lambda>ip. Ok [ip_of ip])
                  | None \<Rightarrow> Ok []) (\<lambda>addresses.
          case resolve_index index_by_node node_id of (device_fabric_index, fabric_index) \<Rightarrow>
            Ok \<lparr>np_record = \<lparr>nr_node_id = node_id, nr_date_commissioned = date, nr_last_interview = date,
                            nr_device_fabric_index = device_fabric_index, nr_addresses = addresses,
                            nr_attributes = []\<rparr>,
                np_fabric_index = fabric_index\<rparr>)))))"

definition plan_id :: "node_plan \<Rightarrow> u64" where
  "plan_id p = nr_node_id (np_record p)"

definition plan_nodes :: "codec \<Rightarrow> dates \<Rightarrow> data \<Rightarrow> bytes \<Rightarrow> convert_error + node_plan list" where
  "plan_nodes cd dt db root_public_key =
     (case Option.bind (jsdb_get db ''nodes'') (\<lambda>nodes_ctx. om_get nodes_ctx ''commissionedNodes'') of
        None \<Rightarrow> Ok []
      | Some commissioned \<Rightarrow>
          and_then (map_err (Decode ''nodes.commissionedNodes'') (decode_map_entries cd commissioned)) (\<lambda>entries.
          and_then (collect_results (plan_node cd dt (fabric_index_by_node_id cd db root_public_key))
                      (enumerate 0 entries)) (\<lambda>plans.
            Ok (sort_key plan_id plans))))"

text \<open>The addition wraps, as in a release build.\<close>

definition config_from :: "source_fabric \<Rightarrow> node_plan list \<Rightarrow> config_data" where
  "config_from source nodes =
     \<lparr>cfg_fabric_label = normalize_fabric_label (Some (src_label source)),
      cfg_next_node_id = (case map plan_id nodes of [] \<Rightarrow> 1 | n # ns \<Rightarrow> fold max ns n + 1),
      cfg_wifi_credentials = [], cfg_thread_datasets = []\<rparr>"

end
