(* ===== verification/Identity.thy ===== *)
theory Identity
  imports Reports
begin

section \<open>The controller's identity (\<open>stack/src/identity.rs\<close>, \<open>stack/src/migration.rs\<close>)\<close>

text \<open>
  The fabric identity of the controller: loaded from \<open>server.json\<close> or minted on the first
  start, installed on the Matter instance, and rebuilt by the migration over a certificate
  authority that already exists. Certificates, keys and the Matter instance are rs-matter's: the
  record \<open>rs_matter\<close> holds what the source calls of it, over a state \<open>'m\<close> that stands for the
  instance and the random source.
\<close>

record new_fabric =
  nf_controller_key :: bytes
  nf_rcac :: bytes
  nf_noc :: bytes
  nf_ipk :: bytes
  nf_vendor_id :: u16
  nf_node_id :: u64

record 'm rs_matter =
  rm_generate_rcac :: "u64 \<Rightarrow> 'm \<Rightarrow> (rs_error + bytes \<times> bytes) \<times> 'm"
  rm_serial_number :: "bytes \<Rightarrow> rs_error + bytes"
  rm_cert_node_id :: "bytes \<Rightarrow> rs_error + u64"
  rm_cert_fabric_id :: "bytes \<Rightarrow> rs_error + u64"
  rm_cert_ca_id :: "bytes \<Rightarrow> rs_error + u64"
  rm_cert_pubkey :: "bytes \<Rightarrow> rs_error + bytes"
  rm_canon_key :: "bytes \<Rightarrow> rs_error + unit"
  rm_aead_key :: "bytes \<Rightarrow> rs_error + unit"
  rm_generate_key :: "'m \<Rightarrow> (rs_error + bytes) \<times> 'm"
  rm_csr :: "bytes \<Rightarrow> rs_error + bytes"
  rm_write_canon :: "bytes \<Rightarrow> rs_error + bytes"
  rm_noc_generator :: "bytes \<Rightarrow> bytes \<Rightarrow> u64 option \<Rightarrow> rs_error + unit"
  rm_generate_noc :: "bytes \<Rightarrow> bytes \<Rightarrow> u64 option \<Rightarrow> bytes \<Rightarrow> u64 \<Rightarrow> 'm \<Rightarrow> (rs_error + bytes) \<times> 'm"
  rm_random_ipk :: "'m \<Rightarrow> (rs_error + bytes) \<times> 'm"
  rm_fabric_add :: "new_fabric \<Rightarrow> 'm \<Rightarrow> (rs_error + u8 \<times> u64) \<times> 'm"
  rm_fabric_remove :: "u8 \<Rightarrow> 'm \<Rightarrow> (rs_error + unit) \<times> 'm"
  rm_fabric_label :: "u8 \<Rightarrow> rstring \<Rightarrow> 'm \<Rightarrow> (rs_error + unit) \<times> 'm"
  rm_compressed_id :: "new_fabric \<Rightarrow> rs_error + u64"
  rm_verify_chain :: "bytes \<Rightarrow> bytes \<Rightarrow> u64 \<Rightarrow> rs_error + unit"
  rm_verify_root :: "bytes \<Rightarrow> u64 \<Rightarrow> rs_error + unit"
  rm_operational_key :: "bytes \<Rightarrow> u64 \<Rightarrow> rs_error + bytes"
  rm_io_error :: "io_error \<Rightarrow> rs_error"

text \<open>The \<open>?\<close> operator on a call that changes the state\<close>

definition try_step ::
  "('s \<Rightarrow> ('e + 'a) \<times> 's) \<Rightarrow> ('a \<Rightarrow> 's \<Rightarrow> ('e + 'b) \<times> 's) \<Rightarrow> 's \<Rightarrow> ('e + 'b) \<times> 's" where
  "try_step f k s = (case f s of (r, s') \<Rightarrow> try_arg r k s')"

definition CONTROLLER_NODE_ID :: u64 where "CONTROLLER_NODE_ID = 112233"
definition FABRIC_LABEL_MAX_BYTES :: nat where "FABRIC_LABEL_MAX_BYTES = 32"
definition RCAC_DRAW_ATTEMPTS :: nat where "RCAC_DRAW_ATTEMPTS = 32"

definition invalid_data :: rs_error where
  "invalid_data = \<lparr>re_code = CodeOther, re_display = ''InvalidData''\<rparr>"

subsection \<open>Labels\<close>

text \<open>\<open>str::is_char_boundary\<close>: not at a continuation byte\<close>

definition is_char_boundary :: "rstring \<Rightarrow> nat \<Rightarrow> bool" where
  "is_char_boundary s i \<longleftrightarrow>
     i = 0 \<or> i = length s \<or> i < length s \<and> \<not> (128 \<le> byte (s ! i) \<and> byte (s ! i) < 192)"

fun char_floor :: "rstring \<Rightarrow> nat \<Rightarrow> nat" where
  "char_floor s 0 = 0"
| "char_floor s (Suc n) = (if is_char_boundary s (Suc n) then Suc n else char_floor s n)"

definition truncate_to_bytes :: "rstring \<Rightarrow> nat \<Rightarrow> rstring" where
  "truncate_to_bytes s max_bytes =
     (if length s \<le> max_bytes then s else take (char_floor s max_bytes) s)"

subsection \<open>Minting\<close>

definition serial_is_der_canonical :: "'m rs_matter \<Rightarrow> bytes \<Rightarrow> rs_error + bool" where
  "serial_is_der_canonical rs cert =
     and_then (rm_serial_number rs cert) (\<lambda>serial.
       case serial of
         [] \<Rightarrow> Ok False
       | first # rest \<Rightarrow>
           if and first 0x80 \<noteq> 0 then Ok False
           else Ok (\<not> (first = 0 \<and> (case rest of [] \<Rightarrow> False | b # _ \<Rightarrow> and b 0x80 = 0))))"

text \<open>The loop, with the draws that are left and the last error\<close>

fun draw_rcac ::
  "'m rs_matter \<Rightarrow> u64 \<Rightarrow> nat \<Rightarrow> rs_error option \<Rightarrow> 'm \<Rightarrow> (rs_error + bytes \<times> bytes) \<times> 'm" where
  "draw_rcac rs fabric_id 0 last_err m = (Err (or_else invalid_data last_err), m)"
| "draw_rcac rs fabric_id (Suc left) last_err m =
     (case rm_generate_rcac rs fabric_id m of
        (Inl e, m) \<Rightarrow> draw_rcac rs fabric_id left (Some e) m
      | (Inr (rcac_priv, rcac), m) \<Rightarrow>
          (case serial_is_der_canonical rs rcac of
             Inl e \<Rightarrow> (Err e, m)
           | Inr True \<Rightarrow> (Ok (rcac_priv, rcac), m)
           | Inr False \<Rightarrow> draw_rcac rs fabric_id left last_err m))"

definition generate_usable_rcac :: "'m rs_matter \<Rightarrow> u64 \<Rightarrow> 'm \<Rightarrow> (rs_error + bytes \<times> bytes) \<times> 'm" where
  "generate_usable_rcac rs fabric_id m = draw_rcac rs fabric_id RCAC_DRAW_ATTEMPTS None m"

definition finish_identity ::
  "'m rs_matter \<Rightarrow> u64 \<Rightarrow> u16 \<Rightarrow> bytes \<Rightarrow> bytes \<Rightarrow> 'm \<Rightarrow> (rs_error + server_identity) \<times> 'm" where
  "finish_identity rs fabric_id vendor_id rcac_priv rcac =
     try_step (rm_generate_key rs) (\<lambda>secret.
     try_arg (rm_csr rs secret) (\<lambda>csr.
     try_arg (rm_write_canon rs secret) (\<lambda>controller_key.
     try_arg (rm_noc_generator rs rcac_priv rcac None) (\<lambda>_.
     try_step (rm_generate_noc rs rcac_priv rcac None csr CONTROLLER_NODE_ID) (\<lambda>noc.
     try_step (rm_random_ipk rs) (\<lambda>ipk m.
       (Ok \<lparr>id_version = IDENTITY_VERSION, id_fabric_id = fabric_id, id_vendor_id = vendor_id,
            id_controller_node_id = CONTROLLER_NODE_ID, id_compressed_fabric_id = 0,
            id_ca_private_key = rcac_priv, id_rcac_tlv = rcac,
            id_controller_private_key = controller_key, id_controller_noc_tlv = noc, id_ipk = ipk\<rparr>, m)))))))"

definition generate_identity ::
  "'m rs_matter \<Rightarrow> u64 \<Rightarrow> u16 \<Rightarrow> 'm \<Rightarrow> (rs_error + server_identity) \<times> 'm" where
  "generate_identity rs fabric_id vendor_id =
     try_step (generate_usable_rcac rs fabric_id) (\<lambda>(rcac_priv, rcac).
       finish_identity rs fabric_id vendor_id rcac_priv rcac)"

subsection \<open>Installing\<close>

definition fabric_of :: "server_identity \<Rightarrow> new_fabric" where
  "fabric_of i =
     \<lparr>nf_controller_key = id_controller_private_key i, nf_rcac = id_rcac_tlv i,
      nf_noc = id_controller_noc_tlv i, nf_ipk = id_ipk i, nf_vendor_id = id_vendor_id i,
      nf_node_id = id_controller_node_id i\<rparr>"

definition install :: "'m rs_matter \<Rightarrow> server_identity \<Rightarrow> 'm \<Rightarrow> (rs_error + u8 \<times> u64) \<times> 'm" where
  "install rs i =
     try_arg (rm_cert_node_id rs (id_controller_noc_tlv i)) (\<lambda>noc_node_id.
       if noc_node_id \<noteq> id_controller_node_id i then (\<lambda>m. (Err invalid_data, m))
       else try_arg (rm_canon_key rs (id_controller_private_key i)) (\<lambda>_.
            try_arg (rm_aead_key rs (id_ipk i)) (\<lambda>_. rm_fabric_add rs (fabric_of i))))"

definition ensure_stored ::
  "b64_codec \<Rightarrow> u32 \<Rightarrow> 'm rs_matter \<Rightarrow> server_identity \<Rightarrow> 'm \<Rightarrow> fs
   \<Rightarrow> (rs_error + server_identity \<times> u8) \<times> 'm \<times> fs" where
  "ensure_stored b pid rs stored m s =
     (case install rs stored m of
        (Inl e, m) \<Rightarrow> (Err e, m, s)
      | (Inr (fab_idx, compressed), m) \<Rightarrow>
          if compressed \<noteq> id_compressed_fabric_id stored
          then let stored = stored\<lparr>id_compressed_fabric_id := compressed\<rparr>
               in (Ok (stored, fab_idx), m, snd (save_identity b pid stored s))
          else (Ok (stored, fab_idx), m, s))"

definition ensure_fresh ::
  "b64_codec \<Rightarrow> u32 \<Rightarrow> 'm rs_matter \<Rightarrow> u64 \<Rightarrow> u16 \<Rightarrow> 'm \<Rightarrow> fs
   \<Rightarrow> (rs_error + server_identity \<times> u8) \<times> 'm \<times> fs" where
  "ensure_fresh b pid rs fabric_id vendor_id m s =
     (case generate_identity rs fabric_id vendor_id m of
        (Inl e, m) \<Rightarrow> (Err e, m, s)
      | (Inr i, m) \<Rightarrow>
          (case install rs i m of
             (Inl e, m) \<Rightarrow> (Err e, m, s)
           | (Inr (fab_idx, compressed), m) \<Rightarrow>
               let i = i\<lparr>id_compressed_fabric_id := compressed\<rparr>
               in (case create_identity b pid i s of
                     (Inl e, s) \<Rightarrow> (Err (rm_io_error rs e), snd (rm_fabric_remove rs fab_idx m), s)
                   | (Inr _, s) \<Rightarrow> (Ok (i, fab_idx), m, s))))"

definition ensure_identity ::
  "b64_codec \<Rightarrow> u32 \<Rightarrow> 'm rs_matter \<Rightarrow> u64 \<Rightarrow> u16 \<Rightarrow> rstring \<Rightarrow> 'm \<Rightarrow> fs
   \<Rightarrow> (rs_error + server_identity \<times> u8) \<times> 'm \<times> fs" where
  "ensure_identity b pid rs fabric_id vendor_id fabric_label m s =
     (case load_identity b s of
        (Inl e, s) \<Rightarrow> (Err (rm_io_error rs e), m, s)
      | (Inr found, s) \<Rightarrow>
          (case (case found of
                   Some stored \<Rightarrow> ensure_stored b pid rs stored m s
                 | None \<Rightarrow> ensure_fresh b pid rs fabric_id vendor_id m s) of
             (Inl e, m, s) \<Rightarrow> (Err e, m, s)
           | (Inr (i, fab_idx), m, s) \<Rightarrow>
               (Ok (i, fab_idx),
                snd (rm_fabric_label rs fab_idx (truncate_to_bytes fabric_label FABRIC_LABEL_MAX_BYTES) m), s)))"

subsection \<open>The migration's helpers\<close>

definition sdk_error :: "rstring \<Rightarrow> rs_error \<Rightarrow> stack_error" where
  "sdk_error ctx e = stack_error_new Sdk (ctx @ '': Error::'' @ re_display e)"

definition sdk :: "rstring \<Rightarrow> rs_error + 'a \<Rightarrow> stack_error + 'a" where
  "sdk ctx = Prelude.map_err (sdk_error ctx)"

text \<open>The clock in seconds since 1970; the product wraps.\<close>

definition verify_identity :: "'m rs_matter \<Rightarrow> u64 \<Rightarrow> server_identity \<Rightarrow> stack_error + unit" where
  "verify_identity rs now_secs i =
     and_then (sdk ''controller_noc_tlv does not parse as a Matter TLV certificate''
                 (rm_cert_node_id rs (id_controller_noc_tlv i))) (\<lambda>noc_node_id.
       if noc_node_id \<noteq> id_controller_node_id i
       then Err (stack_error_new Sdk (''the minted NOC'' @ [CHR 0x27] @ ''s subject node id '' @ dec_of noc_node_id
              @ '' does not match controller_node_id '' @ dec_of (id_controller_node_id i)))
       else let now = (if MATTER_EPOCH_OFFSET_S \<le> now_secs then now_secs - MATTER_EPOCH_OFFSET_S else 0) * 1000000
            in and_then (sdk ''the controller NOC does not chain to the RCAC''
                   (rm_verify_chain rs (id_controller_noc_tlv i) (id_rcac_tlv i) now)) (\<lambda>_.
                 sdk ''the RCAC did not verify as a chain root'' (rm_verify_root rs (id_rcac_tlv i) now)))"

definition preserved_ca_agrees :: "'m rs_matter \<Rightarrow> bytes \<Rightarrow> u64 \<Rightarrow> stack_error + unit" where
  "preserved_ca_agrees rs rcac fabric_id =
     (case rm_cert_fabric_id rs rcac of
        Inr found \<Rightarrow>
          if found = fabric_id then Ok ()
          else Err (stack_error_new Sdk (''the preserved RCAC carries fabric id '' @ dec_of found
                      @ '', not the requested '' @ dec_of fabric_id))
      | Inl e \<Rightarrow>
          if \<not> is_ok (rm_cert_ca_id rs rcac)
          then Err (sdk_error ''rcac_tlv does not parse as a Matter TLV certificate'' e) else Ok ())"

definition try_sdk :: "rstring \<Rightarrow> ('m \<Rightarrow> (rs_error + 'a) \<times> 'm) \<Rightarrow> ('a \<Rightarrow> 'm \<Rightarrow> (stack_error + 'b) \<times> 'm)
   \<Rightarrow> 'm \<Rightarrow> (stack_error + 'b) \<times> 'm" where
  "try_sdk ctx f k m = (case f m of (r, m) \<Rightarrow> try_arg (sdk ctx r) k m)"

definition identity_from_preserved_ca ::
  "'m rs_matter \<Rightarrow> u64 \<Rightarrow> bytes \<Rightarrow> bytes \<Rightarrow> u64 \<Rightarrow> u16 \<Rightarrow> u64 \<Rightarrow> bytes \<Rightarrow> 'm
   \<Rightarrow> (stack_error + server_identity) \<times> 'm" where
  "identity_from_preserved_ca rs now_secs ca_private_key rcac fabric_id vendor_id node_id ipk_epoch_key =
     try_arg (preserved_ca_agrees rs rcac fabric_id) (\<lambda>_.
     try_arg (sdk ''ca_private_key is not a canonical P-256 secret key'' (rm_canon_key rs ca_private_key)) (\<lambda>_.
     try_sdk ''generating the controller key pair'' (rm_generate_key rs) (\<lambda>secret.
     try_arg (sdk ''building the controller CSR'' (rm_csr rs secret)) (\<lambda>csr.
     try_arg (sdk ''serialising the controller key'' (rm_write_canon rs secret)) (\<lambda>controller_key.
     try_arg (sdk ''preparing the NOC generator over the preserved CA''
        (rm_noc_generator rs ca_private_key rcac (Some fabric_id))) (\<lambda>_.
     try_sdk ''minting the controller NOC''
        (rm_generate_noc rs ca_private_key rcac (Some fabric_id) csr node_id) (\<lambda>noc.
     try_arg (sdk ''ipk_epoch_key is not a 16-byte AEAD key'' (rm_aead_key rs ipk_epoch_key)) (\<lambda>_.
     try_arg (sdk ''installing the preserved fabric'' (rm_compressed_id rs
        \<lparr>nf_controller_key = controller_key, nf_rcac = rcac, nf_noc = noc, nf_ipk = ipk_epoch_key,
         nf_vendor_id = vendor_id, nf_node_id = node_id\<rparr>)) (\<lambda>compressed m.
       let i = \<lparr>id_version = IDENTITY_VERSION, id_fabric_id = fabric_id, id_vendor_id = vendor_id,
                id_controller_node_id = node_id, id_compressed_fabric_id = compressed,
                id_ca_private_key = ca_private_key, id_rcac_tlv = rcac,
                id_controller_private_key = controller_key, id_controller_noc_tlv = noc,
                id_ipk = ipk_epoch_key\<rparr>
       in try_arg (verify_identity rs now_secs i) (\<lambda>_ m. (Ok i, m)) m)))))))))"

definition derive_operational_ipk :: "'m rs_matter \<Rightarrow> bytes \<Rightarrow> u64 \<Rightarrow> stack_error + bytes" where
  "derive_operational_ipk rs ipk_epoch_key compressed =
     and_then (sdk ''ipk_epoch_key is not a 16-byte AEAD key'' (rm_aead_key rs ipk_epoch_key)) (\<lambda>_.
       sdk ''deriving the operational IPK'' (rm_operational_key rs ipk_epoch_key compressed))"

definition rcac_public_key :: "'m rs_matter \<Rightarrow> bytes \<Rightarrow> stack_error + bytes" where
  "rcac_public_key rs rcac =
     sdk ''rcac_tlv does not parse as a Matter TLV certificate'' (rm_cert_pubkey rs rcac)"

definition rcac_serial_is_der_canonical :: "'m rs_matter \<Rightarrow> bytes \<Rightarrow> stack_error + bool" where
  "rcac_serial_is_der_canonical rs rcac =
     sdk ''rcac_tlv does not parse as a Matter TLV certificate'' (serial_is_der_canonical rs rcac)"

definition generate_ca :: "'m rs_matter \<Rightarrow> u64 \<Rightarrow> 'm \<Rightarrow> (stack_error + bytes \<times> bytes) \<times> 'm" where
  "generate_ca rs fabric_id = try_sdk ''generating a CA'' (generate_usable_rcac rs fabric_id) (\<lambda>ca m. (Ok ca, m))"

end
