(* ===== verification/Migrate.thy ===== *)
theory Migrate
  imports Convert Identity
begin

section \<open>The migration (\<open>migrate/src/checks.rs\<close>, \<open>migrate/src/lib.rs\<close>)\<close>

text \<open>
  The five self-checks, the report, and \<open>run\<close>: read the store, rebuild the identity over the
  old certificate authority, plan the nodes, check, and write the new store. The target directory
  is the file system of \<open>Files\<close>; creating its directories, the listing of the source and path
  resolution are what the operating system answers.
\<close>

subsection \<open>Numbers and lists as the reports print them\<close>

definition to_be_bytes :: "u64 \<Rightarrow> bytes" where
  "to_be_bytes w = map (\<lambda>k. ucast (drop_bit (8 * k) w)) [7, 6, 5, 4, 3, 2, 1, 0]"

fun join_with :: "rstring \<Rightarrow> rstring list \<Rightarrow> rstring" where
  "join_with sep [] = []"
| "join_with sep [s] = s"
| "join_with sep (s # t # ss) = s @ sep @ join_with sep (t # ss)"

fun kind_debug :: "stack_error_kind \<Rightarrow> rstring" where
  "kind_debug NodeUnreachable = ''NodeUnreachable''"
| "kind_debug Busy = ''Busy''"
| "kind_debug Timeout = ''Timeout''"
| "kind_debug SeInvalidArguments = ''InvalidArguments''"
| "kind_debug Sdk = ''Sdk''"

definition flat_error :: "stack_error \<Rightarrow> rstring" where
  "flat_error e = kind_debug (se_kind e) @ '': '' @ se_message e"

subsection \<open>The self-checks\<close>

record check_outcome =
  co_name :: rstring
  co_passed :: bool
  co_detail :: rstring

definition outcome :: "rstring \<Rightarrow> bool \<Rightarrow> rstring \<Rightarrow> check_outcome" where
  "outcome name passed detail = \<lparr>co_name = name, co_passed = passed, co_detail = detail\<rparr>"

definition check_fabric_identity :: "codec \<Rightarrow> server_identity \<Rightarrow> source_fabric \<Rightarrow> check_outcome" where
  "check_fabric_identity cd i source =
     outcome ''fabric-identity'' (to_be_bytes (id_compressed_fabric_id i) = src_operational_id source)
       (''ours '' @ hex_padded 16 (unat (id_compressed_fabric_id i)) @ '' vs source ''
        @ cd_hex_encode cd (src_operational_id source))"

definition check_admin_identity ::
  "'m rs_matter \<Rightarrow> u64 \<Rightarrow> server_identity \<Rightarrow> source_fabric \<Rightarrow> check_outcome" where
  "check_admin_identity rs now_secs i source =
     (case verify_identity rs now_secs i of
        Inr _ \<Rightarrow>
          if id_controller_node_id i = src_controller_node_id source
          then outcome ''admin-identity'' True
                 (''controller node id '' @ dec_of (id_controller_node_id i) @ '' verifies against the RCAC'')
          else outcome ''admin-identity'' False
                 (''identity.controller_node_id '' @ dec_of (id_controller_node_id i)
                  @ '' != source.controller_node_id '' @ dec_of (src_controller_node_id source))
      | Inl e \<Rightarrow> outcome ''admin-identity'' False (flat_error e))"

definition check_ipk_choice ::
  "codec \<Rightarrow> 'm rs_matter \<Rightarrow> server_identity \<Rightarrow> source_fabric \<Rightarrow> check_outcome" where
  "check_ipk_choice cd rs i source =
     (case derive_operational_ipk rs (id_ipk i) (id_compressed_fabric_id i) of
        Inr derived \<Rightarrow>
          if derived = src_operational_ipk source
          then outcome ''ipk-choice'' True
                 (''derived operational IPK matches the source'' @ [CHR 0x27] @ ''s'')
          else outcome ''ipk-choice'' False
                 (''derived operational IPK '' @ cd_hex_encode cd derived @ '' != source'' @ [CHR 0x27]
                  @ ''s operational_ipk '' @ cd_hex_encode cd (src_operational_ipk source))
      | Inl e \<Rightarrow> outcome ''ipk-choice'' False (flat_error e))"

definition check_node_accounting :: "config_data \<Rightarrow> node_plan list \<Rightarrow> check_outcome" where
  "check_node_accounting config nodes =
     (let colliding = filter (\<lambda>i. cfg_next_node_id config \<le> i) (map plan_id nodes);
          passed = (colliding = [])
      in outcome ''node-accounting'' passed
           (if passed
            then ''next_node_id '' @ dec_of (cfg_next_node_id config) @ '' is past every one of ''
                 @ dec_of_nat (length nodes) @ '' planned node(s)''
            else ''next_node_id '' @ dec_of (cfg_next_node_id config)
                 @ '' would collide with commissioned node id(s) [''
                 @ join_with '', '' (map dec_of colliding) @ '']''))"

text \<open>The two lists the loop fills: the fallbacks and the inconsistencies\<close>

definition sanity_of :: "node_plan \<Rightarrow> rstring list \<times> rstring list" where
  "sanity_of n =
     (let index = nr_device_fabric_index (np_record n); node = ''node '' @ dec_of (plan_id n)
      in case np_fabric_index n of
           MatchedByRootPublicKey \<Rightarrow>
             if index = 0 then ([], [node @ '' is MatchedByRootPublicKey but device_fabric_index is 0'']) else ([], [])
         | FallbackZero reason \<Rightarrow>
             if index \<noteq> 0
             then ([], [node @ '' has device_fabric_index '' @ dec_of index
                        @ '' but its fabric_index source is FallbackZero ('' @ reason @ '')''])
             else ([node @ '' '' @ em_dash @ '' FALLBACK 0 '' @ em_dash @ '' '' @ reason], []))"

definition check_fabric_index_sanity :: "node_plan list \<Rightarrow> check_outcome" where
  "check_fabric_index_sanity nodes =
     (let fallbacks = concat (map (fst \<circ> sanity_of) nodes); inconsistent = concat (map (snd \<circ> sanity_of) nodes)
      in outcome ''fabric-index-sanity'' (inconsistent = [])
           (if inconsistent \<noteq> [] then join_with ''; '' inconsistent
            else if fallbacks = [] then ''every planned node'' @ [CHR 0x27] @ ''s fabric index was matched by root public key''
            else join_with ''; '' fallbacks))"

definition run_all ::
  "codec \<Rightarrow> 'm rs_matter \<Rightarrow> u64 \<Rightarrow> server_identity \<Rightarrow> source_fabric \<Rightarrow> config_data \<Rightarrow> node_plan list
   \<Rightarrow> check_outcome list" where
  "run_all cd rs now_secs i source config nodes =
     [check_fabric_identity cd i source,
      check_admin_identity rs now_secs i source,
      check_ipk_choice cd rs i source,
      check_node_accounting config nodes,
      check_fabric_index_sanity nodes]"

subsection \<open>The report\<close>

record migrate_report =
  rp_namespace :: rstring
  rp_fabric_id :: u64
  rp_compressed_fabric_id :: u64
  rp_vendor_id :: u16
  rp_controller_node_id :: u64
  rp_fabric_label :: rstring
  rp_next_node_id :: u64
  rp_nodes :: "(u64 \<times> u8 \<times> fabric_index_source) list"
  rp_checks :: "check_outcome list"
  rp_rcac_serial_note :: "rstring option"
  rp_ignored_python_leftovers :: "rstring list"
  rp_wrote :: "path option"

definition report_ok :: "migrate_report \<Rightarrow> bool" where
  "report_ok r = list_all co_passed (rp_checks r)"

definition how_text :: "fabric_index_source \<Rightarrow> rstring" where
  "how_text how = (case how of
     MatchedByRootPublicKey \<Rightarrow> ''matched by root public key''
   | FallbackZero reason \<Rightarrow> ''FALLBACK 0 '' @ em_dash @ '' '' @ reason)"

definition report_lines :: "migrate_report \<Rightarrow> rstring list" where
  "report_lines r =
     [''matter.js namespace: '' @ rp_namespace r, [],
      ''fabric id:            '' @ dec_of (rp_fabric_id r),
      ''compressed fabric id: '' @ hex_padded 16 (unat (rp_compressed_fabric_id r)),
      ''vendor id:            0x'' @ hex_padded 4 (unat (rp_vendor_id r)),
      ''controller node id:   '' @ dec_of (rp_controller_node_id r),
      ''fabric label:         '' @ rp_fabric_label r,
      ''next node id:         '' @ dec_of (rp_next_node_id r), []]
     @ (if rp_nodes r = [] then [''nodes: none'']
        else ''nodes:'' # map (\<lambda>(i, index, how). ''  node '' @ dec_of i @ '': fabric index '' @ dec_of index
                                 @ '' '' @ em_dash @ '' '' @ how_text how) (rp_nodes r))
     @ [[]]
     @ map (\<lambda>c. (if co_passed c then ''ok'' else ''FAILED'') @ '' '' @ co_name c @ '' '' @ em_dash @ '' '' @ co_detail c)
         (rp_checks r)
     @ (case rp_rcac_serial_note r of None \<Rightarrow> [] | Some note \<Rightarrow> [[], note])
     @ (if rp_ignored_python_leftovers r = [] then []
        else [[], ''ignored python-server leftovers at the top level of --from (not read, not used as source of truth): ''
                  @ join_with '', '' (rp_ignored_python_leftovers r)])
     @ [[]]
     @ [case rp_wrote r of
          Some p \<Rightarrow> ''wrote '' @ p
        | None \<Rightarrow> ''dry run '' @ em_dash @ '' nothing written (pass --write to migrate)'']"

subsection \<open>Python leftovers\<close>

definition is_lowercase_hex :: "char \<Rightarrow> bool" where
  "is_lowercase_hex c \<longleftrightarrow> is_digit c \<or> (97 \<le> byte c \<and> byte c \<le> 102)"

text \<open>The length is in bytes.\<close>

definition is_hex16_json :: "rstring \<Rightarrow> bool" where
  "is_hex16_json name =
     (case strip_suffix ''.json'' name of
        Some stem \<Rightarrow> length stem = 16 \<and> list_all is_lowercase_hex stem
      | None \<Rightarrow> False)"

datatype file_kind = KindDir | KindFile | KindOther

record top_entry =
  te_name :: rstring
  te_kind :: "io_error + file_kind"

definition leftover :: "io_error + top_entry \<Rightarrow> rstring list" where
  "leftover entry =
     (case entry of
        Inl _ \<Rightarrow> []
      | Inr e \<Rightarrow>
          let name = from_utf8_lossy (te_name e)
          in case te_kind e of
               Inl _ \<Rightarrow> []
             | Inr KindDir \<Rightarrow> if name = ''certificates'' \<or> name = ''credentials'' then [name] else []
             | Inr KindFile \<Rightarrow>
                 if (starts_with ''chip_'' name \<and> ends_with ''.ini'' name) \<or> is_hex16_json name then [name] else []
             | Inr KindOther \<Rightarrow> [])"

definition scan_python_leftovers :: "io_error + (io_error + top_entry) list \<Rightarrow> rstring list" where
  "scan_python_leftovers entries = (case entries of Inl _ \<Rightarrow> [] | Inr es \<Rightarrow> sort (concat (map leftover es)))"

subsection \<open>The run\<close>

definition RCAC_SERIAL_NOTE :: rstring where
  "RCAC_SERIAL_NOTE =
     ''the migrated RCAC'' @ [CHR 0x27] @ ''s serial number is not canonical DER; the server ''
     @ ''will warn about it at every boot. For a migrated fabric this is EXPECTED and HARMLESS ''
     @ em_dash @ '' every commissioned device already trusts this exact root. ''
     @ ''It limits nothing except commissioning new matter.js-based test devices.''"

record options =
  opt_from :: path
  opt_to :: path
  opt_write :: bool

datatype migrate_error =
    FromJsdb jsdb_error
  | FromConvert convert_error
  | Stack rstring
  | SamePath
  | Write path io_error

text \<open>
  What the run asks of the operating system and the packages: the source store, the codecs, the
  dates, the clock, the listing of the source directory, whether a path exists and what it resolves
  to, and the creation of the target directories.
\<close>

record migrate_env =
  me_reader :: store_reader
  me_codec :: codec
  me_b64 :: b64_codec
  me_pid :: u32
  me_dates :: dates
  me_now_secs :: u64
  me_top :: "io_error + (io_error + top_entry) list"
  me_exists :: "path \<Rightarrow> bool"
  me_canonicalize :: "path \<Rightarrow> io_error + path"
  me_open :: "path \<Rightarrow> io_error + unit"

text \<open>
  Two \<open>PathBuf\<close>s are equal when their components are: repeated and trailing separators and
  dots that do not come first in a relative path do not count.
\<close>

definition path_components :: "path \<Rightarrow> bool \<times> rstring list" where
  "path_components p =
     (let parts = filter (\<lambda>c. c \<noteq> []) (split_on (CHR ''/'') p); plain = filter (\<lambda>c. c \<noteq> ''.'')
      in if starts_with ''/'' p then (True, plain parts)
         else (False, case parts of
                 [] \<Rightarrow> []
               | c # cs \<Rightarrow> if c = ''.'' then c # plain cs else plain parts))"

definition same_store :: "migrate_env \<Rightarrow> options \<Rightarrow> bool" where
  "same_store env opts \<longleftrightarrow>
     path_components (opt_from opts) = path_components (opt_to opts)
     \<or> me_exists env (opt_to opts)
       \<and> (case (me_canonicalize env (opt_from opts), me_canonicalize env (opt_to opts)) of
            (Inr from_canon, Inr to_canon) \<Rightarrow> path_components from_canon = path_components to_canon
          | _ \<Rightarrow> False)"

text \<open>What the reading half of a run arrives at\<close>

record migration_plan =
  mp_identity :: server_identity
  mp_nodes :: "node_plan list"
  mp_config :: config_data
  mp_report :: migrate_report

definition plan_migration ::
  "migrate_env \<Rightarrow> 'm rs_matter \<Rightarrow> options \<Rightarrow> 'm \<Rightarrow> (migrate_error + migration_plan) \<times> 'm" where
  "plan_migration env rs opts =
     (let cd = me_codec env; stack_err = (\<lambda>e. Stack (flat_error e))
      in try_arg (Prelude.map_err FromJsdb (open_store (me_reader env) (opt_from opts))) (\<lambda>(db, namespace).
         try_arg (Prelude.map_err FromConvert (read_source_fabric cd db)) (\<lambda>source.
         try_arg (Prelude.map_err stack_err (rcac_public_key rs (src_rcac_tlv source))) (\<lambda>root_public_key.
         try_step (\<lambda>m. case identity_from_preserved_ca rs (me_now_secs env) (src_ca_private_key source)
                       (src_rcac_tlv source) (src_fabric_id source) (src_vendor_id source)
                       (src_controller_node_id source) (src_ipk_epoch_key source) m of
                     (r, m) \<Rightarrow> (Prelude.map_err stack_err r, m)) (\<lambda>identity.
         try_arg (Prelude.map_err FromConvert (plan_nodes cd (me_dates env) db root_public_key)) (\<lambda>nodes.
           let config = config_from source nodes;
               outcomes = run_all cd rs (me_now_secs env) identity source config nodes
           in try_arg (Prelude.map_err stack_err (rcac_serial_is_der_canonical rs (src_rcac_tlv source))) (\<lambda>canonical m.
                (Ok \<lparr>mp_identity = identity, mp_nodes = nodes, mp_config = config,
                     mp_report =
                       \<lparr>rp_namespace = namespace, rp_fabric_id = src_fabric_id source,
                        rp_compressed_fabric_id = id_compressed_fabric_id identity,
                        rp_vendor_id = src_vendor_id source,
                        rp_controller_node_id = id_controller_node_id identity,
                        rp_fabric_label = cfg_fabric_label config,
                        rp_next_node_id = cfg_next_node_id config,
                        rp_nodes = map (\<lambda>n. (plan_id n, nr_device_fabric_index (np_record n), np_fabric_index n)) nodes,
                        rp_checks = outcomes,
                        rp_rcac_serial_note = (if canonical then None else Some RCAC_SERIAL_NOTE),
                        rp_ignored_python_leftovers = scan_python_leftovers (me_top env),
                        rp_wrote = None\<rparr>\<rparr>, m))))))))"

fun save_plans :: "u32 \<Rightarrow> path \<Rightarrow> node_plan list \<Rightarrow> fs \<Rightarrow> (migrate_error + unit) \<times> fs" where
  "save_plans pid to [] s = (Ok (), s)"
| "save_plans pid to (p # ps) s =
     (case save_node pid (np_record p) s of
        (Inl e, s) \<Rightarrow> (Err (Write (join (join to ''nodes'') (dec_of (plan_id p) @ ''.json'')) e), s)
      | (Inr _, s) \<Rightarrow> save_plans pid to ps s)"

definition write_migration ::
  "migrate_env \<Rightarrow> path \<Rightarrow> server_identity \<Rightarrow> config_data \<Rightarrow> node_plan list \<Rightarrow> fs \<Rightarrow> (migrate_error + unit) \<times> fs" where
  "write_migration env to identity config nodes s =
     (let pid = me_pid env
      in case me_open env to of
           Inl e \<Rightarrow> (Err (Write to e), s)
         | Inr _ \<Rightarrow>
             (case create_identity (me_b64 env) pid identity s of
                (Inl e, s) \<Rightarrow> (Err (Write (join to ''server.json'') e), s)
              | (Inr _, s) \<Rightarrow>
                  (case save_config pid config s of
                     (Inl e, s) \<Rightarrow> (Err (Write (join to ''config.json'') e), s)
                   | (Inr _, s) \<Rightarrow>
                       (case save_plans pid to nodes s of
                          (Inl e, s) \<Rightarrow> (Err e, s)
                        | (Inr _, s) \<Rightarrow>
                            (case load_nodes s of
                               (loaded, s) \<Rightarrow>
                                 if length loaded \<noteq> length nodes
                                 then (Err (Write (join to ''nodes'') (OsError IoOther
                                        (''planned '' @ dec_of_nat (length nodes) @ '' node file(s) but found ''
                                         @ dec_of_nat (length loaded) @ '' after writing''))), s)
                                 else (Ok (), s))))))"

definition run ::
  "migrate_env \<Rightarrow> 'm rs_matter \<Rightarrow> options \<Rightarrow> 'm \<Rightarrow> fs \<Rightarrow> (migrate_error + migrate_report) \<times> 'm \<times> fs" where
  "run env rs opts m s =
     (if same_store env opts then (Err SamePath, m, s)
      else case plan_migration env rs opts m of
             (Inl e, m) \<Rightarrow> (Err e, m, s)
           | (Inr plan, m) \<Rightarrow>
               if \<not> report_ok (mp_report plan) \<or> \<not> opt_write opts then (Ok (mp_report plan), m, s)
               else (case write_migration env (opt_to opts) (mp_identity plan) (mp_config plan) (mp_nodes plan) s of
                       (Inl e, s) \<Rightarrow> (Err e, m, s)
                     | (Inr _, s) \<Rightarrow> (Ok ((mp_report plan)\<lparr>rp_wrote := Some (opt_to opts)\<rparr>), m, s)))"

subsection \<open>The exit code (\<open>main.rs\<close>)\<close>

text \<open>What the process exits with once the report or the error is printed\<close>

definition migrate_exit_code :: "migrate_error + migrate_report \<Rightarrow> nat" where
  "migrate_exit_code r =
     (case r of
        Inr report \<Rightarrow> if report_ok report then 0 else 1
      | Inl _ \<Rightarrow> 1)"

end
