(* ===== verification/Identity_Facts.thy ===== *)
theory Identity_Facts
  imports Identity Storage_Facts
begin

section \<open>What the controller's identity guarantees\<close>

text \<open>
  A first start either leaves a saved identity or no trace; a \<open>server.json\<close> that exists is
  never replaced by a minted one; what is minted carries a serial number every DER encoder agrees
  on; and a clamped label is still a string.
\<close>

subsection \<open>Serial numbers\<close>

text \<open>
  The reference: the contents octets DER gives a non-negative INTEGER, that is its base 256
  digits, with a zero octet in front when there are none or the first would read as a sign.
\<close>

fun be_digits :: "nat \<Rightarrow> bytes" where
  "be_digits n = (if n = 0 then [] else be_digits (n div 256) @ [of_nat (n mod 256)])"

declare be_digits.simps [simp del]

definition der_integer :: "nat \<Rightarrow> bytes" where
  "der_integer n = (case be_digits n of
     [] \<Rightarrow> [0] | d # ds \<Rightarrow> if 128 \<le> unat d then 0 # d # ds else d # ds)"

definition be_val :: "bytes \<Rightarrow> nat" where
  "be_val bs = foldl (\<lambda>n b. 256 * n + unat b) 0 bs"

lemma be_val_simps: "be_val [] = 0" "be_val (bs @ [b]) = 256 * be_val bs + unat b"
  by (simp_all add: be_val_def)

lemma unat_byte_less: "unat (b :: u8) < 256"
  using unsigned_less[of b] by simp

lemma be_val_eq_0: "be_val bs = 0 \<longleftrightarrow> dropWhile (\<lambda>b. b = 0) bs = []"
  by (induction bs rule: rev_induct) (auto simp: be_val_simps dropWhile_append unat_eq_0)

lemma be_digits_be_val: "be_digits (be_val bs) = dropWhile (\<lambda>b. b = 0) bs"
proof (induction bs rule: rev_induct)
  case (snoc b bs)
  have split: "(256 * be_val bs + unat b) div 256 = be_val bs" "(256 * be_val bs + unat b) mod 256 = unat b"
    using unat_byte_less[of b] by simp_all
  show ?case
  proof (cases "be_val bs = 0 \<and> b = 0")
    case True
    then show ?thesis using be_val_eq_0[of bs] by (simp add: be_val_simps be_digits.simps dropWhile_append)
  next
    case False
    then have "be_val (bs @ [b]) \<noteq> 0" by (auto simp: be_val_simps unat_eq_0)
    then have "be_digits (be_val (bs @ [b])) = be_digits (be_val bs) @ [b]"
      using unat_byte_less[of b] by (subst be_digits.simps) (simp add: be_val_simps split)
    then show ?thesis using False snoc be_val_eq_0[of bs] by (auto simp: dropWhile_append)
  qed
qed (simp add: be_val_simps be_digits.simps)

lemma top_bit: "and (b :: u8) 0x80 \<noteq> 0 \<longleftrightarrow> 128 \<le> unat b"
proof -
  have "and b (2 ^ 7) = 0 \<longleftrightarrow> \<not> bit b 7" by (rule and_exp_eq_0_iff_not_bit)
  moreover have "bit b 7 \<longleftrightarrow> odd (unat b div 128)"
  proof -
    have "bit (unat b) 7 \<longleftrightarrow> bit b 7" by (simp add: bit_unsigned_iff)
    then show ?thesis by (simp add: bit_iff_odd[of "unat b"])
  qed
  moreover have "odd (unat b div 128) \<longleftrightarrow> 128 \<le> unat b"
  proof (cases "unat b < 128")
    case False
    then have "unat b div 128 = 1" using unat_byte_less[of b] by (intro div_nat_eqI) simp_all
    then show ?thesis using False by simp
  qed simp
  ultimately show ?thesis by simp
qed

text \<open>
  C19: The check the source makes on the bytes of a serial number agrees with the reference: it
  accepts exactly the serial numbers that are the DER encoding of the number they spell, so
  that a peer that encodes the certificate afresh signs the same bytes.
\<close>

theorem serial_check_is_der:
  assumes "rm_serial_number rs cert = Ok serial"
  shows "serial_is_der_canonical rs cert = Ok (serial = der_integer (be_val serial))"
proof (cases serial)
  case Nil
  then show ?thesis using assms
    by (simp add: serial_is_der_canonical_def der_integer_def be_val_simps be_digits.simps)
next
  case (Cons b bs)
  show ?thesis
  proof (cases "b = 0")
    case False
    then show ?thesis using assms Cons
      by (auto simp: serial_is_der_canonical_def der_integer_def be_digits_be_val top_bit)
  next
    case True
    then show ?thesis
    proof (cases bs)
      case Nil
      then show ?thesis using assms Cons True
        by (simp add: serial_is_der_canonical_def der_integer_def be_digits_be_val)
    next
      case (Cons c cs)
      have "dropWhile (\<lambda>b. b = 0) cs \<noteq> 0 # c # cs"
        using length_dropWhile_le[of "\<lambda>b. b = 0" cs] by (metis impossible_Cons le_Suc_eq length_Cons)
      then show ?thesis using assms \<open>serial = b # bs\<close> Cons True
        by (auto simp: serial_is_der_canonical_def der_integer_def be_digits_be_val top_bit
            split: list.splits)
    qed
  qed
qed

text \<open>An instance for the examples: a list of RCACs to draw, and the installed fabrics\<close>

definition sample_rs :: "(bytes list \<times> (u8 \<rightharpoonup> new_fabric)) rs_matter" where
  "sample_rs =
     \<lparr>rm_generate_rcac = (\<lambda>f (ds, fs). case ds of [] \<Rightarrow> (Err invalid_data, (ds, fs)) | d # ds \<Rightarrow> (Ok ([1], d), (ds, fs))),
      rm_serial_number = Ok,
      rm_cert_node_id = (\<lambda>c. Ok CONTROLLER_NODE_ID),
      rm_cert_fabric_id = (\<lambda>c. Err invalid_data),
      rm_cert_ca_id = (\<lambda>c. Ok 1),
      rm_cert_pubkey = Ok,
      rm_canon_key = (\<lambda>k. Ok ()),
      rm_aead_key = (\<lambda>k. Ok ()),
      rm_generate_key = (\<lambda>m. (Ok [2], m)),
      rm_csr = (\<lambda>k. Ok [3]),
      rm_write_canon = Ok,
      rm_noc_generator = (\<lambda>k c f. Ok ()),
      rm_generate_noc = (\<lambda>k c f r n m. (Ok [4], m)),
      rm_random_ipk = (\<lambda>m. (Ok [5], m)),
      rm_fabric_add = (\<lambda>f (ds, fs). if fs 1 = None then (Ok (1, 77), (ds, fs(1 \<mapsto> f))) else (Err invalid_data, (ds, fs))),
      rm_fabric_remove = (\<lambda>k (ds, fs). (Ok (), (ds, fs(k := None)))),
      rm_fabric_label = (\<lambda>k l m. (Ok (), m)),
      rm_compressed_id = (\<lambda>f. Ok 77),
      rm_verify_chain = (\<lambda>n c t. Ok ()),
      rm_verify_root = (\<lambda>c t. Ok ()),
      rm_operational_key = (\<lambda>k c. Ok k),
      rm_io_error = (\<lambda>e. invalid_data)\<rparr>"

theorem serial_check_is_der_witness:
  "serial_is_der_canonical sample_rs [0, 200] = Ok ([0, 200] = der_integer (be_val [0, 200]))
   \<and> der_integer (be_val [0, 200]) = [0, 200]"
proof -
  have "rm_serial_number sample_rs [0, 200] = Ok [0, 200]" by (simp add: sample_rs_def)
  from serial_check_is_der[OF this] show ?thesis
    by (simp add: der_integer_def be_digits_be_val)
qed

subsection \<open>The first start\<close>

text \<open>
  What rs-matter documents of the calls on its fabric table: adding uses an index that was free,
  removing an installed fabric succeeds, and nothing else touches the table.
\<close>

definition keeps :: "('m \<Rightarrow> 'f) \<Rightarrow> ('m \<Rightarrow> 'r \<times> 'm) \<Rightarrow> bool" where
  "keeps fabrics f \<longleftrightarrow> (\<forall>m. fabrics (snd (f m)) = fabrics m)"

definition fabric_contract :: "'m rs_matter \<Rightarrow> ('m \<Rightarrow> u8 \<rightharpoonup> new_fabric) \<Rightarrow> bool" where
  "fabric_contract rs fabrics \<longleftrightarrow>
     (\<forall>f m. case rm_fabric_add rs f m of
        (Inl e, m') \<Rightarrow> fabrics m' = fabrics m
      | (Inr (k, c), m') \<Rightarrow> fabrics m k = None \<and> fabrics m' = (fabrics m)(k \<mapsto> f))
   \<and> (\<forall>k m. fabrics m k \<noteq> None \<longrightarrow> fabrics (snd (rm_fabric_remove rs k m)) = (fabrics m)(k := None))
   \<and> (\<forall>f. keeps fabrics (rm_generate_rcac rs f)) \<and> keeps fabrics (rm_generate_key rs)
   \<and> (\<forall>k c f r n. keeps fabrics (rm_generate_noc rs k c f r n)) \<and> keeps fabrics (rm_random_ipk rs)
   \<and> (\<forall>k l. keeps fabrics (rm_fabric_label rs k l))"

lemma keeps_try_step: "keeps F f \<Longrightarrow> (\<And>a. keeps F (k a)) \<Longrightarrow> keeps F (try_step f k)"
  by (auto simp: keeps_def try_step_def try_arg_def split: prod.splits sum.splits) (metis snd_conv)+

lemma keeps_try_arg: "(\<And>a. keeps F (k a)) \<Longrightarrow> keeps F (try_arg r k)"
  by (auto simp: keeps_def try_arg_def split: sum.splits)

lemma keeps_pure: "keeps F (\<lambda>m. (r, m))"
  by (simp add: keeps_def)

lemma try_step_Ok:
  "try_step f k s = (Ok b, s') \<longleftrightarrow> (\<exists>a s1. f s = (Ok a, s1) \<and> k a s1 = (Ok b, s'))"
  by (auto simp: try_step_def try_arg_def split: prod.splits sum.splits)

lemma try_arg_Ok: "try_arg r k s = (Ok b, s') \<longleftrightarrow> (\<exists>a. r = Ok a \<and> k a s = (Ok b, s'))"
  by (auto simp: try_arg_def split: sum.splits)

lemma draw_rcac_keeps:
  "\<forall>f. keeps F (rm_generate_rcac rs f) \<Longrightarrow> F (snd (draw_rcac rs f n e m)) = F m"
proof (induction n arbitrary: e m)
  case (Suc n)
  obtain r m1 where g: "rm_generate_rcac rs f m = (r, m1)" by fastforce
  then have "F m1 = F m" using Suc.prems by (metis keeps_def snd_conv)
  then show ?case using Suc g by (simp split: sum.splits bool.splits)
qed simp

lemma draw_rcac_canonical:
  "draw_rcac rs f n e m = (Ok (priv, rcac), m') \<Longrightarrow> serial_is_der_canonical rs rcac = Ok True"
  by (induction n arbitrary: e m) (auto split: prod.splits sum.splits bool.splits)

lemma generate_identity_keeps:
  assumes "fabric_contract rs F"
  shows "keeps F (generate_identity rs fid vid)"
proof -
  have "keeps F (generate_usable_rcac rs fid)"
    using assms by (simp add: keeps_def[of _ "generate_usable_rcac rs fid"] generate_usable_rcac_def
        draw_rcac_keeps fabric_contract_def)
  moreover have "keeps F (finish_identity rs fid vid p r)" for p r
    using assms unfolding finish_identity_def fabric_contract_def
    by (intro keeps_try_step keeps_try_arg keeps_pure) simp_all
  ultimately show ?thesis
    unfolding generate_identity_def by (intro keeps_try_step) (simp_all split: prod.split)
qed

lemma generate_identity_Ok:
  assumes "generate_identity rs fid vid m = (Ok i, m')"
  shows "id_fabric_id i = fid \<and> id_vendor_id i = vid \<and> id_version i = IDENTITY_VERSION
       \<and> id_controller_node_id i = CONTROLLER_NODE_ID
       \<and> serial_is_der_canonical rs (id_rcac_tlv i) = Ok True"
  using assms
  by (auto simp: generate_identity_def finish_identity_def try_step_Ok try_arg_Ok
      generate_usable_rcac_def dest!: draw_rcac_canonical)

lemma install_cases:
  assumes "install rs i m = (r, m')" and "fabric_contract rs F"
  shows "case r of Inl e \<Rightarrow> F m' = F m | Inr (k, c) \<Rightarrow> F m k = None \<and> F m' = (F m)(k \<mapsto> fabric_of i)"
proof -
  have "case rm_fabric_add rs (fabric_of i) m of (Inl e, m') \<Rightarrow> F m' = F m
      | (Inr (k, c), m') \<Rightarrow> F m k = None \<and> F m' = (F m)(k \<mapsto> fabric_of i)"
    using assms(2)[unfolded fabric_contract_def, THEN conjunct1] by (rule allE) (erule spec)
  then show ?thesis
    using assms(1) by (auto simp: install_def try_arg_def split: sum.splits if_splits prod.splits)
qed

lemma try_exists_keeps: "fs_get (snd (try_exists p s)) q = fs_get s q"
  by (simp add: try_exists_def Let_def split: option.splits)

lemma create_identity_outcome:
  assumes "create_identity b pid i s = (r, s')"
  shows "(r = Ok () \<longrightarrow> fs_get s server_path = None
            \<and> (\<exists>n. fs_get s' server_path = Some n \<and> fn_content n = Doc (server_identity_json b i) \<and> fn_private n))
       \<and> (r \<noteq> Ok () \<longrightarrow> fs_get s' server_path = fs_get s server_path)"
proof -
  obtain r1 s1 where t: "try_exists server_path s = (r1, s1)" by fastforce
  then have same: "fs_get s1 server_path = fs_get s server_path" using try_exists_keeps by (metis snd_conv)
  have absent: "fs_get s server_path = None" if "r1 = Ok False"
    using t that by (auto simp: try_exists_def Let_def split: option.splits)
  show ?thesis
    using assms t same absent write_json_atomic_outcome[of pid server_path "server_identity_json b i" True s1 r s']
    by (auto simp: create_identity_def split: sum.splits bool.splits)
qed

lemma load_identity_keeps: "fs_get (snd (load_identity b s)) q = fs_get s q"
  by (auto simp: load_identity_def read_json_strict_def read_file_def Let_def
      split: prod.splits sum.splits fcontent.splits option.splits if_splits)

text \<open>
  C17: A first start is saved or undone. When \<open>server.json\<close> is not there,
  \<open>ensure_identity\<close> either succeeds, with exactly one fabric added to the instance, that
  of an identity with the requested ids and a serial number strict peers accept, and with that
  identity in the file, readable by its owner only; or it fails, at whichever call, with the
  fabrics of the instance and the file as they were.
\<close>

theorem first_start_saved_or_undone:
  assumes "fabric_contract rs fabrics" and "fst (load_identity b s) = Ok None"
    and "ensure_identity b pid rs fid vid l m s = (r, m', s')"
  shows "case r of
      Inr (i, k) \<Rightarrow>
        fabrics m k = None \<and> fabrics m' = (fabrics m)(k \<mapsto> fabric_of i)
        \<and> id_fabric_id i = fid \<and> id_vendor_id i = vid \<and> id_controller_node_id i = CONTROLLER_NODE_ID
        \<and> serial_is_der_canonical rs (id_rcac_tlv i) = Ok True
        \<and> (\<exists>n. fs_get s' server_path = Some n \<and> fn_content n = Doc (server_identity_json b i) \<and> fn_private n)
    | Inl e \<Rightarrow> fabrics m' = fabrics m \<and> fs_get s' server_path = fs_get s server_path"
proof -
  obtain s1 where load: "load_identity b s = (Ok None, s1)" using assms(2) by (metis prod.collapse)
  then have file1: "fs_get s1 server_path = fs_get s server_path"
    using load_identity_keeps by (metis snd_conv)
  obtain g m1 where gen: "generate_identity rs fid vid m = (g, m1)" by fastforce
  have m1: "fabrics m1 = fabrics m"
    using generate_identity_keeps[OF assms(1), of fid vid] gen by (metis keeps_def snd_conv)
  show ?thesis
  proof (cases g)
    case (Inl e)
    then show ?thesis using assms(3) load gen m1 file1 by (auto simp: ensure_identity_def ensure_fresh_def)
  next
    case (Inr i)
    obtain q m2 where inst: "install rs i m1 = (q, m2)" by fastforce
    note fab = install_cases[OF inst assms(1)]
    show ?thesis
    proof (cases q)
      case (Inl e)
      then show ?thesis using assms(3) load gen Inr inst m1 file1 fab
        by (auto simp: ensure_identity_def ensure_fresh_def)
    next
      case q: (Inr kc)
      obtain k c where kc: "kc = (k, c)" by fastforce
      let ?i = "i\<lparr>id_compressed_fabric_id := c\<rparr>"
      obtain w s2 where create: "create_identity b pid ?i s1 = (w, s2)" by fastforce
      note file2 = create_identity_outcome[OF create]
      have installed: "fabrics m k = None" "fabrics m2 = (fabrics m)(k \<mapsto> fabric_of i)"
        using fab q kc m1 by simp_all
      show ?thesis
      proof (cases w)
        case (Inl e)
        have "fabrics (snd (rm_fabric_remove rs k m2)) = fabrics m"
          using assms(1) installed by (simp add: fabric_contract_def fun_upd_idem)
        then show ?thesis using assms(3) load gen Inr inst q kc create Inl file1 file2
          by (auto simp: ensure_identity_def ensure_fresh_def)
      next
        case (Inr u)
        have "fabrics (snd (rm_fabric_label rs k lab m2)) = fabrics m2" for lab
          using assms(1) by (simp add: fabric_contract_def keeps_def)
        moreover have "fabric_of ?i = fabric_of i" by (simp add: fabric_of_def)
        ultimately show ?thesis
          using assms(3) load gen \<open>g = Inr i\<close> inst q kc create Inr file2 installed
            generate_identity_Ok[of rs fid vid m i m1]
          by (auto simp: ensure_identity_def ensure_fresh_def)
      qed
    qed
  qed
qed

lemma sample_contract: "fabric_contract sample_rs snd"
  by (auto simp: fabric_contract_def keeps_def sample_rs_def split: list.splits prod.splits)

text \<open>Of two draws the first has a serial number whose top bit is set; no file is there.\<close>

definition first_identity :: server_identity where
  "first_identity = \<lparr>id_version = IDENTITY_VERSION, id_fabric_id = 1, id_vendor_id = 0xFFF1,
    id_controller_node_id = CONTROLLER_NODE_ID, id_compressed_fabric_id = 77, id_ca_private_key = [1],
    id_rcac_tlv = [7], id_controller_private_key = [2], id_controller_noc_tlv = [4], id_ipk = [5]\<rparr>"

lemma sample_first_start:
  assumes "\<forall>k. fs_fault s k = None" and "fs_get s server_path = None"
  shows "\<exists>s'. ensure_identity raw_codec pid sample_rs 1 0xFFF1 l ([[200], [7]], Map.empty) s
      = (Ok (first_identity, 1), snd (rm_fabric_label sample_rs 1 (truncate_to_bytes l FABRIC_LABEL_MAX_BYTES)
           ([], [1 \<mapsto> fabric_of first_identity])), s')"
proof -
  let ?i = "first_identity" and ?m = "([[200], [7]], Map.empty)" and ?s = "s\<lparr>fs_calls := Suc (fs_calls s)\<rparr>"
  have load: "load_identity raw_codec s = (Ok None, ?s)"
    using assms by (simp add: load_identity_def read_json_strict_def read_file_def fs_get_def)
  have serial: "serial_is_der_canonical sample_rs [200] = Ok False" "serial_is_der_canonical sample_rs [7] = Ok True"
    by (simp_all add: serial_is_der_canonical_def sample_rs_def top_bit)
  have drawn: "generate_usable_rcac sample_rs 1 ?m = (Ok ([1], [7]), ([], Map.empty))"
    using serial by (simp add: generate_usable_rcac_def RCAC_DRAW_ATTEMPTS_def numeral_eq_Suc sample_rs_def)
  have gen: "generate_identity sample_rs 1 0xFFF1 ?m = (Ok (?i\<lparr>id_compressed_fabric_id := 0\<rparr>), ([], Map.empty))"
    by (simp add: generate_identity_def finish_identity_def try_step_def[of "generate_usable_rcac _ _"]
        try_arg_def drawn first_identity_def)
      (simp add: sample_rs_def try_step_def try_arg_def)
  have inst: "install sample_rs (?i\<lparr>id_compressed_fabric_id := 0\<rparr>) ([], Map.empty) = (Ok (1, 77), ([], [1 \<mapsto> fabric_of ?i]))"
    by (simp add: install_def try_arg_def sample_rs_def first_identity_def fabric_of_def)
  obtain s' where "create_identity raw_codec pid ?i ?s = (Ok (), s')"
  proof -
    have "try_exists server_path ?s = (Ok False, s\<lparr>fs_calls := Suc (Suc (fs_calls s))\<rparr>)"
      using assms by (simp add: try_exists_def fs_get_def)
    moreover obtain s' where "write_json_atomic pid server_path (server_identity_json raw_codec ?i) True
        (s\<lparr>fs_calls := Suc (Suc (fs_calls s))\<rparr>) = (Ok (), s')"
      using write_json_atomic_no_fault[of "s\<lparr>fs_calls := Suc (Suc (fs_calls s))\<rparr>" server_path pid
          "server_identity_json raw_codec ?i" True] assms
      by (auto simp: server_path_def)
    ultimately show ?thesis using that by (simp add: create_identity_def)
  qed
  moreover have "?i\<lparr>id_compressed_fabric_id := 77\<rparr> = ?i" by (simp add: first_identity_def)
  ultimately show ?thesis
    using load gen inst by (simp add: ensure_identity_def ensure_fresh_def)
qed

theorem first_start_saved_or_undone_witness:
  "\<exists>i. fst (ensure_identity raw_codec 7 sample_rs 1 0xFFF1 ''Home'' ([[200], [7]], Map.empty) fresh_fs) = Ok (i, 1)
     \<and> id_rcac_tlv i = [7]
     \<and> (\<exists>n. fs_get (snd (snd (ensure_identity raw_codec 7 sample_rs 1 0xFFF1 ''Home'' ([[200], [7]], Map.empty) fresh_fs))) server_path = Some n
          \<and> fn_content n = Doc (server_identity_json raw_codec i) \<and> fn_private n)"
proof -
  have none: "fst (load_identity raw_codec fresh_fs) = Ok None"
    by (simp add: load_identity_def read_json_strict_def read_file_def fresh_fs_def fs_get_def)
  obtain s' where run: "ensure_identity raw_codec 7 sample_rs 1 0xFFF1 ''Home'' ([[200], [7]], Map.empty) fresh_fs
      = (Ok (first_identity, 1), snd (rm_fabric_label sample_rs 1 (truncate_to_bytes ''Home'' FABRIC_LABEL_MAX_BYTES)
           ([], [1 \<mapsto> fabric_of first_identity])), s')"
    using sample_first_start[of fresh_fs 7 "''Home''"] by (auto simp: fresh_fs_def fs_get_def)
  from first_start_saved_or_undone[OF sample_contract none run] run show ?thesis
    by (simp add: first_identity_def)
qed

subsection \<open>Every later start\<close>

text \<open>
  C18: A \<open>server.json\<close> that exists is never replaced by a minted identity, in whatever state
  the file is and whatever system call fails. A start that succeeds uses the stored identity,
  with at most the compressed fabric id corrected to the one derived from its certificates; and
  afterwards the file is as it was or holds that corrected identity.
\<close>

theorem stored_identity_is_kept:
  assumes "fs_get s server_path = Some n"
    and "ensure_identity b pid rs fid vid l m s = (r, m', s')"
  shows "(\<forall>i k. r = Ok (i, k) \<longrightarrow>
            (\<exists>v stored. fn_content n = Doc v \<and> server_identity_of_json b v = Some stored
               \<and> i = stored\<lparr>id_compressed_fabric_id := id_compressed_fabric_id i\<rparr>
               \<and> fst (install rs stored m) = Ok (k, id_compressed_fabric_id i)))
       \<and> (fs_get s' server_path = Some n \<or>
           (\<exists>i k n'. r = Ok (i, k) \<and> fs_get s' server_path = Some n' \<and> fn_content n' = Doc (server_identity_json b i)))"
proof -
  obtain f s1 where load: "load_identity b s = (f, s1)" by fastforce
  then have file1: "fs_get s1 server_path = Some n"
    using load_identity_keeps assms(1) by (metis snd_conv)
  show ?thesis
  proof (cases f)
    case (Inl e)
    then show ?thesis using assms(2) load file1 by (auto simp: ensure_identity_def)
  next
    case (Inr found)
    show ?thesis
    proof (cases found)
      case None
      have "\<exists>e m' s'. ensure_fresh b pid rs fid vid m s1 = (Err e, m', s') \<and> fs_get s' server_path = Some n"
        using create_identity_outcome file1
        by (fastforce simp: ensure_fresh_def Let_def split: prod.split sum.split)
      then show ?thesis using assms(2) load Inr None by (auto simp: ensure_identity_def)
    next
      case (Some stored)
      have doc: "\<exists>v. fn_content n = Doc v \<and> server_identity_of_json b v = Some stored"
        using load Inr Some assms(1)
        by (auto simp: load_identity_def read_json_strict_def read_file_def Let_def
            split: prod.splits sum.splits fcontent.splits option.splits if_splits)
      obtain q m2 where inst: "install rs stored m = (q, m2)" by fastforce
      show ?thesis
      proof (cases q)
        case (Inl e)
        then show ?thesis using assms(2) load Inr Some inst file1
          by (auto simp: ensure_identity_def ensure_stored_def)
      next
        case q: (Inr kc)
        obtain k c where kc: "kc = (k, c)" by fastforce
        let ?i = "stored\<lparr>id_compressed_fabric_id := c\<rparr>"
        obtain w s2 where save: "save_identity b pid ?i s1 = (w, s2)" by fastforce
        have "fs_get s2 server_path = Some n \<or>
              (\<exists>n'. fs_get s2 server_path = Some n' \<and> fn_content n' = Doc (server_identity_json b ?i))"
          using write_json_atomic_outcome[OF save[unfolded save_identity_def]] file1 by metis
        then show ?thesis using assms(2) load Inr Some inst q kc save file1 doc
          by (cases "c = id_compressed_fabric_id stored") (auto simp: ensure_identity_def ensure_stored_def)
      qed
    qed
  qed
qed

theorem stored_identity_is_kept_witness:
  "let s = fs_put server_path \<lparr>fn_content = Junk, fn_private = True\<rparr> fresh_fs;
       out = ensure_identity raw_codec 7 sample_rs 1 0xFFF1 ''Home'' ([[7]], Map.empty) s
   in (\<forall>a. fst out \<noteq> Ok a) \<and> fs_get (snd (snd out)) server_path = fs_get s server_path"
proof -
  let ?s = "fs_put server_path \<lparr>fn_content = Junk, fn_private = True\<rparr> fresh_fs"
  obtain r m' s' where run: "ensure_identity raw_codec 7 sample_rs 1 0xFFF1 ''Home'' ([[7]], Map.empty) ?s = (r, m', s')"
    by (metis prod_cases3)
  have "fs_get ?s server_path = Some \<lparr>fn_content = Junk, fn_private = True\<rparr>" by (simp add: fs_get_put)
  from this stored_identity_is_kept[OF this run] run show ?thesis by (auto simp: Let_def)
qed

subsection \<open>Clamped labels\<close>

lemma in_range_widen: "in_range lo hi s i \<Longrightarrow> 128 \<le> lo \<Longrightarrow> hi \<le> 191 \<Longrightarrow> in_range 128 191 s i"
  by (auto simp: in_range_def)

lemma utf8_piece_length: "utf8_piece s = (ok, n) \<Longrightarrow> n \<le> 4"
  by (auto simp: utf8_piece_def Let_def split: if_splits)

lemma utf8_piece_continuation:
  assumes "utf8_piece s = (True, n)" and "s \<noteq> []" and "0 < i" and "i < n"
  shows "\<not> is_char_boundary s i"
proof -
  have n: "n \<le> length s" using utf8_piece_take(2)[OF assms(1,2)] .
  have "i = 1 \<or> i = 2 \<or> i = 3" using utf8_piece_length[OF assms(1)] assms(3,4) by linarith
  then have "in_range 128 191 s i"
    using assms(1,4) unfolding utf8_piece_def Let_def
    by (elim disjE) (auto split: if_splits dest: in_range_widen)
  then show ?thesis using assms(3,4) n by (auto simp: is_char_boundary_def in_range_def)
qed

lemma valid_utf8_take_boundary:
  "valid_utf8 s \<Longrightarrow> is_char_boundary s i \<Longrightarrow> valid_utf8 (take i s)"
proof (induction arbitrary: i rule: valid_utf8.induct)
  case (piece s n)
  have n: "n \<le> length s" using utf8_piece_take(2)[OF piece(2,1)] .
  consider "i = 0" | "n \<le> i" using utf8_piece_continuation[OF piece(2,1), of i] piece.prems by fastforce
  then show ?case
  proof cases
    case 2
    then have "is_char_boundary (drop n s) (i - n)"
      using piece.prems n by (auto simp: is_char_boundary_def)
    from valid_utf8_prepend[OF piece(2,1) piece.IH[OF this]] show ?thesis
      using 2 by (simp add: take_add[symmetric])
  qed (simp add: valid_utf8.empty)
qed (simp add: valid_utf8.empty)

lemma char_floor_bounds:
  "char_floor s n \<le> n \<and> is_char_boundary s (char_floor s n)
   \<and> (\<forall>k \<le> n. is_char_boundary s k \<longrightarrow> k \<le> char_floor s n)"
  by (induction n) (auto simp: is_char_boundary_def le_Suc_eq)

text \<open>
  Clamping a label cuts it at a character: what is left of a well-formed string is well
  formed, a prefix, within the budget, and the longest such prefix that ends at a character
  boundary.
\<close>

theorem clamped_label_is_longest_prefix:
  assumes "valid_utf8 s"
  shows "valid_utf8 (truncate_to_bytes s n) \<and> length (truncate_to_bytes s n) \<le> n
       \<and> (\<exists>rest. s = truncate_to_bytes s n @ rest)
       \<and> (\<forall>k \<le> n. is_char_boundary s k \<longrightarrow> k \<le> length (truncate_to_bytes s n))"
proof (cases "length s \<le> n")
  case True
  then show ?thesis using assms by (auto simp: truncate_to_bytes_def is_char_boundary_def)
next
  case False
  let ?k = "char_floor s n"
  have k: "?k \<le> n" "is_char_boundary s ?k" "\<forall>k \<le> n. is_char_boundary s k \<longrightarrow> k \<le> ?k"
    using char_floor_bounds[of s n] by simp_all
  have "s = take ?k s @ drop ?k s" by simp
  then show ?thesis
    using False k valid_utf8_take_boundary[OF assms k(2)]
    by (simp add: truncate_to_bytes_def) (metis append_take_drop_id)
qed

text \<open>Three letters with umlauts, two bytes each, in five bytes: two letters\<close>

theorem clamped_label_is_longest_prefix_witness:
  "let u = [char_of (195 :: nat), char_of (164 :: nat)]
   in truncate_to_bytes (u @ u @ u) 5 = u @ u \<and> valid_utf8 (truncate_to_bytes (u @ u @ u) 5)"
proof -
  let ?u = "[char_of (195 :: nat), char_of (164 :: nat)]"
  have p: "utf8_piece ?u = (True, 2)" by code_simp
  have v: "valid_utf8 (?u @ t)" if "valid_utf8 t" for t
    using valid_utf8_prepend[OF p _ that] by simp
  have "valid_utf8 (?u @ ?u @ ?u @ [])" by (intro v valid_utf8.empty)
  from clamped_label_is_longest_prefix[OF this, of 5]
  have "valid_utf8 (truncate_to_bytes (?u @ ?u @ ?u) 5)" by simp
  moreover have "truncate_to_bytes (?u @ ?u @ ?u) 5 = ?u @ ?u" by code_simp
  ultimately show ?thesis by (simp add: Let_def)
qed

end
