(* ===== verification/Migrate_Sample.thy ===== *)
theory Migrate_Sample
  imports Migrate Identity_Facts
begin

section \<open>A small matter.js store\<close>

text \<open>
  A store for the examples: one namespace with a plain snapshot and no log, a fabric with one
  certificate authority, the given commissioned nodes, and one cached fabric table that names node 8.
  A file's text is its path; a tagged byte string is read as the characters between its prefix and
  the closing brace.
\<close>

definition chars :: "nat list \<Rightarrow> rstring" where "chars ns = map char_of ns"

definition tagged_text :: "rstring \<Rightarrow> json" where
  "tagged_text body = JStr (TAG_PREFIX @ body @ ''}'')"

definition sample_codec :: codec where
  "sample_codec =
     \<lparr>cd_parse = (\<lambda>s. Ok (JObj [(''__object__'', JStr ''Uint8Array''), (''__value__'', JStr s)])),
      cd_print = (\<lambda>v. []),
      cd_hex_decode = (\<lambda>s. Ok (map (\<lambda>c. of_nat (byte c)) (butlast (drop (length TAG_PREFIX) s)))),
      cd_hex_encode = (\<lambda>b. []),
      cd_quoted = (\<lambda>s. s),
      cd_int_error = (\<lambda>s. [])\<rparr>"

definition sample_dates :: dates where
  "sample_dates = \<lparr>dt_of_millis = dec_of, dt_now = (\<lambda>k. ''now'')\<rparr>"

definition num :: "u64 \<Rightarrow> json" where "num n = JNum (PosInt n)"

definition sample_key :: rstring where "sample_key = ''0123456789abcdef''"
definition sample_cert :: rstring where "sample_cert = ''c''"

definition sample_db :: "json list \<Rightarrow> data" where
  "sample_db nodes =
     [(''certificates'',
         [(''rootCertBytes'', tagged_text sample_cert),
          (''rootKeyPair'', JObj [(''privateKey'', tagged_text (sample_key @ sample_key))])]),
      (''credentials'',
         [(''fabric'', JObj
            [(''fabricId'', num 1), (''identityProtectionKey'', tagged_text sample_key),
             (''nodeId'', num 112233), (''operationalId'', tagged_text (chars [0, 0, 0, 0, 0, 0, 0, 77])),
             (''operationalIdentityProtectionKey'', tagged_text sample_key), (''rootVendorId'', num 0xFFF1)])]),
      (''nodes'', [(''commissionedNodes'', JArr nodes)]),
      (''nodes.peer1.endpoints.0.62'',
         [(''1'', JArr [JObj [(''fabricIndex'', num 3), (''nodeId'', num 8),
                              (''rootPublicKey'', tagged_text sample_cert)]])])]"

definition node_entry_json :: "u64 \<Rightarrow> json" where "node_entry_json n = JArr [num n, JObj []]"

definition sample_source :: source_fabric where
  "sample_source =
     \<lparr>src_fabric_id = 1, src_controller_node_id = 112233, src_vendor_id = 0xFFF1, src_label = [],
      src_ipk_epoch_key = map (\<lambda>c. of_nat (byte c)) sample_key,
      src_operational_ipk = map (\<lambda>c. of_nat (byte c)) sample_key,
      src_operational_id = [0, 0, 0, 0, 0, 0, 0, 77],
      src_ca_private_key = map (\<lambda>c. of_nat (byte c)) (sample_key @ sample_key),
      src_rcac_tlv = [99]\<rparr>"

definition sample_plan_node :: "u64 \<Rightarrow> node_plan" where
  "sample_plan_node n =
     \<lparr>np_record = \<lparr>nr_node_id = n, nr_date_commissioned = ''now'', nr_last_interview = ''now'',
                   nr_device_fabric_index = (if n = 8 then 3 else 0), nr_addresses = [], nr_attributes = []\<rparr>,
      np_fabric_index =
        (if n = 8 then MatchedByRootPublicKey
         else FallbackZero (''no cached fabric table names this node on our fabric (searched every nodes.peer*.endpoints.0.62 cache) ''
               @ em_dash @ '' removing this device will leave our fabric behind on it''))\<rparr>"

lemma sample_bytes: "decode_bytes sample_codec (tagged_text body) = Ok (map (\<lambda>c. of_nat (byte c)) body)"
proof -
  have "starts_with TAG_PREFIX (TAG_PREFIX @ body @ ''}'')" by (simp add: starts_with_def)
  moreover have "ends_with ''}'' (TAG_PREFIX @ body @ ''}'')" by (simp add: starts_with_def ends_with_def)
  moreover have "parse_tagged_inner sample_codec (TAG_PREFIX @ body @ ''}'') = Ok (TaggedBytes (map (\<lambda>c. of_nat (byte c)) body))"
    by (simp add: parse_tagged_inner_def sample_codec_def jget.simps om_get_def BIGINT_TAGS_def NUMBER_TAGS_def butlast_append)
  ultimately show ?thesis by (simp add: decode_bytes_def parse_tagged_def tagged_text_def)
qed

lemma sample_num: "decode_u64 sample_codec (num n) = Ok n"
  by (simp add: decode_u64_def parse_tagged_def num_def)

lemma sample_read: "read_source_fabric sample_codec (sample_db nodes) = Ok sample_source"
  by (simp add: read_source_fabric_def sample_db_def jsdb_get_def om_get_def need_def object_field_def
      number_field_def u64_field_def sample_num key_field_def bytes_field_def sample_bytes check_len_def
      sample_source_def sample_key_def sample_cert_def chars_def byte_def)

lemma sample_index:
  "fabric_index_by_node_id sample_codec (sample_db nodes) [99] = [(8, Ok 3)]"
proof -
  have entries: "cached_entries (sample_db nodes) ctx =
      (if ctx = ''nodes.peer1.endpoints.0.62'' then
         [JObj [(''fabricIndex'', num 3), (''nodeId'', num 8), (''rootPublicKey'', tagged_text sample_cert)]] else [])"
    if "ctx \<in> set (context_keys (sample_db nodes))" for ctx
    using that
    by (auto simp: cached_entries_def sample_db_def context_keys_def om_keys_def jsdb_field_def om_get_def
        starts_with_def ends_with_def)
  have claim: "fabric_claim sample_codec [99]
      (JObj [(''fabricIndex'', num 3), (''nodeId'', num 8), (''rootPublicKey'', tagged_text sample_cert)]) = Some (8, 3)"
    by (simp add: fabric_claim_def om_get_def sample_bytes sample_num sample_cert_def byte_def)
  show ?thesis
    using entries
    by (simp add: fabric_index_by_node_id_def context_keys_def sample_db_def om_keys_def record_entry_def claim
        record_claim_def om_get_def)
qed

lemma sample_plan:
  "plan_nodes sample_codec sample_dates (sample_db (map node_entry_json ns)) [99]
   = Ok (sort_key plan_id (map sample_plan_node ns))"
proof -
  have entries: "decode_map_entries sample_codec (JArr (map node_entry_json ns)) = Ok (map (\<lambda>n. (num n, JObj [])) ns)"
  proof -
    have "pair_entries (map node_entry_json ns) = Ok (map (\<lambda>n. (num n, JObj [])) ns)"
      by (induction ns) (simp_all add: node_entry_json_def)
    then show ?thesis by (simp add: decode_map_entries_def parse_tagged_def entries_from_array_def)
  qed
  have node: "plan_node sample_codec sample_dates [(8, Ok 3)] (k, num n, JObj []) = Ok (sample_plan_node n)" for k n
    by (simp add: plan_node_def u64_field_def sample_num object_field_def om_get_def sample_dates_def
        resolve_index_def sample_plan_node_def)
  have "collect_results (plan_node sample_codec sample_dates [(8, Ok 3)]) (enumerate k (map (\<lambda>n. (num n, JObj [])) ns))
      = Ok (map sample_plan_node ns)" for k
    by (induction ns arbitrary: k) (simp_all add: node)
  moreover have "om_get (sample_db js) ''nodes'' = Some [(''commissionedNodes'', JArr js)]" for js
    by (simp add: sample_db_def om_get_def)
  moreover have "om_get [(''commissionedNodes'', v)] ''commissionedNodes'' = Some v" for v :: json
    by (simp add: om_get_def)
  ultimately show ?thesis
    by (simp add: plan_nodes_def jsdb_get_def entries sample_index)
qed

definition sample_snapshot :: "u64 list \<Rightarrow> json" where
  "sample_snapshot ns =
     JObj [(''commitId'', JObj [(''offset'', num 0), (''segment'', num 0)]),
           (''data'', JObj (map (\<lambda>(k, c). (k, JObj c)) (sample_db (map node_entry_json ns))))]"

definition sample_reader :: "u64 list \<Rightarrow> store_reader" where
  "sample_reader ns =
     \<lparr>rd_read = Ok,
      rd_list = (\<lambda>p. if p = ''/old'' then Ok [Ok \<lparr>de_name = ''server-1'', de_is_dir = Ok True\<rparr>]
                     else Err (OsError IoNotFound [])),
      rd_meta = (\<lambda>p. if p = ''/old/server-1/snapshot.json'' then Some None else None),
      rd_gunzip = Ok,
      rd_parse = (\<lambda>s. if s = ''/old/server-1/driver.json''
                      then Ok (JObj [(''kind'', JStr ''wal''), (''type'', JStr ''kv'')])
                      else Ok (sample_snapshot ns)),
      rd_mismatch = (\<lambda>v. [])\<rparr>"

lemma sample_opened: "open_store (sample_reader ns) ''/old'' = Ok (sample_db (map node_entry_json ns), ''server-1'')"
proof -
  have utf8: "from_utf8_lossy ''server-1'' = ''server-1''"
    "from_utf8_lossy ''/old/server-1/snapshot.json'' = ''/old/server-1/snapshot.json''"
    by (intro from_utf8_lossy_valid ascii_valid_utf8; simp add: byte_def)+
  have snap: "snapshot_of_json (sample_snapshot ns) =
      Some \<lparr>sf_commit_id = \<lparr>ci_segment = 0, ci_offset = 0\<rparr>, sf_data = sample_db (map node_entry_json ns)\<rparr>"
  proof -
    have "data_of_json (JObj (map (\<lambda>(k, c). (k, JObj c)) d)) = Some d" for d
      by (induction d) (auto simp: data_of_json_def split: if_splits)
    then show ?thesis
      by (simp add: snapshot_of_json_def sample_snapshot_def om_get_def commit_id_of_json_def num_def)
  qed
  have driver: "open_namespace (sample_reader ns) ''/old/server-1'' = Ok (sample_db (map node_entry_json ns))"
    by (simp add: open_namespace_def sample_reader_def join_def read_bytes_def Let_def jget.simps om_get_def
        load_snapshot_def choose_snapshot_def file_text_def utf8 snap replay_wal_def list_wal_segments_def)
  have names: "add_name ''/old'' (Ok \<lparr>de_name = ''server-1'', de_is_dir = Ok True\<rparr>) ([], [])
      = Ok ([''server-1''], [''server-1''])"
    by (simp add: add_name_def utf8 starts_with_def Let_def)
  have "rd_list (sample_reader ns) ''/old'' = Ok [Ok \<lparr>de_name = ''server-1'', de_is_dir = Ok True\<rparr>]"
    by (simp add: sample_reader_def)
  then show ?thesis by (simp add: open_store_def names driver join_def)
qed

definition sample_env :: "u64 list \<Rightarrow> migrate_env" where
  "sample_env ns =
     \<lparr>me_reader = sample_reader ns, me_codec = sample_codec, me_b64 = raw_codec, me_pid = 7,
      me_dates = sample_dates, me_now_secs = 1700000000, me_top = Ok [], me_exists = (\<lambda>p. False),
      me_canonicalize = Ok, me_open = (\<lambda>p. Ok ())\<rparr>"

definition sample_options :: options where
  "sample_options = \<lparr>opt_from = ''/old'', opt_to = ''/new'', opt_write = True\<rparr>"

definition sample_identity :: server_identity where
  "sample_identity =
     \<lparr>id_version = IDENTITY_VERSION, id_fabric_id = 1, id_vendor_id = 0xFFF1,
      id_controller_node_id = CONTROLLER_NODE_ID, id_compressed_fabric_id = 77,
      id_ca_private_key = src_ca_private_key sample_source, id_rcac_tlv = src_rcac_tlv sample_source,
      id_controller_private_key = [2], id_controller_noc_tlv = [4], id_ipk = src_ipk_epoch_key sample_source\<rparr>"

lemma sample_fields:
  "src_rcac_tlv sample_source = [99]" "src_fabric_id sample_source = 1" "src_vendor_id sample_source = 0xFFF1"
  "src_controller_node_id sample_source = CONTROLLER_NODE_ID" "src_operational_ipk sample_source = src_ipk_epoch_key sample_source"
  "src_operational_id sample_source = [0, 0, 0, 0, 0, 0, 0, 77]" "src_label sample_source = []"
  by (simp_all add: sample_source_def CONTROLLER_NODE_ID_def)

lemma sample_verified: "verify_identity sample_rs now sample_identity = Ok ()"
  by (simp add: verify_identity_def sample_rs_def sdk_def sample_identity_def Let_def)

lemma sample_minted:
  "identity_from_preserved_ca sample_rs now (src_ca_private_key sample_source) [99] 1 0xFFF1 CONTROLLER_NODE_ID
     (src_ipk_epoch_key sample_source) m = (Ok sample_identity, m)"
proof -
  have i: "sample_identity =
     \<lparr>id_version = IDENTITY_VERSION, id_fabric_id = 1, id_vendor_id = 0xFFF1,
      id_controller_node_id = CONTROLLER_NODE_ID, id_compressed_fabric_id = 77,
      id_ca_private_key = src_ca_private_key sample_source, id_rcac_tlv = [99],
      id_controller_private_key = [2], id_controller_noc_tlv = [4], id_ipk = src_ipk_epoch_key sample_source\<rparr>"
    by (simp add: sample_identity_def sample_fields)
  show ?thesis
    using sample_verified[of now] unfolding i
    by (simp add: identity_from_preserved_ca_def preserved_ca_agrees_def try_arg_def try_sdk_def sdk_def Let_def)
      (simp add: sample_rs_def try_arg_def try_sdk_def sdk_def Let_def)
qed

definition sample_nodes :: "u64 list \<Rightarrow> node_plan list" where
  "sample_nodes ns = sort_key plan_id (map sample_plan_node ns)"

lemma sample_planned:
  "\<exists>plan. plan_migration (sample_env ns) sample_rs sample_options m = (Ok plan, m)
     \<and> mp_identity plan = sample_identity \<and> mp_nodes plan = sample_nodes ns
     \<and> mp_config plan = config_from sample_source (sample_nodes ns)
     \<and> rp_checks (mp_report plan) = run_all sample_codec sample_rs 1700000000 sample_identity sample_source
          (config_from sample_source (sample_nodes ns)) (sample_nodes ns)"
proof -
  have root: "rcac_public_key sample_rs [99] = Ok [99]" by (simp add: rcac_public_key_def sample_rs_def sdk_def)
  have serial: "rcac_serial_is_der_canonical sample_rs [99] = Ok True"
    by (simp add: rcac_serial_is_der_canonical_def serial_is_der_canonical_def sample_rs_def sdk_def top_bit)
  have env: "me_reader (sample_env ns) = sample_reader ns" "me_codec (sample_env ns) = sample_codec"
    "me_dates (sample_env ns) = sample_dates" "me_now_secs (sample_env ns) = 1700000000"
    "opt_from sample_options = ''/old''"
    by (simp_all add: sample_env_def sample_options_def)
  show ?thesis
    by (simp add: plan_migration_def env Let_def try_arg_def try_step_def sample_opened sample_read sample_fields
        root serial sample_minted sample_plan flip: sample_nodes_def)
qed

lemma sample_checks:
  assumes "co_passed (check_node_accounting (config_from sample_source (sample_nodes ns)) (sample_nodes ns))"
  shows "list_all co_passed (run_all sample_codec sample_rs 1700000000 sample_identity sample_source
           (config_from sample_source (sample_nodes ns)) (sample_nodes ns))"
proof -
  have "co_passed (check_fabric_identity sample_codec sample_identity sample_source)"
    by (simp add: check_fabric_identity_def outcome_def sample_identity_def sample_fields to_be_bytes_def)
  moreover have "co_passed (check_admin_identity sample_rs 1700000000 sample_identity sample_source)"
    using sample_verified by (simp add: check_admin_identity_def outcome_def sample_fields) (simp add: sample_identity_def)
  moreover have "co_passed (check_ipk_choice sample_codec sample_rs sample_identity sample_source)"
  proof -
    have "derive_operational_ipk sample_rs (id_ipk sample_identity) c = Ok (src_operational_ipk sample_source)" for c
      by (simp add: derive_operational_ipk_def sample_rs_def sdk_def sample_identity_def sample_fields(5))
    then show ?thesis by (simp add: check_ipk_choice_def outcome_def)
  qed
  moreover have "co_passed (check_fabric_index_sanity (sample_nodes ns))"
    by (auto simp: check_fabric_index_sanity_def outcome_def sample_nodes_def sanity_of_def sample_plan_node_def Let_def)
  ultimately show ?thesis using assms by (simp add: run_all_def)
qed

lemma sample_apart: "\<not> same_store (sample_env ns) sample_options"
  by (simp add: same_store_def sample_env_def sample_options_def path_components_def Let_def starts_with_def)

end
