(* ===== verification/Migrate_Facts.thy ===== *)
theory Migrate_Facts
  imports Migrate_Sample Persist_Facts
begin

section \<open>What the migration guarantees\<close>

text \<open>
  The fabric index of a node is taken from the devices' own tables or left at zero; nothing is
  written before every check has passed; what is migrated is the old fabric; and the new store
  starts as that fabric, with the nodes the old one had.
\<close>

subsection \<open>Fabric indexes\<close>

text \<open>What the cached tables of a store say of a node on the fabric of a key: the indexes claimed\<close>

definition claimed :: "codec \<Rightarrow> data \<Rightarrow> bytes \<Rightarrow> u64 \<Rightarrow> u64 set" where
  "claimed cd db key n =
     {i. \<exists>ctx \<in> set (context_keys db). \<exists>e \<in> set (cached_entries db ctx). fabric_claim cd key e = Some (n, i)}"

text \<open>
  What a table may say of a node, given the claims: an index when they agree on it and it is in
  range, a refusal when they do not.
\<close>

fun settled :: "(rstring + u8) option \<Rightarrow> u64 set \<Rightarrow> bool" where
  "settled None claims \<longleftrightarrow> claims = {}"
| "settled (Some (Inr k)) claims \<longleftrightarrow> claims = {ucast k} \<and> k \<noteq> 0 \<and> k \<noteq> 255"
| "settled (Some (Inl _)) claims \<longleftrightarrow>
     (\<exists>i \<in> claims. \<not> (1 \<le> i \<and> i \<le> 254)) \<or> (\<exists>i \<in> claims. \<exists>j \<in> claims. i \<noteq> j)"

lemma settled_more_refused: "settled (Some (Inl e)) claims \<Longrightarrow> settled (Some (Inl e')) (insert i claims)"
  by auto

lemma unat_u8_u64: "unat (ucast (k :: u8) :: u64) = unat k"
  using unat_byte_less[of k] by (simp add: unsigned_ucast_eq take_bit_nat_eq_self)

lemma ucast_u8_u64: "ucast (ucast (k :: u8) :: u64) = k"
  using unat_byte_less[of k] unat_u8_u64[of k]
  by (simp add: word_unat_eq_iff unsigned_ucast_eq[where 'b = 64] take_bit_eq_mod)

lemma index_in_range:
  assumes "1 \<le> i" and "i \<le> (254 :: u64)"
  shows "ucast (ucast i :: u8) = i" and "(ucast i :: u8) \<noteq> 0" and "(ucast i :: u8) \<noteq> 255"
proof -
  have small: "unat i \<le> 254" and pos: "1 \<le> unat i" using assms by (simp_all add: word_le_nat_alt)
  then have u: "unat (ucast i :: u8) = unat i" by (simp add: unsigned_ucast_eq take_bit_eq_mod)
  with unat_u8_u64[of "ucast i"] show "ucast (ucast i :: u8) = i" by (simp add: word_unat_eq_iff)
  show "(ucast i :: u8) \<noteq> 0" "(ucast i :: u8) \<noteq> 255"
    using u small pos by (auto simp: word_unat_eq_iff)
qed

lemma record_claim_other: "j \<noteq> n \<Longrightarrow> om_get (record_claim ctx (n, i) table) j = om_get table j"
  by (simp add: record_claim_def om_get_insert split: option.splits sum.splits)

lemma settled_record_claim:
  assumes "settled (om_get table n) claims"
  shows "settled (om_get (record_claim ctx (n, i) table) n) (insert i claims)"
proof (cases "1 \<le> i \<and> i \<le> 254")
  case False
  then show ?thesis by (auto simp: record_claim_def om_get_insert)
next
  case True
  note r = index_in_range[of i]
  consider (new) "om_get table n = None" | (refused) e where "om_get table n = Some (Inl e)"
    | (known) k where "om_get table n = Some (Inr k)" by (metis option.exhaust sum.exhaust)
  then show ?thesis
  proof cases
    case new
    then show ?thesis using assms True r by (simp add: record_claim_def om_get_insert)
  next
    case refused
    then show ?thesis using assms True settled_more_refused by (simp add: record_claim_def del: settled.simps)
  next
    case known
    then show ?thesis using assms True r by (cases "k = ucast i") (auto simp: record_claim_def om_get_insert ucast_u8_u64)
  qed
qed

lemma settled_entries:
  assumes "settled (om_get table n) claims"
  shows "settled (om_get (fold (record_entry cd key ctx) es table) n)
           (claims \<union> {i. \<exists>e \<in> set es. fabric_claim cd key e = Some (n, i)})"
  using assms
proof (induction es arbitrary: table claims)
  case (Cons e es)
  let ?new = "{i. fabric_claim cd key e = Some (n, i)}"
  have "settled (om_get (record_entry cd key ctx e table) n) (claims \<union> ?new)"
  proof (cases "fabric_claim cd key e")
    case None
    then show ?thesis using Cons.prems by (simp add: record_entry_def)
  next
    case (Some c)
    obtain j i where c: "c = (j, i)" by fastforce
    then have "?new = (if j = n then {i} else {})" using Some by auto
    then show ?thesis using Cons.prems Some c settled_record_claim record_claim_other[of n j]
      by (auto simp: record_entry_def)
  qed
  from Cons.IH[OF this]
  have "settled (om_get (fold (record_entry cd key ctx) (e # es) table) n)
      (claims \<union> ?new \<union> {i. \<exists>e \<in> set es. fabric_claim cd key e = Some (n, i)})" by simp
  moreover have "claims \<union> ?new \<union> {i. \<exists>e \<in> set es. fabric_claim cd key e = Some (n, i)} =
      claims \<union> {i. \<exists>e \<in> set (e # es). fabric_claim cd key e = Some (n, i)}" by auto
  ultimately show ?case by simp
qed simp

lemma settled_table: "settled (om_get (fabric_index_by_node_id cd db key) n) (claimed cd db key n)"
proof -
  have "settled (om_get (fold (\<lambda>ctx. fold (record_entry cd key ctx) (cached_entries db ctx)) ctxs table) n)
      (claims \<union> {i. \<exists>ctx \<in> set ctxs. \<exists>e \<in> set (cached_entries db ctx). fabric_claim cd key e = Some (n, i)})"
    if "settled (om_get table n) claims" for ctxs table claims
    using that
  proof (induction ctxs arbitrary: table claims)
    case (Cons ctx ctxs)
    from Cons.IH[OF settled_entries[OF Cons.prems, of cd key ctx "cached_entries db ctx"]]
    show ?case by (simp add: Un_assoc Un_def disj_ac)
  qed simp
  from this[of "[]" "{}" "context_keys db"] show ?thesis
    by (simp add: fabric_index_by_node_id_def claimed_def om_get_def)
qed

lemma and_then_Ok: "and_then r f = Ok b \<longleftrightarrow> (\<exists>a. r = Ok a \<and> f a = Ok b)"
  by (cases r) simp_all

lemma plan_node_Ok:
  assumes "plan_node cd dt table (k, key, v) = Ok p"
  shows "decode_u64 cd key = Ok (plan_id p)
       \<and> (nr_device_fabric_index (np_record p), np_fabric_index p) = resolve_index table (plan_id p)
       \<and> nr_attributes (np_record p) = []"
proof -
  have "Prelude.map_err f r = Ok a \<longleftrightarrow> r = Ok a" for f :: "decode_error \<Rightarrow> convert_error" and r and a :: u64
    by (cases r) auto
  then show ?thesis
    using assms by (auto simp: plan_node_def and_then_Ok plan_id_def u64_field_def case_prod_beta)
qed

lemma plan_nodes_Ok:
  assumes "plan_nodes cd dt db key = Ok plans"
  shows "sorted (map plan_id plans)
       \<and> (\<forall>p \<in> set plans. \<exists>k e v. plan_node cd dt (fabric_index_by_node_id cd db key) (k, e, v) = Ok p)"
proof (cases "Option.bind (jsdb_get db ''nodes'') (\<lambda>ctx. om_get ctx ''commissionedNodes'')")
  case None
  then show ?thesis using assms by (auto simp: plan_nodes_def)
next
  case (Some v)
  then obtain entries plans0 where e: "collect_results (plan_node cd dt (fabric_index_by_node_id cd db key))
      (enumerate 0 entries) = Ok plans0" "plans = sort_key plan_id plans0"
    using assms by (auto simp: plan_nodes_def and_then_Ok)
  have found: "\<exists>x. plan_node cd dt (fabric_index_by_node_id cd db key) x = Ok p" if p: "p \<in> set plans0" for p
  proof -
    obtain i where i: "i < length plans0" "plans0 ! i = p" using p by (metis in_set_conv_nth)
    then show ?thesis using e(1) unfolding collect_results_Ok_iff list_all2_conv_all_nth by metis
  qed
  show ?thesis
  proof (intro conjI ballI)
    show "sorted (map plan_id plans)" using e(2) by simp
    fix p
    assume "p \<in> set plans"
    then have "p \<in> set plans0" using e(2) by simp
    from found[OF this] obtain x where "plan_node cd dt (fabric_index_by_node_id cd db key) x = Ok p" by blast
    then show "\<exists>k e v. plan_node cd dt (fabric_index_by_node_id cd db key) (k, e, v) = Ok p"
      by (cases x) blast
  qed
qed

text \<open>
  C16: The fabric index planned for a node is proven or zero. It is non-zero exactly when the plan
  says it was matched, and then some cached table names the node on our root key and every such
  table gives this index; a zero comes with tables that say nothing of the node, contradict each
  other, or give an index no fabric can have.
\<close>

theorem planned_index_is_proven:
  assumes "plan_nodes cd dt db key = Ok plans" and "p \<in> set plans"
  shows "if np_fabric_index p = MatchedByRootPublicKey
         then nr_device_fabric_index (np_record p) \<noteq> 0
           \<and> claimed cd db key (plan_id p) = {ucast (nr_device_fabric_index (np_record p))}
         else nr_device_fabric_index (np_record p) = 0
           \<and> (claimed cd db key (plan_id p) = {}
              \<or> (\<exists>i \<in> claimed cd db key (plan_id p). \<not> (1 \<le> i \<and> i \<le> 254))
              \<or> (\<exists>i \<in> claimed cd db key (plan_id p). \<exists>j \<in> claimed cd db key (plan_id p). i \<noteq> j))"
proof -
  obtain k e v where "plan_node cd dt (fabric_index_by_node_id cd db key) (k, e, v) = Ok p"
    using plan_nodes_Ok[OF assms(1)] assms(2) by blast
  from plan_node_Ok[OF this]
  have r: "(nr_device_fabric_index (np_record p), np_fabric_index p)
      = resolve_index (fabric_index_by_node_id cd db key) (plan_id p)" by simp
  have s: "settled (om_get (fabric_index_by_node_id cd db key) (plan_id p)) (claimed cd db key (plan_id p))"
    by (rule settled_table)
  consider (none) "om_get (fabric_index_by_node_id cd db key) (plan_id p) = None"
    | (refused) e where "om_get (fabric_index_by_node_id cd db key) (plan_id p) = Some (Inl e)"
    | (known) k where "om_get (fabric_index_by_node_id cd db key) (plan_id p) = Some (Inr k)"
    by (metis option.exhaust sum.exhaust)
  then show ?thesis using r s by cases (auto simp: resolve_index_def)
qed

theorem planned_index_is_proven_witness:
  "(\<exists>p. plan_nodes sample_codec sample_dates (sample_db (map node_entry_json [9, 8])) [99] = Ok [p, sample_plan_node 9]
      \<and> plan_id p = 8 \<and> nr_device_fabric_index (np_record p) = 3)
   \<and> claimed sample_codec (sample_db (map node_entry_json [9, 8])) [99] 8 = {3}"
proof -
  let ?db = "sample_db (map node_entry_json [9, 8])"
  have plans: "plan_nodes sample_codec sample_dates ?db [99] = Ok [sample_plan_node 8, sample_plan_node 9]"
    unfolding sample_plan by (simp add: plan_id_def sample_plan_node_def)
  have "sample_plan_node 8 \<in> set [sample_plan_node 8, sample_plan_node 9]" by simp
  from planned_index_is_proven[OF plans this] plans show ?thesis
    by (simp add: sample_plan_node_def plan_id_def)
qed

subsection \<open>Node ids\<close>

lemma fold_max: "fold max ns n \<in> set (n # ns) \<and> (\<forall>k \<in> set (n # ns). k \<le> fold max ns n)" for n :: "'a :: linorder"
proof (induction ns arbitrary: n)
  case (Cons a ns)
  from Cons[of "max a n"] show ?case by (auto simp: max_def split: if_splits)
qed simp

lemma next_id_cases:
  assumes "plans \<noteq> []"
  obtains m where "m \<in> set (map plan_id plans)" and "\<forall>k \<in> set (map plan_id plans). k \<le> m"
    and "cfg_next_node_id (config_from source plans) = m + 1"
proof -
  obtain n ns where "map plan_id plans = n # ns" using assms by (cases plans) auto
  with fold_max[of ns n] show ?thesis
    by (intro that[of "fold max ns n"]) (simp_all add: config_from_def)
qed

lemma le_max_word: "(n :: u64) \<le> -1"
  by simp

lemma accounting_outcome:
  "(co_passed (check_node_accounting (config_from source plans) plans) \<longleftrightarrow> - 1 \<notin> set (map plan_id plans))
   \<and> (co_passed (check_node_accounting (config_from source plans) plans) \<longrightarrow>
        (\<forall>p \<in> set plans. plan_id p < cfg_next_node_id (config_from source plans)))"
proof -
  have passed: "co_passed (check_node_accounting c plans) \<longleftrightarrow> (\<forall>p \<in> set plans. plan_id p < cfg_next_node_id c)" for c
    by (auto simp: check_node_accounting_def outcome_def Let_def filter_empty_conv not_le)
  have "(\<forall>p \<in> set plans. plan_id p < cfg_next_node_id (config_from source plans)) \<longleftrightarrow> - 1 \<notin> set (map plan_id plans)"
  proof (cases "plans = []")
    case False
    obtain m where m: "m \<in> set (map plan_id plans)" "\<forall>k \<in> set (map plan_id plans). k \<le> m"
      "cfg_next_node_id (config_from source plans) = m + 1"
      by (rule next_id_cases[OF False])
    have "m < m + 1" if "m \<noteq> - 1"
      using that unatSuc[of m] by (simp add: word_less_nat_alt add_eq_0_iff add.commute)
    moreover have "m = -1" if "-1 \<in> set (map plan_id plans)"
      using m(2) that le_max_word[of m] by (auto intro: antisym)
    ultimately show ?thesis using m by (cases "m = -1") fastforce+
  qed simp
  with passed show ?thesis by simp
qed

text \<open>
  The accounting check refuses exactly the one case the arithmetic cannot represent: it
  passes if and only if no planned node has the largest 64 bit number as its id, and then the
  next id lies above all of them.
\<close>

theorem accounting_refuses_only_overflow:
  "(co_passed (check_node_accounting (config_from source plans) plans) \<longleftrightarrow> - 1 \<notin> set (map plan_id plans))
   \<and> (co_passed (check_node_accounting (config_from source plans) plans) \<longrightarrow>
        (\<forall>p \<in> set plans. plan_id p < cfg_next_node_id (config_from source plans)))"
  by (rule accounting_outcome)

theorem accounting_refuses_only_overflow_witness:
  "co_passed (check_node_accounting (config_from sample_source (sample_nodes [8])) (sample_nodes [8]))
   \<and> \<not> co_passed (check_node_accounting (config_from sample_source (sample_nodes [- 1])) (sample_nodes [- 1]))"
  using accounting_refuses_only_overflow[of sample_source "sample_nodes [8]"]
    accounting_refuses_only_overflow[of sample_source "sample_nodes [- 1]"]
  by (simp add: sample_nodes_def sample_plan_node_def plan_id_def)

subsection \<open>The fabric\<close>

lemma map_err_Ok: "Prelude.map_err f r = Ok a \<longleftrightarrow> r = Ok a"
  by (cases r) auto

lemma try_sdk_Ok:
  "try_sdk ctx f k m = (Ok b, m') \<longleftrightarrow> (\<exists>a m1. f m = (Ok a, m1) \<and> k a m1 = (Ok b, m'))"
  by (auto simp: try_sdk_def try_arg_Ok sdk_def map_err_Ok split: prod.splits)

text \<open>Over a preserved authority the identity keeps its key, certificate, ids and epoch key.\<close>

lemma preserved_identity:
  assumes "identity_from_preserved_ca rs now ca rcac fid vid nid ipk m = (Ok i, m')"
  shows "id_ca_private_key i = ca \<and> id_rcac_tlv i = rcac \<and> id_fabric_id i = fid \<and> id_vendor_id i = vid
       \<and> id_controller_node_id i = nid \<and> id_ipk i = ipk \<and> id_version i = IDENTITY_VERSION
       \<and> verify_identity rs now i = Ok ()"
  using assms
  by (auto simp: identity_from_preserved_ca_def try_arg_Ok try_sdk_Ok Let_def)

lemma mapped_step_Ok: "(case f m of (r, m) \<Rightarrow> (Prelude.map_err g r, m)) = (Ok a, m') \<longleftrightarrow> f m = (Ok a, m')"
  by (auto simp: map_err_Ok split: prod.splits)

lemma plan_migration_Ok:
  assumes "plan_migration env rs opts m = (Ok plan, m')"
  obtains db ns source root where "open_store (me_reader env) (opt_from opts) = Ok (db, ns)"
    and "read_source_fabric (me_codec env) db = Ok source"
    and "rcac_public_key rs (src_rcac_tlv source) = Ok root"
    and "identity_from_preserved_ca rs (me_now_secs env) (src_ca_private_key source)
           (src_rcac_tlv source) (src_fabric_id source) (src_vendor_id source)
           (src_controller_node_id source) (src_ipk_epoch_key source) m = (Ok (mp_identity plan), m')"
    and "plan_nodes (me_codec env) (me_dates env) db root = Ok (mp_nodes plan)"
    and "mp_config plan = config_from source (mp_nodes plan)"
    and "rp_checks (mp_report plan) = run_all (me_codec env) rs (me_now_secs env) (mp_identity plan) source
           (mp_config plan) (mp_nodes plan)"
    and "rp_wrote (mp_report plan) = None"
proof -
  obtain db ns source root i nodes where
    "open_store (me_reader env) (opt_from opts) = Ok (db, ns)"
    "read_source_fabric (me_codec env) db = Ok source"
    "rcac_public_key rs (src_rcac_tlv source) = Ok root"
    "identity_from_preserved_ca rs (me_now_secs env) (src_ca_private_key source)
           (src_rcac_tlv source) (src_fabric_id source) (src_vendor_id source)
           (src_controller_node_id source) (src_ipk_epoch_key source) m = (Ok i, m')"
    "plan_nodes (me_codec env) (me_dates env) db root = Ok nodes"
    "mp_identity plan = i \<and> mp_nodes plan = nodes \<and> mp_config plan = config_from source nodes
     \<and> rp_checks (mp_report plan) = run_all (me_codec env) rs (me_now_secs env) i source (config_from source nodes) nodes
     \<and> rp_wrote (mp_report plan) = None"
    using assms
    by (auto simp: plan_migration_def Let_def try_arg_Ok try_step_Ok map_err_Ok mapped_step_Ok)
  then show ?thesis by (intro that[of db ns source root]) simp_all
qed

lemma checks_passed:
  assumes "list_all co_passed (run_all cd rs now i source config nodes)"
  shows "to_be_bytes (id_compressed_fabric_id i) = src_operational_id source"
    and "verify_identity rs now i = Ok () \<and> id_controller_node_id i = src_controller_node_id source"
    and "derive_operational_ipk rs (id_ipk i) (id_compressed_fabric_id i) = Ok (src_operational_ipk source)"
    and "\<forall>p \<in> set nodes. plan_id p < cfg_next_node_id config"
    and "\<forall>p \<in> set nodes. nr_device_fabric_index (np_record p) = 0 \<longleftrightarrow> np_fabric_index p \<noteq> MatchedByRootPublicKey"
proof -
  have all: "co_passed (check_fabric_identity cd i source)" "co_passed (check_admin_identity rs now i source)"
    "co_passed (check_ipk_choice cd rs i source)" "co_passed (check_node_accounting config nodes)"
    "co_passed (check_fabric_index_sanity nodes)"
    using assms by (simp_all add: run_all_def)
  show "to_be_bytes (id_compressed_fabric_id i) = src_operational_id source"
    using all(1) by (simp add: check_fabric_identity_def outcome_def)
  show "verify_identity rs now i = Ok () \<and> id_controller_node_id i = src_controller_node_id source"
    using all(2) by (auto simp: check_admin_identity_def outcome_def split: sum.splits if_splits)
  show "derive_operational_ipk rs (id_ipk i) (id_compressed_fabric_id i) = Ok (src_operational_ipk source)"
    using all(3) by (auto simp: check_ipk_choice_def outcome_def split: sum.splits if_splits)
  show "\<forall>p \<in> set nodes. plan_id p < cfg_next_node_id config"
    using all(4) by (auto simp: check_node_accounting_def outcome_def Let_def filter_empty_conv not_le)
  have "snd (sanity_of p) = [] \<longleftrightarrow>
      (nr_device_fabric_index (np_record p) = 0 \<longleftrightarrow> np_fabric_index p \<noteq> MatchedByRootPublicKey)" for p
    by (auto simp: sanity_of_def Let_def split: fabric_index_source.splits)
  then show "\<forall>p \<in> set nodes. nr_device_fabric_index (np_record p) = 0 \<longleftrightarrow> np_fabric_index p \<noteq> MatchedByRootPublicKey"
    using all(5) by (simp add: check_fabric_index_sanity_def outcome_def Let_def)
qed

text \<open>
  C15: What a run is about to write is the old fabric. When every check has passed, the identity
  carries the key, the certificate, the ids and the epoch key read from the old store; its
  compressed fabric id is the operational id the old server used, its certificate verifies against
  the old root, the operational key it derives is the one devices hold; the planned nodes are in
  the order of their ids, each below the id that will be handed out next.
\<close>

theorem migrated_fabric_is_the_old_one:
  assumes "plan_migration env rs opts m = (Ok plan, m')" and "report_ok (mp_report plan)"
  shows "\<exists>db ns source. open_store (me_reader env) (opt_from opts) = Ok (db, ns)
       \<and> read_source_fabric (me_codec env) db = Ok source
       \<and> id_ca_private_key (mp_identity plan) = src_ca_private_key source
       \<and> id_rcac_tlv (mp_identity plan) = src_rcac_tlv source
       \<and> id_ipk (mp_identity plan) = src_ipk_epoch_key source
       \<and> id_fabric_id (mp_identity plan) = src_fabric_id source
       \<and> id_vendor_id (mp_identity plan) = src_vendor_id source
       \<and> id_controller_node_id (mp_identity plan) = src_controller_node_id source
       \<and> to_be_bytes (id_compressed_fabric_id (mp_identity plan)) = src_operational_id source
       \<and> verify_identity rs (me_now_secs env) (mp_identity plan) = Ok ()
       \<and> derive_operational_ipk rs (id_ipk (mp_identity plan)) (id_compressed_fabric_id (mp_identity plan))
           = Ok (src_operational_ipk source)
       \<and> sorted (map plan_id (mp_nodes plan))
       \<and> (\<forall>p \<in> set (mp_nodes plan). plan_id p < cfg_next_node_id (mp_config plan))"
proof -
  obtain db ns source root where p: "open_store (me_reader env) (opt_from opts) = Ok (db, ns)"
    "read_source_fabric (me_codec env) db = Ok source"
    "identity_from_preserved_ca rs (me_now_secs env) (src_ca_private_key source)
       (src_rcac_tlv source) (src_fabric_id source) (src_vendor_id source)
       (src_controller_node_id source) (src_ipk_epoch_key source) m = (Ok (mp_identity plan), m')"
    "plan_nodes (me_codec env) (me_dates env) db root = Ok (mp_nodes plan)"
    "rp_checks (mp_report plan) = run_all (me_codec env) rs (me_now_secs env) (mp_identity plan) source
       (mp_config plan) (mp_nodes plan)"
    using plan_migration_Ok[OF assms(1)] by metis
  note i = preserved_identity[OF p(3)]
  note c = checks_passed[OF assms(2)[unfolded report_ok_def p(5)]]
  have "sorted (map plan_id (mp_nodes plan))" using plan_nodes_Ok[OF p(4)] by blast
  then show ?thesis using p(1,2) i c by blast
qed

lemma accounting_ok:
  assumes "- 1 \<notin> set ns"
  shows "co_passed (check_node_accounting (config_from sample_source (sample_nodes ns)) (sample_nodes ns))"
  using assms accounting_outcome[of sample_source "sample_nodes ns"]
  by (auto simp: sample_nodes_def sample_plan_node_def plan_id_def)

lemma sample_ready:
  assumes "- 1 \<notin> set ns"
  obtains plan where "plan_migration (sample_env ns) sample_rs sample_options m = (Ok plan, m)"
    and "report_ok (mp_report plan)" and "mp_nodes plan = sample_nodes ns" and "mp_identity plan = sample_identity"
  using sample_planned[of ns m] sample_checks[OF accounting_ok[OF assms]] by (auto simp: report_ok_def)

theorem migrated_fabric_is_the_old_one_witness:
  "id_ca_private_key sample_identity = src_ca_private_key sample_source
   \<and> to_be_bytes (id_compressed_fabric_id sample_identity) = src_operational_id sample_source
   \<and> sorted (map plan_id (sample_nodes [9, 8]))"
proof -
  obtain plan where p: "plan_migration (sample_env [9, 8]) sample_rs sample_options ([], Map.empty) = (Ok plan, ([], Map.empty))"
    "report_ok (mp_report plan)" "mp_nodes plan = sample_nodes [9, 8]" "mp_identity plan = sample_identity"
    by (rule sample_ready[of "[9, 8]" "([], Map.empty)"]) auto
  from migrated_fabric_is_the_old_one[OF p(1,2)] show ?thesis
    by (auto simp: p(3,4) sample_env_def sample_options_def sample_opened[unfolded list.map] sample_opened sample_read[of "map node_entry_json [9, 8]", unfolded list.map] sample_read)
qed

subsection \<open>The new store\<close>

lemma create_identity_refuses:
  assumes "fs_get s server_path \<noteq> None"
  shows "\<exists>e s'. create_identity b pid i s = (Err e, s') \<and> (\<forall>q. fs_get s' q = fs_get s q)"
proof -
  obtain r s1 where t: "try_exists server_path s = (r, s1)" by fastforce
  then have "fs_get s1 q = fs_get s q" for q using try_exists_keeps by (metis snd_conv)
  moreover have "r \<noteq> Ok False"
    using t assms by (auto simp: try_exists_def Let_def split: option.splits)
  ultimately show ?thesis using t by (auto simp: create_identity_def split: sum.split bool.split)
qed

lemma write_migration_refuses:
  assumes "fs_get s server_path \<noteq> None"
  shows "\<exists>e s'. write_migration env to i c nodes s = (Err e, s') \<and> (\<forall>q. fs_get s' q = fs_get s q)"
proof -
  obtain e s' where "create_identity (me_b64 env) (me_pid env) i s = (Err e, s')" "\<forall>q. fs_get s' q = fs_get s q"
    using create_identity_refuses[OF assms] by blast
  then show ?thesis by (simp add: write_migration_def Let_def split: sum.split)
qed

text \<open>
  C14: Nothing is written unless everything was read and checked. If a run changes any file of
  the target, then the write was asked for, source and target are different stores, the whole
  plan was made, all five checks passed on it, and the target held no identity.
\<close>

theorem migration_writes_only_after_checks:
  assumes "run env rs opts m s = (r, m', s')" and "fs_get s' q \<noteq> fs_get s q"
  shows "opt_write opts \<and> \<not> same_store env opts \<and> fs_get s server_path = None
       \<and> (\<exists>plan. plan_migration env rs opts m = (Ok plan, m') \<and> report_ok (mp_report plan))"
proof -
  obtain x m1 where x: "plan_migration env rs opts m = (x, m1)" by fastforce
  have diff: "\<not> same_store env opts" using assms by (auto simp: run_def)
  then obtain plan where plan: "x = Ok plan" using assms x by (cases x) (auto simp: run_def)
  then have ok: "report_ok (mp_report plan)" "opt_write opts"
    using assms x diff by (auto simp: run_def split: if_splits)
  let ?w = "write_migration env (opt_to opts) (mp_identity plan) (mp_config plan) (mp_nodes plan) s"
  have w: "s' = snd ?w \<and> m' = m1"
    using assms(1) x diff plan ok by (auto simp: run_def split: prod.splits sum.splits)
  have "fs_get s server_path = None"
  proof (rule ccontr)
    assume "fs_get s server_path \<noteq> None"
    from write_migration_refuses[OF this, of env "opt_to opts" "mp_identity plan" "mp_config plan" "mp_nodes plan"]
    show False using w assms(2) by (metis snd_conv)
  qed
  then show ?thesis using diff ok plan x w by auto
qed

text \<open>Loading a mirrored directory finds each file once.\<close>

lemma map_filter_inverse:
  assumes "\<And>p r. p \<in> set ps \<Longrightarrow> f p = Some r \<Longrightarrow> g r = p"
  shows "map g (List.map_filter f ps) = filter (\<lambda>p. f p \<noteq> None) ps"
  using assms by (induction ps) (auto simp: map_filter_simps split: option.splits)

lemma loaded_distinct:
  assumes "no_faults s" and "fs_ok s" and "mirrors reg s" and "registry_ok reg"
  shows "distinct (map nr_node_id (fst (load_nodes s)))"
proof -
  let ?ps = "filter (\<lambda>p. fst p = ''nodes'') (om_keys (fs_files s))"
  let ?s = "s\<lparr>fs_calls := Suc (fs_calls s)\<rparr>"
  have rec: "file_record ?s = file_record s" by (rule file_record_files) simp
  have load: "fst (load_nodes s) = sort_key nr_node_id (List.map_filter (file_record s) ?ps)"
    using assms(1) read_nodes_records[of ?s ?ps] rec by (simp add: load_nodes_def Let_def no_faults_def split_beta)
  have inverse: "node_path (nr_node_id r) = p" if p: "p \<in> set ?ps" "file_record s p = Some r" for p r
  proof -
    have "node_file p" "fs_get s p \<noteq> None"
      using p by (auto simp: file_record_def node_file_def split: if_splits option.splits)
    then obtain n where n: "p = node_path n" "registry_contains reg n" using mirrorsD(2)[OF assms(3)] by blast
    then obtain e where e: "om_get reg n = Some e" by (auto simp: registry_contains_def)
    have "r = en_record e"
      using mirrorsD(1)[OF assms(3) e] n p(2) node_path_is_file[of n]
      by (auto simp: file_record_def node_record_json_roundtrip node_file_def)
    moreover have "nr_node_id (en_record e) = n" using assms(4) e by (simp add: registry_ok_def)
    ultimately show ?thesis using n by simp
  qed
  have keys: "distinct (om_keys (fs_files s))" using assms(2) by (simp add: fs_ok_def om_ok_def om_keys_def strict_sorted_iff)
  have "map (node_path \<circ> nr_node_id) (List.map_filter (file_record s) ?ps) = filter (\<lambda>p. file_record s p \<noteq> None) ?ps"
    using map_filter_inverse[of ?ps "file_record s" "node_path \<circ> nr_node_id"] inverse by simp
  then have "distinct (map node_path (map nr_node_id (List.map_filter (file_record s) ?ps)))"
    using keys by simp
  then have "distinct (map nr_node_id (List.map_filter (file_record s) ?ps))" by (simp only: distinct_map)
  then have "distinct (map nr_node_id (sort_key nr_node_id (List.map_filter (file_record s) ?ps)))"
    by (simp add: distinct_map)
  then show ?thesis by (simp only: load)
qed

lemma om_keys_iff: "k \<in> set (om_keys m) \<longleftrightarrow> (\<exists>v. om_get m k = Some v)"
  by (cases "om_get m k") (force simp: om_get_def om_keys_def map_of_eq_None_iff dest: map_of_SomeD)+

lemma loaded_length:
  assumes "no_faults s" and "fs_ok s" and "mirrors reg s" and "registry_ok reg"
  shows "length (fst (load_nodes s)) = card (set (om_keys reg))"
proof -
  have "nr_node_id ` set (fst (load_nodes s)) = set (om_keys reg)"
    using assms(4) unfolding loaded_records[OF assms(1,3)]
    by (auto simp: registry_ok_def image_iff om_keys_iff) metis
  then show ?thesis
    using distinct_card[OF loaded_distinct[OF assms]] by simp
qed

text \<open>The registry the planned nodes make\<close>

definition planned_registry :: "node_plan list \<Rightarrow> registry" where
  "planned_registry plans = registry_new (map np_record plans)"

lemma planned_registry_snoc:
  "planned_registry (ps @ [p]) = om_insert (plan_id p) (new_entry (np_record p)) (planned_registry ps)"
  by (simp add: planned_registry_def registry_new_def om_of_list_def plan_id_def)

lemma planned_registry_ok: "registry_ok (planned_registry ps)"
proof (induction ps rule: rev_induct)
  case (snoc p ps)
  then show ?case
    by (auto simp: planned_registry_snoc registry_ok_def om_ok_insert om_get_insert new_entry_def plan_id_def)
qed (simp add: planned_registry_def registry_new_def om_of_list_def registry_ok_def om_ok_def om_get_def)

lemma planned_registry_keys: "set (om_keys (planned_registry ps)) = set (map plan_id ps)"
proof (induction ps rule: rev_induct)
  case (snoc p ps)
  then show ?case by (simp add: planned_registry_snoc set_om_keys_insert)
qed (simp add: planned_registry_def registry_new_def om_of_list_def om_keys_def)

lemma planned_offline: "offline (planned_registry ps) = planned_registry ps"
proof (rule om_eqI)
  fix n
  have "en_available e = False" if "om_get (planned_registry ps) n = Some e" for e
    using that
  proof (induction ps rule: rev_induct)
    case (snoc p ps)
    then show ?case by (auto simp: planned_registry_snoc om_get_insert new_entry_def split: if_splits)
  qed (simp add: planned_registry_def registry_new_def om_of_list_def om_get_def)
  then show "om_get (offline (planned_registry ps)) n = om_get (planned_registry ps) n"
    by (cases "om_get (planned_registry ps) n") (auto simp: offline_get)
qed (use planned_registry_ok in \<open>auto simp: registry_ok_def offline_ok\<close>)

lemma save_no_fault:
  assumes "no_faults s"
  shows "\<exists>s'. save_node pid r s = (Ok (), s')"
  using write_json_atomic_no_fault[of s "node_path (nr_node_id r)" pid "node_record_json r" False] assms
  by (auto simp: no_faults_def save_node_def node_path_name)

lemma top_level_kept:
  assumes "q = server_path \<or> q = config_path"
  shows "fs_get (snd (save_node pid r s)) q = fs_get s q"
  unfolding save_node_def using assms
  by (intro write_json_atomic_frame) (auto simp: server_path_def config_path_def node_path_def tmp_path_def)

lemma save_plans_outcome:
  assumes "no_faults s" and "fs_ok s" and "mirrors (planned_registry done) s"
  shows "\<exists>s'. save_plans pid to ps s = (Ok (), s') \<and> no_faults s' \<and> fs_ok s'
       \<and> mirrors (planned_registry (done @ ps)) s'
       \<and> fs_get s' server_path = fs_get s server_path \<and> fs_get s' config_path = fs_get s config_path"
  using assms
proof (induction ps arbitrary: s "done")
  case (Cons p ps)
  obtain s1 where s1: "save_node pid (np_record p) s = (Ok (), s1)" using save_no_fault[OF Cons.prems(1)] by blast
  have "mirrors (planned_registry (done @ [p])) (snd (save_node pid (np_record p) s))"
    using Cons.prems by (intro mirrors_save_node[where reg = "planned_registry done" and e = "new_entry (np_record p)"])
      (simp_all add: planned_registry_snoc om_get_insert plan_id_def new_entry_def)
  then have m: "mirrors (planned_registry (done @ [p])) s1" using s1 by simp
  have "no_faults s1" "fs_ok s1"
    using save_node_no_faults[OF Cons.prems(1)] save_node_ok[OF Cons.prems(2)] s1 by (metis snd_conv)+
  from Cons.IH[OF this m] show ?case
    using s1 top_level_kept[of _ pid "np_record p" s] by fastforce
qed auto

lemma load_nodes_keeps:
  "fs_get (snd (load_nodes s)) q = fs_get s q"
  "no_faults s \<Longrightarrow> no_faults (snd (load_nodes s))"
  "fs_ok s \<Longrightarrow> fs_ok (snd (load_nodes s))"
proof -
  have "fs_files (snd (read_nodes ps s)) = fs_files s \<and> fs_fault (snd (read_nodes ps s)) = fs_fault s" for ps s
  proof (induction ps arbitrary: s)
    case (Cons p ps)
    have "fs_files (snd (read_json node_record_of_json p s)) = fs_files s
        \<and> fs_fault (snd (read_json node_record_of_json p s)) = fs_fault s"
      by (auto simp: read_json_def read_file_def Let_def split: option.splits fcontent.splits)
    then show ?case using Cons by (auto split: prod.splits option.splits) (metis snd_conv)+
  qed simp
  from this[of _ "s\<lparr>fs_calls := Suc (fs_calls s)\<rparr>"]
  show "fs_get (snd (load_nodes s)) q = fs_get s q" "no_faults s \<Longrightarrow> no_faults (snd (load_nodes s))"
    "fs_ok s \<Longrightarrow> fs_ok (snd (load_nodes s))"
    by (auto simp: load_nodes_def Let_def fs_get_def no_faults_def fs_ok_def split: option.splits prod.splits) (metis snd_conv)+
qed

definition fresh_target :: "fs \<Rightarrow> bool" where
  "fresh_target s \<longleftrightarrow> no_faults s \<and> fs_ok s \<and> (\<forall>p. node_file p \<longrightarrow> fs_get s p = None) \<and> fs_get s server_path = None"

lemma write_migration_outcome:
  assumes "fresh_target s" and "me_open env to = Ok ()"
  shows "\<exists>r s'. write_migration env to i c nodes s = (r, s') \<and> no_faults s'
       \<and> mirrors (planned_registry nodes) s' \<and> fs_ok s'
       \<and> (\<exists>n. fs_get s' server_path = Some n \<and> fn_content n = Doc (server_identity_json (me_b64 env) i) \<and> fn_private n)
       \<and> (\<exists>n. fs_get s' config_path = Some n \<and> fn_content n = Doc (config_json c) \<and> fn_private n)
       \<and> (if distinct (map plan_id nodes) then r = Ok ()
          else \<exists>text. r = Err (Write (join to ''nodes'') (OsError IoOther text)))"
proof -
  let ?pid = "me_pid env"
  have nf: "no_faults s" and ok: "fs_ok s" and fresh: "\<forall>p. node_file p \<longrightarrow> fs_get s p = None" and none: "fs_get s server_path = None"
    using assms(1) by (simp_all add: fresh_target_def)
  obtain s0 where s0: "try_exists server_path s = (Ok False, s0)" "no_faults s0" "fs_ok s0"
    "\<forall>q. fs_get s0 q = fs_get s q"
    using nf none ok by (simp add: try_exists_def no_faults_def fs_ok_def fs_get_def)
  let ?doc = "server_identity_json (me_b64 env) i"
  obtain s1 where s1: "write_json_atomic ?pid server_path ?doc True s0 = (Ok (), s1)" "no_faults s1"
    using write_json_atomic_no_fault[of s0 server_path ?pid ?doc True] s0(2)
    by (auto simp: no_faults_def server_path_def)
  have create: "create_identity (me_b64 env) ?pid i s = (Ok (), s1)" using s0 s1 by (simp add: create_identity_def)
  obtain s2 where s2: "save_config ?pid c s1 = (Ok (), s2)" "no_faults s2"
    using write_json_atomic_no_fault[of s1 config_path ?pid "config_json c" True] s1(2)
    by (auto simp: no_faults_def config_path_def save_config_def)
  note w1 = write_json_atomic_outcome[OF s1(1)] and w2 = write_json_atomic_outcome[OF s2(1)[unfolded save_config_def]]
  have ok2: "fs_ok s2"
    using s0(3) s1(1) s2(1) write_json_atomic_ok unfolding save_config_def by (metis snd_conv)
  have "fs_get s2 p = fs_get s p" if "node_file p" for p
  proof -
    have "p \<noteq> server_path" "p \<noteq> config_path" using that by (auto simp: server_path_def config_path_def node_file_def)
    moreover have "p \<noteq> tmp_path k n q" for k n q using that tmp_not_node_file by metis
    ultimately show ?thesis using w1 w2 s0(4) by metis
  qed
  then have "mirrors (planned_registry []) s2"
    using fresh by (auto simp: mirrors_def planned_registry_def registry_new_def om_of_list_def om_get_def)
  from save_plans_outcome[OF s2(2) ok2 this, of ?pid to nodes]
  obtain s3 where s3: "save_plans ?pid to nodes s2 = (Ok (), s3)" "no_faults s3" "fs_ok s3"
    "mirrors (planned_registry nodes) s3" "fs_get s3 server_path = fs_get s2 server_path"
    "fs_get s3 config_path = fs_get s2 config_path" by auto
  obtain loaded s4 where s4: "load_nodes s3 = (loaded, s4)" by fastforce
  have "fs_get s4 q = fs_get s3 q" for q using load_nodes_keeps(1) s4 by (metis snd_conv)
  then have keep: "fs_get s4 = fs_get s3" by (rule ext)
  have quiet: "no_faults s4" using load_nodes_keeps(2) s3(2) s4 by (metis snd_conv)
  have len: "length loaded = card (set (map plan_id nodes))"
    using loaded_length[OF s3(2-4) planned_registry_ok] s4 planned_registry_keys by simp
  have "length loaded = length nodes \<longleftrightarrow> distinct (map plan_id nodes)"
    unfolding len using card_distinct distinct_card by (metis length_map)
  moreover have "fs_get s2 server_path = fs_get s1 server_path"
    using w2 by (auto simp: server_path_def config_path_def tmp_path_def)
  moreover have "fs_ok s4" using s4 s3(3) load_nodes_keeps(3) by (metis snd_conv)
  moreover have "mirrors (planned_registry nodes) s4" using s3(4) keep by (simp add: mirrors_def)
  ultimately show ?thesis
    using assms(2) create s2(1) s3 s4 keep quiet w1 w2
    by (auto simp: write_migration_def Let_def)
qed

text \<open>A run that gets as far as writing\<close>

lemma run_writes:
  assumes "\<not> same_store env opts" and "plan_migration env rs opts m = (Ok plan, m')"
    and "report_ok (mp_report plan)" and "opt_write opts"
    and "write_migration env (opt_to opts) (mp_identity plan) (mp_config plan) (mp_nodes plan) s = (w, s')"
  shows "run env rs opts m s = (case w of Inl e \<Rightarrow> Err e
           | Inr _ \<Rightarrow> Ok ((mp_report plan)\<lparr>rp_wrote := Some (opt_to opts)\<rparr>), m', s')"
  using assms by (simp add: run_def split: sum.split)

lemma wrote_plan:
  assumes "run env rs opts m s = (Ok rep, m', s')" and "rp_wrote rep \<noteq> None"
  obtains plan where "plan_migration env rs opts m = (Ok plan, m')"
    and "write_migration env (opt_to opts) (mp_identity plan) (mp_config plan) (mp_nodes plan) s = (Ok (), s')"
proof -
  have "rp_wrote (mp_report plan) = None" if "plan_migration env rs opts m = (Ok plan, m1)" for plan m1
    using plan_migration_Ok[OF that] by metis
  then show ?thesis
    using assms that by (auto simp: run_def split: prod.splits sum.splits if_splits)
qed

text \<open>The exit code of a run with \<open>--write\<close> is 0 exactly when the store was written.\<close>

lemma exit_code_means_written:
  assumes run: "run env rs opts m s = (r, m', s')" and "opt_write opts"
  shows "migrate_exit_code r = 0 \<longleftrightarrow> (\<exists>rep. r = Ok rep \<and> rp_wrote rep = Some (opt_to opts))"
proof -
  have "rp_wrote (mp_report plan) = None" if "plan_migration env rs opts m = (Ok plan, m1)" for plan m1
    using plan_migration_Ok[OF that] by metis
  with assms show ?thesis
    by (auto simp: run_def migrate_exit_code_def report_ok_def split: prod.splits sum.splits if_splits)
qed

lemma write_migration_opened:
  assumes "write_migration env to i c nodes s = (Ok (), s')"
  shows "me_open env to = Ok ()"
  using assms by (cases "me_open env to") (simp_all add: write_migration_def Let_def)

lemma read_back:
  assumes "no_faults s" and "fs_get s p = Some n" and "fn_content n = Doc v"
  shows "fst (read_json_strict de p s) = (case de v of Some a \<Rightarrow> Ok (Some a) | None \<Rightarrow> Err (InvalidData p))"
    and "fst (read_json de p s) = de v"
  using assms by (auto simp: read_json_strict_def read_json_def read_file_def no_faults_def Let_def split: option.split)

text \<open>
  C13: What was written is what starts. After a run that reports having written a fresh target
  on a working disk, the server that is started there loads exactly the migrated identity and
  configuration and registers exactly the planned nodes, each once and unavailable until it is
  heard from.
\<close>

theorem migrated_store_starts:
  assumes "codec_ok (me_b64 env)" and "fresh_target s"
    and "run env rs opts m s = (Ok rep, m', s')" and "rp_wrote rep \<noteq> None"
  shows "\<exists>plan. plan_migration env rs opts m = (Ok plan, m')
       \<and> fst (load_identity (me_b64 env) s') = Ok (Some (mp_identity plan))
       \<and> ct_config (controller_new cenv s' pid i k sv ll lg w) = mp_config plan
       \<and> sh_registry (controller_new cenv s' pid i k sv ll lg w) = planned_registry (mp_nodes plan)
       \<and> distinct (map plan_id (mp_nodes plan))"
proof -
  obtain plan where plan: "plan_migration env rs opts m = (Ok plan, m')"
    and w: "write_migration env (opt_to opts) (mp_identity plan) (mp_config plan) (mp_nodes plan) s = (Ok (), s')"
    by (rule wrote_plan[OF assms(3,4)])
  from write_migration_outcome[OF assms(2) write_migration_opened[OF w], of "mp_identity plan" "mp_config plan" "mp_nodes plan"] w
  have d: "no_faults s'" "mirrors (planned_registry (mp_nodes plan)) s'" "fs_ok s'"
    "\<exists>n. fs_get s' server_path = Some n \<and> fn_content n = Doc (server_identity_json (me_b64 env) (mp_identity plan))"
    "\<exists>n. fs_get s' config_path = Some n \<and> fn_content n = Doc (config_json (mp_config plan))"
    "distinct (map plan_id (mp_nodes plan))"
    by (auto split: if_splits)
  obtain source where "mp_config plan = config_from source (mp_nodes plan)"
    using plan_migration_Ok[OF plan] by metis
  then have config: "config_of_json (config_json (mp_config plan)) = Some (mp_config plan)"
    by (intro config_json_roundtrip) (simp add: config_from_def config_ok_def om_ok_def)
  let ?c = "controller_new cenv s' pid i k sv ll lg w"
  have "sh_registry ?c = planned_registry (mp_nodes plan)"
    using restart_registry[OF d(1,2) planned_registry_ok] by (simp add: controller_new_registry planned_offline)
  moreover have "fst (load_identity (me_b64 env) s') = Ok (Some (mp_identity plan))"
  proof -
    obtain n where "fs_get s' server_path = Some n"
      "fn_content n = Doc (server_identity_json (me_b64 env) (mp_identity plan))" using d(4) by blast
    from read_back(1)[OF d(1) this, of "server_identity_of_json (me_b64 env)"] show ?thesis
      by (simp add: load_identity_def identity_json_roundtrip[OF assms(1)])
  qed
  moreover have "ct_config ?c = mp_config plan"
  proof -
    obtain n where "fs_get (snd (load_nodes s')) config_path = Some n" "fn_content n = Doc (config_json (mp_config plan))"
      using d(5) by (auto simp: load_nodes_keeps)
    from read_back(2)[OF load_nodes_keeps(2)[OF d(1)] this, of config_of_json] config
    show ?thesis
      by (auto simp: controller_new_def Let_def load_config_def split: prod.splits option.splits)
  qed
  ultimately show ?thesis using plan d(6) by blast
qed


lemma fresh_fs_target: "fresh_target fresh_fs"
  by (simp add: fresh_target_def no_faults_def fresh_fs_def fs_ok_def om_ok_def fs_get_def om_get_def)

lemma sample_migrates:
  assumes "- 1 \<notin> set ns" and "distinct ns"
  shows "\<exists>rep s'. run (sample_env ns) sample_rs sample_options m fresh_fs = (Ok rep, m, s')
           \<and> rp_wrote rep = Some ''/new'' \<and> fs_get s' server_path \<noteq> None"
proof -
  obtain plan where p: "plan_migration (sample_env ns) sample_rs sample_options m = (Ok plan, m)"
    "report_ok (mp_report plan)" "mp_nodes plan = sample_nodes ns" by (rule sample_ready[OF assms(1), of m])
  have "distinct (map plan_id (mp_nodes plan))"
    using assms(2) p(3) by (simp add: sample_nodes_def distinct_map comp_def sample_plan_node_def plan_id_def inj_on_def)
  moreover have "me_open (sample_env ns) (opt_to sample_options) = Ok ()" by (simp add: sample_env_def)
  ultimately obtain s' where
    "write_migration (sample_env ns) (opt_to sample_options) (mp_identity plan) (mp_config plan) (mp_nodes plan) fresh_fs = (Ok (), s')"
    "fs_get s' server_path \<noteq> None"
    using write_migration_outcome[OF fresh_fs_target, of "sample_env ns" "opt_to sample_options" "mp_identity plan"
        "mp_config plan" "mp_nodes plan"] by auto
  with run_writes[OF sample_apart p(1,2) _ this(1)] show ?thesis by (auto simp: sample_options_def)
qed

theorem migration_writes_only_after_checks_witness:
  "\<exists>plan. plan_migration (sample_env [8]) sample_rs sample_options ([], Map.empty) = (Ok plan, ([], Map.empty))
     \<and> report_ok (mp_report plan)"
proof -
  obtain rep s' where r: "run (sample_env [8]) sample_rs sample_options ([], Map.empty) fresh_fs = (Ok rep, ([], Map.empty), s')"
    "fs_get s' server_path \<noteq> None"
    using sample_migrates[of "[8]" "([], Map.empty)"] by auto
  then have "fs_get s' server_path \<noteq> fs_get fresh_fs server_path" by (simp add: fs_get_def fresh_fs_def om_get_def)
  from migration_writes_only_after_checks[OF r(1) this] show ?thesis by blast
qed

theorem migrated_store_starts_witness:
  "\<exists>s' plan. plan_migration (sample_env [9, 8]) sample_rs sample_options ([], Map.empty) = (Ok plan, ([], Map.empty))
     \<and> fst (load_identity raw_codec s') = Ok (Some (mp_identity plan))
     \<and> distinct (map plan_id (mp_nodes plan))"
proof -
  have b64: "codec_ok (me_b64 (sample_env [9, 8]))" using raw_codec_ok by (simp add: sample_env_def)
  obtain rep s' where r: "run (sample_env [9, 8]) sample_rs sample_options ([], Map.empty) fresh_fs = (Ok rep, ([], Map.empty), s')"
    "rp_wrote rep \<noteq> None"
    using sample_migrates[of "[9, 8]" "([], Map.empty)"] by auto
  have "me_b64 (sample_env [9, 8]) = raw_codec" by (simp add: sample_env_def)
  with migrated_store_starts[OF b64 fresh_fs_target r] show ?thesis by metis
qed


end
