(* ===== verification/Interact.thy ===== *)
theory Interact
  imports Reports
begin

section \<open>Interactions with a device (\<open>stack/src/ops/interact.rs\<close>)\<close>

text \<open>
  Reading and writing attributes and invoking commands on a node. The exchange is rs-matter's: it
  fails to open, runs out of time, or is established and then delivers the device's messages, each
  of which may fail to parse. The source decides what is sent, how it is encoded, and what the
  messages mean for the caller. The record \<open>im_client\<close> holds the exchanges, over a state
  \<open>'m\<close> that stands for the Matter instance and the network, and the TLV writer, over a buffer
  \<open>'b\<close>. What is only logged is left out.
\<close>

subsection \<open>Exchanges and messages\<close>

datatype 'c exchange = NotInitiated rs_error | Exchanged 'c | OutOfTime

text \<open>The status codes the source tells apart, and all others\<close>

datatype im_status_code = ImSuccess | ImBusy | ImTimeout | ImStatus u8

record write_status =
  ws_path :: attr_path
  ws_code :: im_status_code

datatype cmd_resp = CmdData tlv | CmdStatus im_status_code

text \<open>
  A response to a write is a list of statuses. A response to an invoke comes in messages: none for
  a bare status (already found to be a success), or one whose list of responses may be absent.
\<close>

type_synonym write_message = "rs_error + (rs_error + write_status) list"
type_synonym invoke_message = "rs_error + (rs_error + cmd_resp) list option option"

record ('b, 'm) im_client =
  im_put :: "'b put"
  im_buffer :: 'b
  im_written :: "'b \<Rightarrow> bytes"
  im_code :: "tlv_error \<Rightarrow> rs_error"
  im_status_byte :: "im_status_code \<Rightarrow> u8"
  im_status_name :: "im_status_code \<Rightarrow> rstring"
  im_read ::
    "u8 \<Rightarrow> u64 \<Rightarrow> nat \<Rightarrow> attr_path list \<Rightarrow> bool \<Rightarrow> 'm \<Rightarrow> (rs_error + report_data) list exchange \<times> 'm"
  im_write :: "u8 \<Rightarrow> u64 \<Rightarrow> nat \<Rightarrow> u16 \<Rightarrow> u32 \<Rightarrow> u32 \<Rightarrow> bytes \<Rightarrow> 'm \<Rightarrow> write_message exchange \<times> 'm"
  im_invoke ::
    "u8 \<Rightarrow> u64 \<Rightarrow> nat \<Rightarrow> u16 \<Rightarrow> u32 \<Rightarrow> u32 \<Rightarrow> bytes \<Rightarrow> u16 option \<Rightarrow> 'm
     \<Rightarrow> invoke_message list exchange \<times> 'm"

text \<open>
  Before the exchange is up a \<open>NotFound\<close> is a failed resolution, afterwards it is the device's
  own status.
\<close>

definition phase_mapper :: "bool \<Rightarrow> rs_error \<Rightarrow> stack_error" where
  "phase_mapper established e = (if established then map_err_established e else Reports.map_err e)"

definition run_exchange :: "nat \<Rightarrow> 'c exchange \<Rightarrow> ('c \<Rightarrow> rs_error + 'a) \<Rightarrow> 'a stack_result" where
  "run_exchange secs ex body =
     (case ex of
        NotInitiated e \<Rightarrow> with_timeout_mapped secs (Finished (Inl e)) (phase_mapper False)
      | Exchanged c \<Rightarrow> with_timeout_mapped secs (Finished (body c)) (phase_mapper True)
      | OutOfTime \<Rightarrow> with_timeout_mapped secs TimerFirst (phase_mapper False))"

subsection \<open>Encoding\<close>

definition DEFAULT_TIMED_MS :: u16 where "DEFAULT_TIMED_MS = 10000"

definition normalize_timed :: "u16 option \<Rightarrow> gen_cmd \<Rightarrow> u16 option" where
  "normalize_timed timed_ms cmd =
     (case timed_ms of
        Some ms \<Rightarrow> if 0 < ms then Some ms else if gc_is_timed cmd then Some DEFAULT_TIMED_MS else None
      | None \<Rightarrow> if gc_is_timed cmd then Some DEFAULT_TIMED_MS else None)"

definition to_attr_path :: "attribute_path_spec \<Rightarrow> attr_path" where
  "to_attr_path p =
     \<lparr>wp_endpoint = ap_endpoint p, wp_cluster = ap_cluster p, wp_attr = ap_attribute p,
      wp_list_index = None\<rparr>"

text \<open>An encoding of no bytes is refused: re-tagged, it would drop the field from the request.\<close>

definition encode_anonymous :: "('b, 'm) im_client \<Rightarrow> ('b \<Rightarrow> tlv_error + 'b) \<Rightarrow> tlv_error + bytes" where
  "encode_anonymous ic f =
     and_then (f (im_buffer ic)) (\<lambda>w. if im_written ic w = [] then Err InvalidTlv else Ok (im_written ic w))"

definition invalid_arguments :: "rstring \<Rightarrow> stack_error" where
  "invalid_arguments text = stack_error_new SeInvalidArguments text"

definition encode_failed :: "('b, 'm) im_client \<Rightarrow> rstring \<Rightarrow> tlv_error \<Rightarrow> stack_error" where
  "encode_failed ic what e = invalid_arguments (what @ '': Error::'' @ re_display (im_code ic e))"

subsection \<open>Reading\<close>

text \<open>One accumulator over all messages of the response; a message that fails ends the read.\<close>

definition absorb_response ::
  "b64_codec \<Rightarrow> gen_cluster list \<Rightarrow> (rs_error + report_data) list \<Rightarrow> rs_error + attr_accumulator" where
  "absorb_response b tables msgs =
     try_fold (\<lambda>m acc. and_then m (\<lambda>report. Ok (absorb b tables report acc))) msgs empty_accumulator"

definition read_attributes_inner ::
  "('b, 'm) im_client \<Rightarrow> b64_codec \<Rightarrow> gen_cluster list \<Rightarrow> u8 \<Rightarrow> u64 \<Rightarrow> attribute_path_spec list \<Rightarrow> bool
   \<Rightarrow> nat \<Rightarrow> 'm \<Rightarrow> (rstring \<times> json) list stack_result \<times> 'm" where
  "read_attributes_inner ic b tables fab n paths fabric_filtered timeout_secs m =
     (case im_read ic fab n timeout_secs (map to_attr_path paths) fabric_filtered m of
        (ex, m) \<Rightarrow>
          (run_exchange timeout_secs ex
             (\<lambda>msgs. and_then (absorb_response b tables msgs) (\<lambda>acc. Ok (into_pairs acc))), m))"

definition read_attributes ::
  "('b, 'm) im_client \<Rightarrow> b64_codec \<Rightarrow> gen_cluster list \<Rightarrow> u8 \<Rightarrow> u64 \<Rightarrow> attribute_path_spec list \<Rightarrow> bool
   \<Rightarrow> 'm \<Rightarrow> (rstring \<times> json) list stack_result \<times> 'm" where
  "read_attributes ic b tables fab n paths fabric_filtered m =
     read_attributes_inner ic b tables fab n paths fabric_filtered IM_TIMEOUT_SECS m"

definition interview ::
  "('b, 'm) im_client \<Rightarrow> b64_codec \<Rightarrow> gen_cluster list \<Rightarrow> u8 \<Rightarrow> u64 \<Rightarrow> 'm \<Rightarrow> jmap stack_result \<times> 'm" where
  "interview ic b tables fab n m =
     (case read_attributes_inner ic b tables fab n
             [\<lparr>ap_endpoint = None, ap_cluster = None, ap_attribute = None\<rparr>] True INTERVIEW_TIMEOUT_SECS m of
        (r, m) \<Rightarrow> (and_then r (\<lambda>pairs. Ok (om_of_list pairs)), m))"

subsection \<open>Writing\<close>

text \<open>
  Only statuses for the path that was written count; the first failure among them is the answer,
  and a success only when no failure follows.
\<close>

definition is_path :: "u16 \<Rightarrow> u32 \<Rightarrow> u32 \<Rightarrow> attr_path \<Rightarrow> bool" where
  "is_path e c a p \<longleftrightarrow> wp_endpoint p = Some e \<and> wp_cluster p = Some c \<and> wp_attr p = Some a"

fun write_statuses ::
  "('b, 'm) im_client \<Rightarrow> u16 \<Rightarrow> u32 \<Rightarrow> u32 \<Rightarrow> (rs_error + write_status) list \<Rightarrow> u8 option
   \<Rightarrow> rs_error + u8 option" where
  "write_statuses ic e c a [] ours = Ok ours"
| "write_statuses ic e c a (Inl err # ss) ours = Err err"
| "write_statuses ic e c a (Inr s # ss) ours =
     (if \<not> is_path e c a (ws_path s) then write_statuses ic e c a ss ours
      else let code = im_status_byte ic (ws_code s)
           in if code \<noteq> 0 then Ok (Some code) else write_statuses ic e c a ss (Some 0))"

definition no_write_status :: "u16 \<Rightarrow> u32 \<Rightarrow> u32 \<Rightarrow> stack_error" where
  "no_write_status e c a = stack_error_new Sdk (''device returned no write status for '' @ attr_key e c a)"

definition write_hint :: "gen_cluster list \<Rightarrow> u32 \<Rightarrow> u32 \<Rightarrow> type_hint option" where
  "write_hint tables c a =
     Option.bind (cluster tables c) (\<lambda>cl. map_option
       (\<lambda>at. \<lparr>th_ty = ga_ty at, th_is_list = ga_is_list at, th_cluster = Some cl\<rparr>) (cluster_attr cl a))"

definition stack_write_attribute ::
  "('b, 'm) im_client \<Rightarrow> b64_codec \<Rightarrow> gen_cluster list \<Rightarrow> u8 \<Rightarrow> u64 \<Rightarrow> u16 \<Rightarrow> u32 \<Rightarrow> u32 \<Rightarrow> json \<Rightarrow> 'm
   \<Rightarrow> u8 stack_result \<times> 'm" where
  "stack_write_attribute ic b tables fab n e c a v m =
     try_arg (Prelude.map_err (encode_failed ic (''Invalid value for attribute '' @ attr_key e c a))
                (encode_anonymous ic (write_json b (im_put ic) AnonymousTag v (write_hint tables c a))))
       (\<lambda>encoded m.
          case im_write ic fab n IM_TIMEOUT_SECS e c a encoded m of
            (ex, m) \<Rightarrow>
              (and_then (run_exchange IM_TIMEOUT_SECS ex
                  (\<lambda>msg. and_then msg (\<lambda>statuses. and_then (write_statuses ic e c a statuses None)
                    (\<lambda>ours. Ok (ok_or (no_write_status e c a) ours)))))
                (\<lambda>inner. inner), m)) m"

subsection \<open>Invoking\<close>

definition command_failed :: "('b, 'm) im_client \<Rightarrow> rstring \<Rightarrow> im_status_code \<Rightarrow> stack_error" where
  "command_failed ic name status =
     stack_error_new (case status of ImBusy \<Rightarrow> Busy | ImTimeout \<Rightarrow> Timeout | _ \<Rightarrow> Sdk)
       (''Command \"'' @ name @ ''\" failed with IM status '' @ im_status_name ic status
        @ '' (0x'' @ hex_padded 2 (unat (im_status_byte ic status)) @ '')'')"

text \<open>A command without a request struct still carries an empty one.\<close>

definition encode_command_args ::
  "('b, 'm) im_client \<Rightarrow> b64_codec \<Rightarrow> gen_cluster \<Rightarrow> gen_cmd \<Rightarrow> json \<Rightarrow> tlv_error + bytes" where
  "encode_command_args ic b cl cmd payload =
     and_then (case payload of JNull \<Rightarrow> Ok [] | JObj obj \<Rightarrow> Ok obj | _ \<Rightarrow> Err InvalidTlv) (\<lambda>obj.
       encode_anonymous ic (\<lambda>w.
         case Option.bind (gc_input cmd) (find_struct cl) of
           Some s \<Rightarrow> write_json_named (write_json b (im_put ic)) (im_put ic) AnonymousTag obj (gs_fields s) cl w
         | None \<Rightarrow> and_then (im_put ic (StartStruct AnonymousTag) w) (im_put ic EndContainer)))"

text \<open>The result so far, and whether it is a payload that was received\<close>

type_synonym invoke_state = "json stack_result \<times> bool"

definition invoke_response ::
  "('b, 'm) im_client \<Rightarrow> b64_codec \<Rightarrow> gen_cluster \<Rightarrow> gen_struct option \<Rightarrow> rstring \<Rightarrow> rs_error + cmd_resp
   \<Rightarrow> invoke_state \<Rightarrow> rs_error + invoke_state" where
  "invoke_response ic b cl output name r st =
     (case st of (result, got_payload) \<Rightarrow>
        and_then r (\<lambda>r.
          case r of
            CmdData d \<Rightarrow>
              and_then (Prelude.map_err (im_code ic)
                  (case output of
                     Some out \<Rightarrow> tlv_to_json_named b d (gs_fields out) cl
                   | None \<Rightarrow> tlv_to_json b d))
                (\<lambda>json. Ok (if is_ok result \<and> \<not> got_payload then (Ok json, True) else (result, got_payload)))
          | CmdStatus s \<Rightarrow>
              Ok (if s \<noteq> ImSuccess then (Err (command_failed ic name s), got_payload)
                  else (result, got_payload))))"

definition invoke_message_step ::
  "('b, 'm) im_client \<Rightarrow> b64_codec \<Rightarrow> gen_cluster \<Rightarrow> gen_struct option \<Rightarrow> rstring \<Rightarrow> invoke_message
   \<Rightarrow> invoke_state \<Rightarrow> rs_error + invoke_state" where
  "invoke_message_step ic b cl output name msg st =
     and_then msg (\<lambda>resp.
       case resp of
         Some (Some responses) \<Rightarrow> try_fold (invoke_response ic b cl output name) responses st
       | _ \<Rightarrow> Ok st)"

definition invoke ::
  "('b, 'm) im_client \<Rightarrow> b64_codec \<Rightarrow> gen_cluster list \<Rightarrow> u8 \<Rightarrow> u64 \<Rightarrow> u16 \<Rightarrow> u32 \<Rightarrow> rstring \<Rightarrow> json
   \<Rightarrow> u16 option \<Rightarrow> 'm \<Rightarrow> json stack_result \<times> 'm" where
  "invoke ic b tables fab n e c name payload timed_ms m =
     try_arg (ok_or (invalid_arguments (''Cluster Id \"'' @ dec_of c @ ''\" unknown'')) (cluster tables c)) (\<lambda>cl.
     try_arg (ok_or (invalid_arguments (''Command \"'' @ name @ ''\" does not exist on cluster \"''
                        @ cl_name cl @ [CHR 0x22])) (find_command_ci cl name)) (\<lambda>cmd.
     try_arg (Prelude.map_err (encode_failed ic (''Invalid payload for command \"'' @ name @ [CHR 0x22]))
                (encode_command_args ic b cl cmd payload)) (\<lambda>args m.
       case im_invoke ic fab n IM_TIMEOUT_SECS e c (gc_code cmd) args (normalize_timed timed_ms cmd) m of
         (ex, m) \<Rightarrow>
           (and_then (run_exchange IM_TIMEOUT_SECS ex
               (\<lambda>msgs. and_then (try_fold (invoke_message_step ic b cl
                    (Option.bind (gc_output cmd) (find_struct cl)) name) msgs (Ok JNull, False))
                 (\<lambda>(result, _). Ok result)))
             (\<lambda>inner. inner), m)))) m"

end
