(* ===== verification/Window.thy ===== *)
theory Window
  imports Interact
begin

section \<open>Commissioning windows and fabrics of a device (\<open>stack/src/ops/window.rs\<close>, \<open>stack/src/ops/fabrics.rs\<close>)\<close>

text \<open>
  Opening a commissioning window: draw a passcode, a discriminator and a salt, compute the verifier
  the device is told, and print the pairing code and the QR text. The random source, the curve and
  the two printers are rs-matter's (\<open>window_env\<close>). Then the device's own list of fabrics, the
  removal of one, and the label of ours.
\<close>

definition ROOT_ENDPOINT :: u16 where "ROOT_ENDPOINT = 0"
definition OP_CREDS :: u32 where "OP_CREDS = 62"
definition ADMIN_COMMISSIONING :: u32 where "ADMIN_COMMISSIONING = 60"
definition BASIC_INFO :: u32 where "BASIC_INFO = 40"
definition BASIC_INFO_VENDOR_ID :: u32 where "BASIC_INFO_VENDOR_ID = 2"
definition BASIC_INFO_PRODUCT_ID :: u32 where "BASIC_INFO_PRODUCT_ID = 4"
definition PAKE_ITERATIONS :: u32 where "PAKE_ITERATIONS = 2000"
definition SALT_LEN :: nat where "SALT_LEN = 32"
definition UINT320_CANON_LEN :: nat where "UINT320_CANON_LEN = 40"
definition MAX_PASSCODE :: u32 where "MAX_PASSCODE = 99999998"

definition INVALID_PASSCODES :: "u32 list" where
  "INVALID_PASSCODES =
     [0, 11111111, 22222222, 33333333, 44444444, 55555555, 66666666, 77777777, 88888888, 99999999,
      12345678, 87654321]"

text \<open>A scalar of the curve is a number, a point is its two coordinates.\<close>

record 'm window_env =
  we_rand :: "rs_error + unit"
  we_fill_bytes :: "nat \<Rightarrow> 'm \<Rightarrow> bytes \<times> 'm"
  we_pbkdf :: "bytes \<Rightarrow> nat \<Rightarrow> bytes \<Rightarrow> rs_error + bytes"
  we_scalar_mod_p :: "bytes \<Rightarrow> rs_error + nat"
  we_generator :: "rs_error + nat \<times> nat"
  we_mul :: "nat \<times> nat \<Rightarrow> nat \<Rightarrow> rs_error + nat \<times> nat"
  we_scalar_canon :: "nat \<Rightarrow> rs_error + bytes"
  we_point_canon :: "nat \<times> nat \<Rightarrow> rs_error + bytes"
  we_pairing_code :: "bytes \<Rightarrow> u16 \<Rightarrow> rstring"
  we_qr :: "bytes \<Rightarrow> u16 \<Rightarrow> u16 \<Rightarrow> u16 \<Rightarrow> rs_error + rstring"

subsection \<open>The secrets\<close>

definition le_value :: "bytes \<Rightarrow> nat" where
  "le_value bs = foldr (\<lambda>b n. unat b + 256 * n) bs 0"

definition to_le_bytes :: "u32 \<Rightarrow> bytes" where
  "to_le_bytes w = map (\<lambda>k. ucast (drop_bit (8 * k) w)) [0, 1, 2, 3]"

definition passcode_of :: "bytes \<Rightarrow> u32" where
  "passcode_of bs = of_nat (le_value bs) mod MAX_PASSCODE + 1"

text \<open>The loop ends with the first draw that is not a forbidden passcode.\<close>

partial_function (option) draw_passcode :: "(nat \<Rightarrow> 'm \<Rightarrow> bytes \<times> 'm) \<Rightarrow> 'm \<Rightarrow> (u32 \<times> 'm) option" where
  "draw_passcode fill m =
     (if passcode_of (fst (fill 4 m)) \<in> set INVALID_PASSCODES
      then draw_passcode fill (snd (fill 4 m))
      else Some (passcode_of (fst (fill 4 m)), snd (fill 4 m)))"

definition generate_window_secrets ::
  "(nat \<Rightarrow> 'm \<Rightarrow> bytes \<times> 'm) \<Rightarrow> 'm \<Rightarrow> ((u32 \<times> u16 \<times> bytes) \<times> 'm) option" where
  "generate_window_secrets fill m =
     (case draw_passcode fill m of
        None \<Rightarrow> None
      | Some (passcode, m) \<Rightarrow>
          (case fill 2 m of (d, m) \<Rightarrow>
             (case fill SALT_LEN m of (salt, m) \<Rightarrow>
                Some ((passcode, of_nat (le_value d) mod 4096, salt), m))))"

definition compute_pase_verifier :: "'m window_env \<Rightarrow> u32 \<Rightarrow> u32 \<Rightarrow> bytes \<Rightarrow> rs_error + bytes" where
  "compute_pase_verifier we passcode iterations salt =
     and_then (we_pbkdf we (to_le_bytes passcode) (unat iterations) salt) (\<lambda>w0s_w1s.
     and_then (we_scalar_mod_p we (take UINT320_CANON_LEN w0s_w1s)) (\<lambda>w0.
     and_then (we_scalar_mod_p we (drop UINT320_CANON_LEN w0s_w1s)) (\<lambda>w1.
     and_then (we_generator we) (\<lambda>g.
     and_then (we_mul we g w1) (\<lambda>l.
     and_then (we_scalar_canon we w0) (\<lambda>w0_canon.
     and_then (we_point_canon we l) (\<lambda>l_canon. Ok (w0_canon @ l_canon))))))))"

subsection \<open>Vendor and product\<close>

definition vid_pid_from :: "(rstring \<times> json) list \<Rightarrow> u16 \<times> u16" where
  "vid_pid_from pairs =
     (let get = (\<lambda>attr. or_else 0
            (Option.bind (map_of pairs (attr_key ROOT_ENDPOINT BASIC_INFO attr)) (\<lambda>v.
             Option.bind (as_u64 v) (\<lambda>n. if unat n < 2 ^ 16 then Some (ucast n) else None))))
      in (get BASIC_INFO_VENDOR_ID, get BASIC_INFO_PRODUCT_ID))"

definition basic_info_vid_pid ::
  "('b, 'm) im_client \<Rightarrow> b64_codec \<Rightarrow> gen_cluster list \<Rightarrow> u8 \<Rightarrow> u64 \<Rightarrow> 'm \<Rightarrow> (u16 \<times> u16) \<times> 'm" where
  "basic_info_vid_pid ic b tables fab n m =
     (case read_attributes ic b tables fab n
             [\<lparr>ap_endpoint = Some ROOT_ENDPOINT, ap_cluster = Some BASIC_INFO,
               ap_attribute = Some BASIC_INFO_VENDOR_ID\<rparr>,
              \<lparr>ap_endpoint = Some ROOT_ENDPOINT, ap_cluster = Some BASIC_INFO,
               ap_attribute = Some BASIC_INFO_PRODUCT_ID\<rparr>] False m of
        (Inr pairs, m) \<Rightarrow> (vid_pid_from pairs, m)
      | (Inl _, m) \<Rightarrow> ((0, 0), m))"

subsection \<open>The window\<close>

definition window_payload :: "b64_codec \<Rightarrow> u16 \<Rightarrow> bytes \<Rightarrow> u16 \<Rightarrow> bytes \<Rightarrow> json" where
  "window_payload b timeout_secs verifier discriminator salt =
     jobject
       [(''commissioningTimeout'', junsigned timeout_secs),
        (''PAKEPasscodeVerifier'', JStr (b64_encode b verifier)),
        (''discriminator'', junsigned discriminator),
        (''iterations'', junsigned PAKE_ITERATIONS),
        (''salt'', JStr (b64_encode b salt))]"

text \<open>What follows the drawing; the loop that draws may not end, then nothing is answered.\<close>

definition open_with_secrets ::
  "('b, 'm) im_client \<Rightarrow> 'm window_env \<Rightarrow> b64_codec \<Rightarrow> gen_cluster list \<Rightarrow> u8 \<Rightarrow> u64 \<Rightarrow> u16
   \<Rightarrow> u32 \<times> u16 \<times> bytes \<Rightarrow> 'm \<Rightarrow> window_info stack_result \<times> 'm" where
  "open_with_secrets ic we b tables fab n timeout_secs secrets =
     (case secrets of (passcode, discriminator, salt) \<Rightarrow>
        try_arg (Prelude.map_err Reports.map_err (compute_pase_verifier we passcode PAKE_ITERATIONS salt)) (\<lambda>verifier m.
          case invoke ic b tables fab n ROOT_ENDPOINT ADMIN_COMMISSIONING ''openCommissioningWindow''
                 (window_payload b timeout_secs verifier discriminator salt) (Some 10000) m of
            (Inl e, m) \<Rightarrow> (Err e, m)
          | (Inr _, m) \<Rightarrow>
              (case basic_info_vid_pid ic b tables fab n m of
                 ((vid, pid), m) \<Rightarrow>
                   (case we_qr we (to_le_bytes passcode) discriminator vid pid of
                      Inl e \<Rightarrow> (Err (Reports.map_err e), m)
                    | Inr qr \<Rightarrow>
                        (Ok \<lparr>wi_setup_pin_code = passcode,
                             wi_setup_manual_code = we_pairing_code we (to_le_bytes passcode) discriminator,
                             wi_setup_qr_code = qr\<rparr>, m)))))"

definition open_window ::
  "('b, 'm) im_client \<Rightarrow> 'm window_env \<Rightarrow> b64_codec \<Rightarrow> gen_cluster list \<Rightarrow> u8 \<Rightarrow> u64 \<Rightarrow> u16 \<Rightarrow> 'm
   \<Rightarrow> (window_info stack_result \<times> 'm) option" where
  "open_window ic we b tables fab n timeout_secs m =
     (case we_rand we of
        Inl e \<Rightarrow> Some (Err (Reports.map_err e), m)
      | Inr _ \<Rightarrow>
          map_option (\<lambda>(secrets, m). open_with_secrets ic we b tables fab n timeout_secs secrets m)
            (generate_window_secrets (we_fill_bytes we) m))"

subsection \<open>The fabrics of a device\<close>

definition FABRICS_ATTR :: u32 where "FABRICS_ATTR = 1"

definition NO_FABRICS :: rstring where
  "NO_FABRICS = ''No or invalid response received while querying fabrics''"

definition parse_fabric :: "json \<Rightarrow> device_fabric option" where
  "parse_fabric entry =
     (case entry of
        JObj fs \<Rightarrow>
          let num = (\<lambda>t. or_else 0 (Option.bind (om_get fs t) as_u64))
          in Some \<lparr>df_fabric_id = num ''3'', df_vendor_id = ucast (num ''2''),
                   df_fabric_index = ucast (num ''254''),
                   df_fabric_label = or_else [] (Option.bind (om_get fs ''5'') as_str)\<rparr>
      | _ \<Rightarrow> None)"

definition parse_fabrics :: "(rstring \<times> json) list \<Rightarrow> device_fabric list stack_result" where
  "parse_fabrics pairs =
     (case map_of pairs (attr_key ROOT_ENDPOINT OP_CREDS FABRICS_ATTR) of
        Some (JArr entries) \<Rightarrow>
          if entries = [] then Err (stack_error_new Sdk NO_FABRICS)
          else Ok (List.map_filter parse_fabric entries)
      | _ \<Rightarrow> Err (stack_error_new Sdk NO_FABRICS))"

definition device_fabrics ::
  "('b, 'm) im_client \<Rightarrow> b64_codec \<Rightarrow> gen_cluster list \<Rightarrow> u8 \<Rightarrow> u64 \<Rightarrow> 'm
   \<Rightarrow> device_fabric list stack_result \<times> 'm" where
  "device_fabrics ic b tables fab n m =
     (case read_attributes ic b tables fab n
             [\<lparr>ap_endpoint = Some ROOT_ENDPOINT, ap_cluster = Some OP_CREDS, ap_attribute = Some FABRICS_ATTR\<rparr>]
             False m of
        (r, m) \<Rightarrow> (and_then r parse_fabrics, m))"

definition check_noc_response :: "rstring \<Rightarrow> json \<Rightarrow> unit stack_result" where
  "check_noc_response command resp =
     (case Option.bind (jget resp ''statusCode'') as_u64 of
        Some status \<Rightarrow>
          if status = 0 then Ok ()
          else Err (stack_error_new Sdk (command @ '' failed with status '' @ dec_of status))
      | None \<Rightarrow> Err (stack_error_new Sdk (command @ '' returned no status code'')))"

definition remove_device_fabric ::
  "('b, 'm) im_client \<Rightarrow> b64_codec \<Rightarrow> gen_cluster list \<Rightarrow> u8 \<Rightarrow> u64 \<Rightarrow> u8 \<Rightarrow> 'm \<Rightarrow> unit stack_result \<times> 'm" where
  "remove_device_fabric ic b tables fab n fabric_index m =
     (case invoke ic b tables fab n ROOT_ENDPOINT OP_CREDS ''removeFabric''
             (jobject [(''fabricIndex'', junsigned fabric_index)]) None m of
        (r, m) \<Rightarrow> (and_then r (check_noc_response ''RemoveFabric''), m))"

end
