(* ===== verification/Commissioning.thy ===== *)
theory Commissioning
  imports Window Identity Addr
begin

section \<open>Discovery and commissioning (\<open>stack/src/ops/discovery.rs\<close>, \<open>stack/src/ops/commission.rs\<close>)\<close>

text \<open>
  Browsing for devices that can be commissioned, one advertisement at a time, and commissioning
  one in two timed phases. The browse, the two phases and the parsers of pairing codes and socket
  addresses are rs-matter's and the standard library's (\<open>onboard_env\<close>). A duration is a number of
  ticks; what is only logged is left out.
\<close>

datatype net_address = Udp socket_addr | Tcp socket_addr | OtherAddress rstring

definition addr_to_string :: "net_address \<Rightarrow> rstring" where
  "addr_to_string a = (case a of Udp sa \<Rightarrow> render_addr sa | Tcp sa \<Rightarrow> render_addr sa | OtherAddress s \<Rightarrow> s)"

record commissionable_filter =
  cf_discriminator :: "u16 option"
  cf_short_discriminator :: "u8 option"
  cf_vendor_id :: "u16 option"
  cf_product_id :: "u16 option"
  cf_device_type :: "u32 option"
  cf_commissioning_mode_only :: bool

record 'm onboard_env =
  oe_now :: "'m \<Rightarrow> instant"
  oe_browse ::
    "commissionable_filter \<Rightarrow> u64 list \<Rightarrow> u32 \<Rightarrow> u32 \<Rightarrow> 'm \<Rightarrow> (net_address \<times> u64) race \<times> 'm"
  oe_parse_qr :: "rstring \<Rightarrow> rs_error + u32 \<times> commissionable_filter"
  oe_parse_manual :: "rstring \<Rightarrow> rs_error + u32 \<times> commissionable_filter"
  oe_parse_addr :: "rstring \<Rightarrow> rstring + socket_addr"
  oe_commission :: "net_address \<Rightarrow> u32 \<Rightarrow> u64 \<Rightarrow> 'm \<Rightarrow> u8 race \<times> 'm"
  oe_complete :: "net_address \<Rightarrow> u8 \<Rightarrow> 'm \<Rightarrow> unit race \<times> 'm"

subsection \<open>One browse\<close>

definition SLOT_MARGIN_MS :: u32 where "SLOT_MARGIN_MS = 100"

definition inner_budget_ms :: "u32 \<Rightarrow> u32" where
  "inner_budget_ms ms = max (if SLOT_MARGIN_MS \<le> ms then ms - SLOT_MARGIN_MS else 0) (ms div 2)"

definition budget_ms :: "instant \<Rightarrow> u32" where
  "budget_ms budget =
     max (if budget div 1000 < 2 ^ 32 then of_nat (budget div 1000) else - 1) 1"

definition slot_timeout :: "u32 \<Rightarrow> stack_error" where
  "slot_timeout ms =
     stack_error_new Timeout (''mDNS browse timed out after '' @ dec_of ms
       @ ''ms without getting a turn (another discovery or commissioning was holding the browse slot)'')"

definition browse_one ::
  "'m onboard_env \<Rightarrow> commissionable_filter \<Rightarrow> u64 list \<Rightarrow> instant \<Rightarrow> 'm
   \<Rightarrow> (net_address \<times> u64) stack_result \<times> 'm" where
  "browse_one oe flt exclude budget m =
     (let ms = budget_ms budget; inner = inner_budget_ms ms
      in case oe_browse oe flt exclude inner ms m of
           (Finished r, m) \<Rightarrow> (Prelude.map_err Reports.map_err r, m)
         | (TimerFirst, m) \<Rightarrow> (Err (slot_timeout ms), m))"

subsection \<open>The sweep\<close>

definition MAX_SWEEP :: nat where "MAX_SWEEP = 6"

record sweep =
  sp_out :: "discovered_device list"
  sp_exclude :: "u64 list"

definition empty_sweep :: sweep where
  "empty_sweep = \<lparr>sp_out = [], sp_exclude = []\<rparr>"

definition sweep_push :: "rstring \<Rightarrow> u64 \<Rightarrow> sweep \<Rightarrow> sweep" where
  "sweep_push address inst sw =
     \<lparr>sp_out = sp_out sw @ [\<lparr>dd_instance_name = hex_padded_upper 16 (unat inst), dd_address = address\<rparr>],
      sp_exclude = sp_exclude sw @ [inst]\<rparr>"

definition sweep_is_full :: "sweep \<Rightarrow> bool" where
  "sweep_is_full sw \<longleftrightarrow> MAX_SWEEP \<le> length (sp_exclude sw)"

text \<open>Instants are 64 bits wide; the deadline saturates, and so does what is left of it.\<close>

definition deadline_after :: "instant \<Rightarrow> instant \<Rightarrow> instant" where
  "deadline_after now d = (if now + d < 2 ^ 64 then now + d else 2 ^ 64 - 1)"

definition remaining_budget :: "instant \<Rightarrow> instant \<Rightarrow> instant" where
  "remaining_budget deadline now = deadline - now"

function sweep_loop ::
  "'m onboard_env \<Rightarrow> commissionable_filter \<Rightarrow> instant \<Rightarrow> sweep \<Rightarrow> 'm \<Rightarrow> sweep \<times> 'm" where
  "sweep_loop oe flt deadline sw m =
     (if sweep_is_full sw then (sw, m)
      else
        let remaining = remaining_budget deadline (oe_now oe m)
        in if remaining = 0 then (sw, m)
           else case browse_one oe flt (sp_exclude sw) remaining m of
                  (Inr (addr, inst), m) \<Rightarrow> sweep_loop oe flt deadline (sweep_push (addr_to_string addr) inst sw) m
                | (Inl _, m) \<Rightarrow> (sw, m))"
  by pat_completeness auto
termination
  by (relation "measure (\<lambda>(oe, flt, deadline, sw, m). MAX_SWEEP - length (sp_exclude sw))")
     (auto simp: sweep_is_full_def sweep_push_def)

declare sweep_loop.simps [simp del]

definition browse_filter :: commissionable_filter where
  "browse_filter =
     \<lparr>cf_discriminator = None, cf_short_discriminator = None, cf_vendor_id = None, cf_product_id = None,
      cf_device_type = None, cf_commissioning_mode_only = True\<rparr>"

definition browse :: "'m onboard_env \<Rightarrow> u32 \<Rightarrow> 'm \<Rightarrow> discovered_device list stack_result \<times> 'm" where
  "browse oe timeout_ms m =
     (case sweep_loop oe browse_filter (deadline_after (oe_now oe m) (unat timeout_ms * 1000)) empty_sweep m of
        (sw, m) \<Rightarrow> (Ok (sp_out sw), m))"

subsection \<open>The target of a commissioning\<close>

definition BROWSE_TIMEOUT :: instant where "BROWSE_TIMEOUT = from_secs 30"

definition invalid_code :: "rstring \<Rightarrow> rs_error \<Rightarrow> stack_error" where
  "invalid_code what e = invalid_arguments (''invalid '' @ what @ '': Error::'' @ re_display e)"

definition parse_pairing_code :: "'m onboard_env \<Rightarrow> rstring \<Rightarrow> (u32 \<times> commissionable_filter) stack_result" where
  "parse_pairing_code oe c =
     (if starts_with ''MT:'' c then Prelude.map_err (invalid_code ''QR code'') (oe_parse_qr oe c)
      else Prelude.map_err (invalid_code ''pairing code'') (oe_parse_manual oe c))"

definition parse_socket_addr :: "'m onboard_env \<Rightarrow> rstring \<Rightarrow> net_address stack_result" where
  "parse_socket_addr oe addr =
     (case oe_parse_addr oe addr of
        Inl e \<Rightarrow> Err (invalid_arguments (''invalid ip_addr: '' @ e))
      | Inr sa \<Rightarrow> Ok (Udp sa))"

definition browse_for ::
  "'m onboard_env \<Rightarrow> u32 \<Rightarrow> commissionable_filter \<Rightarrow> 'm \<Rightarrow> (u32 \<times> net_address) stack_result \<times> 'm" where
  "browse_for oe passcode flt m =
     (case browse_one oe flt [] BROWSE_TIMEOUT m of
        (Inl e, m) \<Rightarrow> (Err e, m)
      | (Inr (addr, inst), m) \<Rightarrow> (Ok (passcode, addr), m))"

definition resolve_target ::
  "'m onboard_env \<Rightarrow> pase_target \<Rightarrow> 'm \<Rightarrow> (u32 \<times> net_address) stack_result \<times> 'm" where
  "resolve_target oe target m =
     (case target of
        CodeTarget c \<Rightarrow>
          try_arg (parse_pairing_code oe (trim c)) (\<lambda>(passcode, flt). browse_for oe passcode flt) m
      | OnNetwork passcode long short vendor \<Rightarrow>
          browse_for oe passcode
            \<lparr>cf_discriminator = long, cf_short_discriminator = short, cf_vendor_id = vendor,
             cf_product_id = None, cf_device_type = None,
             cf_commissioning_mode_only = (long = None \<and> short = None \<and> vendor = None)\<rparr> m
      | Address passcode addr \<Rightarrow>
          (and_then (parse_socket_addr oe addr) (\<lambda>a. Ok (passcode, a)), m))"

subsection \<open>Labels on the device\<close>

text \<open>The device's answer is only logged.\<close>

definition push_fabric_label ::
  "('b, 'm) im_client \<Rightarrow> b64_codec \<Rightarrow> gen_cluster list \<Rightarrow> u8 \<Rightarrow> u64 \<Rightarrow> rstring \<Rightarrow> 'm \<Rightarrow> 'm" where
  "push_fabric_label ic b tables fab n label m =
     snd (invoke ic b tables fab n ROOT_ENDPOINT OP_CREDS ''updateFabricLabel''
            (jobject [(''label'', JStr (truncate_to_bytes label FABRIC_LABEL_MAX_BYTES))]) None m)"

text \<open>\<open>order\<close> is the order in which the hash map of supervisors yields its keys.\<close>

definition update_fabric_label ::
  "('b, 'm) im_client \<Rightarrow> 'm rs_matter \<Rightarrow> ((u64 \<Rightarrow> nat option) \<Rightarrow> u64 list) \<Rightarrow> b64_codec \<Rightarrow> gen_cluster list
   \<Rightarrow> rstring \<Rightarrow> stack_ctx \<Rightarrow> 'm \<Rightarrow> unit stack_result \<times> 'm" where
  "update_fabric_label ic rs order b tables label ctx m =
     (let label = truncate_to_bytes label FABRIC_LABEL_MAX_BYTES
      in case rm_fabric_label rs (cx_fab_idx ctx) label m of
           (Inl e, m) \<Rightarrow> (Err (Reports.map_err e), m)
         | (Inr _, m) \<Rightarrow>
             (Ok (), fold (\<lambda>n. push_fabric_label ic b tables (cx_fab_idx ctx) n label) (order (cx_supervisors ctx)) m))"

subsection \<open>Commissioning\<close>

definition phase1_timeout :: stack_error where
  "phase1_timeout =
     stack_error_new Timeout (''commissioning timed out after '' @ dec_of_nat COMMISSION_TIMEOUT_SECS
       @ ''s (a previous failed attempt may hold the device'' @ [CHR 0x27] @ ''s PASE session for ~60s)'')"

definition phase2_timeout :: stack_error where
  "phase2_timeout =
     stack_error_new Timeout (''CASE completion timed out after '' @ dec_of_nat COMMISSION_TIMEOUT_SECS
       @ ''s; the device'' @ [CHR 0x27] @ ''s 60s failsafe has expired, so it has rolled back the partial''
       @ '' commissioning and may report Busy for ~60s'')"

definition timed_phase :: "stack_error \<Rightarrow> 'a race \<Rightarrow> 'a stack_result" where
  "timed_phase late fut =
     (case fut of Finished r \<Rightarrow> Prelude.map_err Reports.map_err r | TimerFirst \<Rightarrow> Err late)"

text \<open>The fabric id for the device's certificate: the root's own, or the stored one\<close>

definition noc_fabric_id :: "'m rs_matter \<Rightarrow> server_identity \<Rightarrow> u64" where
  "noc_fabric_id rs i =
     (case rm_cert_fabric_id rs (id_rcac_tlv i) of Inr fid \<Rightarrow> fid | Inl _ \<Rightarrow> id_fabric_id i)"

definition both_phases ::
  "'m rs_matter \<Rightarrow> 'm onboard_env \<Rightarrow> server_identity \<Rightarrow> commission_request \<Rightarrow> 'm
   \<Rightarrow> (net_address \<times> u8) stack_result \<times> 'm" where
  "both_phases rs oe i req =
     try_step (resolve_target oe (cr_target req)) (\<lambda>(passcode, addr).
     try_arg (Prelude.map_err Reports.map_err (rm_canon_key rs (id_ca_private_key i))) (\<lambda>_.
     try_arg (Prelude.map_err Reports.map_err
        (rm_noc_generator rs (id_ca_private_key i) (id_rcac_tlv i) (Some (noc_fabric_id rs i)))) (\<lambda>_ m.
       case oe_commission oe addr passcode (cr_node_id req) m of
         (fut, m) \<Rightarrow>
           try_arg (timed_phase phase1_timeout fut) (\<lambda>fabric_index m.
             case oe_complete oe addr fabric_index m of
               (fut, m) \<Rightarrow> (and_then (timed_phase phase2_timeout fut) (\<lambda>_. Ok (addr, fabric_index)), m)) m)))"

definition commission ::
  "('b, 'm) im_client \<Rightarrow> 'm rs_matter \<Rightarrow> 'm onboard_env \<Rightarrow> b64_codec \<Rightarrow> gen_cluster list \<Rightarrow> server_identity
   \<Rightarrow> commission_request \<Rightarrow> stack_ctx \<Rightarrow> 'm \<Rightarrow> commission_outcome stack_result \<times> stack_ctx \<times> 'm" where
  "commission ic rs oe b tables i req ctx m =
     (case both_phases rs oe i req m of
        (Inl e, m) \<Rightarrow> (Err e, ctx, m)
      | (Inr (addr, fabric_index), m) \<Rightarrow>
          let m = push_fabric_label ic b tables (cx_fab_idx ctx) (cr_node_id req) (cr_fabric_label req) m;
              address = addr_to_string addr
          in (Ok \<lparr>co_device_fabric_index = fabric_index, co_address = address\<rparr>,
              ctx\<lparr>cx_addrs := (cx_addrs ctx)(cr_node_id req \<mapsto> [ip_of address])\<rparr>, m))"

end
