(* ===== verification/Mdns.thy ===== *)
theory Mdns
  imports Reports
begin

section \<open>The mDNS interface (\<open>stack/src/mdns.rs\<close>)\<close>

text \<open>
  Choosing the network interface mDNS binds to, and the set-up of its socket, in which a failed
  multicast join is only a warning. An address is a word of 32 or 128 bits. What the system lists
  as interfaces and answers to the socket calls, and the responder itself, are arguments.
\<close>

type_synonym ipv4 = "32 word"
type_synonym ipv6 = "128 word"

datatype if_addr = IfV4 ipv4 | IfV6 ipv6

record interface =
  nif_name :: rstring
  nif_addr :: if_addr
  nif_index :: "u32 option"
  nif_loopback :: bool

record iface =
  if_name :: rstring
  if_ipv4 :: ipv4
  if_ipv6 :: ipv6
  if_index :: u32

definition StdIoError :: rs_error where
  "StdIoError = \<lparr>re_code = CodeOther, re_display = ''StdIoError''\<rparr>"

text \<open>The first segment of the address is its upper 16 bits.\<close>

definition is_unicast_link_local :: "ipv6 \<Rightarrow> bool" where
  "is_unicast_link_local ip \<longleftrightarrow> and (ucast (drop_bit 112 ip) :: u16) 0xffc0 = 0xfe80"

primrec find_map :: "('a \<Rightarrow> 'b option) \<Rightarrow> 'a list \<Rightarrow> 'b option" where
  "find_map f [] = None"
| "find_map f (x # xs) = (case f x of Some y \<Rightarrow> Some y | None \<Rightarrow> find_map f xs)"

definition v4_of :: "rstring \<Rightarrow> interface \<Rightarrow> (ipv4 \<times> u32) option" where
  "v4_of name ia =
     (case nif_addr ia of
        IfV4 ip \<Rightarrow> if nif_name ia = name then Some (ip, or_else 0 (nif_index ia)) else None
      | IfV6 _ \<Rightarrow> None)"

definition v6_of :: "rstring \<Rightarrow> interface \<Rightarrow> ipv6 option" where
  "v6_of name ia =
     (case nif_addr ia of IfV6 ip \<Rightarrow> if nif_name ia = name then Some ip else None | IfV4 _ \<Rightarrow> None)"

definition forced_interface :: "interface list \<Rightarrow> rstring \<Rightarrow> rs_error + iface" where
  "forced_interface all forced =
     and_then (ok_or StdIoError (find_map (v4_of forced) all)) (\<lambda>(ipv4, index).
       Ok \<lparr>if_name = forced, if_ipv4 = ipv4, if_ipv6 = or_else 0 (find_map (v6_of forced) all),
           if_index = index\<rparr>)"

text \<open>An address of IPv6 on an interface that also has one of IPv4\<close>

definition v6_candidate :: "(ipv6 \<Rightarrow> bool) \<Rightarrow> interface list \<Rightarrow> interface \<Rightarrow> iface option" where
  "v6_candidate ok all ia =
     (case nif_addr ia of
        IfV6 ip \<Rightarrow>
          if \<not> nif_loopback ia \<and> ok ip
          then map_option
            (\<lambda>(ipv4, _). \<lparr>if_name = nif_name ia, if_ipv4 = ipv4, if_ipv6 = ip, if_index = or_else 0 (nif_index ia)\<rparr>)
            (find_map (v4_of (nif_name ia)) all)
          else None
      | IfV4 _ \<Rightarrow> None)"

definition find_ipv6_candidate :: "interface list \<Rightarrow> (ipv6 \<Rightarrow> bool) \<Rightarrow> iface option" where
  "find_ipv6_candidate all ok = find_map (v6_candidate ok all) all"

definition fallback_iface :: "interface \<Rightarrow> iface" where
  "fallback_iface ia =
     \<lparr>if_name = nif_name ia,
      if_ipv4 = (case nif_addr ia of IfV4 ip \<Rightarrow> ip | IfV6 _ \<Rightarrow> 0),
      if_ipv6 = (case nif_addr ia of IfV6 ip \<Rightarrow> ip | IfV4 _ \<Rightarrow> 0),
      if_index = or_else 0 (nif_index ia)\<rparr>"

definition find_fallback_candidate :: "interface list \<Rightarrow> iface option" where
  "find_fallback_candidate all =
     map_option fallback_iface
       (List.find (\<lambda>ia. \<not> nif_loopback ia
           \<and> (starts_with ''eth'' (nif_name ia) \<or> starts_with ''eno'' (nif_name ia))) all)"

definition select_interface :: "interface list \<Rightarrow> rstring option \<Rightarrow> rs_error + iface" where
  "select_interface all forced =
     (case forced of
        Some name \<Rightarrow> forced_interface all name
      | None \<Rightarrow>
          (case find_ipv6_candidate all is_unicast_link_local of
             Some i \<Rightarrow> Ok i
           | None \<Rightarrow>
               (case find_ipv6_candidate all (\<lambda>_. True) of
                  Some i \<Rightarrow> Ok i
                | None \<Rightarrow> ok_or StdIoError (find_fallback_candidate all))))"

subsection \<open>Running the responder\<close>

text \<open>The calls on the socket, in their order; the last two may fail.\<close>

datatype socket_call =
    NewSocket | ReuseAddress | ReusePort | OnlyV6Off | BindSocket | NonBlocking
  | JoinV6 u32 | JoinV4 ipv4

definition fatal_call :: "socket_call \<Rightarrow> bool" where
  "fatal_call c \<longleftrightarrow> (case c of JoinV6 _ \<Rightarrow> False | JoinV4 _ \<Rightarrow> False | _ \<Rightarrow> True)"

definition mdns_calls :: "iface \<Rightarrow> socket_call list" where
  "mdns_calls i =
     [NewSocket, ReuseAddress, ReusePort, OnlyV6Off, BindSocket, NonBlocking,
      JoinV6 (if_index i), JoinV4 (if_ipv4 i)]"

definition socket_step :: "(socket_call \<Rightarrow> rs_error option) \<Rightarrow> socket_call \<Rightarrow> unit \<Rightarrow> rs_error + unit" where
  "socket_step sys c u =
     (case sys c of Some e \<Rightarrow> if fatal_call c then Err e else Ok () | None \<Rightarrow> Ok ())"

definition run_builtin_mdns ::
  "rstring + interface list \<Rightarrow> (socket_call \<Rightarrow> rs_error option) \<Rightarrow> (iface \<Rightarrow> rs_error + unit)
   \<Rightarrow> rstring option \<Rightarrow> rs_error + unit" where
  "run_builtin_mdns listed sys responder forced =
     and_then (Prelude.map_err (\<lambda>_. StdIoError) listed) (\<lambda>all.
     and_then (select_interface all forced) (\<lambda>selected.
     and_then (try_fold (socket_step sys) (mdns_calls selected) ()) (\<lambda>_. responder selected)))"

text \<open>\<open>create_dual_stack_socket\<close> of \<open>runtime.rs\<close>: every call must succeed.\<close>

definition NoNetworkInterface :: rs_error where
  "NoNetworkInterface = \<lparr>re_code = CodeOther, re_display = ''NoNetworkInterface''\<rparr>"

definition create_dual_stack_socket :: "(socket_call \<Rightarrow> rs_error option) \<Rightarrow> rs_error + unit" where
  "create_dual_stack_socket sys =
     try_fold (\<lambda>c u. case sys c of Some e \<Rightarrow> Err NoNetworkInterface | None \<Rightarrow> Ok ())
       [NewSocket, ReuseAddress, OnlyV6Off, BindSocket, NonBlocking] ()"

end
