(* ===== verification/Handle.thy ===== *)
theory Handle
  imports Commissioning Supervisor Mdns
begin

section \<open>The stack thread and its handle (\<open>stack/src/lib.rs\<close>, \<open>stack/src/runtime.rs\<close>)\<close>

text \<open>
  \<open>StackHandle\<close> is the real implementation of the trait \<open>Stack\<close>: each method puts a request on
  a channel, the loop on the stack thread spawns a task for it, and the task answers on the
  request's own channel. A request and its reply are one step here. The world holds the supervisors
  with the shared state of the thread, the Matter instance with the network, and whether the thread
  is still to be joined; the request channel is open while the loop reads it (\<open>sw_open\<close>).
\<close>

record ('b, 'm) stack_env =
  en_im :: "('b, 'm) im_client"
  en_rs :: "'m rs_matter"
  en_window :: "'m window_env"
  en_onboard :: "'m onboard_env"
  en_order :: "(u64 \<Rightarrow> nat option) \<Rightarrow> u64 list"
  en_b64 :: b64_codec
  en_tables :: "gen_cluster list"
  en_identity :: server_identity
  en_dies :: "'m \<Rightarrow> ('m \<times> bool) option"
      \<comment> \<open>the task dies before it answers: what it left, and whether the thread lives on\<close>

record 'm stack_world =
  hw_sup :: sup_world
  hw_net :: 'm
  hw_thread :: bool

definition hw_ctx :: "'m stack_world \<Rightarrow> stack_ctx" where
  "hw_ctx w = sw_ctx (hw_sup w)"

definition THREAD_DOWN :: rstring where "THREAD_DOWN = ''stack thread is down''"

definition thread_down :: stack_error where
  "thread_down = stack_error_new Sdk THREAD_DOWN"

subsection \<open>Requests\<close>

definition stack_request ::
  "('b, 'm) stack_env \<Rightarrow> ('m stack_world \<Rightarrow> 'a stack_result \<times> 'm stack_world)
   \<Rightarrow> 'm stack_world \<Rightarrow> 'a stack_result \<times> 'm stack_world" where
  "stack_request en op w =
     (if \<not> sw_open (hw_sup w) then (Err thread_down, w)
      else case en_dies en (hw_net w) of
             Some (m, alive) \<Rightarrow> (Err thread_down, w\<lparr>hw_net := m, hw_sup := (hw_sup w)\<lparr>sw_open := alive\<rparr>\<rparr>)
           | None \<Rightarrow> op w)"

text \<open>A request whose handler only drives the Matter instance\<close>

definition on_net ::
  "('m \<Rightarrow> 'a stack_result \<times> 'm) \<Rightarrow> 'm stack_world \<Rightarrow> 'a stack_result \<times> 'm stack_world" where
  "on_net f w = (case f (hw_net w) of (r, m) \<Rightarrow> (r, w\<lparr>hw_net := m\<rparr>))"

definition serve_commission ::
  "('b, 'm) stack_env \<Rightarrow> commission_request \<Rightarrow> 'm stack_world \<Rightarrow> commission_outcome stack_result \<times> 'm stack_world" where
  "serve_commission en req w =
     (case commission (en_im en) (en_rs en) (en_onboard en) (en_b64 en) (en_tables en) (en_identity en) req
             (hw_ctx w) (hw_net w) of
        (r, ctx, m) \<Rightarrow> (r, w\<lparr>hw_net := m, hw_sup := (hw_sup w)\<lparr>sw_ctx := ctx\<rparr>\<rparr>))"

text \<open>The registry requests are handled in the loop itself and have no reply.\<close>

definition send_start :: "u64 \<Rightarrow> 'm stack_world \<Rightarrow> 'm stack_world" where
  "send_start n w = (if sw_open (hw_sup w) then w\<lparr>hw_sup := start_supervisor n (hw_sup w)\<rparr> else w)"

definition send_stop :: "u64 \<Rightarrow> 'm stack_world \<Rightarrow> 'm stack_world" where
  "send_stop n w = (if sw_open (hw_sup w) then w\<lparr>hw_sup := stop_supervisor n (hw_sup w)\<rparr> else w)"

text \<open>
  The trait's methods. The loop that draws a passcode may not end; then the request is never
  answered, and the value of \<open>st_open_commissioning_window\<close> is unspecified.
\<close>

definition stack_handle :: "('b, 'm) stack_env \<Rightarrow> 'm stack_world stack" where
  "stack_handle en =
     (let ic = en_im en; b = en_b64 en; tables = en_tables en; fab = (\<lambda>w. cx_fab_idx (hw_ctx w))
      in \<lparr>st_commission = (\<lambda>req. stack_request en (serve_commission en req)),
          st_read_attributes = (\<lambda>n paths ff. stack_request en
            (\<lambda>w. on_net (read_attributes ic b tables (fab w) n paths ff) w)),
          st_write_attribute = (\<lambda>n e c a v. stack_request en
            (\<lambda>w. on_net (stack_write_attribute ic b tables (fab w) n e c a v) w)),
          st_invoke = (\<lambda>n e c name payload timed_ms. stack_request en
            (\<lambda>w. on_net (invoke ic b tables (fab w) n e c name payload timed_ms) w)),
          st_interview = (\<lambda>n. stack_request en (\<lambda>w. on_net (interview ic b tables (fab w) n) w)),
          st_open_commissioning_window = (\<lambda>n timeout_secs. stack_request en
            (\<lambda>w. on_net (\<lambda>m. the (open_window ic (en_window en) b tables (fab w) n timeout_secs m)) w)),
          st_device_fabrics = (\<lambda>n. stack_request en (\<lambda>w. on_net (device_fabrics ic b tables (fab w) n) w)),
          st_remove_device_fabric = (\<lambda>n fabric_index. stack_request en
            (\<lambda>w. on_net (remove_device_fabric ic b tables (fab w) n fabric_index) w)),
          st_update_fabric_label = (\<lambda>label. stack_request en
            (\<lambda>w. on_net (update_fabric_label ic (en_rs en) (en_order en) b tables label (hw_ctx w)) w)),
          st_start_supervisor = send_start,
          st_stop_supervisor = send_stop,
          st_node_addresses = (\<lambda>n. stack_request en (\<lambda>w. (Ok (cached_addresses n (hw_ctx w)), w))),
          st_browse_commissionable = (\<lambda>timeout_ms. stack_request en (\<lambda>w. on_net (browse (en_onboard en) timeout_ms) w))\<rparr>)"

text \<open>\<open>shutdown\<close>: stop the loop if it still reads, then join the thread if nobody has.\<close>

definition shutdown :: "'m stack_world \<Rightarrow> 'm stack_world" where
  "shutdown w =
     (let w = (if sw_open (hw_sup w) then w\<lparr>hw_sup := stop_all (hw_sup w)\<rparr> else w)
      in if hw_thread w then w\<lparr>hw_thread := False\<rparr> else w)"

subsection \<open>Boot\<close>

record stack_config =
  sc_fabric_id :: u64
  sc_vendor_id :: u16
  sc_fabric_label :: rstring
  sc_primary_interface :: "rstring option"

record ready_info =
  ri_identity :: server_identity
  ri_fabric_index :: u8

definition SECOND_STACK_MESSAGE :: rstring where
  "SECOND_STACK_MESSAGE =
     ''a Matter stack is already running in this process (rs-matter'' @ [CHR 0x27] @ ''s state lives in''
     @ '' process-wide statics, so there can only be one)''"

text \<open>
  The process: whether the statics are claimed, the Matter instance and the disk. The gate is
  swapped first; the claims behind it cannot fail for the one caller that gets there.
\<close>

record 'm process =
  pr_claimed :: bool
  pr_matter :: 'm
  pr_fs :: fs

definition claim_statics :: "'m process \<Rightarrow> bool \<times> 'm process" where
  "claim_statics p = (\<not> pr_claimed p, p\<lparr>pr_claimed := True\<rparr>)"

text \<open>
  \<open>run_stack\<close> up to the ready message: \<open>startup\<close> loads the sessions, and its failure is only a
  warning. The message is sent before anything else runs.
\<close>

definition run_stack ::
  "b64_codec \<Rightarrow> u32 \<Rightarrow> 'm rs_matter \<Rightarrow> (socket_call \<Rightarrow> rs_error option) \<Rightarrow> ('m \<Rightarrow> (rs_error + unit) \<times> 'm)
   \<Rightarrow> stack_config \<Rightarrow> 'm process \<Rightarrow> (rstring + ready_info) \<times> 'm process" where
  "run_stack b pid rs sys startup cfg p =
     (case claim_statics p of
        (False, p) \<Rightarrow> (Err SECOND_STACK_MESSAGE, p)
      | (True, p) \<Rightarrow>
          (case create_dual_stack_socket sys of
             Inl e \<Rightarrow> (Err (''could not bind the Matter UDP socket: Error::'' @ re_display e), p)
           | Inr _ \<Rightarrow>
               (case ensure_identity b pid rs (sc_fabric_id cfg) (sc_vendor_id cfg) (sc_fabric_label cfg)
                       (snd (startup (pr_matter p))) (pr_fs p) of
                  (Inl e, m, s) \<Rightarrow>
                    (Err (''could not establish the controller identity: Error::'' @ re_display e),
                     p\<lparr>pr_matter := m, pr_fs := s\<rparr>)
                | (Inr (i, fab_idx), m, s) \<Rightarrow>
                    (Ok \<lparr>ri_identity = i, ri_fabric_index = fab_idx\<rparr>, p\<lparr>pr_matter := m, pr_fs := s\<rparr>))))"

text \<open>
  \<open>spawn\<close>: the thread may not start at all, then the ready channel is closed unanswered. The loop
  reads requests only after a successful ready message.
\<close>

definition spawn ::
  "b64_codec \<Rightarrow> u32 \<Rightarrow> 'm rs_matter \<Rightarrow> (socket_call \<Rightarrow> rs_error option) \<Rightarrow> ('m \<Rightarrow> (rs_error + unit) \<times> 'm)
   \<Rightarrow> stack_config \<Rightarrow> bool \<Rightarrow> 'm process \<Rightarrow> (rstring + ready_info) option \<times> 'm stack_world \<times> 'm process" where
  "spawn b pid rs sys startup cfg thread_starts p =
     (if \<not> thread_starts
      then (None, \<lparr>hw_sup = (sup_init 0)\<lparr>sw_open := False\<rparr>, hw_net = pr_matter p, hw_thread = False\<rparr>, p)
      else case run_stack b pid rs sys startup cfg p of
             (Inl e, p) \<Rightarrow>
               (Some (Err e), \<lparr>hw_sup = (sup_init 0)\<lparr>sw_open := False\<rparr>, hw_net = pr_matter p, hw_thread = True\<rparr>, p)
           | (Inr ready, p) \<Rightarrow>
               (Some (Ok ready),
                \<lparr>hw_sup = sup_init (ri_fabric_index ready), hw_net = pr_matter p, hw_thread = True\<rparr>, p))"

text \<open>The futures of the thread: mDNS and the resumption cache may end, any other ends the stack.\<close>

datatype stack_future = Transport | ImResponder | RequestLoop | MdnsRunner | ResumptionPersist

definition future_ended :: "stack_future \<Rightarrow> 'm stack_world \<Rightarrow> 'm stack_world" where
  "future_ended f w =
     (case f of
        MdnsRunner \<Rightarrow> w
      | ResumptionPersist \<Rightarrow> w
      | _ \<Rightarrow> w\<lparr>hw_sup := (hw_sup w)\<lparr>sw_open := False\<rparr>\<rparr>)"

end
