(* ===== verification/Stack_Sample.thy ===== *)
theory Stack_Sample
  imports Handle Identity_Facts
begin

section \<open>A small network\<close>

text \<open>
  One concrete instance of everything the stack's operations leave open: a writer that keeps the
  operations it was given, a device that acknowledges every command, two schema entries, a browse
  that finds one device. The world is that of \<open>sample_rs\<close>; every exchange is put in front of its
  list of byte strings, whose length is also the clock, in milliseconds.
\<close>

type_synonym demo_world = "bytes list \<times> (u8 \<rightharpoonup> new_fabric)"

definition demo_note :: "bytes \<Rightarrow> demo_world \<Rightarrow> demo_world" where
  "demo_note x m = (x # fst m, snd m)"

definition demo_path :: attr_path where
  "demo_path = \<lparr>wp_endpoint = Some 1, wp_cluster = Some 6, wp_attr = Some 0, wp_list_index = None\<rparr>"

definition demo_client :: "(tlv_op list, demo_world) im_client" where
  "demo_client =
     \<lparr>im_put = (\<lambda>op w. Ok (w @ [op])), im_buffer = [], im_written = (\<lambda>w. replicate (length w) 7),
      im_code = (\<lambda>e. invalid_data),
      im_status_byte = (\<lambda>s. case s of ImSuccess \<Rightarrow> 0 | ImBusy \<Rightarrow> 0x9C | ImTimeout \<Rightarrow> 0x94 | ImStatus x \<Rightarrow> x),
      im_status_name = (\<lambda>s. ''Status''),
      im_read = (\<lambda>fab n secs paths ff m. (Exchanged [], demo_note [1] m)),
      im_write = (\<lambda>fab n secs e c a bs m.
        (Exchanged (Inr [Inr \<lparr>ws_path = demo_path\<lparr>wp_attr := Some 1\<rparr>, ws_code = ImStatus 1\<rparr>,
                         Inr \<lparr>ws_path = demo_path, ws_code = ImSuccess\<rparr>]), demo_note [2] m)),
      im_invoke = (\<lambda>fab n secs e c k bs timed m.
        (Exchanged [Inr (Some (Some [Inr (CmdStatus ImSuccess)]))], demo_note [3, ucast n, ucast k] m))\<rparr>"

definition demo_command :: "u32 \<Rightarrow> rstring \<Rightarrow> gen_cmd" where
  "demo_command k nm =
     \<lparr>gc_code = k, gc_name = nm, gc_input = None, gc_output = None, gc_is_timed = False\<rparr>"

definition demo_tables :: "gen_cluster list" where
  "demo_tables =
     [\<lparr>cl_code = 6, cl_name = ''OnOff'', cl_attributes = [], cl_commands = [demo_command 2 ''Toggle''],
       cl_structs = [], cl_events = []\<rparr>,
      \<lparr>cl_code = 60, cl_name = ''AdministratorCommissioning'', cl_attributes = [],
       cl_commands = [demo_command 0 ''OpenCommissioningWindow''], cl_structs = [], cl_events = []\<rparr>]"

definition demo_window :: "demo_world window_env" where
  "demo_window =
     \<lparr>we_rand = Ok (), we_fill_bytes = (\<lambda>n m. (replicate n 1, m)),
      we_pbkdf = (\<lambda>pw n salt. Ok (replicate 80 0)), we_scalar_mod_p = (\<lambda>bs. Ok (le_value bs)),
      we_generator = Ok (1, 2), we_mul = (\<lambda>p k. Ok p),
      we_scalar_canon = (\<lambda>k. Ok (replicate 32 0)), we_point_canon = (\<lambda>p. Ok (replicate 65 4)),
      we_pairing_code = (\<lambda>pw d. ''34970112332''), we_qr = (\<lambda>pw d vid pid. Ok ''MT:Y.K90'')\<rparr>"

definition demo_onboard :: "demo_world onboard_env" where
  "demo_onboard =
     \<lparr>oe_now = (\<lambda>m. 1000 * length (fst m)),
      oe_browse = (\<lambda>flt exclude inner ms m.
        if 5 \<in> set exclude
        then (Finished (Inl \<lparr>re_code = CodeNotFound, re_display = ''NotFound''\<rparr>),
              (replicate (unat ms) [] @ fst m, snd m))
        else (Finished (Inr (Udp (V4 ''10.0.0.9'' 5540), 5)), m)),
      oe_parse_qr = (\<lambda>s. Err invalid_data), oe_parse_manual = (\<lambda>s. Err invalid_data),
      oe_parse_addr = (\<lambda>s. Ok (V4 ''10.0.0.9'' 5540)),
      oe_commission = (\<lambda>a pw n m. (Finished (Ok 1), demo_note [4] m)),
      oe_complete = (\<lambda>a i m. (Finished (Ok ()), demo_note [5] m))\<rparr>"

definition demo_identity :: server_identity where
  "demo_identity =
     \<lparr>id_version = IDENTITY_VERSION, id_fabric_id = 1, id_vendor_id = 0xFFF1,
      id_controller_node_id = CONTROLLER_NODE_ID, id_compressed_fabric_id = 77,
      id_ca_private_key = [1], id_rcac_tlv = [7], id_controller_private_key = [2],
      id_controller_noc_tlv = [4], id_ipk = [5]\<rparr>"

definition demo_stack :: "(tlv_op list, demo_world) stack_env" where
  "demo_stack =
     \<lparr>en_im = demo_client, en_rs = sample_rs, en_window = demo_window, en_onboard = demo_onboard,
      en_order = (\<lambda>f. []), en_b64 = raw_codec, en_tables = demo_tables, en_identity = demo_identity,
      en_dies = (\<lambda>m. None)\<rparr>"

definition demo_stack_world :: "demo_world stack_world" where
  "demo_stack_world = \<lparr>hw_sup = sup_init 1, hw_net = ([], Map.empty), hw_thread = True\<rparr>"

text \<open>What the schema answers\<close>

lemma demo_clusters:
  "cluster demo_tables 6 = Some (demo_tables ! 0)" "cluster demo_tables 60 = Some (demo_tables ! 1)"
  by (simp_all add: cluster_def demo_tables_def bsearch.simps)

lemma demo_args:
  "gc_input cmd = None \<Longrightarrow> encode_command_args demo_client b cl cmd (JObj obj) = Ok [7, 7]"
  by (simp add: encode_command_args_def encode_anonymous_def demo_client_def numeral_2_eq_2)

lemma demo_toggle: "find_command_ci (demo_tables ! 0) ''Toggle'' = Some (demo_command 2 ''Toggle'')"
  by (simp add: find_command_ci_def demo_tables_def demo_command_def eq_ignore_ascii_case_def)

lemma demo_open:
  "find_command_ci (demo_tables ! 1) ''openCommissioningWindow'' = Some (demo_command 0 ''OpenCommissioningWindow'')"
  by code_simp

end
