(* ===== verification/Interact_Facts.thy ===== *)
theory Interact_Facts
  imports Stack_Sample
begin

section \<open>What an interaction means for the caller\<close>

text \<open>
  The status a write answers, the result an invoke answers, what never reaches the device, the
  secrets of a commissioning window, and the bounds of a browse.
\<close>

subsection \<open>Folding results\<close>

text \<open>A loop that reads each item and then updates a state is a reading of all items, then the updates.\<close>

lemma try_fold_collect:
  "try_fold (\<lambda>x s. and_then (f x) (\<lambda>y. Inr (g y s))) xs s =
     and_then (collect_results f xs) (\<lambda>ys. Inr (fold g ys s))"
proof (induction xs arbitrary: s)
  case (Cons x xs)
  then show ?case by (cases "f x"; cases "collect_results f xs") simp_all
qed simp

lemma fold_of_folds: "fold (fold g) xss s = fold g (concat xss) s"
  by (induction xss arbitrary: s) simp_all

lemma and_then_assoc: "and_then (and_then r f) g = and_then r (\<lambda>a. and_then (f a) g)"
  by (cases r) simp_all

lemma run_exchange_Exchanged [simp]:
  "run_exchange secs (Exchanged c) body = (case body c of Inl e \<Rightarrow> Err (map_err_established e) | Inr a \<Rightarrow> Ok a)"
  by (simp add: run_exchange_def with_timeout_mapped_def phase_mapper_def split: sum.splits)

subsection \<open>Writing\<close>

text \<open>The codes the device gave for the path, in order\<close>

definition own_codes ::
  "('b, 'm) im_client \<Rightarrow> u16 \<Rightarrow> u32 \<Rightarrow> u32 \<Rightarrow> write_status list \<Rightarrow> u8 list" where
  "own_codes ic e c a ss = map (\<lambda>s. im_status_byte ic (ws_code s)) (filter (\<lambda>s. is_path e c a (ws_path s)) ss)"

definition write_verdict :: "u8 list \<Rightarrow> u8 option" where
  "write_verdict codes =
     (if codes = [] then None
      else case List.find (\<lambda>x. x \<noteq> 0) codes of Some failure \<Rightarrow> Some failure | None \<Rightarrow> Some 0)"

lemma write_statuses_parsed:
  "write_statuses ic e c a (map Inr ss) ours =
     Inr (case own_codes ic e c a ss of [] \<Rightarrow> ours | codes \<Rightarrow> write_verdict codes)"
proof (induction ss arbitrary: ours)
  case (Cons s ss)
  then show ?case
    by (cases "own_codes ic e c a ss") (simp_all add: own_codes_def write_verdict_def Let_def)
qed (simp add: own_codes_def)

text \<open>
  C22: the answer of a write is the device's. When the value could be encoded and the device
  answered, only its statuses for the written path count, in whatever order and among whatever
  others they come: the first failure among them if there is one, success if there are some and all
  succeeded, and an error when there is none.
\<close>

theorem write_reply_is_the_devices:
  assumes "encode_anonymous ic (write_json b (im_put ic) AnonymousTag v (write_hint tables c a)) = Inr encoded"
    and "im_write ic fab n IM_TIMEOUT_SECS e c a encoded m = (Exchanged (Inr (map Inr ss)), m')"
  shows "stack_write_attribute ic b tables fab n e c a v m =
     (case write_verdict (own_codes ic e c a ss) of
        Some answer \<Rightarrow> (Ok answer, m')
      | None \<Rightarrow> (Err (no_write_status e c a), m'))"
proof (cases "own_codes ic e c a ss")
  case Nil
  then show ?thesis
    using assms by (simp add: stack_write_attribute_def write_statuses_parsed write_verdict_def)
next
  case (Cons x xs)
  then have "write_verdict (own_codes ic e c a ss) \<noteq> None"
    by (simp add: write_verdict_def split: option.splits)
  then obtain answer where "write_verdict (own_codes ic e c a ss) = Some answer" by blast
  with Cons show ?thesis
    using assms by (simp add: stack_write_attribute_def write_statuses_parsed)
qed

lemma write_reply_is_the_devices_witness:
  "stack_write_attribute demo_client raw_codec [] 1 7 1 6 0 (JBool True) ([], Map.empty)
     = (Ok 0, ([[2]], Map.empty))"
proof -
  have enc: "encode_anonymous demo_client
      (write_json raw_codec (im_put demo_client) AnonymousTag (JBool True) (write_hint [] 6 0)) = Inr [7]"
    by (simp add: write_hint_def cluster_def bsearch.simps write_json.simps write_heuristic_def
        encode_anonymous_def demo_client_def)
  have sent: "im_write demo_client 1 7 IM_TIMEOUT_SECS 1 6 0 [7] ([], Map.empty) =
      (Exchanged (Inr (map Inr [\<lparr>ws_path = demo_path\<lparr>wp_attr := Some 1\<rparr>, ws_code = ImStatus 1\<rparr>,
                                \<lparr>ws_path = demo_path, ws_code = ImSuccess\<rparr>])), ([[2]], Map.empty))"
    by (simp add: demo_client_def demo_note_def)
  from write_reply_is_the_devices[OF enc sent] show ?thesis
    by (simp add: own_codes_def write_verdict_def is_path_def demo_path_def demo_client_def)
qed

subsection \<open>Invoking\<close>

text \<open>What one response contributes: nothing, a failure, or a payload\<close>

definition read_response ::
  "('b, 'm) im_client \<Rightarrow> b64_codec \<Rightarrow> gen_cluster \<Rightarrow> gen_struct option \<Rightarrow> rstring \<Rightarrow> rs_error + cmd_resp
   \<Rightarrow> rs_error + json stack_result option" where
  "read_response ic b cl output name r =
     and_then r (\<lambda>r.
       case r of
         CmdData d \<Rightarrow>
           and_then (Prelude.map_err (im_code ic)
               (case output of
                  Some out \<Rightarrow> tlv_to_json_named b d (gs_fields out) cl
                | None \<Rightarrow> tlv_to_json b d))
             (\<lambda>json. Ok (Some (Ok json)))
       | CmdStatus s \<Rightarrow> Ok (if s = ImSuccess then None else Some (Err (command_failed ic name s))))"

definition read_invoke_message ::
  "('b, 'm) im_client \<Rightarrow> b64_codec \<Rightarrow> gen_cluster \<Rightarrow> gen_struct option \<Rightarrow> rstring \<Rightarrow> invoke_message
   \<Rightarrow> rs_error + json stack_result option list" where
  "read_invoke_message ic b cl output name msg =
     and_then msg (\<lambda>resp.
       case resp of Some (Some rs) \<Rightarrow> collect_results (read_response ic b cl output name) rs | _ \<Rightarrow> Ok [])"

text \<open>Any failure outranks every payload, the last one counts; else the first payload, or null.\<close>

definition invoke_verdict :: "json stack_result list \<Rightarrow> json stack_result" where
  "invoke_verdict answers =
     (let failures = filter (\<lambda>r. \<not> is_ok r) answers
      in if failures \<noteq> [] then last failures else case answers of [] \<Rightarrow> Ok JNull | p # _ \<Rightarrow> p)"

definition somes :: "'a option list \<Rightarrow> 'a list" where
  "somes os = map the (filter (\<lambda>ans. ans \<noteq> None) os)"

definition note_answer :: "json stack_result option \<Rightarrow> invoke_state \<Rightarrow> invoke_state" where
  "note_answer ans st =
     (case ans of
        None \<Rightarrow> st
      | Some (Inl f) \<Rightarrow> (Err f, snd st)
      | Some (Inr v) \<Rightarrow> if is_ok (fst st) \<and> \<not> snd st then (Ok v, True) else st)"

lemma note_answer_simps [simp]:
  "note_answer None st = st"
  "note_answer (Some (Inl f)) st = (Err f, snd st)"
  "note_answer (Some (Inr v)) st = (if is_ok (fst st) \<and> \<not> snd st then (Ok v, True) else st)"
  by (simp_all add: note_answer_def)

lemma somes_snoc [simp]:
  "somes (os @ [None]) = somes os" "somes (os @ [Some x]) = somes os @ [x]" "somes [] = []"
  by (simp_all add: somes_def)

lemma invoke_response_reads:
  "invoke_response ic b cl output name r st =
     and_then (read_response ic b cl output name r) (\<lambda>ans. Inr (note_answer ans st))"
  by (cases st; cases r)
     (auto simp: invoke_response_def read_response_def note_answer_def and_then_assoc
           split: cmd_resp.splits intro!: arg_cong[where f = "and_then _"])

lemma invoke_message_reads:
  "invoke_message_step ic b cl output name msg st =
     and_then (read_invoke_message ic b cl output name msg) (\<lambda>os. Inr (fold note_answer os st))"
proof -
  have "invoke_response ic b cl output name =
      (\<lambda>r st. and_then (read_response ic b cl output name r) (\<lambda>ans. Inr (note_answer ans st)))"
    by (intro ext) (rule invoke_response_reads)
  then show ?thesis
    by (cases msg) (auto simp: invoke_message_step_def read_invoke_message_def try_fold_collect split: option.splits)
qed

lemma fold_note_answer:
  "fst (fold note_answer os (Inr JNull, False)) = invoke_verdict (somes os)
   \<and> (is_ok (fst (fold note_answer os (Inr JNull, False))) \<longrightarrow>
        snd (fold note_answer os (Inr JNull, False)) = (somes os \<noteq> []))"
proof (induction os rule: rev_induct)
  case Nil
  then show ?case by (simp add: invoke_verdict_def)
next
  case (snoc ans os)
  obtain res got where st: "fold note_answer os (Inr JNull, False) = (res, got)" by force
  define as where "as = somes os"
  have last_fails: "\<not> is_ok (last (filter (\<lambda>r. \<not> is_ok r) as))" if "filter (\<lambda>r. \<not> is_ok r) as \<noteq> []"
    using last_in_set[OF that] by simp
  from snoc st have res: "res = invoke_verdict as" and got: "is_ok res \<Longrightarrow> got = (as \<noteq> [])"
    by (simp_all add: as_def)
  have oks: "filter (\<lambda>r. \<not> is_ok r) as = []" if "is_ok res"
    using that res last_fails by (auto simp: invoke_verdict_def Let_def split: if_splits)
  show ?case
  proof (cases ans)
    case None
    then show ?thesis using st res got by (simp add: as_def)
  next
    case (Some x)
    have more: "somes (os @ [ans]) = as @ [x]"
      using Some by (simp add: as_def)
    show ?thesis
    proof (cases x)
      case (Inl f)
      then show ?thesis using st Some by (simp add: more invoke_verdict_def)
    next
      case (Inr v)
      show ?thesis
      proof (cases "is_ok res")
        case True
        then show ?thesis
          using st Some Inr res got[OF True] oks[OF True] unfolding fold_append comp_def more
          by (cases as) (simp_all add: invoke_verdict_def)
      next
        case False
        then have "filter (\<lambda>r. \<not> is_ok r) as \<noteq> []"
          using res by (cases as) (auto simp: invoke_verdict_def split: if_splits)
        with False show ?thesis
          using st Some Inr res unfolding fold_append comp_def more
          by (simp add: invoke_verdict_def)
      qed
    qed
  qed
qed

text \<open>
  The result of an invoke is determined by the device's responses and nothing else. Whatever the
  messages and however the responses are spread over them: anything that cannot be read fails the
  call with the error of an established exchange; otherwise a reported failure outranks every
  payload, the last failure being the answer; otherwise the first payload is, and null when there is
  none.
\<close>

lemma invoke_by_rank:
  assumes "cluster tables c = Some cl" and "find_command_ci cl name = Some cmd"
    and "encode_command_args ic b cl cmd payload = Inr args"
    and "im_invoke ic fab n IM_TIMEOUT_SECS e c (gc_code cmd) args (normalize_timed timed_ms cmd) m = (Exchanged msgs, m')"
  shows "invoke ic b tables fab n e c name payload timed_ms m =
     (case collect_results (read_invoke_message ic b cl (Option.bind (gc_output cmd) (find_struct cl)) name) msgs of
        Inl err \<Rightarrow> Err (map_err_established err)
      | Inr oss \<Rightarrow> invoke_verdict (somes (concat oss)), m')"
proof -
  let ?out = "Option.bind (gc_output cmd) (find_struct cl)"
  have "invoke_message_step ic b cl ?out name =
      (\<lambda>msg st. and_then (read_invoke_message ic b cl ?out name msg) (\<lambda>os. Inr (fold note_answer os st)))"
    by (intro ext) (rule invoke_message_reads)
  then have "try_fold (invoke_message_step ic b cl ?out name) msgs (Inr JNull, False) =
      and_then (collect_results (read_invoke_message ic b cl ?out name) msgs)
        (\<lambda>oss. Inr (fold note_answer (concat oss) (Inr JNull, False)))"
    by (simp add: try_fold_collect fold_of_folds)
  then show ?thesis
    using assms fold_note_answer
    by (cases "collect_results (read_invoke_message ic b cl ?out name) msgs")
       (simp_all add: invoke_def case_prod_beta)
qed

subsection \<open>What is never sent\<close>

lemma invoke_refused:
  assumes "\<not> (\<exists>cl cmd args. cluster tables c = Some cl \<and> find_command_ci cl name = Some cmd
              \<and> encode_command_args ic b cl cmd payload = Inr args)"
  obtains why where "invoke ic b tables fab n e c name payload timed_ms m = (Err (invalid_arguments why), m)"
proof (cases "cluster tables c")
  case None
  then show ?thesis by (intro that) (simp add: invoke_def)
next
  case (Some cl)
  show ?thesis
  proof (cases "find_command_ci cl name")
    case None
    with Some show ?thesis by (intro that) (simp add: invoke_def)
  next
    case (Some cmd)
    with \<open>cluster tables c = Some cl\<close> assms obtain err where "encode_command_args ic b cl cmd payload = Inl err"
      by (metis sum.exhaust)
    with Some \<open>cluster tables c = Some cl\<close> show ?thesis by (intro that) (simp add: invoke_def encode_failed_def)
  qed
qed

lemma write_refused:
  assumes "encode_anonymous ic (write_json b (im_put ic) AnonymousTag v (write_hint tables c a)) = Inl err"
  obtains why where "stack_write_attribute ic b tables fab n e c a v m = (Err (invalid_arguments why), m)"
  using assms by (intro that) (simp add: stack_write_attribute_def encode_failed_def)

lemma pairing_code_refused:
  assumes "parse_pairing_code oe txt = Inl err"
  shows "se_kind err = SeInvalidArguments"
  using assms
  by (cases "oe_parse_qr oe txt"; cases "oe_parse_manual oe txt")
     (auto simp: parse_pairing_code_def invalid_code_def invalid_arguments_def stack_error_new_def split: if_splits)

subsection \<open>The secrets of a window\<close>

lemma passcode_of_range: "1 \<le> passcode_of bs \<and> passcode_of bs \<le> MAX_PASSCODE"
proof -
  have "unat (of_nat (le_value bs) mod MAX_PASSCODE) < 99999998"
    by (simp add: MAX_PASSCODE_def unat_mod)
  then show ?thesis
    by (simp add: passcode_of_def MAX_PASSCODE_def word_le_nat_alt unat_word_ariths)
qed

text \<open>Whether the draws ever yield a passcode that is allowed\<close>

definition draw_after :: "(nat \<Rightarrow> 'm \<Rightarrow> bytes \<times> 'm) \<Rightarrow> nat \<Rightarrow> 'm \<Rightarrow> u32" where
  "draw_after fill k m = passcode_of (fst (fill 4 (((\<lambda>m. snd (fill 4 m)) ^^ k) m)))"

lemma draw_after_Suc: "draw_after fill (Suc k) m = draw_after fill k (snd (fill 4 m))"
  by (simp add: draw_after_def funpow_Suc_right del: funpow.simps)

lemma draw_passcode_finds:
  assumes "draw_after fill k m \<notin> set INVALID_PASSCODES"
  shows "\<exists>p m'. draw_passcode fill m = Some (p, m')"
  using assms
proof (induction k arbitrary: m)
  case 0
  then show ?case by (subst draw_passcode.simps) (simp add: draw_after_def)
next
  case (Suc k)
  then have "\<exists>p m'. draw_passcode fill (snd (fill 4 m)) = Some (p, m')"
    by (simp add: draw_after_Suc)
  then show ?case by (subst draw_passcode.simps) simp
qed

lemma draw_passcode_legal:
  assumes "draw_passcode fill m = Some (p, m')"
  shows "p \<notin> set INVALID_PASSCODES \<and> 1 \<le> p \<and> p \<le> MAX_PASSCODE \<and> (\<exists>k. p = draw_after fill k m)"
proof -
  define legal where "legal = (\<lambda>fill (m :: 'a) (r :: u32 \<times> 'a). fst r \<notin> set INVALID_PASSCODES
      \<and> 1 \<le> fst r \<and> fst r \<le> MAX_PASSCODE \<and> (\<exists>k. fst r = draw_after fill k m))"
  have "legal fill m (p, m')"
  proof (rule draw_passcode.raw_induct[OF _ assms])
    fix draw :: "(nat \<Rightarrow> 'a \<Rightarrow> bytes \<times> 'a) \<Rightarrow> 'a \<Rightarrow> (u32 \<times> 'a) option" and fill m r
    assume IH: "\<And>fill m r. draw fill m = Some r \<Longrightarrow> legal fill m r"
      and now: "(if passcode_of (fst (fill 4 m)) \<in> set INVALID_PASSCODES then draw fill (snd (fill 4 m))
           else Some (passcode_of (fst (fill 4 m)), snd (fill 4 m))) = Some r"
    show "legal fill m r"
    proof (cases "passcode_of (fst (fill 4 m)) \<in> set INVALID_PASSCODES")
      case True
      with now have "legal fill (snd (fill 4 m)) r" by (intro IH) simp
      then show ?thesis unfolding legal_def draw_after_Suc[symmetric] by blast
    next
      case False
      with now have "fst r = passcode_of (fst (fill 4 m))" by auto
      with False show ?thesis
        using passcode_of_range[of "fst (fill 4 m)"] by (auto simp: legal_def draw_after_def intro: exI[of _ 0])
    qed
  qed
  then show ?thesis by (simp add: legal_def)
qed

lemma drawn_secrets_legal:
  assumes "generate_window_secrets fill m = Some ((passcode, discriminator, salt), m')"
  shows "passcode \<notin> set INVALID_PASSCODES \<and> 1 \<le> passcode \<and> passcode \<le> 99999998 \<and> discriminator < 4096"
proof -
  obtain p m1 where p: "draw_passcode fill m = Some (p, m1)" and "passcode = p"
    and "discriminator = of_nat (le_value (fst (fill 2 m1))) mod 4096"
    using assms by (auto simp: generate_window_secrets_def split: option.splits prod.splits)
  moreover have "of_nat x mod 4096 < (4096 :: u16)" for x by (simp add: word_mod_less_divisor)
  ultimately show ?thesis using draw_passcode_legal[OF p] by (simp add: MAX_PASSCODE_def)
qed

text \<open>
  Drawing the secrets ends exactly when some draw is allowed, and then with such a passcode:
  between 1 and 99999998, none of the forbidden ones, with a discriminator of twelve bits.
\<close>

theorem window_secrets_are_legal:
  "(generate_window_secrets fill m \<noteq> None \<longleftrightarrow> (\<exists>k. draw_after fill k m \<notin> set INVALID_PASSCODES))
   \<and> pred_option (\<lambda>((passcode, discriminator, salt), m').
        passcode \<notin> set INVALID_PASSCODES \<and> 1 \<le> passcode \<and> passcode \<le> 99999998 \<and> discriminator < 4096)
      (generate_window_secrets fill m)"
proof
  show "generate_window_secrets fill m \<noteq> None \<longleftrightarrow> (\<exists>k. draw_after fill k m \<notin> set INVALID_PASSCODES)"
  proof (cases "draw_passcode fill m")
    case None
    then have "draw_after fill k m \<in> set INVALID_PASSCODES" for k
      using draw_passcode_finds[of fill k m] by auto
    with None show ?thesis by (simp add: generate_window_secrets_def)
  next
    case (Some r)
    with draw_passcode_legal[of fill m "fst r" "snd r"]
    have "\<exists>k. draw_after fill k m \<notin> set INVALID_PASSCODES" by auto
    with Some show ?thesis by (simp add: generate_window_secrets_def split: prod.splits)
  qed
  show "pred_option (\<lambda>((passcode, discriminator, salt), m').
        passcode \<notin> set INVALID_PASSCODES \<and> 1 \<le> passcode \<and> passcode \<le> 99999998 \<and> discriminator < 4096)
      (generate_window_secrets fill m)"
    using drawn_secrets_legal[of fill m] by (cases "generate_window_secrets fill m") auto
qed

subsection \<open>The window a caller is told of\<close>

lemma open_with_secrets_told:
  assumes "open_with_secrets ic we b tables fab n timeout_secs (passcode, discriminator, salt) m = (Inr info, m')"
  shows "wi_setup_pin_code info = passcode
     \<and> wi_setup_manual_code info = we_pairing_code we (to_le_bytes passcode) discriminator
     \<and> (\<exists>vid pid. we_qr we (to_le_bytes passcode) discriminator vid pid = Inr (wi_setup_qr_code info))
     \<and> (\<exists>verifier reply m1. compute_pase_verifier we passcode PAKE_ITERATIONS salt = Inr verifier
         \<and> invoke ic b tables fab n ROOT_ENDPOINT ADMIN_COMMISSIONING ''openCommissioningWindow''
             (window_payload b timeout_secs verifier discriminator salt) (Some 10000) m = (Inr reply, m1))"
proof (cases "compute_pase_verifier we passcode PAKE_ITERATIONS salt")
  case (Inl e)
  then show ?thesis using assms by (simp add: open_with_secrets_def)
next
  case (Inr verifier)
  then show ?thesis using assms by (auto simp: open_with_secrets_def split: prod.splits sum.splits, blast)
qed

text \<open>
  C23: what a caller is told opens the window the device was told to open. When opening a window
  succeeds, the reply's passcode is a freshly drawn, allowed one; the device acknowledged the
  command with the verifier of exactly this passcode, and the pairing code and the QR text were
  made from this passcode and the discriminator the device was given.
\<close>

theorem window_reply_matches_device:
  assumes "open_window ic we b tables fab n timeout_secs m = Some (Inr info, m')"
  shows "\<exists>discriminator salt m1 verifier reply m2 vid pid.
      generate_window_secrets (we_fill_bytes we) m = Some ((wi_setup_pin_code info, discriminator, salt), m1)
    \<and> wi_setup_pin_code info \<notin> set INVALID_PASSCODES
    \<and> 1 \<le> wi_setup_pin_code info \<and> wi_setup_pin_code info \<le> 99999998
    \<and> compute_pase_verifier we (wi_setup_pin_code info) PAKE_ITERATIONS salt = Inr verifier
    \<and> invoke ic b tables fab n ROOT_ENDPOINT ADMIN_COMMISSIONING ''openCommissioningWindow''
        (window_payload b timeout_secs verifier discriminator salt) (Some 10000) m1 = (Inr reply, m2)
    \<and> wi_setup_manual_code info = we_pairing_code we (to_le_bytes (wi_setup_pin_code info)) discriminator
    \<and> we_qr we (to_le_bytes (wi_setup_pin_code info)) discriminator vid pid = Inr (wi_setup_qr_code info)"
proof -
  from assms obtain passcode discriminator salt m1 where
      secrets: "generate_window_secrets (we_fill_bytes we) m = Some ((passcode, discriminator, salt), m1)"
    and told: "open_with_secrets ic we b tables fab n timeout_secs (passcode, discriminator, salt) m1 = (Inr info, m')"
    by (auto simp: open_window_def split: sum.splits)
  from open_with_secrets_told[OF told] drawn_secrets_legal[OF secrets] secrets show ?thesis by auto
qed

lemma window_reply_matches_device_witness:
  "\<exists>info m'. open_window demo_client demo_window raw_codec demo_tables 1 7 300 ([], Map.empty) = Some (Inr info, m')
     \<and> wi_setup_pin_code info = 16843010 \<and> wi_setup_pin_code info \<notin> set INVALID_PASSCODES"
proof -
  have fill: "we_fill_bytes demo_window n m = (replicate n 1, m)" for n m by (simp add: demo_window_def)
  have "replicate 4 (1 :: u8) = [1, 1, 1, 1]" by (simp add: eval_nat_numeral)
  then have pass: "passcode_of (replicate 4 1) = 16843010"
    by (simp add: passcode_of_def le_value_def MAX_PASSCODE_def)
  have drawn: "draw_passcode (we_fill_bytes demo_window) m = Some (16843010, m)" for m
    by (subst draw_passcode.simps) (simp add: fill pass INVALID_PASSCODES_def)
  have inv: "invoke demo_client raw_codec demo_tables 1 7 ROOT_ENDPOINT ADMIN_COMMISSIONING ''openCommissioningWindow''
      (window_payload raw_codec 300 v d salt) (Some 10000) m = (Inr JNull, demo_note [3, 7, 0] m)" for v d salt m
  proof -
    have sent: "im_invoke demo_client 1 7 IM_TIMEOUT_SECS ROOT_ENDPOINT ADMIN_COMMISSIONING
        (gc_code (demo_command 0 ''OpenCommissioningWindow'')) [7, 7]
        (normalize_timed (Some 10000) (demo_command 0 ''OpenCommissioningWindow'')) m =
      (Exchanged [Inr (Some (Some [Inr (CmdStatus ImSuccess)]))], demo_note [3, 7, 0] m)"
      by (simp add: demo_client_def demo_command_def)
    have args: "encode_command_args demo_client raw_codec (demo_tables ! 1) (demo_command 0 ''OpenCommissioningWindow'')
        (window_payload raw_codec 300 v d salt) = Inr [7, 7]"
      unfolding window_payload_def jobject_def by (rule demo_args) (simp add: demo_command_def)
    have known: "cluster demo_tables ADMIN_COMMISSIONING = Some (demo_tables ! 1)"
      unfolding ADMIN_COMMISSIONING_def by (rule demo_clusters)
    show ?thesis
      using invoke_by_rank[OF known demo_open args sent]
      by (simp add: read_invoke_message_def read_response_def somes_def invoke_verdict_def)
  qed
  obtain v where v: "compute_pase_verifier demo_window 16843010 PAKE_ITERATIONS (replicate SALT_LEN 1) = Inr v"
    by (simp add: compute_pase_verifier_def demo_window_def)
  obtain vid pid m2 where vp: "basic_info_vid_pid demo_client raw_codec demo_tables 1 7 (demo_note [3, 7, 0] ([], Map.empty))
      = ((vid, pid), m2)" by (metis surj_pair)
  have qr: "we_qr demo_window pw d vid pid = Inr ''MT:Y.K90''" for pw d by (simp add: demo_window_def)
  have secrets: "generate_window_secrets (we_fill_bytes demo_window) ([], Map.empty) =
      Some ((16843010, of_nat (le_value (replicate 2 1)) mod 4096, replicate SALT_LEN 1), ([], Map.empty))"
    by (simp only: generate_window_secrets_def drawn fill option.case prod.case)
  have rand: "we_rand demo_window = Inr ()" by (simp add: demo_window_def)
  have "\<exists>info m'. open_window demo_client demo_window raw_codec demo_tables 1 7 300 ([], Map.empty) = Some (Inr info, m')
      \<and> wi_setup_pin_code info = 16843010"
    by (simp only: open_window_def rand secrets sum.case option.map prod.case open_with_secrets_def v map_err.simps
          try_arg_simps inv vp qr) simp
  then obtain info m' where told: "open_window demo_client demo_window raw_codec demo_tables 1 7 300 ([], Map.empty)
      = Some (Inr info, m')" and "wi_setup_pin_code info = 16843010" by blast
  with window_reply_matches_device[OF told] show ?thesis by blast
qed

subsection \<open>Browsing\<close>

lemma inner_budget_shorter: "1 \<le> ms \<Longrightarrow> inner_budget_ms ms < ms"
proof -
  assume "1 \<le> ms"
  then have pos: "1 \<le> unat ms" by (simp add: word_le_nat_alt)
  have "unat (ms div 2) < unat ms" using pos by (simp add: unat_div)
  moreover have "unat (ms - 100) < unat ms" if "100 \<le> ms"
    using that pos by (simp add: unat_sub word_le_nat_alt)
  ultimately show ?thesis
    using pos by (auto simp: inner_budget_ms_def SLOT_MARGIN_MS_def max_def word_less_nat_alt)
qed

lemma budget_at_least_one: "1 \<le> budget_ms d"
  by (simp add: budget_ms_def)

text \<open>
  The documented behaviour of a browse: it never finds what it was told to exclude, and it is over
  when the timer it is raced against fires.
\<close>

definition browse_contract :: "'m onboard_env \<Rightarrow> bool" where
  "browse_contract oe \<longleftrightarrow>
     (\<forall>flt exclude inner ms m.
        oe_now oe (snd (oe_browse oe flt exclude inner ms m)) \<le> oe_now oe m + unat ms * 1000
      \<and> (\<forall>addr inst. fst (oe_browse oe flt exclude inner ms m) = Finished (Inr (addr, inst)) \<longrightarrow>
           inst \<notin> set exclude))"

lemma budget_fits: "unat (budget_ms d) * 1000 \<le> max d 1000"
proof -
  have "unat (budget_ms d) \<le> max (d div 1000) 1"
    by (auto simp: budget_ms_def max_def word_le_nat_alt unsigned_minus_1_eq_mask mask_eq_exp_minus_1
          unsigned_of_nat take_bit_nat_eq_self)
  then have "unat (budget_ms d) * 1000 \<le> max (d div 1000) 1 * 1000" by simp
  also have "\<dots> \<le> max d 1000" by (simp add: max_def)
  finally show ?thesis .
qed

lemma browse_one_contract:
  assumes "browse_contract oe" and "browse_one oe flt exclude d m = (r, m')"
  shows "oe_now oe m' \<le> oe_now oe m + max d 1000"
    and "r = Inr (addr, inst) \<Longrightarrow> inst \<notin> set exclude"
proof -
  let ?ms = "budget_ms d"
  obtain fut where fut: "oe_browse oe flt exclude (inner_budget_ms ?ms) ?ms m = (fut, m')"
    and r: "r = (case fut of Finished x \<Rightarrow> Prelude.map_err Reports.map_err x | TimerFirst \<Rightarrow> Err (slot_timeout ?ms))"
    using assms(2) by (auto simp: browse_one_def Let_def split: prod.splits race.splits)
  have "oe_now oe m' \<le> oe_now oe m + unat ?ms * 1000"
    using assms(1) fut unfolding browse_contract_def by (metis snd_conv)
  with budget_fits[of d] show "oe_now oe m' \<le> oe_now oe m + max d 1000" by linarith
  show "inst \<notin> set exclude" if "r = Inr (addr, inst)"
  proof -
    from that r have "fut = Finished (Inr (addr, inst))" by (auto split: race.splits)
    with assms(1) fut show ?thesis unfolding browse_contract_def by (metis fst_conv)
  qed
qed

definition sweep_ok :: "sweep \<Rightarrow> bool" where
  "sweep_ok sw \<longleftrightarrow>
     length (sp_exclude sw) \<le> MAX_SWEEP \<and> distinct (sp_exclude sw)
   \<and> map dd_instance_name (sp_out sw) = map (\<lambda>i. hex_padded_upper 16 (unat i)) (sp_exclude sw)"

lemma sweep_push_ok:
  "sweep_ok sw \<Longrightarrow> \<not> sweep_is_full sw \<Longrightarrow> inst \<notin> set (sp_exclude sw) \<Longrightarrow> sweep_ok (sweep_push address inst sw)"
  by (simp add: sweep_ok_def sweep_push_def sweep_is_full_def)

lemma sweep_loop_ok:
  assumes "browse_contract oe"
  shows "sweep_ok sw \<Longrightarrow> sweep_ok (fst (sweep_loop oe flt deadline sw m))
     \<and> oe_now oe (snd (sweep_loop oe flt deadline sw m)) \<le> max (oe_now oe m) (deadline + 999)"
  using assms
proof (induction oe flt deadline sw m rule: sweep_loop.induct)
  case (1 oe flt deadline sw m)
  let ?left = "remaining_budget deadline (oe_now oe m)"
  show ?case
  proof (cases "sweep_is_full sw \<or> ?left = 0")
    case True
    then show ?thesis using "1.prems" by (subst (1 2) sweep_loop.simps) auto
  next
    case False
    then have go: "\<not> sweep_is_full sw" "?left \<noteq> 0" by auto
    obtain r m' where one: "browse_one oe flt (sp_exclude sw) ?left m = (r, m')" by force
    have "oe_now oe m' \<le> oe_now oe m + max ?left 1000" by (rule browse_one_contract[OF "1.prems"(2) one])
    then have now: "oe_now oe m' \<le> deadline + 999" using go(2) by (auto simp: remaining_budget_def max_def split: if_splits)
    show ?thesis
    proof (cases r)
      case (Inl e)
      then show ?thesis using go one now "1.prems" by (subst (1 2) sweep_loop.simps) simp
    next
      case (Inr found)
      then obtain addr inst where r: "r = Inr (addr, inst)" by (cases found) simp
      let ?sw = "sweep_push (addr_to_string addr) inst sw"
      have ok: "sweep_ok ?sw"
        using browse_one_contract(2)[OF "1.prems"(2) one r] sweep_push_ok go(1) "1.prems"(1) by blast
      from "1.IH"[OF go(1) refl go(2) one[symmetric] r refl ok "1.prems"(2)] now go one r show ?thesis
        by (subst (1 2) sweep_loop.simps) (simp add: max_def split: if_splits)
    qed
  qed
qed

lemma hex_padded_upper_inj:
  assumes "hex_padded_upper n v = hex_padded_upper n w"
  shows "v mod 16 ^ n = w mod 16 ^ n"
proof -
  have "v div 16 ^ k mod 16 = w div 16 ^ k mod 16" if "k < n" for k
  proof -
    have inj: "x = y" if "hex_char_upper x = hex_char_upper y" "x < 16" "y < 16" for x y
      using that by (auto simp: hex_char_upper_def split: if_splits dest!: arg_cong[where f = "of_char :: char \<Rightarrow> nat"])
    have "hex_char_upper (v div 16 ^ k mod 16) = hex_char_upper (w div 16 ^ k mod 16)"
      using assms that by (auto simp: hex_padded_upper_def)
    then show ?thesis by (rule inj) simp_all
  qed
  then show ?thesis
  proof (induction n)
    case (Suc n)
    then have "v mod 16 ^ n = w mod 16 ^ n" and "v div 16 ^ n mod 16 = w div 16 ^ n mod 16" by auto
    then show ?case by (simp add: mod_mult2_eq mult.commute[of 16])
  qed simp
qed

lemma sweep_names_distinct: "sweep_ok sw \<Longrightarrow> distinct (map dd_instance_name (sp_out sw))"
proof -
  assume ok: "sweep_ok sw"
  have "inj_on (\<lambda>i :: u64. hex_padded_upper 16 (unat i)) A" for A
  proof (rule inj_onI)
    fix i j :: u64
    assume "hex_padded_upper 16 (unat i) = hex_padded_upper 16 (unat j)"
    from hex_padded_upper_inj[OF this] have "unat i mod 2 ^ 64 = unat j mod 2 ^ 64" by simp
    moreover have "unat i < 2 ^ 64" "unat j < 2 ^ 64" using unsigned_less[of i] unsigned_less[of j] by simp_all
    ultimately show "i = j" by (simp add: word_unat_eq_iff)
  qed
  then show ?thesis using ok by (simp add: sweep_ok_def distinct_map)
qed

text \<open>
  C27: a browse is bounded and honest. It never fails, reports at most six devices and none of them
  twice, and is over within its timeout, up to the millisecond its last budget may be rounded up by.
  Inside it, the budget handed to rs-matter is always strictly shorter than the timer it is raced
  against, so that an empty network is not reported as a contended one.
\<close>

theorem browse_is_bounded:
  assumes "browse_contract oe"
  shows "\<exists>devices m'. browse oe timeout_ms m = (Inr devices, m')
     \<and> length devices \<le> 6 \<and> distinct (map dd_instance_name devices)
     \<and> oe_now oe m' \<le> oe_now oe m + unat timeout_ms * 1000 + 999
     \<and> inner_budget_ms (budget_ms d) < budget_ms d"
proof -
  let ?deadline = "deadline_after (oe_now oe m) (unat timeout_ms * 1000)"
  obtain sw m' where loop: "sweep_loop oe browse_filter ?deadline empty_sweep m = (sw, m')" by force
  have "sweep_ok empty_sweep" by (simp add: sweep_ok_def empty_sweep_def)
  from sweep_loop_ok[OF assms this, of browse_filter ?deadline m] loop
  have ok: "sweep_ok sw" and now: "oe_now oe m' \<le> max (oe_now oe m) (?deadline + 999)" by simp_all
  have "?deadline \<le> oe_now oe m + unat timeout_ms * 1000" by (simp add: deadline_after_def)
  with now have "oe_now oe m' \<le> oe_now oe m + unat timeout_ms * 1000 + 999" by (simp add: max_def split: if_splits)
  moreover have "length (sp_out sw) \<le> 6" using ok by (metis MAX_SWEEP_def length_map sweep_ok_def)
  ultimately show ?thesis
    using sweep_names_distinct[OF ok] loop inner_budget_shorter[OF budget_at_least_one]
    by (auto simp: browse_def)
qed

lemma demo_browse_contract: "browse_contract demo_onboard"
  by (simp add: browse_contract_def demo_onboard_def)

lemma browse_is_bounded_witness:
  "\<exists>devices m'. browse demo_onboard 3000 ([], Map.empty) = (Inr devices, m')
     \<and> length devices \<le> 6 \<and> distinct (map dd_instance_name devices)"
  using browse_is_bounded[OF demo_browse_contract, of 3000 "([], Map.empty)"] by blast

end
