(* ===== verification/Handle_Facts.thy ===== *)
theory Handle_Facts
  imports Interact_Facts
begin

section \<open>Commissioning, the handle and the interface of mDNS\<close>

text \<open>
  What a commissioning leaves behind, what a handle answers once its stack is gone, that a process
  has one stack at most, and which interface mDNS binds to.
\<close>

subsection \<open>Commissioning\<close>

lemma timed_phase_Ok [simp]: "timed_phase late fut = Inr a \<longleftrightarrow> fut = Finished (Inr a)"
  by (cases fut) (simp_all add: timed_phase_def)

lemma both_phases_Ok:
  assumes "both_phases rs oe i req m = (Inr (addr, fabric_index), m')"
  shows "\<exists>passcode m1 m2.
      resolve_target oe (cr_target req) m = (Inr (passcode, addr), m1)
    \<and> oe_commission oe addr passcode (cr_node_id req) m1 = (Finished (Inr fabric_index), m2)
    \<and> oe_complete oe addr fabric_index m2 = (Finished (Inr ()), m')"
proof -
  from assms obtain passcode adr m1 where target: "resolve_target oe (cr_target req) m = (Inr (passcode, adr), m1)"
    and rest: "(case oe_commission oe adr passcode (cr_node_id req) m1 of
         (fut, m) \<Rightarrow>
           try_arg (timed_phase phase1_timeout fut) (\<lambda>fabric_index m.
             case oe_complete oe adr fabric_index m of
               (fut, m) \<Rightarrow> (and_then (timed_phase phase2_timeout fut) (\<lambda>_. Ok (adr, fabric_index)), m)) m)
        = (Inr (addr, fabric_index), m')"
    by (auto simp: both_phases_def try_step_Ok try_arg_Ok)
  obtain fut m2 where one: "oe_commission oe adr passcode (cr_node_id req) m1 = (fut, m2)" by force
  with rest obtain idx where "fut = Finished (Inr idx)"
    and "(case oe_complete oe adr idx m2 of
            (fut, m) \<Rightarrow> (and_then (timed_phase phase2_timeout fut) (\<lambda>_. Ok (adr, idx)), m))
          = (Inr (addr, fabric_index), m')"
    by (auto simp: try_arg_Ok)
  with target one show ?thesis by (auto simp: and_then_Ok_iff split: prod.splits)
qed

text \<open>
  A commissioning counts only when it is complete. It succeeds exactly when the target was
  resolved, the keys are in order and both timed phases finished; the outcome carries the fabric
  index of the first phase and the address that was used, and the only change to the shared state is
  that this address, without its port, is remembered for the node. A failure leaves the shared
  state as it was.
\<close>

theorem commission_needs_both_phases:
  assumes "commission ic rs oe b tables i req ctx m = (r, ctx', m')"
  shows "case r of
      Inl _ \<Rightarrow> ctx' = ctx
    | Inr out \<Rightarrow>
        \<exists>passcode addr m1 m2 m3.
          resolve_target oe (cr_target req) m = (Inr (passcode, addr), m1)
        \<and> oe_commission oe addr passcode (cr_node_id req) m1 = (Finished (Inr (co_device_fabric_index out)), m2)
        \<and> oe_complete oe addr (co_device_fabric_index out) m2 = (Finished (Inr ()), m3)
        \<and> m' = push_fabric_label ic b tables (cx_fab_idx ctx) (cr_node_id req) (cr_fabric_label req) m3
        \<and> co_address out = addr_to_string addr
        \<and> ctx' = ctx\<lparr>cx_addrs := (cx_addrs ctx)(cr_node_id req \<mapsto> [ip_of (co_address out)])\<rparr>"
proof (cases "both_phases rs oe i req m")
  case (Pair res m3)
  then show ?thesis
  proof (cases res)
    case (Inl e)
    with Pair assms show ?thesis by (auto simp: commission_def)
  next
    case (Inr x)
    obtain addr fabric_index where x: "x = (addr, fabric_index)" by force
    from both_phases_Ok[of rs oe i req m addr fabric_index m3] Pair Inr x assms show ?thesis
      by (auto simp: commission_def Let_def)
  qed
qed

definition demo_request :: commission_request where
  "demo_request = \<lparr>cr_node_id = 9, cr_target = Address 20202021 ''10.0.0.9:5540'', cr_fabric_label = ''Home''\<rparr>"

lemma commission_needs_both_phases_witness:
  "\<exists>out ctx' m'. commission demo_client sample_rs demo_onboard raw_codec [] demo_identity demo_request
       (stack_ctx_new 1) ([], Map.empty) = (Inr out, ctx', m')
     \<and> co_address out = ''10.0.0.9:5540'' \<and> cx_addrs ctx' 9 = Some [ip_of ''10.0.0.9:5540'']"
proof -
  let ?run = "commission demo_client sample_rs demo_onboard raw_codec [] demo_identity demo_request
       (stack_ctx_new 1) ([], Map.empty)"
  have phases: "both_phases sample_rs demo_onboard demo_identity demo_request ([], Map.empty) =
      (Inr (Udp (V4 ''10.0.0.9'' 5540), 1), ([[5], [4]], Map.empty))"
    by (simp add: both_phases_def try_step_def resolve_target_def demo_request_def demo_onboard_def
          parse_socket_addr_def sample_rs_def timed_phase_def demo_note_def)
  have "is_ok (fst ?run) \<and> co_address (projr (fst ?run)) = addr_to_string (Udp (V4 ''10.0.0.9'' 5540))"
    by (simp add: commission_def phases Let_def)
  moreover have "addr_to_string (Udp (V4 ''10.0.0.9'' 5540)) = ''10.0.0.9:5540''"
    by (simp add: addr_to_string_def dec_of_def dec_of_nat.simps digit_char_def) code_simp
  ultimately obtain out ctx' m' where run: "?run = (Inr out, ctx', m')" and out: "co_address out = ''10.0.0.9:5540''"
    by (cases ?run) (auto simp: is_ok_iff)
  from commission_needs_both_phases[OF run] have "cx_addrs ctx' 9 = Some [ip_of (co_address out)]"
    by (auto simp: demo_request_def)
  with run out show ?thesis by auto
qed

subsection \<open>A handle without a stack\<close>

text \<open>Every method answers that the thread is down, and nothing changes.\<close>

definition answers_down :: "('b, 'm) stack_env \<Rightarrow> 'm stack_world \<Rightarrow> bool" where
  "answers_down en w \<longleftrightarrow>
     (\<forall>req. st_commission (stack_handle en) req w = (Err thread_down, w))
   \<and> (\<forall>n paths ff. st_read_attributes (stack_handle en) n paths ff w = (Err thread_down, w))
   \<and> (\<forall>n e c a v. st_write_attribute (stack_handle en) n e c a v w = (Err thread_down, w))
   \<and> (\<forall>n e c name v t. st_invoke (stack_handle en) n e c name v t w = (Err thread_down, w))
   \<and> (\<forall>n. st_interview (stack_handle en) n w = (Err thread_down, w))
   \<and> (\<forall>n t. st_open_commissioning_window (stack_handle en) n t w = (Err thread_down, w))
   \<and> (\<forall>n. st_device_fabrics (stack_handle en) n w = (Err thread_down, w))
   \<and> (\<forall>n i. st_remove_device_fabric (stack_handle en) n i w = (Err thread_down, w))
   \<and> (\<forall>l. st_update_fabric_label (stack_handle en) l w = (Err thread_down, w))
   \<and> (\<forall>n. st_start_supervisor (stack_handle en) n w = w)
   \<and> (\<forall>n. st_stop_supervisor (stack_handle en) n w = w)
   \<and> (\<forall>n. st_node_addresses (stack_handle en) n w = (Err thread_down, w))
   \<and> (\<forall>t. st_browse_commissionable (stack_handle en) t w = (Err thread_down, w))"

lemma closed_answers_down: "\<not> sw_open (hw_sup w) \<Longrightarrow> answers_down en w"
  by (simp add: answers_down_def stack_handle_def stack_request_def send_start_def send_stop_def Let_def)

lemma shutdown_closed: "\<not> sw_open (hw_sup (shutdown w)) \<and> \<not> hw_thread (shutdown w)"
  by (simp add: shutdown_def stop_all_def Let_def)

lemma shutdown_again: "shutdown (shutdown w) = shutdown w"
  using shutdown_closed[of w] by (simp add: shutdown_def Let_def)

text \<open>
  A stack that was shut down stays down, in both directions. After \<open>shutdown\<close> every method
  of every clone of the handle answers that the thread is down and changes nothing, and shutting
  down once more does nothing.
\<close>

theorem shutdown_is_final:
  "answers_down en (shutdown w) \<and> shutdown (shutdown w) = shutdown w"
  using closed_answers_down shutdown_closed shutdown_again by blast

lemma run_stack_claims: "pr_claimed (snd (run_stack b pid rs sys startup cfg p))"
  by (simp add: run_stack_def claim_statics_def split: sum.splits prod.splits bool.splits)

text \<open>
  One stack per process. Once a stack thread has started, whether or not its stack came up,
  every later \<open>spawn\<close> is told that a stack is already running, gets a handle that only answers that
  the thread is down, and touches neither the Matter instance nor the disk.
\<close>

theorem one_stack_per_process:
  assumes "spawn b pid rs sys startup cfg True p = (ready, w, p')"
  shows "\<exists>w'. spawn b' pid' rs' sys' startup' cfg' True p' = (Some (Err SECOND_STACK_MESSAGE), w', p')
     \<and> answers_down en w'"
proof -
  have "pr_claimed p'"
    using assms run_stack_claims[of b pid rs sys startup cfg p]
    by (auto simp: spawn_def split: prod.splits sum.splits)
  then have "run_stack b' pid' rs' sys' startup' cfg' p' = (Err SECOND_STACK_MESSAGE, p')"
    by (simp add: run_stack_def claim_statics_def)
  then show ?thesis by (auto simp: spawn_def intro!: closed_answers_down)
qed

lemma one_stack_per_process_witness:
  "\<exists>ready w p' w'.
     spawn raw_codec 7 sample_rs (\<lambda>_. None) (\<lambda>m. (Ok (), m)) \<lparr>sc_fabric_id = 1, sc_vendor_id = 0xFFF1,
         sc_fabric_label = ''Home'', sc_primary_interface = None\<rparr> True
       \<lparr>pr_claimed = False, pr_matter = ([[7]], Map.empty), pr_fs = fresh_fs\<rparr> = (ready, w, p')
   \<and> spawn raw_codec 7 sample_rs (\<lambda>_. None) (\<lambda>m. (Ok (), m)) \<lparr>sc_fabric_id = 1, sc_vendor_id = 0xFFF1,
         sc_fabric_label = ''Home'', sc_primary_interface = None\<rparr> True p' = (Some (Err SECOND_STACK_MESSAGE), w', p')
   \<and> answers_down demo_stack w'"
proof -
  let ?cfg = "\<lparr>sc_fabric_id = 1, sc_vendor_id = 0xFFF1, sc_fabric_label = ''Home'', sc_primary_interface = None\<rparr>"
  obtain ready w p' where first: "spawn raw_codec 7 sample_rs (\<lambda>_. None) (\<lambda>m. (Ok (), m)) ?cfg True
      \<lparr>pr_claimed = False, pr_matter = ([[7]], Map.empty), pr_fs = fresh_fs\<rparr> = (ready, w, p')"
    by (rule prod_cases3)
  from one_stack_per_process[OF first] first show ?thesis by blast
qed

subsection \<open>The interface of mDNS\<close>

lemma find_map_Some: "find_map f xs = Some y \<Longrightarrow> \<exists>x \<in> set xs. f x = Some y"
  by (induction xs) (auto split: option.splits)

lemma find_map_None: "find_map f xs = None \<longleftrightarrow> (\<forall>x \<in> set xs. f x = None)"
  by (induction xs) (auto split: option.splits)

text \<open>An interface that has the address of IPv6, and under the same name one of IPv4\<close>

definition has_both :: "interface list \<Rightarrow> interface \<Rightarrow> ipv6 \<Rightarrow> bool" where
  "has_both all ia ip \<longleftrightarrow>
     ia \<in> set all \<and> \<not> nif_loopback ia \<and> nif_addr ia = IfV6 ip
   \<and> (\<exists>ia2 \<in> set all. nif_name ia2 = nif_name ia \<and> (\<exists>ip4. nif_addr ia2 = IfV4 ip4))"

lemma v4_of_Some: "v4_of name ia = Some (ip, i) \<longleftrightarrow> nif_name ia = name \<and> nif_addr ia = IfV4 ip \<and> i = or_else 0 (nif_index ia)"
  by (auto simp: v4_of_def split: if_addr.splits)

lemma v6_candidate_Some:
  assumes "v6_candidate ok all ia = Some i" and "ia \<in> set all"
  shows "has_both all ia (if_ipv6 i) \<and> ok (if_ipv6 i) \<and> if_name i = nif_name ia \<and> if_index i = or_else 0 (nif_index ia)
     \<and> (\<exists>ia2 \<in> set all. nif_name ia2 = if_name i \<and> nif_addr ia2 = IfV4 (if_ipv4 i))"
  using assms
  by (fastforce simp: v6_candidate_def has_both_def v4_of_Some split: if_addr.splits if_splits dest: find_map_Some)

lemma v6_candidate_None:
  "v6_candidate ok all ia = None \<Longrightarrow> \<not> (has_both all ia ip \<and> ok ip)"
  by (auto simp: v6_candidate_def has_both_def v4_of_def find_map_None split: if_addr.splits if_splits)

text \<open>
  mDNS binds where the operator said, or where the network is. A forced interface is the one of
  that name, with one of its IPv4 addresses. Otherwise the choice is no loopback interface; it has
  addresses of both families whenever any such interface does, with a link-local one of IPv6
  whenever there is one; and only when none has both is it an Ethernet interface by its name.
\<close>

theorem selected_interface:
  assumes "select_interface all forced = Inr i"
  shows "case forced of
      Some name \<Rightarrow> if_name i = name
        \<and> (\<exists>ia \<in> set all. nif_name ia = name \<and> nif_addr ia = IfV4 (if_ipv4 i) \<and> if_index i = or_else 0 (nif_index ia))
    | None \<Rightarrow>
        \<exists>ia \<in> set all. \<not> nif_loopback ia \<and> nif_name ia = if_name i \<and> if_index i = or_else 0 (nif_index ia)
        \<and> (if \<exists>ia ip. has_both all ia ip
           then nif_addr ia = IfV6 (if_ipv6 i)
             \<and> (\<exists>ia2 \<in> set all. nif_name ia2 = if_name i \<and> nif_addr ia2 = IfV4 (if_ipv4 i))
             \<and> ((\<exists>ia ip. has_both all ia ip \<and> is_unicast_link_local ip) \<longrightarrow> is_unicast_link_local (if_ipv6 i))
           else starts_with ''eth'' (if_name i) \<or> starts_with ''eno'' (if_name i))"
proof (cases forced)
  case (Some name)
  then show ?thesis
    using assms by (fastforce simp: select_interface_def forced_interface_def and_then_Ok_iff v4_of_Some dest: find_map_Some)
next
  case None
  have no: "\<not> (\<exists>ia ip. has_both all ia ip \<and> ok ip)" if "find_ipv6_candidate all ok = None" for ok
    using that v6_candidate_None[of ok all] unfolding find_ipv6_candidate_def find_map_None
    by (meson has_both_def)
  have yes: "\<exists>ia \<in> set all. has_both all ia (if_ipv6 i) \<and> ok (if_ipv6 i) \<and> if_name i = nif_name ia
      \<and> if_index i = or_else 0 (nif_index ia)
      \<and> (\<exists>ia2 \<in> set all. nif_name ia2 = if_name i \<and> nif_addr ia2 = IfV4 (if_ipv4 i))"
    if "find_ipv6_candidate all ok = Some i" for ok
    using that v6_candidate_Some unfolding find_ipv6_candidate_def by (meson find_map_Some)
  have both: ?thesis
    if "find_ipv6_candidate all ok = Some i"
      and link: "(\<exists>ia ip. has_both all ia ip \<and> is_unicast_link_local ip) \<longrightarrow> is_unicast_link_local (if_ipv6 i)" for ok
  proof -
    from yes[OF that(1)] obtain ia where ia: "ia \<in> set all" "has_both all ia (if_ipv6 i)" "nif_name ia = if_name i"
      "if_index i = or_else 0 (nif_index ia)"
      and v4: "\<exists>ia2 \<in> set all. nif_name ia2 = if_name i \<and> nif_addr ia2 = IfV4 (if_ipv4 i)" by metis
    then have "\<not> nif_loopback ia" "nif_addr ia = IfV6 (if_ipv6 i)" by (simp_all add: has_both_def)
    moreover have "\<exists>ia ip. has_both all ia ip" using ia(2) by blast
    ultimately show ?thesis unfolding None option.case using ia v4 link by (intro bexI[of _ ia]) simp_all
  qed
  show ?thesis
  proof (cases "find_ipv6_candidate all is_unicast_link_local")
    case (Some j)
    with assms None have "i = j" by (simp add: select_interface_def)
    then show ?thesis using both[of is_unicast_link_local] yes[of is_unicast_link_local] Some by blast
  next
    case no_local: None
    show ?thesis
    proof (cases "find_ipv6_candidate all (\<lambda>_. True)")
      case (Some j)
      with assms None no_local have "i = j" by (simp add: select_interface_def)
      then show ?thesis using both[of "\<lambda>_. True"] no[OF no_local] Some by blast
    next
      case none: None
      with assms None no_local obtain ia where i: "i = fallback_iface ia"
        and found: "List.find (\<lambda>ia. \<not> nif_loopback ia
            \<and> (starts_with ''eth'' (nif_name ia) \<or> starts_with ''eno'' (nif_name ia))) all = Some ia"
        by (auto simp: select_interface_def find_fallback_candidate_def)
      have "ia \<in> set all" "\<not> nif_loopback ia"
        "starts_with ''eth'' (nif_name ia) \<or> starts_with ''eno'' (nif_name ia)"
        using found by (auto simp: find_Some_iff)
      moreover have "\<not> (\<exists>ia ip. has_both all ia ip)" using no[OF none] by simp
      ultimately show ?thesis
        unfolding None option.case by (intro bexI[of _ ia]) (simp_all add: i fallback_iface_def, blast)
    qed
  qed
qed

definition demo_interfaces :: "interface list" where
  "demo_interfaces =
     [\<lparr>nif_name = ''lo'', nif_addr = IfV6 1, nif_index = Some 1, nif_loopback = True\<rparr>,
      \<lparr>nif_name = ''docker0'', nif_addr = IfV4 5, nif_index = Some 3, nif_loopback = False\<rparr>,
      \<lparr>nif_name = ''enp3s0'', nif_addr = IfV4 9, nif_index = Some 2, nif_loopback = False\<rparr>,
      \<lparr>nif_name = ''enp3s0'', nif_addr = IfV6 (push_bit 112 0xFE80), nif_index = Some 2, nif_loopback = False\<rparr>]"

lemma selected_interface_witness:
  "\<exists>i. select_interface demo_interfaces None = Inr i \<and> if_name i = ''enp3s0'' \<and> if_ipv4 i = 9
     \<and> (\<exists>ia \<in> set demo_interfaces. \<not> nif_loopback ia \<and> nif_name ia = if_name i)"
proof -
  have link: "is_unicast_link_local (push_bit 112 0xFE80)" by code_simp
  have "select_interface demo_interfaces None =
      Inr \<lparr>if_name = ''enp3s0'', if_ipv4 = 9, if_ipv6 = push_bit 112 0xFE80, if_index = 2\<rparr>"
    using link by (simp add: select_interface_def find_ipv6_candidate_def demo_interfaces_def v6_candidate_def
        v4_of_def or_else_def)
  moreover from selected_interface[OF this]
  have "\<exists>ia \<in> set demo_interfaces. \<not> nif_loopback ia \<and> nif_name ia = ''enp3s0''" by auto
  ultimately show ?thesis by simp
qed

end
