(* ===== verification/Stack_Facts.thy ===== *)
theory Stack_Facts
  imports Handle_Facts Node_Facts
begin

section \<open>The controller on the real stack\<close>

text \<open>
  What the command handlers do when the stack behind them is the real handle, and one small network
  on which the properties of the stack's operations are tried.
\<close>

subsection \<open>One command, one exchange\<close>

definition exchange_reply ::
  "('b, 'm) im_client \<Rightarrow> b64_codec \<Rightarrow> gen_cluster \<Rightarrow> gen_cmd \<Rightarrow> rstring \<Rightarrow> invoke_message list exchange
   \<Rightarrow> json stack_result" where
  "exchange_reply ic b cl cmd name ex =
     (case ex of
        NotInitiated e \<Rightarrow> Err (Reports.map_err e)
      | OutOfTime \<Rightarrow>
          Err (stack_error_new Timeout (''IM operation timed out after '' @ dec_of_nat IM_TIMEOUT_SECS @ ''s''))
      | Exchanged msgs \<Rightarrow>
          (case collect_results (read_invoke_message ic b cl (Option.bind (gc_output cmd) (find_struct cl)) name) msgs of
             Inl err \<Rightarrow> Err (map_err_established err)
           | Inr oss \<Rightarrow> invoke_verdict (somes (concat oss))))"

lemma invoke_one_exchange:
  assumes "invoke ic b tables fab n e c name payload timed_ms m = (r, m')"
  shows "(m' = m \<and> (\<exists>why. r = Err (invalid_arguments why))) \<or>
    (\<exists>cl cmd args ex. cluster tables c = Some cl \<and> find_command_ci cl name = Some cmd
       \<and> encode_command_args ic b cl cmd payload = Inr args
       \<and> im_invoke ic fab n IM_TIMEOUT_SECS e c (gc_code cmd) args (normalize_timed timed_ms cmd) m = (ex, m')
       \<and> r = exchange_reply ic b cl cmd name ex)"
proof (cases "\<exists>cl cmd args. cluster tables c = Some cl \<and> find_command_ci cl name = Some cmd
              \<and> encode_command_args ic b cl cmd payload = Inr args")
  case False
  from invoke_refused[OF this] assms show ?thesis by (metis Pair_inject)
next
  case True
  then obtain cl cmd args where known: "cluster tables c = Some cl" "find_command_ci cl name = Some cmd"
    "encode_command_args ic b cl cmd payload = Inr args" by blast
  obtain ex m1 where ex: "im_invoke ic fab n IM_TIMEOUT_SECS e c (gc_code cmd) args (normalize_timed timed_ms cmd) m
      = (ex, m1)" by force
  have "invoke ic b tables fab n e c name payload timed_ms m = (exchange_reply ic b cl cmd name ex, m1)"
  proof (cases ex)
    case (Exchanged msgs)
    then show ?thesis using invoke_by_rank[OF known] ex by (simp add: exchange_reply_def)
  next
    case (NotInitiated err)
    with known ex show ?thesis
      by (simp add: invoke_def exchange_reply_def run_exchange_def with_timeout_mapped_def phase_mapper_def)
  next
    case OutOfTime
    with known ex show ?thesis
      by (simp add: invoke_def exchange_reply_def run_exchange_def with_timeout_mapped_def)
  qed
  with assms have "r = exchange_reply ic b cl cmd name ex" and "m' = m1" by simp_all
  with known ex show ?thesis by blast
qed

lemma handle_invoke:
  assumes "sw_open (hw_sup w)" and "en_dies en (hw_net w) = None"
    and "st_invoke (stack_handle en) n e c name payload timed w = (r, w')"
  shows "invoke (en_im en) (en_b64 en) (en_tables en) (cx_fab_idx (hw_ctx w)) n e c name payload timed (hw_net w)
     = (r, hw_net w')"
  using assms by (auto simp: stack_handle_def stack_request_def on_net_def Let_def split: prod.splits)

text \<open>
  C21: a device command is one exchange with the device it names, or none. With the real stack
  behind the controller, either no device is contacted and the reply is an error, or exactly one
  invoke went out, to the node, endpoint and cluster the client gave, with the code of a command of
  the given name and the encoded payload, timed as asked or as the command needs; and the reply is
  what this exchange says: a failure to reach the device, the timeout, what could not be read, else
  the last failure the device reported, else its first payload, else null.
\<close>

theorem device_command_is_one_exchange:
  assumes "ev_stack env = stack_handle en" and "device_command env args c = (r, c')"
    and "sw_open (hw_sup (ct_world c))" and "en_dies en (hw_net (ct_world c)) = None"
  shows "(hw_net (ct_world c') = hw_net (ct_world c) \<and> \<not> is_ok r) \<or>
    (\<exists>n (endpoint :: u16) (c_id :: u32) nm timed cl cmd bs ex.
       om_get args ''node_id'' = Some (JNum (PosInt n)) \<and> registry_contains (sh_registry c) n
     \<and> om_get args ''endpoint_id'' = Some (JNum (PosInt (ucast endpoint)))
     \<and> om_get args ''cluster_id'' = Some (JNum (PosInt (ucast c_id)))
     \<and> om_get args ''command_name'' = Some (JStr nm)
     \<and> opt_u64 args ''timed_request_timeout_ms'' = map_option ucast timed
     \<and> cluster (en_tables en) c_id = Some cl \<and> find_command_ci cl nm = Some cmd
     \<and> encode_command_args (en_im en) (en_b64 en) cl cmd (or_else (JObj []) (om_get args ''payload'')) = Inr bs
     \<and> im_invoke (en_im en) (cx_fab_idx (hw_ctx (ct_world c))) n IM_TIMEOUT_SECS endpoint c_id (gc_code cmd) bs
         (normalize_timed timed cmd) (hw_net (ct_world c)) = (ex, hw_net (ct_world c'))
     \<and> r = Prelude.map_err (stack_err SdkStackError) (exchange_reply (en_im en) (en_b64 en) cl cmd nm ex))"
  using device_command_reaches_named_target[OF assms(2)]
proof
  assume "c' = c \<and> \<not> is_ok r"
  then show ?thesis by blast
next
  assume "\<exists>n (endpoint :: u16) (c_id :: u32) nm timed answer.
       om_get args ''node_id'' = Some (JNum (PosInt n)) \<and> registry_contains (sh_registry c) n
     \<and> om_get args ''endpoint_id'' = Some (JNum (PosInt (ucast endpoint)))
     \<and> om_get args ''cluster_id'' = Some (JNum (PosInt (ucast c_id)))
     \<and> om_get args ''command_name'' = Some (JStr nm)
     \<and> opt_u64 args ''timed_request_timeout_ms'' = map_option ucast timed
     \<and> st_invoke (ev_stack env) n endpoint c_id nm (or_else (JObj []) (om_get args ''payload'')) timed (ct_world c)
         = (answer, ct_world c')
     \<and> r = Prelude.map_err (stack_err SdkStackError) answer"
  then obtain n and endpoint :: u16 and c_id :: u32 and nm timed answer where
      args: "om_get args ''node_id'' = Some (JNum (PosInt n))" "registry_contains (sh_registry c) n"
        "om_get args ''endpoint_id'' = Some (JNum (PosInt (ucast endpoint)))"
        "om_get args ''cluster_id'' = Some (JNum (PosInt (ucast c_id)))"
        "om_get args ''command_name'' = Some (JStr nm)"
        "opt_u64 args ''timed_request_timeout_ms'' = map_option ucast timed"
    and sent: "st_invoke (ev_stack env) n endpoint c_id nm (or_else (JObj []) (om_get args ''payload'')) timed (ct_world c)
         = (answer, ct_world c')"
    and r: "r = Prelude.map_err (stack_err SdkStackError) answer"
    by blast
  from sent assms(1,3,4) have "invoke (en_im en) (en_b64 en) (en_tables en) (cx_fab_idx (hw_ctx (ct_world c))) n endpoint c_id nm
      (or_else (JObj []) (om_get args ''payload'')) timed (hw_net (ct_world c)) = (answer, hw_net (ct_world c'))"
    by (intro handle_invoke) simp_all
  from invoke_one_exchange[OF this] show ?thesis
  proof
    assume "hw_net (ct_world c') = hw_net (ct_world c) \<and> (\<exists>why. answer = Err (invalid_arguments why))"
    then show ?thesis using r by auto
  next
    assume "\<exists>cl cmd bs ex. cluster (en_tables en) c_id = Some cl \<and> find_command_ci cl nm = Some cmd
       \<and> encode_command_args (en_im en) (en_b64 en) cl cmd (or_else (JObj []) (om_get args ''payload'')) = Inr bs
       \<and> im_invoke (en_im en) (cx_fab_idx (hw_ctx (ct_world c))) n IM_TIMEOUT_SECS endpoint c_id (gc_code cmd) bs
           (normalize_timed timed cmd) (hw_net (ct_world c)) = (ex, hw_net (ct_world c'))
       \<and> answer = exchange_reply (en_im en) (en_b64 en) cl cmd nm ex"
    with args r show ?thesis by blast
  qed
qed

definition demo_env :: "demo_world stack_world env" where
  "demo_env =
     \<lparr>ev_stack = stack_handle demo_stack, ev_show_json = (\<lambda>_. ''json''), ev_show_io = (\<lambda>_. ''io error''),
      ev_show_str = (\<lambda>s. s), ev_now = ''2026-01-01'', ev_ping = (\<lambda>_ _. True), ev_reload = True\<rparr>"

definition demo_ctrl :: "demo_world stack_world ctrl" where
  "demo_ctrl =
     \<lparr>sh_registry = registry_new [example_record], sh_fs = fresh_fs, sh_pid = 1, sh_events = [],
      sh_history = [], ct_world = demo_stack_world, ct_identity = demo_identity, ct_fabric_index = 1,
      ct_sdk_version = ''1'', ct_config = default_config, ct_label_locked = False,
      ct_label_owner = None, ct_log = \<lparr>lc_filter = LvInfo, lc_console = ''info'', lc_has_file = False\<rparr>\<rparr>"

lemma demo_world_open: "sw_open (hw_sup demo_stack_world)" "en_dies demo_stack m = None"
  by (simp_all add: demo_stack_world_def sup_init_def demo_stack_def)

lemma demo_toggle_invoked:
  "st_invoke (stack_handle demo_stack) 7 1 6 ''Toggle'' (JObj []) None demo_stack_world =
     (Ok JNull, demo_stack_world\<lparr>hw_net := ([[3, 7, 2]], Map.empty)\<rparr>)"
proof -
  have fields: "en_im demo_stack = demo_client" "en_tables demo_stack = demo_tables" "en_b64 demo_stack = raw_codec"
    by (simp_all add: demo_stack_def)
  have sent: "im_invoke demo_client fab 7 IM_TIMEOUT_SECS 1 6 (gc_code (demo_command 2 ''Toggle'')) [7, 7]
      (normalize_timed None (demo_command 2 ''Toggle'')) m =
    (Exchanged [Inr (Some (Some [Inr (CmdStatus ImSuccess)]))], demo_note [3, 7, 2] m)" for fab m
    by (simp add: demo_client_def demo_command_def)
  have args: "encode_command_args demo_client raw_codec (demo_tables ! 0) (demo_command 2 ''Toggle'') (JObj []) = Inr [7, 7]"
    by (rule demo_args) (simp add: demo_command_def)
  have "invoke demo_client raw_codec demo_tables fab 7 1 6 ''Toggle'' (JObj []) None m = (Inr JNull, demo_note [3, 7, 2] m)" for fab m
    using invoke_by_rank[OF demo_clusters(1) demo_toggle args sent]
    by (simp add: read_invoke_message_def read_response_def somes_def invoke_verdict_def)
  then show ?thesis
    by (simp add: stack_handle_def stack_request_def on_net_def Let_def demo_world_open fields)
       (simp add: demo_stack_world_def demo_note_def)
qed

lemma device_command_is_one_exchange_witness:
  "\<exists>c'. device_command demo_env
        [(''cluster_id'', JNum (PosInt 6)), (''command_name'', JStr ''Toggle''),
         (''endpoint_id'', JNum (PosInt 1)), (''node_id'', JNum (PosInt 7))] demo_ctrl = (Ok JNull, c')
     \<and> (\<exists>cmd bs ex timed. find_command_ci (demo_tables ! 0) ''Toggle'' = Some cmd
         \<and> im_invoke demo_client 1 7 IM_TIMEOUT_SECS 1 6 (gc_code cmd) bs timed ([], Map.empty) = (ex, hw_net (ct_world c')))"
proof -
  let ?args = "[(''cluster_id'', JNum (PosInt 6)), (''command_name'', JStr ''Toggle''),
         (''endpoint_id'', JNum (PosInt 1)), (''node_id'', JNum (PosInt 7))]"
  let ?c = "demo_ctrl\<lparr>ct_world := demo_stack_world\<lparr>hw_net := ([[3, 7, 2]], Map.empty)\<rparr>\<rparr>"
  have run: "device_command demo_env ?args demo_ctrl = (Ok JNull, ?c)"
    by (simp add: device_command_def with_node_def ensure_node_def require_u64_def require_str_def
        opt_str_def opt_u64_def narrow_opt_def narrow_def registry_contains_def
        registry_new_def om_of_list_def example_record_def try_call_def call_def demo_env_def demo_ctrl_def
        demo_toggle_invoked)
  have world: "ct_world demo_ctrl = demo_stack_world" "ev_stack demo_env = stack_handle demo_stack"
    by (simp_all add: demo_ctrl_def demo_env_def)
  have net: "hw_net demo_stack_world = ([], Map.empty)" "cx_fab_idx (hw_ctx demo_stack_world) = 1"
    by (simp_all add: demo_stack_world_def hw_ctx_def sup_init_def stack_ctx_new_def)
  have parts: "en_im demo_stack = demo_client" "en_tables demo_stack = demo_tables" by (simp_all add: demo_stack_def)
  have moved: "hw_net (ct_world ?c) \<noteq> hw_net (ct_world demo_ctrl)" by (simp add: world net)
  from device_command_is_one_exchange[OF world(2) run demo_world_open[folded world(1)]] moved
  obtain n and endpoint :: u16 and c_id :: u32 and nm timed cl cmd bs ex where
      "om_get ?args ''node_id'' = Some (JNum (PosInt n))"
      "om_get ?args ''endpoint_id'' = Some (JNum (PosInt (ucast endpoint)))"
      "om_get ?args ''cluster_id'' = Some (JNum (PosInt (ucast c_id)))"
      "om_get ?args ''command_name'' = Some (JStr nm)"
      "cluster demo_tables c_id = Some cl" "find_command_ci cl nm = Some cmd"
      "im_invoke demo_client 1 n IM_TIMEOUT_SECS endpoint c_id (gc_code cmd) bs (normalize_timed timed cmd) ([], Map.empty)
         = (ex, hw_net (ct_world ?c))"
    unfolding world(1) net parts by blast
  moreover from this have "endpoint = 1" "c_id = 6"
    using ucast_back[of 1 endpoint] ucast_back[of 6 c_id] by simp_all
  ultimately show ?thesis using run demo_clusters by auto
qed

end
