(* ===== verification/Requests.thy ===== *)
theory Requests
  imports Handle
begin

section \<open>The request loop, request by request (\<open>stack/src/runtime.rs\<close>)\<close>

text \<open>
  In \<open>Handle\<close> a request and its reply are one step. Here they are apart: the caller puts the
  request on the channel, the loop takes it off and either handles it itself (the registry requests
  and the shutdown) or spawns a detached task for it, and the task answers when it is done, in
  whatever order. A caller whose reply channel is dropped, with the task or with the thread, is told
  that the thread is down. The handler of a request is what a task does to the world, at the moment
  it finishes; until then the task has not been seen by the others.
\<close>

type_synonym ('a, 'm) handler = "'m stack_world \<Rightarrow> 'a stack_result \<times> 'm stack_world"

text \<open>
  \<open>StackRequest\<close>: every variant with a reply is an \<open>Ask\<close>, its reply channel a number. The
  acknowledgement of a shutdown only ends its caller's wait, as dropping it does.
\<close>

datatype ('a, 'm) loop_request =
    Ask nat "('a, 'm) handler"
  | StartRequest u64
  | StopRequest u64
  | ShutdownRequest

record ('a, 'm) req_loop =
  rl_world :: "'m stack_world"
  rl_queue :: "('a, 'm) loop_request list"
  rl_tasks :: "(nat \<times> ('a, 'm) handler) list"
  rl_replies :: "nat \<Rightarrow> 'a stack_result option"
  rl_next :: nat

definition rl_open :: "('a, 'm) req_loop \<Rightarrow> bool" where
  "rl_open s \<longleftrightarrow> sw_open (hw_sup (rl_world s))"

definition loop_start :: "'m stack_world \<Rightarrow> ('a, 'm) req_loop" where
  "loop_start w = \<lparr>rl_world = w, rl_queue = [], rl_tasks = [], rl_replies = Map.empty, rl_next = 0\<rparr>"

definition on_sup :: "(sup_world \<Rightarrow> sup_world) \<Rightarrow> ('a, 'm) req_loop \<Rightarrow> ('a, 'm) req_loop" where
  "on_sup f s = s\<lparr>rl_world := (rl_world s)\<lparr>hw_sup := f (hw_sup (rl_world s))\<rparr>\<rparr>"

definition reply_to :: "nat \<Rightarrow> 'a stack_result \<Rightarrow> ('a, 'm) req_loop \<Rightarrow> ('a, 'm) req_loop" where
  "reply_to i r s = s\<lparr>rl_replies := (rl_replies s)(i \<mapsto> r)\<rparr>"

subsection \<open>The callers\<close>

text \<open>\<open>StackHandle::request\<close>: a fresh reply channel, and the error at once when nobody reads\<close>

definition send_ask :: "('a, 'm) handler \<Rightarrow> ('a, 'm) req_loop \<Rightarrow> ('a, 'm) req_loop" where
  "send_ask h s =
     (let i = rl_next s; s = s\<lparr>rl_next := Suc i\<rparr>
      in if rl_open s then s\<lparr>rl_queue := rl_queue s @ [Ask i h]\<rparr> else reply_to i (Err thread_down) s)"

definition send_control :: "('a, 'm) loop_request \<Rightarrow> ('a, 'm) req_loop \<Rightarrow> ('a, 'm) req_loop" where
  "send_control r s = (if rl_open s then s\<lparr>rl_queue := rl_queue s @ [r]\<rparr> else s)"

subsection \<open>The thread\<close>

definition waiting :: "('a, 'm) req_loop \<Rightarrow> nat list" where
  "waiting s =
     concat (map (\<lambda>r. case r of Ask i h \<Rightarrow> [i] | _ \<Rightarrow> []) (rl_queue s)) @ map fst (rl_tasks s)"

text \<open>
  When the loop ends, the channel, the detached tasks and every reply channel in them are dropped:
  the executor is not polled again.
\<close>

definition drop_all :: "('a, 'm) req_loop \<Rightarrow> ('a, 'm) req_loop" where
  "drop_all s =
     s\<lparr>rl_queue := [], rl_tasks := [],
       rl_replies := (\<lambda>i. if i \<in> set (waiting s) then Some (Err thread_down) else rl_replies s i)\<rparr>"

definition request_loop_turn :: "('a, 'm) req_loop \<Rightarrow> ('a, 'm) req_loop option" where
  "request_loop_turn s =
     (if \<not> rl_open s then None
      else case rl_queue s of
        [] \<Rightarrow> None
      | r # rs \<Rightarrow>
          let s = s\<lparr>rl_queue := rs\<rparr>
          in Some (case r of
               Ask i h \<Rightarrow> s\<lparr>rl_tasks := rl_tasks s @ [(i, h)]\<rparr>
             | StartRequest n \<Rightarrow> on_sup (start_supervisor n) s
             | StopRequest n \<Rightarrow> on_sup (stop_supervisor n) s
             | ShutdownRequest \<Rightarrow> drop_all (on_sup stop_all s)))"

definition without :: "nat \<Rightarrow> 'b list \<Rightarrow> 'b list" where
  "without k xs = take k xs @ drop (Suc k) xs"

definition task_finishes :: "nat \<Rightarrow> ('a, 'm) req_loop \<Rightarrow> ('a, 'm) req_loop option" where
  "task_finishes k s =
     (if k < length (rl_tasks s)
      then case rl_tasks s ! k of
             (i, h) \<Rightarrow>
               (case h (rl_world s) of
                  (r, w) \<Rightarrow> Some (reply_to i r (s\<lparr>rl_world := w, rl_tasks := without k (rl_tasks s)\<rparr>)))
      else None)"

text \<open>A panic in a handler is caught by the executor; the world is what the task made of it so far.\<close>

definition task_panics :: "nat \<Rightarrow> 'm \<Rightarrow> ('a, 'm) req_loop \<Rightarrow> ('a, 'm) req_loop option" where
  "task_panics k m s =
     (if k < length (rl_tasks s)
      then Some (reply_to (fst (rl_tasks s ! k)) (Err thread_down)
             (s\<lparr>rl_world := (rl_world s)\<lparr>hw_net := m\<rparr>, rl_tasks := without k (rl_tasks s)\<rparr>))
      else None)"

definition thread_future_ends :: "stack_future \<Rightarrow> ('a, 'm) req_loop \<Rightarrow> ('a, 'm) req_loop" where
  "thread_future_ends f s =
     (let s = s\<lparr>rl_world := future_ended f (rl_world s)\<rparr> in if rl_open s then s else drop_all s)"

subsection \<open>All of it together\<close>

datatype ('a, 'm) loop_action =
    SendAsk "('a, 'm) handler" | SendControl "('a, 'm) loop_request"
  | LoopTurn | Finish nat | Panics nat 'm | FutureEnds stack_future | SupervisorTask sup_action

fun loop_do :: "b64_codec \<Rightarrow> gen_cluster list \<Rightarrow> ('a, 'm) loop_action \<Rightarrow> ('a, 'm) req_loop \<Rightarrow> ('a, 'm) req_loop option" where
  "loop_do b tables (SendAsk h) s = Some (send_ask h s)"
| "loop_do b tables (SendControl r) s =
     (case r of Ask _ _ \<Rightarrow> None | _ \<Rightarrow> Some (send_control r s))"
| "loop_do b tables LoopTurn s = request_loop_turn s"
| "loop_do b tables (Finish k) s = task_finishes k s"
| "loop_do b tables (Panics k m) s = task_panics k m s"
| "loop_do b tables (FutureEnds f) s = Some (thread_future_ends f s)"
| "loop_do b tables (SupervisorTask a) s =
     (case a of
        Start n \<Rightarrow> None
      | Stop n \<Rightarrow> None
      | ShutDown \<Rightarrow> None
      | _ \<Rightarrow> map_option (\<lambda>w. on_sup (\<lambda>_. w) s) (sup_do b tables a (hw_sup (rl_world s))))"

text \<open>No handler touches the request channel.\<close>

definition handler_ok :: "('a, 'm) handler \<Rightarrow> bool" where
  "handler_ok h \<longleftrightarrow> (\<forall>w. sw_open (hw_sup (snd (h w))) = sw_open (hw_sup w))"

inductive loop_run ::
  "b64_codec \<Rightarrow> gen_cluster list \<Rightarrow> ('a, 'm) req_loop \<Rightarrow> ('a, 'm) loop_action list \<Rightarrow> ('a, 'm) req_loop \<Rightarrow> bool"
  for b tables where
  halt: "loop_run b tables s [] s"
| act: "\<lbrakk>loop_do b tables a s = Some s1; \<forall>h. a = SendAsk h \<longrightarrow> handler_ok h; loop_run b tables s1 as s'\<rbrakk> \<Longrightarrow>
     loop_run b tables s (a # as) s'"

end
