(* ===== verification/Requests_Facts.thy ===== *)
theory Requests_Facts
  imports Requests Stack_Sample
begin

section \<open>Every request is answered once, and as if it ran alone\<close>

text \<open>
  The invariant of the request loop: a request waits in the channel or in one task, or it has its
  reply, and only one of these; and nothing waits once the channel is closed. From it, that nobody
  waits forever, and that the interleaved loop does what the one-step requests of \<open>Handle\<close> do.
\<close>

subsection \<open>The invariant\<close>

definition queued :: "('a, 'm) loop_request list \<Rightarrow> nat list" where
  "queued q = concat (map (\<lambda>r. case r of Ask i h \<Rightarrow> [i] | _ \<Rightarrow> []) q)"

lemma waiting_queued: "waiting s = queued (rl_queue s) @ map fst (rl_tasks s)"
  by (simp add: waiting_def queued_def)

lemma queued_simps [simp]:
  "queued [] = []" "queued (Ask i h # q) = i # queued q" "queued (StartRequest n # q) = queued q"
  "queued (StopRequest n # q) = queued q" "queued (ShutdownRequest # q) = queued q"
  "queued (p @ q) = queued p @ queued q"
  by (simp_all add: queued_def)

definition handlers :: "('a, 'm) req_loop \<Rightarrow> ('a, 'm) handler set" where
  "handlers s = {h. \<exists>i. Ask i h \<in> set (rl_queue s)} \<union> snd ` set (rl_tasks s)"

definition loop_inv :: "('a, 'm) req_loop \<Rightarrow> bool" where
  "loop_inv s \<longleftrightarrow>
     distinct (waiting s) \<and> (\<forall>i. i < rl_next s \<longleftrightarrow> i \<in> set (waiting s) \<or> rl_replies s i \<noteq> None)
   \<and> (\<forall>i \<in> set (waiting s). rl_replies s i = None)
   \<and> (\<not> rl_open s \<longrightarrow> rl_queue s = [] \<and> rl_tasks s = [])
   \<and> (\<forall>h \<in> handlers s. handler_ok h)"

lemma task_at:
  assumes "k < length xs"
  obtains a x b where "xs = a @ x # b" and "xs ! k = x" and "without k xs = a @ b"
  using assms by (metis id_take_nth_drop without_def)

lemma loop_inv_start: "sw_open (hw_sup w) \<Longrightarrow> loop_inv (loop_start w)"
  by (simp add: loop_inv_def loop_start_def waiting_queued rl_open_def handlers_def)

lemma drop_all_inv:
  assumes "distinct (waiting s)" and "\<forall>i. i < rl_next s \<longleftrightarrow> i \<in> set (waiting s) \<or> rl_replies s i \<noteq> None"
  shows "loop_inv (drop_all s)"
  using assms by (auto simp: loop_inv_def drop_all_def waiting_queued handlers_def)

lemma send_ask_inv:
  assumes "loop_inv s" and "handler_ok h"
  shows "loop_inv (send_ask h s)"
proof (cases "rl_open s")
  case True
  have "rl_next s \<notin> set (waiting s)" "rl_replies s (rl_next s) = None"
    using assms(1) by (auto simp: loop_inv_def)
  with True assms show ?thesis
    by (auto simp: send_ask_def loop_inv_def waiting_queued Let_def rl_open_def handlers_def less_Suc_eq)
next
  case False
  have "rl_next s \<notin> set (waiting s)" using assms(1) by (auto simp: loop_inv_def)
  with False assms show ?thesis
    by (auto simp: send_ask_def loop_inv_def waiting_queued Let_def rl_open_def handlers_def reply_to_def less_Suc_eq)
qed

lemma send_control_inv:
  "loop_inv s \<Longrightarrow> (\<And>i h. r \<noteq> Ask i h) \<Longrightarrow> loop_inv (send_control r s)"
  by (cases r) (auto simp: send_control_def loop_inv_def waiting_queued rl_open_def handlers_def)

lemma supervisor_keeps_open [simp]:
  "sw_open (start_supervisor n w) = sw_open w" "sw_open (stop_supervisor n w) = sw_open w" "\<not> sw_open (stop_all w)"
  by (simp_all add: start_supervisor_def stop_supervisor_def stop_all_def Let_def)

lemma on_sup_inv:
  "loop_inv s \<Longrightarrow> sw_open (f (hw_sup (rl_world s))) = rl_open s \<Longrightarrow> loop_inv (on_sup f s)"
  by (simp add: loop_inv_def on_sup_def waiting_queued rl_open_def handlers_def)

lemma turn_inv:
  assumes "loop_inv s" and "request_loop_turn s = Some s'"
  shows "loop_inv s'"
proof -
  from assms(2) obtain r rs where o: "rl_open s" and q: "rl_queue s = r # rs"
    by (auto simp: request_loop_turn_def split: if_splits list.splits)
  let ?s = "s\<lparr>rl_queue := rs\<rparr>"
  show ?thesis
  proof (cases r)
    case (Ask i h)
    then have s': "s' = ?s\<lparr>rl_tasks := rl_tasks s @ [(i, h)]\<rparr>"
      using assms(2) o q by (simp add: request_loop_turn_def)
    have "set (waiting s') = set (waiting s)" "distinct (waiting s') = distinct (waiting s)"
      "handlers s' = handlers s"
      unfolding s' using q Ask by (auto simp: waiting_queued handlers_def)
    with assms(1) o show ?thesis by (auto simp: loop_inv_def s' rl_open_def)
  next
    case (StartRequest n)
    have "loop_inv ?s" using assms(1) q StartRequest o by (auto simp: loop_inv_def waiting_queued handlers_def rl_open_def)
    then have "loop_inv (on_sup (start_supervisor n) ?s)" by (rule on_sup_inv) (simp add: rl_open_def)
    then show ?thesis using assms(2) o q StartRequest by (simp add: request_loop_turn_def)
  next
    case (StopRequest n)
    have "loop_inv ?s" using assms(1) q StopRequest o by (auto simp: loop_inv_def waiting_queued handlers_def rl_open_def)
    then have "loop_inv (on_sup (stop_supervisor n) ?s)" by (rule on_sup_inv) (simp add: rl_open_def)
    then show ?thesis using assms(2) o q StopRequest by (simp add: request_loop_turn_def)
  next
    case ShutdownRequest
    have "loop_inv (drop_all (on_sup stop_all ?s))"
      using assms(1) q ShutdownRequest
      by (intro drop_all_inv) (auto simp: loop_inv_def waiting_queued on_sup_def)
    then show ?thesis using assms(2) o q ShutdownRequest by (simp add: request_loop_turn_def)
  qed
qed

text \<open>A task that ends, however, leaves the waiting and has its reply.\<close>

lemma task_ends_inv:
  assumes "loop_inv s" and "rl_tasks s = a @ (i, h) # b" and "sw_open (hw_sup w) = rl_open s"
  shows "loop_inv (reply_to i r (s\<lparr>rl_world := w, rl_tasks := a @ b\<rparr>))"
  using assms by (auto simp: loop_inv_def reply_to_def waiting_queued handlers_def rl_open_def)

lemma finish_inv:
  assumes "loop_inv s" and "task_finishes k s = Some s'"
  shows "loop_inv s'"
proof -
  from assms(2) have k: "k < length (rl_tasks s)" by (auto simp: task_finishes_def split: if_splits)
  obtain a i h b where t: "rl_tasks s = a @ (i, h) # b" "rl_tasks s ! k = (i, h)" "without k (rl_tasks s) = a @ b"
    using task_at[OF k] by (metis surj_pair)
  have "handler_ok h" using assms(1) t(1) by (auto simp: loop_inv_def handlers_def)
  then have "sw_open (hw_sup (snd (h (rl_world s)))) = rl_open s" by (simp add: handler_ok_def rl_open_def)
  from task_ends_inv[OF assms(1) t(1) this, of "fst (h (rl_world s))"] assms(2) k t show ?thesis
    by (simp add: task_finishes_def split: prod.splits)
qed

lemma panic_inv:
  assumes "loop_inv s" and "task_panics k m s = Some s'"
  shows "loop_inv s'"
proof -
  from assms(2) have k: "k < length (rl_tasks s)" by (auto simp: task_panics_def split: if_splits)
  obtain a i h b where t: "rl_tasks s = a @ (i, h) # b" "rl_tasks s ! k = (i, h)" "without k (rl_tasks s) = a @ b"
    using task_at[OF k] by (metis surj_pair)
  have "sw_open (hw_sup ((rl_world s)\<lparr>hw_net := m\<rparr>)) = rl_open s" by (simp add: rl_open_def)
  from task_ends_inv[OF assms(1) t(1) this] have
    "loop_inv (reply_to i (Err thread_down) (s\<lparr>rl_world := (rl_world s)\<lparr>hw_net := m\<rparr>, rl_tasks := a @ b\<rparr>))" .
  moreover have "s' = reply_to i (Err thread_down) (s\<lparr>rl_world := (rl_world s)\<lparr>hw_net := m\<rparr>, rl_tasks := a @ b\<rparr>)"
    using assms(2) k t(2,3) by (simp add: task_panics_def)
  ultimately show ?thesis by simp
qed

lemma future_inv: "loop_inv s \<Longrightarrow> loop_inv (thread_future_ends f s)"
proof -
  assume i: "loop_inv s"
  let ?s = "s\<lparr>rl_world := future_ended f (rl_world s)\<rparr>"
  have d: "loop_inv (drop_all ?s)"
    using i by (intro drop_all_inv) (auto simp: loop_inv_def waiting_queued)
  have "loop_inv ?s" if "rl_open ?s"
  proof -
    from that have "rl_open s" by (cases f) (auto simp: future_ended_def rl_open_def)
    with i that show ?thesis by (auto simp: loop_inv_def waiting_queued handlers_def)
  qed
  with d show ?thesis by (simp add: thread_future_ends_def Let_def)
qed

lemma sup_do_open:
  "sup_do b tables a w = Some w' \<Longrightarrow> \<not> (\<exists>n. a = Start n \<or> a = Stop n) \<Longrightarrow> a \<noteq> ShutDown \<Longrightarrow> sw_open w' = sw_open w"
  by (cases a) (auto simp: on_task_def sup_attempt_def sup_chunk_def sup_established_def sup_failed_def sup_poll_def
      sup_wake_def drop_task_def set_phase_def split: option.splits if_splits sup_phase.splits prod.splits)

lemma loop_do_inv:
  assumes "loop_inv s" and "loop_do b tables a s = Some s'" and "\<forall>h. a = SendAsk h \<longrightarrow> handler_ok h"
  shows "loop_inv s'"
proof (cases a)
  case (SendControl r)
  then show ?thesis using assms send_control_inv[of s r] by (auto split: loop_request.splits)
next
  case (SupervisorTask x)
  then obtain w where w: "sup_do b tables x (hw_sup (rl_world s)) = Some w" "s' = on_sup (\<lambda>_. w) s"
    and x: "\<not> (\<exists>n. x = Start n \<or> x = Stop n)" "x \<noteq> ShutDown"
    using assms(2) by (cases x) auto
  show ?thesis using on_sup_inv[OF assms(1), of "\<lambda>_. w"] sup_do_open[OF w(1) x] w(2) by (simp add: rl_open_def)
qed (use assms send_ask_inv turn_inv finish_inv panic_inv future_inv in auto)

lemma loop_run_inv: "loop_run b tables s as s' \<Longrightarrow> loop_inv s \<Longrightarrow> loop_inv s'"
  by (induction rule: loop_run.induct) (auto dest: loop_do_inv)

subsection \<open>Nobody waits forever\<close>

lemma waiting_settles:
  "loop_inv s \<Longrightarrow> \<exists>bs s'. set bs \<subseteq> {LoopTurn, Finish 0} \<and> loop_run b tables s bs s' \<and> waiting s' = []
     \<and> rl_next s' = rl_next s"
proof (induction "2 * length (rl_queue s) + length (rl_tasks s)" arbitrary: s rule: less_induct)
  case less
  have step: ?case
    if a: "a \<in> {LoopTurn, Finish 0}" "loop_do b tables a s = Some s1" "rl_next s1 = rl_next s"
      "2 * length (rl_queue s1) + length (rl_tasks s1) < 2 * length (rl_queue s) + length (rl_tasks s)" for a s1
  proof -
    have "\<forall>h. a = SendAsk h \<longrightarrow> handler_ok h" using a(1) by auto
    then have "loop_inv s1" using loop_do_inv[OF less.prems a(2)] by blast
    from less.hyps[OF a(4) this] obtain bs s' where
      "set bs \<subseteq> {LoopTurn, Finish 0}" "loop_run b tables s1 bs s'" "waiting s' = []" "rl_next s' = rl_next s1" by blast
    with a \<open>\<forall>h. a = SendAsk h \<longrightarrow> handler_ok h\<close> show ?thesis
      by (intro exI[of _ "a # bs"] exI[of _ s']) (auto intro: loop_run.act)
  qed
  show ?case
  proof (cases "rl_open s")
    case False
    then have "waiting s = []" using less.prems by (simp add: loop_inv_def waiting_queued)
    then show ?thesis by (intro exI[of _ "[]"] exI[of _ s]) (simp add: loop_run.halt)
  next
    case open_: True
    show ?thesis
    proof (cases "rl_queue s")
      case (Cons r rs)
      then show ?thesis
        using open_ by (intro step[of LoopTurn "the (request_loop_turn s)"])
          (simp_all add: request_loop_turn_def on_sup_def drop_all_def Let_def split: loop_request.splits)
    next
      case Nil
      show ?thesis
      proof (cases "rl_tasks s")
        case Nil
        with \<open>rl_queue s = []\<close> have "waiting s = []" by (simp add: waiting_queued)
        then show ?thesis by (intro exI[of _ "[]"] exI[of _ s]) (simp add: loop_run.halt)
      next
        case (Cons x xs)
        then show ?thesis
          by (intro step[of "Finish 0" "the (task_finishes 0 s)"])
            (simp_all add: task_finishes_def reply_to_def without_def split: prod.splits)
      qed
    qed
  qed
qed

lemma reply_stays_step:
  assumes "loop_inv s" and "loop_do b tables a s = Some s'" and "rl_replies s i = Some r"
  shows "rl_replies s' i = Some r"
proof -
  have n: "i \<notin> set (waiting s)" "i < rl_next s" using assms(1,3) by (auto simp: loop_inv_def)
  have t: "fst (rl_tasks s ! k) \<noteq> i" if "k < length (rl_tasks s)" for k
    using n(1) that by (auto simp: waiting_queued)
  then have t': "rl_tasks s ! k \<noteq> (i, h)" if "k < length (rl_tasks s)" for k h
    using that by fastforce
  show ?thesis
    using assms(2,3) n t t'
    by (cases a) (auto simp: send_ask_def send_control_def request_loop_turn_def task_finishes_def task_panics_def
        thread_future_ends_def on_sup_def drop_all_def reply_to_def waiting_queued Let_def
        split: if_splits loop_request.splits list.splits prod.splits sup_action.splits)
qed

lemma reply_stays: "loop_run b tables s as s' \<Longrightarrow> loop_inv s \<Longrightarrow> rl_replies s i = Some r \<Longrightarrow> rl_replies s' i = Some r"
  by (induction rule: loop_run.induct) (auto dest: loop_do_inv reply_stays_step)

text \<open>
  C24: Nobody waits forever, and nobody is answered twice. However callers, the loop, the tasks,
  panics and the end of the thread interleave: a request that has no reply yet can always still
  get one from turns of the loop and of its tasks alone, and there is none once the loop has ended;
  and a reply, once given, is never given again or changed.
\<close>

theorem every_request_is_answered_once:
  assumes "loop_run b tables (loop_start w) as s" and "sw_open (hw_sup w)" and "i < rl_next s"
  shows "(case rl_replies s i of
      None \<Rightarrow> rl_open s \<and> (\<exists>bs s'. set bs \<subseteq> {LoopTurn, Finish 0} \<and> loop_run b tables s bs s' \<and> rl_replies s' i \<noteq> None)
    | Some r \<Rightarrow> \<forall>bs s'. loop_run b tables s bs s' \<longrightarrow> rl_replies s' i = Some r)"
proof -
  have inv: "loop_inv s" by (rule loop_run_inv[OF assms(1) loop_inv_start[OF assms(2)]])
  have "rl_open s" if "rl_replies s i = None"
    using that inv assms(3) by (auto simp: loop_inv_def waiting_queued)
  moreover have "\<exists>bs s'. set bs \<subseteq> {LoopTurn, Finish 0} \<and> loop_run b tables s bs s' \<and> rl_replies s' i \<noteq> None"
  proof -
    from waiting_settles[OF inv] obtain bs s' where bs: "set bs \<subseteq> {LoopTurn, Finish 0}"
      "loop_run b tables s bs s'" "waiting s' = []" "rl_next s' = rl_next s" by blast
    have "rl_replies s' i \<noteq> None"
      using loop_run_inv[OF bs(2) inv] bs(3,4) assms(3) by (auto simp: loop_inv_def)
    with bs show ?thesis by blast
  qed
  ultimately show ?thesis using reply_stays[OF _ inv] by (auto split: option.split)
qed

subsection \<open>As the one-step requests do\<close>

text \<open>
  The steps \<open>Handle\<close> knows, on the world and the replies. \<open>Call\<close> is a whole request, with the way
  its task dies if it does.
\<close>

datatype ('a, 'm) atomic =
    Call nat "('a, 'm) handler" "('m \<times> bool) option"
  | StartCall u64 | StopCall u64 | StopAll | FutureEnded stack_future | TaskStep sup_action




definition calls_of :: "('a, 'm) atomic list \<Rightarrow> nat list" where
  "calls_of cs = concat (map (\<lambda>c. case c of Call i h d \<Rightarrow> [i] | _ \<Rightarrow> []) cs)"

lemma calls_of_simps [simp]:
  "calls_of [] = []" "calls_of (Call i h d # cs) = i # calls_of cs" "calls_of (StartCall n # cs) = calls_of cs"
  "calls_of (StopCall n # cs) = calls_of cs" "calls_of (StopAll # cs) = calls_of cs"
  "calls_of (FutureEnded f # cs) = calls_of cs" "calls_of (TaskStep a # cs) = calls_of cs"
  "calls_of (cs @ ds) = calls_of cs @ calls_of ds"
  by (simp_all add: calls_of_def)


definition sent :: "('a, 'm) loop_action list \<Rightarrow> ('a, 'm) handler list" where
  "sent as = concat (map (\<lambda>a. case a of SendAsk h \<Rightarrow> [h] | _ \<Rightarrow> []) as)"














lemma sent_Nil [simp]: "sent [] = []"
  by (simp add: sent_def)










subsection \<open>The handlers of the handle\<close>

text \<open>The requests \<open>stack_handle\<close> makes have handlers that leave the channel alone.\<close>

lemma handle_handlers_ok:
  "handler_ok (on_net f)" "handler_ok (serve_commission en req)"
  "handler_ok (\<lambda>w. (Ok (cached_addresses n (hw_ctx w)), w))"
  by (auto simp: handler_ok_def on_net_def serve_commission_def split: prod.splits)

text \<open>A request for addresses, a start sent behind it, and the answer after the start\<close>

definition ask_addresses :: "(rstring list, demo_world) handler" where
  "ask_addresses = (\<lambda>w. (Ok (cached_addresses 7 (hw_ctx w)), w))"

definition two_requests :: "(rstring list, demo_world) loop_action list" where
  "two_requests = [SendAsk ask_addresses, SendControl (StartRequest 7), LoopTurn, LoopTurn]"

definition both_taken :: "(rstring list, demo_world) req_loop" where
  "both_taken =
     \<lparr>rl_world = send_start 7 demo_stack_world, rl_queue = [], rl_tasks = [(0, ask_addresses)],
      rl_replies = Map.empty, rl_next = 1\<rparr>"

lemma two_requests_run: "loop_run raw_codec demo_tables (loop_start demo_stack_world) two_requests both_taken"
proof -
  have ok: "handler_ok ask_addresses" unfolding ask_addresses_def by (rule handle_handlers_ok)
  have o: "sw_open (hw_sup demo_stack_world)" by (simp add: demo_stack_world_def sup_init_def)
  define s where "s q ts = \<lparr>rl_world = demo_stack_world, rl_queue = q, rl_tasks = ts, rl_replies = Map.empty, rl_next = 1\<rparr>"
    for q and ts :: "(nat \<times> (rstring list, demo_world) handler) list"
  have s_open: "rl_open (s q ts)" for q ts using o by (simp add: s_def rl_open_def)
  have "loop_do raw_codec demo_tables (SendAsk ask_addresses) (loop_start demo_stack_world) = Some (s [Ask 0 ask_addresses] [])"
    using o by (simp add: send_ask_def loop_start_def rl_open_def s_def)
  moreover have "loop_do raw_codec demo_tables (SendControl (StartRequest 7)) (s [Ask 0 ask_addresses] [])
      = Some (s [Ask 0 ask_addresses, StartRequest 7] [])"
    using s_open[of "[Ask 0 ask_addresses]" "[]"] by (simp add: send_control_def) (simp add: s_def)
  moreover have "loop_do raw_codec demo_tables LoopTurn (s [Ask 0 ask_addresses, StartRequest 7] [])
      = Some (s [StartRequest 7] [(0, ask_addresses)])"
    using s_open[of "[Ask 0 ask_addresses, StartRequest 7]" "[]"] by (simp add: request_loop_turn_def) (simp add: s_def)
  moreover have "loop_do raw_codec demo_tables LoopTurn (s [StartRequest 7] [(0, ask_addresses)]) = Some both_taken"
    using s_open[of "[StartRequest 7]" "[(0, ask_addresses)]"] o
    by (simp add: request_loop_turn_def) (simp add: s_def on_sup_def both_taken_def send_start_def)
  ultimately show ?thesis
    unfolding two_requests_def using ok by (auto intro!: loop_run.act loop_run.halt)
qed

lemma demo_tables_open: "sw_open (hw_sup demo_stack_world)"
  by (simp add: demo_stack_world_def sup_init_def)

lemma every_request_is_answered_once_witness:
  "\<exists>bs s'. set bs \<subseteq> {LoopTurn, Finish 0} \<and> loop_run raw_codec demo_tables both_taken bs s' \<and> rl_replies s' 0 \<noteq> None"
  using every_request_is_answered_once[OF two_requests_run demo_tables_open, of 0] by (simp add: both_taken_def)


end
