(* ===== verification/ConfigLock.thy ===== *)
theory ConfigLock
  imports Ctrl
begin

section \<open>The lock of the configuration (\<open>real.rs\<close>, \<open>update_config\<close>)\<close>

text \<open>
  \<open>update_config\<close> in \<open>Ctrl\<close> is one step. The commands that call it run as independent tasks, on
  several threads; here each call is its own steps: wait for the lock \<open>config_write\<close>, clone the
  configuration and change the clone, save it, put it back and release the lock. Other tasks write
  other files at any point.
\<close>

text \<open>
  Where a call is. A call that has the lock knows what its caller gets and the configuration it
  made; the outcome of the save is known after it.
\<close>

type_synonym 'r change = "config_data \<Rightarrow> 'r \<times> config_data"

datatype 'r config_call =
    WaitsForLock "'r change"
  | HasLock "'r change"
  | Changed "'r change" 'r config_data
  | Saved "'r change" 'r config_data "io_error + unit"
  | Returned "'r change" 'r "io_error + unit"

record 'r config_world =
  cw_config :: config_data
  cw_fs :: fs
  cw_lock :: "nat option"
  cw_calls :: "nat \<Rightarrow> 'r config_call option"

definition set_call :: "nat \<Rightarrow> 'r config_call \<Rightarrow> 'r config_world \<Rightarrow> 'r config_world" where
  "set_call t k w = w\<lparr>cw_calls := (cw_calls w)(t \<mapsto> k)\<rparr>"

definition acquire :: "nat \<Rightarrow> 'r change \<Rightarrow> 'r config_world \<Rightarrow> 'r config_world option" where
  "acquire t f w =
     (case cw_lock w of
        None \<Rightarrow> Some (set_call t (HasLock f) (w\<lparr>cw_lock := Some t\<rparr>))
      | Some _ \<Rightarrow> None)"

definition change_clone :: "nat \<Rightarrow> 'r change \<Rightarrow> 'r config_world \<Rightarrow> 'r config_world" where
  "change_clone t f w = (case f (cw_config w) of (r, cfg) \<Rightarrow> set_call t (Changed f r cfg) w)"

definition save_clone :: "u32 \<Rightarrow> nat \<Rightarrow> 'r change \<Rightarrow> 'r \<Rightarrow> config_data \<Rightarrow> 'r config_world \<Rightarrow> 'r config_world" where
  "save_clone pid t f r cfg w =
     (case save_config pid cfg (cw_fs w) of (p, s) \<Rightarrow> set_call t (Saved f r cfg p) (w\<lparr>cw_fs := s\<rparr>))"

definition put_back :: "nat \<Rightarrow> 'r change \<Rightarrow> 'r \<Rightarrow> config_data \<Rightarrow> io_error + unit \<Rightarrow> 'r config_world \<Rightarrow> 'r config_world" where
  "put_back t f r cfg p w = set_call t (Returned f r p) (w\<lparr>cw_config := cfg, cw_lock := None\<rparr>)"

text \<open>The next step of a call; one that waits for a lock held by another has none.\<close>

definition call_step :: "u32 \<Rightarrow> nat \<Rightarrow> 'r config_world \<Rightarrow> 'r config_world option" where
  "call_step pid t w =
     (case cw_calls w t of
        None \<Rightarrow> None
      | Some (WaitsForLock f) \<Rightarrow> acquire t f w
      | Some (HasLock f) \<Rightarrow> Some (change_clone t f w)
      | Some (Changed f r cfg) \<Rightarrow> Some (save_clone pid t f r cfg w)
      | Some (Saved f r cfg p) \<Rightarrow> Some (put_back t f r cfg p w)
      | Some (Returned f r p) \<Rightarrow> None)"

datatype 'r config_action =
    NewCall nat "'r change"
  | StepOf nat
  | OtherFiles "fs \<Rightarrow> fs"

fun config_do :: "u32 \<Rightarrow> 'r config_action \<Rightarrow> 'r config_world \<Rightarrow> 'r config_world option" where
  "config_do pid (NewCall t f) w =
     (if cw_calls w t = None then Some (set_call t (WaitsForLock f) w) else None)"
| "config_do pid (StepOf t) w = call_step pid t w"
| "config_do pid (OtherFiles g) w = Some (w\<lparr>cw_fs := g (cw_fs w)\<rparr>)"

fun config_run :: "u32 \<Rightarrow> 'r config_action list \<Rightarrow> 'r config_world \<Rightarrow> 'r config_world option" where
  "config_run pid [] w = Some w"
| "config_run pid (a # as) w = Option.bind (config_do pid a w) (config_run pid as)"

definition config_idle :: "'w ctrl \<Rightarrow> 'r config_world" where
  "config_idle c = \<lparr>cw_config = ct_config c, cw_fs = sh_fs c, cw_lock = None, cw_calls = Map.empty\<rparr>"

subsection \<open>The one-step calls\<close>

text \<open>The calls in some order, with the other files' writes between them, each as \<open>Ctrl\<close> does it\<close>

datatype 'r serial_action = Update nat "'r change" | Others "fs \<Rightarrow> fs"

type_synonym ('w, 'r) serial_state = "'w ctrl \<times> (nat \<Rightarrow> ('r \<times> (io_error + unit)) option)"

fun serial_do :: "'r serial_action \<Rightarrow> ('w, 'r) serial_state \<Rightarrow> ('w, 'r) serial_state" where
  "serial_do (Update t f) (c, rp) = (case update_config f c of (res, c') \<Rightarrow> (c', rp(t \<mapsto> res)))"
| "serial_do (Others g) (c, rp) = (c\<lparr>sh_fs := g (sh_fs c)\<rparr>, rp)"

definition updates_of :: "'r serial_action list \<Rightarrow> nat list" where
  "updates_of es = concat (map (\<lambda>e. case e of Update t f \<Rightarrow> [t] | Others g \<Rightarrow> []) es)"

definition others_of :: "'r serial_action list \<Rightarrow> (fs \<Rightarrow> fs) list" where
  "others_of es = concat (map (\<lambda>e. case e of Update t f \<Rightarrow> [] | Others g \<Rightarrow> [g]) es)"

definition other_files :: "'r config_action list \<Rightarrow> (fs \<Rightarrow> fs) list" where
  "other_files acts = concat (map (\<lambda>a. case a of OtherFiles g \<Rightarrow> [g] | _ \<Rightarrow> []) acts)"

text \<open>The change a call makes, and what it got once its save is done\<close>

definition change_of :: "'r config_call \<Rightarrow> 'r change" where
  "change_of k =
     (case k of WaitsForLock f \<Rightarrow> f | HasLock f \<Rightarrow> f | Changed f r cfg \<Rightarrow> f
      | Saved f r cfg p \<Rightarrow> f | Returned f r p \<Rightarrow> f)"

definition outcome_of :: "'r config_call option \<Rightarrow> ('r \<times> (io_error + unit)) option" where
  "outcome_of k = (case k of Some (Saved f r cfg p) \<Rightarrow> Some (r, p) | Some (Returned f r p) \<Rightarrow> Some (r, p) | _ \<Rightarrow> None)"

text \<open>
  \<open>es\<close> accounts for a run: doing its updates one after the other leaves the files, the outcome of
  every call and (once the lock is free) the configuration the run leaves; it has exactly the calls
  whose save is done, each once, with the change its caller passed, and the other files' writes in
  their order.
\<close>

definition accounts_for ::
  "'w ctrl \<Rightarrow> 'r config_action list \<Rightarrow> 'r config_world \<Rightarrow> 'r serial_action list \<Rightarrow> bool" where
  "accounts_for c acts w es \<longleftrightarrow>
     (case fold serial_do es (c, Map.empty) of (c', rp) \<Rightarrow>
        sh_fs c' = cw_fs w
      \<and> (cw_lock w = None \<longrightarrow> ct_config c' = cw_config w)
      \<and> (\<forall>t. rp t = outcome_of (cw_calls w t)))
   \<and> distinct (updates_of es)
   \<and> others_of es = other_files acts
   \<and> (\<forall>t f. Update t f \<in> set es \<longrightarrow> NewCall t f \<in> set acts)
   \<and> (\<forall>t. t \<in> set (updates_of es) \<longleftrightarrow> outcome_of (cw_calls w t) \<noteq> None)"

end
