(* ===== verification/ConfigLock_Facts.thy ===== *)
theory ConfigLock_Facts
  imports ConfigLock Commands_Frame
begin

section \<open>The configuration changes in one piece\<close>

text \<open>
  The lock keeps two calls of \<open>update_config\<close> apart, so that interleaved calls amount to the
  one-step calls of \<open>Ctrl\<close> in the order of their saves: no change is lost, in memory or on disk.
\<close>

subsection \<open>Mutual exclusion\<close>

text \<open>Which call is inside, and the configuration the next call will see\<close>

definition inside :: "'r config_call option \<Rightarrow> bool" where
  "inside k = (case k of Some (HasLock _) \<Rightarrow> True | Some (Changed _ _ _) \<Rightarrow> True | Some (Saved _ _ _ _) \<Rightarrow> True | _ \<Rightarrow> False)"

definition pending_config :: "'r config_world \<Rightarrow> config_data" where
  "pending_config w =
     (case cw_lock w of
        None \<Rightarrow> cw_config w
      | Some t \<Rightarrow> (case cw_calls w t of Some (Saved f r cfg p) \<Rightarrow> cfg | _ \<Rightarrow> cw_config w))"

definition lock_inv :: "'r config_world \<Rightarrow> bool" where
  "lock_inv w \<longleftrightarrow>
     (\<forall>t. inside (cw_calls w t) \<longleftrightarrow> cw_lock w = Some t)
   \<and> (\<forall>t f r cfg. cw_calls w t = Some (Changed f r cfg) \<longrightarrow> f (cw_config w) = (r, cfg))"

lemma inside_simps [simp]:
  "inside (Some (HasLock f))" "inside (Some (Changed f r cfg))" "inside (Some (Saved f r cfg p))"
  "\<not> inside (Some (WaitsForLock f))" "\<not> inside (Some (Returned f r p))" "\<not> inside None"
  by (simp_all add: inside_def)

lemma set_call_simps [simp]:
  "cw_config (set_call t k w) = cw_config w" "cw_fs (set_call t k w) = cw_fs w"
  "cw_lock (set_call t k w) = cw_lock w" "cw_calls (set_call t k w) = (cw_calls w)(t \<mapsto> k)"
  by (simp_all add: set_call_def)

lemma lock_inv_idle: "lock_inv (config_idle c)"
  by (simp add: lock_inv_def config_idle_def)

lemma outside: "lock_inv w \<Longrightarrow> cw_lock w \<noteq> Some t \<Longrightarrow> \<not> inside (cw_calls w t)"
  by (simp add: lock_inv_def)

text \<open>What the step of a call stands for: the save is where its update happens.\<close>

definition step_serial :: "'r config_action \<Rightarrow> 'r config_world \<Rightarrow> 'r serial_action list" where
  "step_serial a w =
     (case a of
        NewCall t f \<Rightarrow> []
      | OtherFiles g \<Rightarrow> [Others g]
      | StepOf t \<Rightarrow> (case cw_calls w t of Some (Changed f r cfg) \<Rightarrow> [Update t f] | _ \<Rightarrow> []))"

definition serial_matches :: "u32 \<Rightarrow> 'r config_world \<Rightarrow> ('w, 'r) serial_state \<Rightarrow> bool" where
  "serial_matches pid w cr \<longleftrightarrow>
     ct_config (fst cr) = pending_config w \<and> sh_fs (fst cr) = cw_fs w \<and> sh_pid (fst cr) = pid
   \<and> snd cr = (\<lambda>t. outcome_of (cw_calls w t))"

lemma pending_config_fs [simp]: "pending_config (w\<lparr>cw_fs := s\<rparr>) = pending_config w"
  by (simp add: pending_config_def split: option.split config_call.split)

lemma pending_config_new [simp]:
  "cw_calls w t = None \<Longrightarrow> pending_config (set_call t (WaitsForLock f) w) = pending_config w"
  by (auto simp: pending_config_def split: option.split config_call.split)

lemma serial_step:
  assumes inv: "lock_inv w" and m: "serial_matches pid w (c, rp)" and step: "config_do pid a w = Some w'"
  shows "lock_inv w' \<and> serial_matches pid w' (fold serial_do (step_serial a w) (c, rp))"
proof (cases a)
  case (NewCall t f)
  with step have n: "cw_calls w t = None" and w': "w' = set_call t (WaitsForLock f) w" by (auto split: if_splits)
  then have "cw_lock w \<noteq> Some t" using inv inside_simps(6) by (metis lock_inv_def)
  with NewCall n inv m show ?thesis
    by (auto simp: w' lock_inv_def serial_matches_def outcome_of_def step_serial_def)
next
  case (OtherFiles g)
  with step inv m show ?thesis
    by (auto simp: lock_inv_def serial_matches_def step_serial_def)
next
  case (StepOf t)
  then have s: "call_step pid t w = Some w'" using step by simp
  then obtain k where k: "cw_calls w t = Some k" by (auto simp: call_step_def split: option.splits)
  have lock: "cw_lock w = Some t" if "inside (Some k)" using that k inv by (metis lock_inv_def)
  have alone: "\<not> inside (cw_calls w u)" if "cw_lock w = Some t" "u \<noteq> t" for u
    using that inv by (auto simp: lock_inv_def)
  have unchanged: "cw_calls w u \<noteq> Some (Changed g r cfg)" if "cw_lock w = Some t" "u \<noteq> t" for u g r cfg
    using alone[OF that] by auto
  show ?thesis
  proof (cases k)
    case (WaitsForLock f)
    then have n: "cw_lock w = None" and w': "w' = set_call t (HasLock f) (w\<lparr>cw_lock := Some t\<rparr>)"
      using s k by (auto simp: call_step_def acquire_def split: option.splits)
    have out: "\<not> inside (cw_calls w u)" for u using n inv by (simp add: lock_inv_def)
    then have "cw_calls w u \<noteq> Some (Changed g r cfg)" for u g r cfg by (metis inside_simps(2))
    with WaitsForLock StepOf k n out m show ?thesis
      by (auto simp: w' lock_inv_def serial_matches_def pending_config_def outcome_of_def step_serial_def)
  next
    case (HasLock f)
    obtain r cfg where f: "f (cw_config w) = (r, cfg)" by fastforce
    have w': "w' = set_call t (Changed f r cfg) w"
      using s k HasLock f by (simp add: call_step_def change_clone_def)
    with HasLock StepOf k lock alone unchanged f m inv show ?thesis
      by (auto simp: lock_inv_def serial_matches_def pending_config_def outcome_of_def step_serial_def)
  next
    case (Changed f r cfg)
    have f: "f (cw_config w) = (r, cfg)" using inv k Changed by (simp add: lock_inv_def)
    obtain p s' where sv: "save_config pid cfg (cw_fs w) = (p, s')" by fastforce
    have w': "w' = set_call t (Saved f r cfg p) (w\<lparr>cw_fs := s'\<rparr>)"
      using s k Changed sv by (simp add: call_step_def save_clone_def)
    have lk: "cw_lock w = Some t" using lock Changed by simp
    have c: "ct_config c = cw_config w" "sh_fs c = cw_fs w" "sh_pid c = pid" "rp = (\<lambda>u. outcome_of (cw_calls w u))"
      using m k Changed lk by (simp_all add: serial_matches_def pending_config_def)
    have "fold serial_do (step_serial a w) (c, rp) = (c\<lparr>sh_fs := s', ct_config := cfg\<rparr>, rp(t \<mapsto> (r, p)))"
      using StepOf k Changed f sv c by (simp add: step_serial_def update_config_def config_snapshot_def)
    moreover have "rp(t \<mapsto> (r, p)) = (\<lambda>u. outcome_of (cw_calls w' u))"
      using c by (auto simp: w' outcome_of_def fun_eq_iff)
    moreover have "lock_inv w'"
      using lk alone unchanged inv by (auto simp: w' lock_inv_def)
    ultimately show ?thesis
      using lk c by (simp add: w' serial_matches_def pending_config_def)
  next
    case (Saved f r cfg p)
    have w': "w' = put_back t f r cfg p w" using s k Saved by (simp add: call_step_def)
    have lk: "cw_lock w = Some t" using lock Saved by simp
    with Saved StepOf k alone unchanged m inv show ?thesis
      by (auto simp: w' put_back_def lock_inv_def serial_matches_def pending_config_def outcome_of_def
          step_serial_def fun_eq_iff)
  next
    case (Returned f r p)
    with s k show ?thesis by (simp add: call_step_def)
  qed
qed

subsection \<open>Runs\<close>

definition serialised :: "u32 \<Rightarrow> 'w ctrl \<Rightarrow> 'r config_action list \<Rightarrow> 'r config_world \<Rightarrow> 'r serial_action list \<Rightarrow> bool" where
  "serialised pid c acts w es \<longleftrightarrow>
     lock_inv w \<and> serial_matches pid w (fold serial_do es (c, Map.empty))
   \<and> distinct (updates_of es) \<and> others_of es = other_files acts
   \<and> (\<forall>t f. Update t f \<in> set es \<longrightarrow> NewCall t f \<in> set acts)
   \<and> (\<forall>t. t \<in> set (updates_of es) \<longleftrightarrow> outcome_of (cw_calls w t) \<noteq> None)
   \<and> (\<forall>t k. cw_calls w t = Some k \<longrightarrow> NewCall t (change_of k) \<in> set acts)"

lemma of_append [simp]:
  "updates_of (es @ fs) = updates_of es @ updates_of fs"
  "others_of (es @ fs) = others_of es @ others_of fs"
  "other_files (acts @ bs) = other_files acts @ other_files bs"
  "updates_of [] = []" "others_of [] = []" "other_files [] = []"
  "updates_of [Update t f] = [t]" "updates_of [Others g] = []"
  "others_of [Update t f] = []" "others_of [Others g] = [g]"
  "other_files [NewCall t f] = []" "other_files [StepOf t] = []" "other_files [OtherFiles g] = [g]"
  by (simp_all add: updates_of_def others_of_def other_files_def)

lemma change_of_simps [simp]:
  "change_of (WaitsForLock f) = f" "change_of (HasLock f) = f" "change_of (Changed f r cfg) = f"
  "change_of (Saved f r cfg p) = f" "change_of (Returned f r p) = f"
  by (simp_all add: change_of_def)

lemma outcome_of_simps [simp]:
  "outcome_of None = None" "outcome_of (Some (WaitsForLock f)) = None" "outcome_of (Some (HasLock f)) = None"
  "outcome_of (Some (Changed f r cfg)) = None" "outcome_of (Some (Saved f r cfg p)) = Some (r, p)"
  "outcome_of (Some (Returned f r p)) = Some (r, p)"
  by (simp_all add: outcome_of_def)

text \<open>A step leaves the other calls where they are, and the call it moves keeps its change.\<close>

lemma call_step_calls:
  assumes "call_step pid t w = Some w'"
  obtains k k' where "cw_calls w t = Some k" "cw_calls w' = (cw_calls w)(t \<mapsto> k')" "change_of k' = change_of k"
    "outcome_of (Some k') \<noteq> None \<longleftrightarrow> outcome_of (Some k) \<noteq> None \<or> (\<exists>f r cfg. k = Changed f r cfg)"
  using assms
  by (auto simp: call_step_def acquire_def change_clone_def save_clone_def put_back_def
      split: option.splits config_call.splits prod.splits)

lemma serialised_step:
  assumes s: "serialised pid c acts w es" and step: "config_do pid a w = Some w'"
  shows "serialised pid c (acts @ [a]) w' (es @ step_serial a w)"
proof -
  obtain c1 rp where cr: "fold serial_do es (c, Map.empty) = (c1, rp)" by fastforce
  with s have inv: "lock_inv w" and m: "serial_matches pid w (c1, rp)" by (simp_all add: serialised_def)
  have after: "lock_inv w' \<and> serial_matches pid w' (fold serial_do (es @ step_serial a w) (c, Map.empty))"
    using serial_step[OF inv m step] by (simp add: cr)
  show ?thesis
  proof (cases a)
    case (NewCall t f)
    with step have "cw_calls w t = None" "cw_calls w' = (cw_calls w)(t \<mapsto> WaitsForLock f)" by (auto split: if_splits)
    with NewCall s after show ?thesis by (auto simp: serialised_def step_serial_def)
  next
    case (OtherFiles g)
    with step have "cw_calls w' = cw_calls w" by auto
    with OtherFiles s after show ?thesis by (auto simp: serialised_def step_serial_def)
  next
    case (StepOf t)
    with step have "call_step pid t w = Some w'" by simp
    then obtain k k' where k: "cw_calls w t = Some k" "cw_calls w' = (cw_calls w)(t \<mapsto> k')" "change_of k' = change_of k"
      "outcome_of (Some k') \<noteq> None \<longleftrightarrow> outcome_of (Some k) \<noteq> None \<or> (\<exists>f r cfg. k = Changed f r cfg)"
      by (rule call_step_calls)
    show ?thesis
    proof (cases "\<exists>f r cfg. k = Changed f r cfg")
      case True
      then obtain f r cfg where kf: "k = Changed f r cfg" by blast
      then have e: "step_serial a w = [Update t f]" using StepOf k by (simp add: step_serial_def)
      have "NewCall t f \<in> set acts" using s k(1) unfolding serialised_def kf by (metis change_of_simps(3))
      with after e StepOf s k kf show ?thesis by (auto simp: serialised_def)
    next
      case False
      then have e: "step_serial a w = []" using StepOf k by (auto simp: step_serial_def split: config_call.splits)
      with after StepOf s k False show ?thesis by (auto simp: serialised_def)
    qed
  qed
qed

lemma serialised_run:
  "config_run pid bs w = Some w' \<Longrightarrow> serialised pid c acts w es \<Longrightarrow>
     \<exists>fs. serialised pid c (acts @ bs) w' (es @ fs)"
proof (induction bs arbitrary: acts w es)
  case Nil
  then show ?case by (metis append_Nil2 config_run.simps(1) option.inject)
next
  case (Cons a bs)
  then obtain w1 where a: "config_do pid a w = Some w1" and bs: "config_run pid bs w1 = Some w'"
    by (auto simp: bind_eq_Some_conv)
  from Cons.IH[OF bs serialised_step[OF Cons.prems(2) a]] show ?case by auto
qed

lemma serialised_idle: "serialised (sh_pid c) c [] (config_idle c) []"
  using lock_inv_idle[of c]
  by (simp add: serialised_def serial_matches_def config_idle_def pending_config_def)

lemma serialised_accounts: "serialised pid c acts w es \<Longrightarrow> accounts_for c acts w es"
  by (auto simp: serialised_def accounts_for_def serial_matches_def pending_config_def split: prod.splits)

text \<open>No call waits for ever: while one has not returned, some call can take its next step.\<close>

lemma some_call_can_step:
  assumes "config_run (sh_pid c) acts (config_idle c) = Some w" "cw_calls w t = Some k" "\<forall>f r p. k \<noteq> Returned f r p"
  shows "\<exists>u w'. config_do (sh_pid c) (StepOf u) w = Some w'"
proof -
  have inv: "lock_inv w"
    using serialised_run[OF assms(1) serialised_idle] by (auto simp: serialised_def)
  show ?thesis
  proof (cases "cw_lock w")
    case None
    then have "\<not> inside (Some k)" using inv assms(2) by (metis lock_inv_def option.distinct(1))
    then obtain f where "k = WaitsForLock f" using assms(3) by (cases k) auto
    with None assms(2) show ?thesis by (intro exI[of _ t]) (simp add: call_step_def acquire_def)
  next
    case (Some u)
    then have "inside (cw_calls w u)" using inv by (simp add: lock_inv_def)
    then show ?thesis
      by (cases "cw_calls w u"; cases "the (cw_calls w u)") (auto intro!: exI[of _ u] simp: call_step_def)
  qed
qed

text \<open>
  C26: interleaved calls of \<open>update_config\<close> lose nothing. However the calls of any number of tasks
  and the writes of other files interleave, there is an order of the one-step updates of \<open>Ctrl\<close>
  that accounts for the run: it leaves the same files, gives every call the result it got and, once
  the lock is free, the same configuration; every call whose save is done is in it exactly once,
  with its own change. The order of a longer run extends it, so a call that returned comes before
  one that had not begun.
\<close>

theorem config_updates_are_atomic:
  assumes "config_run (sh_pid c) acts (config_idle c) = Some w"
    and "config_run (sh_pid c) bs w = Some w'"
  shows "\<exists>es fs. accounts_for c acts w es \<and> accounts_for c (acts @ bs) w' (es @ fs)"
proof -
  obtain es where es: "serialised (sh_pid c) c acts w es"
    using serialised_run[OF assms(1) serialised_idle] by auto
  moreover obtain fs where "serialised (sh_pid c) c (acts @ bs) w' (es @ fs)"
    using serialised_run[OF assms(2) es] by blast
  ultimately show ?thesis using serialised_accounts by blast
qed

text \<open>Two calls that each take the next node id: the second waits while the first is inside.\<close>

definition take_id :: "u64 change" where
  "take_id cfg = (cfg_next_node_id cfg, cfg\<lparr>cfg_next_node_id := cfg_next_node_id cfg + 1\<rparr>)"

definition first_half :: "u64 config_action list" where
  "first_half = [NewCall 0 take_id, NewCall 1 take_id, StepOf 1, StepOf 1]"

definition second_half :: "u64 config_action list" where
  "second_half = [StepOf 1, OtherFiles id, StepOf 1, StepOf 0, StepOf 0, StepOf 0, StepOf 0]"

lemma two_ids_run:
  obtains w w' p q where "config_run 1 first_half (config_idle example_ctrl) = Some w" "config_run 1 second_half w = Some w'"
    "\<forall>t. outcome_of (cw_calls w t) = None"
    "cw_calls w' = [1 \<mapsto> Returned take_id 1 p, 0 \<mapsto> Returned take_id 2 q]"
    "cw_lock w' = None" "cfg_next_node_id (cw_config w') = 3"
proof -
  let ?w = "the (config_run 1 first_half (config_idle example_ctrl))"
  let ?w' = "the (config_run 1 second_half ?w)"
  note run_simps = first_half_def second_half_def config_idle_def call_step_def acquire_def change_clone_def
    save_clone_def put_back_def take_id_def example_ctrl_def default_config_def
  have "config_run 1 first_half (config_idle example_ctrl) = Some ?w" "\<forall>t. outcome_of (cw_calls ?w t) = None"
    by (simp_all add: run_simps)
  moreover have "config_run 1 second_half ?w = Some ?w' \<and> (\<exists>p q. cw_calls ?w' =
      [1 \<mapsto> Returned take_id 1 p, 0 \<mapsto> Returned take_id 2 q]) \<and> cw_lock ?w' = None \<and> cfg_next_node_id (cw_config ?w') = 3"
    by (simp add: run_simps split: prod.split) blast
  ultimately show thesis using that by blast
qed

lemma config_updates_are_atomic_witness:
  "\<exists>w w' (es :: u64 serial_action list) fs. config_run 1 first_half (config_idle example_ctrl) = Some w \<and> config_run 1 second_half w = Some w'
     \<and> updates_of es = [] \<and> set (updates_of fs) = {0, 1} \<and> cfg_next_node_id (cw_config w') = 3
     \<and> ct_config (fst (fold serial_do (es @ fs) (example_ctrl, Map.empty))) = cw_config w'"
proof -
  obtain w w' p q where run: "config_run 1 first_half (config_idle example_ctrl) = Some w" "config_run 1 second_half w = Some w'"
    and half: "\<forall>t. outcome_of (cw_calls w t) = None"
    and calls: "cw_calls w' = [1 \<mapsto> Returned take_id 1 p, 0 \<mapsto> Returned take_id 2 q]"
    and idle: "cw_lock w' = None" "cfg_next_node_id (cw_config w') = 3"
    by (rule two_ids_run)
  have "sh_pid example_ctrl = 1" by (simp add: example_ctrl_def)
  then obtain es fs where es: "accounts_for example_ctrl first_half w es"
    and fs: "accounts_for example_ctrl (first_half @ second_half) w' (es @ fs)"
    using config_updates_are_atomic[of example_ctrl first_half w second_half w'] run by auto
  have "\<forall>t. t \<notin> set (updates_of es)" using es half unfolding accounts_for_def by blast
  then have none: "updates_of es = []" by (cases "updates_of es") auto
  have "t \<in> set (updates_of (es @ fs)) \<longleftrightarrow> t \<in> {0, 1}" for t
  proof -
    have "outcome_of (cw_calls w' t) \<noteq> None \<longleftrightarrow> t = 0 \<or> t = 1" by (simp add: calls outcome_of_def)
    with fs show ?thesis unfolding accounts_for_def by blast
  qed
  then have "set (updates_of (es @ fs)) = {0, 1}" by blast
  with none have both: "set (updates_of fs) = {0, 1}" by simp
  have "ct_config (fst (fold serial_do (es @ fs) (example_ctrl, Map.empty))) = cw_config w'"
    using fs idle(1) by (auto simp only: accounts_for_def case_prod_beta)
  with run idle(2) none both show ?thesis
    by blast
qed

end
