(* ===== verification/Idl.thy ===== *)
theory Idl
  imports Tlv
begin

section \<open>The cluster tables (\<open>gen/build.rs\<close>)\<close>

text \<open>
  The extractor that turns the Matter interface definition into the tables \<open>Tlv\<close> looks things up
  in: a line-by-line scan with at most one open cluster and one open block, and the rendering as
  Rust source. \<open>None\<close> is a panic, which fails the build. What the compiler makes of the rendered
  text is \<open>static_tables\<close>: the same fields, with codes of 32 bits.
\<close>

subsection \<open>String functions\<close>

definition trim_end_char :: "char \<Rightarrow> rstring \<Rightarrow> rstring" where
  "trim_end_char c s = rev (dropWhile (\<lambda>x. x = c) (rev s))"

text \<open>\<open>trim_end_matches("[]")\<close>\<close>

function trim_end_brackets :: "rstring \<Rightarrow> rstring" where
  "trim_end_brackets s =
     (if ends_with ''[]'' s then trim_end_brackets (take (length s - 2) s) else s)"
  by pat_completeness auto
termination
  by (relation "measure length") (auto simp: ends_with_iff)

declare trim_end_brackets.simps [simp del]

text \<open>\<open>str::find\<close> of a string, \<open>split(p).nth(1)\<close>, and \<open>rfind\<close> of a character\<close>

fun find_sub :: "rstring \<Rightarrow> rstring \<Rightarrow> nat option" where
  "find_sub p [] = (if p = [] then Some 0 else None)"
| "find_sub p (c # s) = (if starts_with p (c # s) then Some 0 else map_option Suc (find_sub p s))"

definition split_second :: "rstring \<Rightarrow> rstring \<Rightarrow> rstring option" where
  "split_second p s =
     map_option (\<lambda>i. let rest = drop (i + length p) s
                     in case find_sub p rest of None \<Rightarrow> rest | Some j \<Rightarrow> take j rest) (find_sub p s)"

definition rfind_char :: "char \<Rightarrow> rstring \<Rightarrow> nat option" where
  "rfind_char c s = map_option (\<lambda>(a, b). length a) (rsplit_once c s)"

fun words_from :: "rstring list \<Rightarrow> rstring \<Rightarrow> rstring list" where
  "words_from [] cur = (if cur = [] then [] else [cur])"
| "words_from (ch # cs) cur =
     (if is_whitespace ch then (if cur = [] then words_from cs [] else cur # words_from cs [])
      else words_from cs (cur @ ch))"

text \<open>\<open>split_whitespace\<close>\<close>

definition words_of :: "rstring \<Rightarrow> rstring list" where
  "words_of s = words_from (utf8_chars s) []"

text \<open>\<open>str::lines\<close>: no line after a final newline, and no carriage return at the end of one\<close>

definition lines_of :: "rstring \<Rightarrow> rstring list" where
  "lines_of s =
     (let ps = split_on (CHR 0x0A) s; ps = (if last ps = [] then butlast ps else ps)
      in map (\<lambda>l. if l \<noteq> [] \<and> last l = CHR 0x0D then butlast l else l) ps)"

subsection \<open>Fields and commands\<close>

type_synonym idl_field = "u64 \<times> rstring \<times> rstring \<times> bool"
type_synonym idl_command = "u64 \<times> rstring \<times> rstring option \<times> rstring option \<times> bool"

record idl_cluster =
  idl_name :: rstring
  idl_code :: u64
  idl_attrs :: "idl_field list"
  idl_cmds :: "idl_command list"
  idl_structs :: "(rstring \<times> idl_field list) list"
  idl_events :: "(u64 \<times> rstring \<times> idl_field list) list"

definition QUALIFIERS :: "rstring list" where
  "QUALIFIERS = [''optional'', ''nullable'', ''readonly'', ''fabric_sensitive'']"

definition field_decl :: "rstring list \<Rightarrow> u64 \<Rightarrow> idl_field option" where
  "field_decl toks num =
     (let toks = dropWhile (\<lambda>t. t \<in> set QUALIFIERS) toks
      in if length toks < 2 then None
         else let name_tok = toks ! (length toks - 1); ty_tok = toks ! (length toks - 2)
              in Some (num, trim_end_brackets name_tok, hd (split_on (CHR ''<'') ty_tok),
                       ends_with ''[]'' name_tok))"

definition parse_field :: "rstring \<Rightarrow> idl_field option" where
  "parse_field line =
     Option.bind (rsplit_once (CHR ''='') (trim_end_char (CHR '';'') (trim line))) (\<lambda>(decl, num).
     Option.bind (parse_uint (trim num)) (field_decl (words_of decl)))"

definition strip_access :: "rstring \<Rightarrow> rstring" where
  "strip_access s =
     (case find_sub ''access('' s of
        None \<Rightarrow> s
      | Some start \<Rightarrow>
          (case split_once (CHR '')'') (drop start s) of
             None \<Rightarrow> s
           | Some (_, after) \<Rightarrow> take start s @ after))"

text \<open>The outer \<open>None\<close> is a panic: a closing parenthesis before the opening one.\<close>

definition parse_idl_command :: "rstring \<Rightarrow> (rstring \<times> rstring option \<times> rstring option \<times> u64) option option" where
  "parse_idl_command s =
     (case rsplit_once (CHR ''='') (trim_end_char (CHR '';'') (trim s)) of
        None \<Rightarrow> Some None
      | Some (sig, num) \<Rightarrow>
          (case parse_uint (trim num) of
             None \<Rightarrow> Some None
           | Some num \<Rightarrow>
               (case rsplit_once (CHR '':'') sig of
                  None \<Rightarrow> Some None
                | Some (call, output) \<Rightarrow>
                    let output = trim output;
                        output = (if output = ''DefaultSuccess'' then None else Some output);
                        call = trim call
                    in (case split_once (CHR ''('') call of
                          None \<Rightarrow> Some None
                        | Some (before, _) \<Rightarrow>
                            (case rfind_char (CHR '')'') call of
                               None \<Rightarrow> Some None
                             | Some close \<Rightarrow>
                                 if close < length before + 1 then None
                                 else let inner = trim (take (close - (length before + 1)) (drop (length before + 1) call))
                                      in Some (Some (trim before, if inner = [] then None else Some inner, output, num)))))))"

subsection \<open>The scan\<close>

datatype idl_block = SkipBlock | StructBlock rstring | EventBlock u64 rstring

record idl_state =
  is_clusters :: "idl_cluster list"
  is_cur :: "idl_cluster option"
  is_block :: "(idl_block \<times> idl_field list) option"
  is_depth :: int

definition idl_start :: idl_state where
  "idl_start = \<lparr>is_clusters = [], is_cur = None, is_block = None, is_depth = 0\<rparr>"

definition close_block :: "idl_block \<Rightarrow> idl_field list \<Rightarrow> idl_cluster \<Rightarrow> idl_cluster" where
  "close_block kind fs c =
     (case kind of
        SkipBlock \<Rightarrow> c
      | StructBlock name \<Rightarrow> c\<lparr>idl_structs := idl_structs c @ [(name, fs)]\<rparr>
      | EventBlock num name \<Rightarrow> c\<lparr>idl_events := idl_events c @ [(num, name, fs)]\<rparr>)"

definition block_line :: "idl_block \<Rightarrow> idl_field list \<Rightarrow> rstring \<Rightarrow> idl_state \<Rightarrow> idl_state" where
  "block_line kind fs line st =
     (let depth = is_depth st + (if CHR ''{'' \<in> set line then 1 else 0);
          depth = (if CHR ''}'' \<in> set line then depth - 1 else depth);
          st = st\<lparr>is_depth := depth\<rparr>
      in if CHR ''}'' \<in> set line \<and> depth \<le> 0
         then st\<lparr>is_block := None, is_cur := map_option (close_block kind fs) (is_cur st)\<rparr>
         else if kind = SkipBlock then st
         else case parse_field line of
                Some f \<Rightarrow> st\<lparr>is_block := Some (kind, fs @ [f])\<rparr>
              | None \<Rightarrow> st)"

text \<open>\<open>words.iter().position(..)\<close>\<close>

fun position :: "rstring \<Rightarrow> rstring list \<Rightarrow> nat option" where
  "position w [] = None"
| "position w (x # xs) = (if x = w then Some 0 else map_option Suc (position w xs))"

definition finish_cluster :: "idl_state \<Rightarrow> idl_state" where
  "finish_cluster st =
     (case is_cur st of
        None \<Rightarrow> st
      | Some c \<Rightarrow> st\<lparr>is_clusters := is_clusters st @ [c], is_cur := None\<rparr>)"

definition open_brace :: "rstring \<Rightarrow> bool" where
  "open_brace line \<longleftrightarrow> ends_with ''{'' line"

text \<open>The cluster a header line opens; an index beyond the words is a panic.\<close>

definition cluster_header :: "rstring list \<Rightarrow> nat \<Rightarrow> idl_cluster option" where
  "cluster_header ws pos =
     (if length ws \<le> pos + 3 then None
      else Some \<lparr>idl_name = ws ! (pos + 1),
                 idl_code = (case parse_uint (rev (dropWhile (\<lambda>x. x = CHR ''{'' \<or> x = CHR '' '') (rev (ws ! (pos + 3))))) of
                               Some n \<Rightarrow> n | None \<Rightarrow> - 1),
                 idl_attrs = [], idl_cmds = [], idl_structs = [], idl_events = []\<rparr>)"

definition nth_or :: "rstring list \<Rightarrow> nat \<Rightarrow> rstring" where
  "nth_or ws i = (if i < length ws then ws ! i else [])"

definition start_block :: "idl_block \<Rightarrow> idl_state \<Rightarrow> idl_state" where
  "start_block kind st = st\<lparr>is_block := Some (kind, []), is_depth := 1\<rparr>"

definition event_line :: "rstring \<Rightarrow> idl_state \<Rightarrow> idl_state" where
  "event_line line st =
     (if \<not> open_brace line then st
      else let rest = strip_access (case split_second ''event'' line of None \<Rightarrow> [] | Some r \<Rightarrow> r);
               rest = trim (trim_end_char (CHR ''{'') (trim rest))
           in case rsplit_once (CHR ''='') rest of
                None \<Rightarrow> st
              | Some (name_part, code_part) \<Rightarrow>
                  (case parse_uint (trim code_part) of
                     None \<Rightarrow> st
                   | Some num \<Rightarrow> start_block (EventBlock num (trim name_part)) st))"

definition attribute_line :: "rstring \<Rightarrow> idl_cluster \<Rightarrow> idl_cluster" where
  "attribute_line line c =
     (case parse_field (strip_access (case split_second ''attribute'' line of None \<Rightarrow> [] | Some r \<Rightarrow> r)) of
        None \<Rightarrow> c
      | Some f \<Rightarrow> c\<lparr>idl_attrs := idl_attrs c @ [f]\<rparr>)"

definition command_line :: "rstring list \<Rightarrow> nat \<Rightarrow> rstring \<Rightarrow> idl_cluster \<Rightarrow> idl_cluster option" where
  "command_line ws pos line c =
     map_option (\<lambda>cap. case cap of
         None \<Rightarrow> c
       | Some (name, input, output, num) \<Rightarrow>
           c\<lparr>idl_cmds := idl_cmds c @ [(num, name, input, output, ''timed'' \<in> set (take pos ws))]\<rparr>)
       (parse_idl_command (strip_access (case split_second ''command'' line of None \<Rightarrow> [] | Some r \<Rightarrow> r)))"

definition cluster_line :: "rstring list \<Rightarrow> rstring \<Rightarrow> idl_cluster \<Rightarrow> idl_state \<Rightarrow> idl_state option" where
  "cluster_line ws line c st =
     (if line = ''}'' then Some (finish_cluster st)
      else if ''enum'' \<in> set ws \<or> ''bitmap'' \<in> set ws
      then Some (if open_brace line then start_block SkipBlock st else st)
      else case position ''struct'' ws of
        Some pos \<Rightarrow>
          Some (if open_brace line
                then start_block (StructBlock (trim_end_char (CHR ''{'') (nth_or ws (pos + 1)))) st else st)
      | None \<Rightarrow>
          if ''event'' \<in> set ws then Some (event_line line st)
          else if ''attribute'' \<in> set ws then Some (st\<lparr>is_cur := Some (attribute_line line c)\<rparr>)
          else case position ''command'' ws of
                 Some pos \<Rightarrow> map_option (\<lambda>c. st\<lparr>is_cur := Some c\<rparr>) (command_line ws pos line c)
               | None \<Rightarrow> Some st)"

definition idl_line :: "rstring \<Rightarrow> idl_state \<Rightarrow> idl_state option" where
  "idl_line raw st =
     (let line = trim raw
      in if starts_with ''//'' line \<or> starts_with ''/*'' line \<or> line = [] then Some st
         else case is_block st of
           Some (kind, fs) \<Rightarrow> Some (block_line kind fs line st)
         | None \<Rightarrow>
             let ws = words_of line;
                 in_cluster = (case is_cur st of None \<Rightarrow> Some st | Some c \<Rightarrow> cluster_line ws line c st)
             in if ws = [] then Some st
                else case position ''cluster'' ws of
                  None \<Rightarrow> in_cluster
                | Some pos \<Rightarrow>
                    if pos + 2 < length ws \<and> ws ! (pos + 2) = ''='' \<and> open_brace line
                    then map_option (\<lambda>c. (finish_cluster st)\<lparr>is_cur := Some c\<rparr>) (cluster_header ws pos)
                    else in_cluster)"

fun idl_lines :: "rstring list \<Rightarrow> idl_state \<Rightarrow> idl_state option" where
  "idl_lines [] st = Some st"
| "idl_lines (l # ls) st = Option.bind (idl_line l st) (idl_lines ls)"

text \<open>\<open>dedup_by_key\<close>: of neighbours with one code the first stays.\<close>

fun dedup_codes :: "idl_cluster list \<Rightarrow> idl_cluster list" where
  "dedup_codes [] = []"
| "dedup_codes [c] = [c]"
| "dedup_codes (c # d # cs) =
     (if idl_code d = idl_code c then dedup_codes (c # cs) else c # dedup_codes (d # cs))"

definition idl_parse :: "rstring \<Rightarrow> idl_cluster list option" where
  "idl_parse src =
     map_option (\<lambda>st. dedup_codes (sort_key idl_code
         (filter (\<lambda>c. idl_code c \<noteq> - 1) (is_clusters (finish_cluster st)))))
       (idl_lines (lines_of src) idl_start)"

subsection \<open>The rendering\<close>

definition esc :: "rstring \<Rightarrow> rstring" where
  "esc s = concat (map (\<lambda>c. if c = CHR 0x22 then [CHR 0x5C, CHR 0x22] else [c]) s)"

definition quoted :: "rstring \<Rightarrow> rstring" where
  "quoted s = CHR 0x22 # esc s @ [CHR 0x22]"

definition bool_text :: "bool \<Rightarrow> rstring" where
  "bool_text b = (if b then ''true'' else ''false'')"

definition option_text :: "rstring option \<Rightarrow> rstring" where
  "option_text s = (case s of None \<Rightarrow> ''None'' | Some s \<Rightarrow> ''Some('' @ quoted s @ '')'')"

definition text_line :: "rstring \<Rightarrow> rstring" where
  "text_line s = s @ [CHR 0x0A]"

definition render_field :: "rstring \<Rightarrow> idl_field \<Rightarrow> rstring" where
  "render_field kind f =
     (case f of (num, name, ty, is_list) \<Rightarrow>
        kind @ '' { code: '' @ dec_of num @ '', name: '' @ quoted name @ '', ty: '' @ quoted ty
        @ '', is_list: '' @ bool_text is_list @ '' },'')"

definition render_fields :: "idl_field list \<Rightarrow> rstring" where
  "render_fields fs = concat (map (\<lambda>f. text_line (''        '' @ render_field ''Field'' f)) fs)"

definition render_command :: "idl_command \<Rightarrow> rstring" where
  "render_command m =
     (case m of (num, name, input, output, timed) \<Rightarrow>
        text_line (''    Cmd { code: '' @ dec_of num @ '', name: '' @ quoted name @ '', input: '' @ option_text input
          @ '', output: '' @ option_text output @ '', is_timed: '' @ bool_text timed @ '' },''))"

definition render_cluster :: "idl_cluster \<Rightarrow> rstring" where
  "render_cluster c =
     text_line (''Cluster { code: '' @ dec_of (idl_code c) @ '', name: '' @ quoted (idl_name c) @ '', attributes: &['')
   @ concat (map (\<lambda>f. text_line (''    '' @ render_field ''Attr'' f)) (idl_attrs c))
   @ text_line ''], commands: &[''
   @ concat (map render_command (idl_cmds c))
   @ text_line ''], structs: &[''
   @ concat (map (\<lambda>(name, fs). text_line (''    Struct { name: '' @ quoted name @ '', fields: &['')
       @ render_fields fs @ text_line ''    ] },'') (idl_structs c))
   @ text_line ''], events: &[''
   @ concat (map (\<lambda>(num, name, fs). text_line (''    Event { code: '' @ dec_of num @ '', name: '' @ quoted name @ '', fields: &['')
       @ render_fields fs @ text_line ''    ] },'') (idl_events c))
   @ text_line ''] },''"

definition render :: "idl_cluster list \<Rightarrow> rstring" where
  "render clusters =
     text_line ''static CLUSTERS: &[Cluster] = &['' @ concat (map render_cluster clusters) @ text_line ''];''"

text \<open>The file the build writes\<close>

definition generated :: "rstring \<Rightarrow> rstring option" where
  "generated src = map_option render (idl_parse src)"

subsection \<open>The tables\<close>

definition static_field :: "idl_field \<Rightarrow> gen_field" where
  "static_field f =
     (case f of (num, name, ty, is_list) \<Rightarrow>
        \<lparr>gf_code = ucast num, gf_name = name, gf_ty = ty, gf_is_list = is_list\<rparr>)"

definition static_cluster :: "idl_cluster \<Rightarrow> gen_cluster" where
  "static_cluster c =
     \<lparr>cl_code = ucast (idl_code c), cl_name = idl_name c,
      cl_attributes = map (\<lambda>(num, name, ty, is_list).
        \<lparr>ga_code = ucast num, ga_name = name, ga_ty = ty, ga_is_list = is_list\<rparr>) (idl_attrs c),
      cl_commands = map (\<lambda>(num, name, input, output, timed).
        \<lparr>gc_code = ucast num, gc_name = name, gc_input = input, gc_output = output, gc_is_timed = timed\<rparr>) (idl_cmds c),
      cl_structs = map (\<lambda>(name, fs). \<lparr>gs_name = name, gs_fields = map static_field fs\<rparr>) (idl_structs c),
      cl_events = map (\<lambda>(num, name, fs).
        \<lparr>ge_code = ucast num, ge_name = name, ge_fields = map static_field fs\<rparr>) (idl_events c)\<rparr>"

text \<open>
  The compiler refuses a number that does not fit into its 32 bits. A name with a backslash would
  be read as an escape, so a source with one is left out of \<open>static_tables\<close>.
\<close>

definition fits32 :: "u64 \<Rightarrow> bool" where
  "fits32 n \<longleftrightarrow> unat n < 2 ^ 32"

definition fields_fit :: "idl_field list \<Rightarrow> bool" where
  "fields_fit fs \<longleftrightarrow> list_all (\<lambda>(num, _). fits32 num) fs"

definition cluster_fits :: "idl_cluster \<Rightarrow> bool" where
  "cluster_fits c \<longleftrightarrow>
     fits32 (idl_code c) \<and> fields_fit (idl_attrs c) \<and> list_all (\<lambda>(num, _). fits32 num) (idl_cmds c)
   \<and> list_all (\<lambda>(_, fs). fields_fit fs) (idl_structs c)
   \<and> list_all (\<lambda>(num, _, fs). fits32 num \<and> fields_fit fs) (idl_events c)"

definition static_tables :: "rstring \<Rightarrow> gen_cluster list option" where
  "static_tables src =
     Option.bind (idl_parse src) (\<lambda>cs.
       if list_all cluster_fits cs \<and> CHR 0x5C \<notin> set src then Some (map static_cluster cs) else None)"

end
