(* ===== verification/Idl_Facts.thy ===== *)
theory Idl_Facts
  imports Idl
begin

section \<open>What the extractor takes from a line, and the lookup in its tables\<close>

text \<open>
  The words of an ASCII line, the exact effect of an attribute declaration on the open cluster,
  the order of the generated table, and with it the lookup of a cluster by its code.
\<close>

subsection \<open>ASCII text and its words\<close>

definition printable :: "char \<Rightarrow> bool" where
  "printable c \<longleftrightarrow> 33 \<le> byte c \<and> byte c \<le> 126"

definition word_token :: "rstring \<Rightarrow> bool" where
  "word_token w \<longleftrightarrow> w \<noteq> [] \<and> list_all printable w"

definition ascii_text :: "rstring \<Rightarrow> bool" where
  "ascii_text s \<longleftrightarrow> list_all (\<lambda>c. byte c < 128) s"

definition spaced :: "rstring list \<Rightarrow> rstring" where
  "spaced ws = concat (map (Cons (CHR '' '')) ws)"

lemma spaced_simps [simp]:
  "spaced [] = []" "spaced (w # ws) = CHR '' '' # w @ spaced ws" "spaced (vs @ ws) = spaced vs @ spaced ws"
  by (simp_all add: spaced_def)

lemma ascii_text_simps [simp]:
  "ascii_text []" "ascii_text (c # s) \<longleftrightarrow> byte c < 128 \<and> ascii_text s"
  "ascii_text (s @ t) \<longleftrightarrow> ascii_text s \<and> ascii_text t"
  by (simp_all add: ascii_text_def)

lemma ascii_word_token: "word_token w \<Longrightarrow> ascii_text w"
  by (auto simp: word_token_def ascii_text_def printable_def list_all_iff)

lemma ascii_spaced: "list_all word_token ws \<Longrightarrow> ascii_text (spaced ws)"
  by (induction ws) (auto simp: ascii_word_token byte_def)

lemma utf8_chars_ascii: "ascii_text s \<Longrightarrow> utf8_chars s = map (\<lambda>c. [c]) s"
proof (induction s)
  case (Cons c s)
  then have "takeWhile is_continuation s = [] \<and> dropWhile is_continuation s = s"
    by (cases s) (auto simp: is_continuation_def)
  with Cons show ?case by (simp add: utf8_chars.simps(2))
qed simp

lemma printable_not_white: "printable c \<Longrightarrow> \<not> is_whitespace [c]"
  by (auto simp: printable_def is_whitespace_def whitespace_chars_def)

lemma space_is_white: "is_whitespace '' ''"
  by code_simp

lemma trim_ascii:
  assumes "ascii_text s" and "s \<noteq> []" and "printable (hd s)" and "printable (last s)"
  shows "trim s = s"
proof -
  have "trim_chars (utf8_chars s) = utf8_chars s"
    using assms by (intro trim_chars_id) (simp add: utf8_chars_ascii hd_map last_map printable_not_white)
  then show ?thesis by (simp add: trim_def)
qed

lemma trim_chars_spaces:
  "trim_chars (replicate k '' '' @ cs) = trim_chars cs"
  by (induction k) (simp_all add: trim_chars_def space_is_white)

lemma trim_spaces_ascii:
  assumes "ascii_text s" and "s \<noteq> []" and "printable (hd s)" and "printable (last s)"
  shows "trim (replicate k (CHR '' '') @ s) = s"
proof -
  have "ascii_text (replicate k (CHR '' '') @ s)"
    using assms(1) by (induction k) (simp_all add: byte_def)
  then have "trim (replicate k (CHR '' '') @ s) = concat (trim_chars (map (\<lambda>c. [c]) s))"
    by (simp add: trim_def utf8_chars_ascii trim_chars_spaces)
  with trim_ascii[OF assms] show ?thesis
    by (simp add: trim_def utf8_chars_ascii[OF assms(1)])
qed

lemma words_from_token:
  "list_all printable w \<Longrightarrow> words_from (map (\<lambda>c. [c]) w @ cs) cur = words_from cs (cur @ w)"
  by (induction w arbitrary: cur) (simp_all add: printable_not_white)

lemma words_from_spaced:
  "list_all word_token ws \<Longrightarrow>
   words_from (map (\<lambda>c. [c]) (spaced ws)) cur = (if cur = [] then [] else [cur]) @ ws"
proof (induction ws arbitrary: cur)
  case (Cons w ws)
  then show ?case
    by (simp add: space_is_white words_from_token word_token_def)
qed simp

lemma words_of_spaced:
  assumes "list_all word_token (w # ws)"
  shows "words_of (w @ spaced ws) = w # ws" and "words_of (w @ spaced ws @ '' '') = w # ws"
proof -
  have a: "ascii_text (w @ spaced ws)" "ascii_text (w @ spaced ws @ '' '')"
    using assms ascii_spaced[of ws] by (simp_all add: ascii_word_token byte_def)
  have w: "list_all printable w" "w \<noteq> []" using assms by (simp_all add: word_token_def)
  show "words_of (w @ spaced ws) = w # ws"
    using assms w by (simp add: words_of_def utf8_chars_ascii[OF a(1)] words_from_token words_from_spaced)
  have "words_from (map (\<lambda>c. [c]) (spaced vs) @ ['' '']) cur = (if cur = [] then [] else [cur]) @ vs"
    if "list_all word_token vs" for vs cur
    using that
    by (induction vs arbitrary: cur) (simp_all add: space_is_white words_from_token word_token_def)
  from this[of ws w] show "words_of (w @ spaced ws @ '' '') = w # ws"
    using assms w by (simp add: words_of_def utf8_chars_ascii[OF a(2)] words_from_token)
qed

subsection \<open>An attribute declaration\<close>

text \<open>
  A declaration as the interface definition writes it: flags, \<open>attribute\<close>, an access clause,
  qualifiers, type, name and number, one space apart.
\<close>

definition ATTRIBUTE_FLAGS :: "rstring list" where
  "ATTRIBUTE_FLAGS = [''readonly'', ''provisional'', ''timedwrite'', ''writeonly'']"

definition plain_token :: "rstring \<Rightarrow> bool" where
  "plain_token w \<longleftrightarrow> word_token w \<and> CHR ''='' \<notin> set w \<and> CHR ''('' \<notin> set w \<and> CHR '';'' \<notin> set w"

definition access_clause :: "rstring list \<Rightarrow> bool" where
  "access_clause aw \<longleftrightarrow>
     aw = [] \<or> (list_all word_token aw \<and> starts_with '' access('' (spaced aw)
                \<and> find_sub ''access('' (spaced aw) = Some 1
                \<and> split_once (CHR '')'') (drop 1 (spaced aw)) = Some (butlast (drop 1 (spaced aw)), [])
                \<and> CHR ''='' \<notin> set (spaced aw))"

definition attribute_words :: "rstring list \<Rightarrow> rstring list \<Rightarrow> rstring list \<Rightarrow> rstring \<Rightarrow> rstring \<Rightarrow> bool" where
  "attribute_words pre aw qs ty name \<longleftrightarrow>
     set pre \<subseteq> set ATTRIBUTE_FLAGS \<and> access_clause aw \<and> set qs \<subseteq> set QUALIFIERS
   \<and> plain_token ty \<and> plain_token name \<and> ty \<notin> set QUALIFIERS
   \<and> set [''enum'', ''bitmap'', ''struct'', ''event''] \<inter> set (aw @ [ty, name]) = {}"

definition declared_part :: "rstring list \<Rightarrow> rstring list \<Rightarrow> rstring \<Rightarrow> rstring \<Rightarrow> u64 \<Rightarrow> rstring" where
  "declared_part aw qs ty name n = spaced (aw @ qs @ [ty, name]) @ '' = '' @ dec_of n @ '';''"

definition attribute_decl ::
  "rstring list \<Rightarrow> rstring list \<Rightarrow> rstring list \<Rightarrow> rstring \<Rightarrow> rstring \<Rightarrow> u64 \<Rightarrow> rstring" where
  "attribute_decl pre aw qs ty name n =
     concat (map (\<lambda>w. w @ '' '') pre) @ ''attribute'' @ declared_part aw qs ty name n"

lemma printable_digit: "is_digit c \<Longrightarrow> printable c"
  by (auto simp: is_digit_def printable_def)

lemma printable_dec_of: "list_all printable (dec_of w)"
  using dec_of_nat_digits[of "unat w"] by (auto simp: dec_of_def list_all_iff printable_digit)

lemma number_token: "word_token (dec_of n @ '';'')" "word_token (dec_of n)"
  using printable_dec_of[of n] by (auto simp: word_token_def printable_def byte_def)

lemma qualifier_tokens: "set qs \<subseteq> set QUALIFIERS \<Longrightarrow> list_all plain_token qs"
proof -
  have "list_all plain_token QUALIFIERS" by code_simp
  then show "set qs \<subseteq> set QUALIFIERS \<Longrightarrow> list_all plain_token qs"
    by (auto simp: list_all_iff)
qed

lemma flag_tokens: "set pre \<subseteq> set ATTRIBUTE_FLAGS \<Longrightarrow> list_all word_token pre"
proof -
  have "list_all word_token ATTRIBUTE_FLAGS" by code_simp
  then show "set pre \<subseteq> set ATTRIBUTE_FLAGS \<Longrightarrow> list_all word_token pre"
    by (auto simp: list_all_iff)
qed

lemma plain_is_word: "plain_token w \<Longrightarrow> word_token w"
  by (simp add: plain_token_def)

lemma plain_list_words: "list_all plain_token ws \<Longrightarrow> list_all word_token ws"
  by (auto simp: list_all_iff plain_is_word)

lemma find_sub_Some: "find_sub p s = Some i \<Longrightarrow> \<exists>t u. s = t @ p @ u \<and> length t = i"
proof (induction p s arbitrary: i rule: find_sub.induct)
  case (2 p c s)
  show ?case
  proof (cases "starts_with p (c # s)")
    case True
    with 2 show ?thesis by (auto simp: starts_with_iff)
  next
    case False
    with 2 obtain j where "find_sub p s = Some j" "i = Suc j" by auto
    with 2(1)[OF False] show ?thesis by (metis append_Cons length_Cons)
  qed
qed (auto split: if_splits)

lemma find_sub_absent: "p \<noteq> [] \<Longrightarrow> hd p \<notin> set s \<or> last p \<notin> set s \<Longrightarrow> find_sub p s = None"
  by (cases "find_sub p s") (auto dest!: find_sub_Some)

lemma find_sub_flags:
  "set pre \<subseteq> set ATTRIBUTE_FLAGS \<Longrightarrow>
   find_sub ''attribute'' (concat (map (\<lambda>w. w @ '' '') pre) @ ''attribute'' @ s) =
     Some (length (concat (map (\<lambda>w. w @ '' '') pre)))"
  by (induction pre) (auto simp: ATTRIBUTE_FLAGS_def starts_with_def)

lemma split_second_at:
  "find_sub p (a @ p @ s) = Some (length a) \<Longrightarrow>
   split_second p (a @ p @ s) = Some (case find_sub p s of None \<Rightarrow> s | Some j \<Rightarrow> take j s)"
  by (simp add: split_second_def Let_def split: option.splits)

lemma split_second_decl:
  assumes "set pre \<subseteq> set ATTRIBUTE_FLAGS"
  shows "split_second ''attribute'' (concat (map (\<lambda>w. w @ '' '') pre) @ ''attribute'' @ s) =
         Some (case find_sub ''attribute'' s of None \<Rightarrow> s | Some j \<Rightarrow> take j s)"
  by (rule split_second_at[OF find_sub_flags[OF assms]])

text \<open>Once the access clause is gone the declaration is qualifiers, type, name and number.\<close>

lemma strip_access_decl:
  assumes "access_clause aw" and "list_all plain_token ws"
  shows "strip_access (spaced aw @ spaced ws @ '' = '' @ dec_of n @ '';'') =
         (if aw = [] then [] else '' '') @ spaced ws @ '' = '' @ dec_of n @ '';''"
proof (cases "aw = []")
  case True
  have "CHR ''('' \<notin> set (spaced ws)"
    using assms(2) by (induction ws) (auto simp: plain_token_def)
  moreover have "CHR ''('' \<notin> set (dec_of n)" by (rule dec_of_no_char) code_simp
  ultimately have "find_sub ''access('' (spaced ws @ '' = '' @ dec_of n @ '';'') = None"
    by (intro find_sub_absent) simp_all
  with True show ?thesis by (simp add: strip_access_def)
next
  case False
  with assms(1) obtain r where r: "spaced aw = '' access('' @ r"
    and o: "split_once (CHR '')'') (drop 1 (spaced aw)) = Some (butlast (drop 1 (spaced aw)), [])"
    by (auto simp: access_clause_def starts_with_iff)
  from o have d: "drop 1 (spaced aw) = butlast (drop 1 (spaced aw)) @ [CHR '')'']"
    and n: "CHR '')'' \<notin> set (butlast (drop 1 (spaced aw)))"
    by (simp_all add: split_once_Some_iff)
  define t where "t = spaced ws @ '' = '' @ dec_of n @ '';''"
  have f: "find_sub ''access('' (spaced aw @ t) = Some 1"
    by (simp add: r starts_with_def)
  have "drop 1 (spaced aw @ t) = butlast (drop 1 (spaced aw)) @ CHR '')'' # t"
    using d r by (metis append.assoc append_Cons append_Nil drop_0 drop_Suc_Cons One_nat_def)
  then have s: "split_once (CHR '')'') (drop 1 (spaced aw @ t)) = Some (butlast (drop 1 (spaced aw)), t)"
    using n by (simp only: split_once_Some_iff) simp
  have "take 1 (spaced aw @ t) = '' ''" by (simp add: r)
  with False show ?thesis
    unfolding t_def[symmetric] using s by (simp add: strip_access_def f split: option.splits del: drop_append take_append)
qed

lemma trim_end_char_absent: "s \<noteq> [] \<Longrightarrow> last s \<noteq> c \<Longrightarrow> trim_end_char c (s @ [c]) = s"
  by (cases s rule: rev_cases) (simp_all add: trim_end_char_def)

lemma rsplit_once_at: "c \<notin> set b \<Longrightarrow> rsplit_once c (a @ c # b) = Some (a, b)"
  by (simp add: rsplit_once_Some_iff)

lemma is_digit_semicolon: "\<not> is_digit (CHR '';'')"
  by code_simp

lemma field_decl_words:
  assumes "set qs \<subseteq> set QUALIFIERS" and "ty \<notin> set QUALIFIERS"
  shows "field_decl (qs @ [ty, name]) n =
         Some (n, trim_end_brackets name, hd (split_on (CHR ''<'') ty), ends_with ''[]'' name)"
proof -
  have "dropWhile (\<lambda>t. t \<in> set QUALIFIERS) (qs @ [ty, name]) = [ty, name]"
    using assms by (subst dropWhile_append2) auto
  then show ?thesis by (simp add: field_decl_def Let_def)
qed

lemma parse_field_number:
  assumes "list_all word_token (w # ws)"
  shows "parse_field (replicate k (CHR '' '') @ w @ spaced ws @ '' = '' @ dec_of n @ '';'') =
         field_decl (w # ws) n"
proof -
  let ?d = "w @ spaced ws @ '' = '' @ dec_of n"
  have d: "ascii_text (dec_of n)" "dec_of n \<noteq> []" "printable (hd (dec_of n))" "printable (last (dec_of n))"
    using ascii_word_token[OF number_token(2)] printable_dec_of[of n]
    by (simp_all add: list_all_iff)
  have w: "w \<noteq> []" "printable (hd w)" "ascii_text (w @ spaced ws)"
    using assms ascii_spaced[of ws] by (simp_all add: word_token_def list_all_iff ascii_word_token)
  have "trim (replicate k (CHR '' '') @ ?d @ '';'') = ?d @ '';''"
    using w d by (intro trim_spaces_ascii) (simp_all add: byte_def printable_def)
  moreover have "trim_end_char (CHR '';'') (?d @ '';'') = ?d"
  proof (rule trim_end_char_absent)
    have "last (dec_of n) \<noteq> CHR '';''"
      using dec_of_no_char[of "CHR '';''" n] last_in_set[OF d(2)] by (metis is_digit_semicolon)
    with d(2) show "last ?d \<noteq> CHR '';''" by simp
  qed (use w in simp)
  moreover have "rsplit_once (CHR ''='') ((w @ spaced ws @ '' '') @ CHR ''='' # CHR '' '' # dec_of n)
      = Some (w @ spaced ws @ '' '', CHR '' '' # dec_of n)"
    using dec_of_no_char[of "CHR ''=''" n] by (intro rsplit_once_at) (simp add: is_digit_def byte_def)
  moreover have "trim (CHR '' '' # dec_of n) = dec_of n"
    using trim_spaces_ascii[OF d, of 1] by simp
  ultimately show ?thesis
    by (simp add: parse_field_def words_of_spaced(2)[OF assms] parse_uint_dec_of)
qed

lemma set_trim: "set (trim s) \<subseteq> set s"
proof -
  obtain m n where "trim_chars (utf8_chars s) = take n (drop m (utf8_chars s))"
    using trim_chars_factor by blast
  then have "set (trim_chars (utf8_chars s)) \<subseteq> set (utf8_chars s)"
    by (metis order_trans set_drop_subset set_take_subset)
  then have "set (concat (trim_chars (utf8_chars s))) \<subseteq> set (concat (utf8_chars s))"
    unfolding set_concat by blast
  then show ?thesis by (simp add: trim_def)
qed

lemma set_trim_end_char: "set (trim_end_char c s) \<subseteq> set s"
  unfolding trim_end_char_def using set_dropWhileD[of _ _ "rev s"] by auto

lemma parse_field_no_number: "CHR ''='' \<notin> set s \<Longrightarrow> parse_field s = None"
proof -
  assume "CHR ''='' \<notin> set s"
  then have "CHR ''='' \<notin> set (trim_end_char (CHR '';'') (trim s))"
    using set_trim set_trim_end_char by blast
  then show ?thesis by (simp add: parse_field_def rsplit_once_None_iff[THEN iffD2])
qed

lemma set_strip_access: "set (strip_access s) \<subseteq> set s"
proof -
  have b: "set b \<subseteq> set s" if "drop i s = a @ c # b" for i a b and c :: char
    using that set_drop_subset[of i s] by auto
  then show ?thesis
    by (auto simp: strip_access_def split_once_Some_iff split: option.splits dest: in_set_takeD b[THEN subsetD])
qed

text \<open>
  The part after \<open>attribute\<close> is the field it declares, unless \<open>attribute\<close> occurs in it once
  more: then the piece taken ends there, short of the number, and there is no field.
\<close>

lemma attribute_cut:
  assumes "attribute_words pre aw qs ty name" and "find_sub ''attribute'' (declared_part aw qs ty name n) = Some j"
  shows "CHR ''='' \<notin> set (take j (declared_part aw qs ty name n))"
proof -
  define p where "p = spaced (aw @ qs @ [ty, name]) @ '' ''"
  define e where "e = CHR ''='' # CHR '' '' # dec_of n @ '';''"
  have d: "declared_part aw qs ty name n = p @ e" by (simp add: declared_part_def p_def e_def)
  obtain t u where tu: "p @ e = t @ ''attribute'' @ u" "length t = j"
    using find_sub_Some[OF assms(2)[unfolded d]] by blast
  have "CHR ''='' \<notin> set (spaced (qs @ [ty, name]))"
  proof -
    have "list_all plain_token (qs @ [ty, name])"
      using assms(1) qualifier_tokens by (simp add: attribute_words_def)
    then show ?thesis by (induction "qs @ [ty, name]" arbitrary: qs) (auto simp: plain_token_def spaced_def list_all_iff)
  qed
  moreover have "CHR ''='' \<notin> set (spaced aw)"
    using assms(1) by (auto simp: attribute_words_def access_clause_def)
  ultimately have np: "CHR ''='' \<notin> set p" by (auto simp: p_def)
  have a: "CHR ''a'' \<notin> set e" using dec_of_no_char[of "CHR ''a''" n] by (simp add: is_digit_def byte_def e_def)
  have "j < length p"
  proof (rule ccontr)
    assume "\<not> j < length p"
    then have "drop j (p @ e) = drop (j - length p) e" by simp
    moreover have "drop j (p @ e) = ''attribute'' @ u" using tu by simp
    ultimately have "CHR ''a'' \<in> set (drop (j - length p) e)" by simp
    with a show False using in_set_dropD by metis
  qed
  then have "take j (p @ e) = take j p" by simp
  with np show ?thesis unfolding d using in_set_takeD by metis
qed

lemma attribute_line_decl:
  assumes "attribute_words pre aw qs ty name"
  shows "attribute_line (attribute_decl pre aw qs ty name n) c =
    (if find_sub ''attribute'' (declared_part aw qs ty name n) = None
     then c\<lparr>idl_attrs := idl_attrs c @ [(n, trim_end_brackets name, hd (split_on (CHR ''<'') ty), ends_with ''[]'' name)]\<rparr>
     else c)"
proof -
  have pre: "set pre \<subseteq> set ATTRIBUTE_FLAGS" and aw: "access_clause aw"
    and qs: "set qs \<subseteq> set QUALIFIERS" "ty \<notin> set QUALIFIERS"
    and pl: "list_all plain_token (qs @ [ty, name])"
    using assms qualifier_tokens by (simp_all add: attribute_words_def)
  note sp = split_second_decl[OF pre, of "declared_part aw qs ty name n"]
  show ?thesis
  proof (cases "find_sub ''attribute'' (declared_part aw qs ty name n)")
    case None
    obtain w ws where ws: "qs @ [ty, name] = w # ws" by (cases "qs @ [ty, name]") auto
    have "strip_access (declared_part aw qs ty name n) =
      (if aw = [] then [] else '' '') @ spaced (qs @ [ty, name]) @ '' = '' @ dec_of n @ '';''"
      using strip_access_decl[OF aw pl, of n] by (simp add: declared_part_def)
    also have "\<dots> = replicate (if aw = [] then 1 else 2) (CHR '' '') @ w @ spaced ws @ '' = '' @ dec_of n @ '';''"
      unfolding ws by (simp add: numeral_2_eq_2)
    also have "parse_field \<dots> = field_decl (w # ws) n"
      by (rule parse_field_number) (use pl ws plain_list_words in \<open>metis\<close>)
    also have "field_decl (w # ws) n =
      Some (n, trim_end_brackets name, hd (split_on (CHR ''<'') ty), ends_with ''[]'' name)"
      using field_decl_words[OF qs, of name n] by (simp only: ws)
    finally show ?thesis
      using None sp unfolding attribute_line_def attribute_decl_def by simp
  next
    case (Some j)
    have "parse_field (strip_access (take j (declared_part aw qs ty name n))) = None"
      using attribute_cut[OF assms Some] set_strip_access by (blast intro: parse_field_no_number)
    with Some sp show ?thesis unfolding attribute_line_def attribute_decl_def by simp
  qed
qed

lemma declared_words:
  "declared_part aw qs ty name n = spaced (aw @ qs @ [ty, name, ''='', dec_of n @ '';''])"
  by (simp add: declared_part_def)

lemma words_of_flags:
  "list_all word_token (pre @ w # ws) \<Longrightarrow>
   words_of (concat (map (\<lambda>w. w @ '' '') pre) @ w @ spaced ws) = pre @ w # ws"
proof (cases pre)
  case (Cons v vs)
  have "concat (map (\<lambda>w. w @ '' '') (v # vs)) @ w @ spaced ws = v @ spaced (vs @ w # ws)"
    by (induction vs arbitrary: v) simp_all
  with Cons show "list_all word_token (pre @ w # ws) \<Longrightarrow> ?thesis"
    using words_of_spaced(1)[of v "vs @ w # ws"] by simp
qed (use words_of_spaced(1)[of w ws] in simp)

lemma attribute_decl_line:
  assumes "attribute_words pre aw qs ty name" and line: "line = attribute_decl pre aw qs ty name n"
  shows "words_of line = pre @ ''attribute'' # aw @ qs @ [ty, name, ''='', dec_of n @ '';'']"
    and "\<not> open_brace line" and "line \<noteq> []" and "line \<noteq> ''}''" and "\<not> starts_with ''//'' line" and "\<not> starts_with ''/*'' line"
proof -
  let ?r = "aw @ qs @ [ty, name, ''='', dec_of n @ '';'']"
  have pre: "set pre \<subseteq> set ATTRIBUTE_FLAGS" and aw: "list_all word_token aw"
    and pl: "list_all plain_token (qs @ [ty, name])"
    using assms(1) qualifier_tokens by (auto simp: attribute_words_def access_clause_def)
  have "word_token ''attribute''" "word_token ''=''" by code_simp+
  then have ws: "list_all word_token (pre @ ''attribute'' # ?r)"
    using flag_tokens[OF pre] aw plain_list_words[OF pl] number_token by simp
  have l: "line = concat (map (\<lambda>w. w @ '' '') pre) @ ''attribute'' @ spaced ?r"
    using line by (simp only: attribute_decl_def declared_words)
  show "words_of line = pre @ ''attribute'' # ?r"
    unfolding l by (rule words_of_flags[OF ws])
  have "last line = CHR '';''" using l by simp
  then show "\<not> open_brace line" "line \<noteq> ''}''" by (auto simp: open_brace_def ends_with_iff)
  show "line \<noteq> []" "\<not> starts_with ''//'' line" "\<not> starts_with ''/*'' line"
    using pre unfolding l by (cases pre; auto simp: ATTRIBUTE_FLAGS_def starts_with_def)+
qed

lemma no_block_word:
  assumes "attribute_words pre aw qs ty name" and "w \<in> set [''enum'', ''bitmap'', ''struct'', ''event'']"
  shows "w \<notin> set (pre @ ''attribute'' # aw @ qs @ [ty, name, ''='', dec_of n @ '';''])"
proof -
  have "w \<notin> set (aw @ [ty, name])" using assms unfolding attribute_words_def by blast
  moreover have "w \<notin> set ATTRIBUTE_FLAGS \<union> set QUALIFIERS \<union> {''attribute'', ''=''}"
    using assms(2) by (auto simp: ATTRIBUTE_FLAGS_def QUALIFIERS_def)
  moreover have "w \<noteq> dec_of n @ '';''" using assms(2) by auto
  ultimately show ?thesis using assms(1) by (auto simp: attribute_words_def)
qed

lemma position_absent: "w \<notin> set ws \<Longrightarrow> position w ws = None"
  by (induction ws) auto

text \<open>
  C28: The cluster tables are read from the interface definition line by line. A line inside an
  open cluster that declares an attribute (with any flags, access clause and qualifiers) adds
  exactly that attribute, with its number, its name without the list brackets, the head of its
  type and its list mark, unless the letters \<open>attribute\<close> occur once more after the keyword: then
  the line is dropped without a word.
\<close>
theorem attribute_declaration_scanned:
  assumes "attribute_words pre aw qs ty name" and "trim raw = attribute_decl pre aw qs ty name n"
    and "is_block st = None" and "is_cur st = Some c"
  shows "idl_line raw st =
    Some (if find_sub ''attribute'' (declared_part aw qs ty name n) = None
          then st\<lparr>is_cur := Some (c\<lparr>idl_attrs := idl_attrs c @
                 [(n, trim_end_brackets name, hd (split_on (CHR ''<'') ty), ends_with ''[]'' name)]\<rparr>)\<rparr>
          else st)"
proof -
  let ?l = "trim raw"
  note l = attribute_decl_line[OF assms(1,2)] and nb = no_block_word[OF assms(1), of _ n]
  have "cluster_line (words_of ?l) ?l c st = Some (st\<lparr>is_cur := Some (attribute_line ?l c)\<rparr>)"
    using nb[of "''enum''"] nb[of "''bitmap''"] nb[of "''struct''"] nb[of "''event''"] l(4)
    by (simp add: cluster_line_def l(1) position_absent)
  then have "idl_line raw st = Some (st\<lparr>is_cur := Some (attribute_line ?l c)\<rparr>)"
    using l(2-6) assms(3,4) by (simp add: idl_line_def Let_def l(1) split: option.split)
  then show ?thesis
    using attribute_line_decl[OF assms(1), of n c] assms(2,4) by simp
qed

lemma digit_chars:
  "digit_char 0 = CHR ''0''" "digit_char (Suc 0) = CHR ''1''" "digit_char 1 = CHR ''1''" "digit_char 3 = CHR ''3''"
  "digit_char 5 = CHR ''5''" "digit_char 6 = CHR ''6''"
  by code_simp+

text \<open>Two lines of the interface definition this build reads: the second leaves no trace.\<close>

theorem attribute_declaration_scanned_witness:
  "idl_line ''  attribute access(write: manage) TargetStruct binding[] = 0;''
      (idl_start\<lparr>is_cur := Some \<lparr>idl_name = ''Binding'', idl_code = 30, idl_attrs = [], idl_cmds = [], idl_structs = [], idl_events = []\<rparr>\<rparr>) =
     Some (idl_start\<lparr>is_cur := Some \<lparr>idl_name = ''Binding'', idl_code = 30,
       idl_attrs = [(0, ''binding'', ''TargetStruct'', True)], idl_cmds = [], idl_structs = [], idl_events = []\<rparr>\<rparr>)
 \<and> idl_line ''  readonly attribute attrib_id attributeList[] = 65531;''
      (idl_start\<lparr>is_cur := Some \<lparr>idl_name = ''Binding'', idl_code = 30, idl_attrs = [], idl_cmds = [], idl_structs = [], idl_events = []\<rparr>\<rparr>) =
     Some (idl_start\<lparr>is_cur := Some \<lparr>idl_name = ''Binding'', idl_code = 30, idl_attrs = [], idl_cmds = [], idl_structs = [], idl_events = []\<rparr>\<rparr>)"
proof -
  let ?c = "\<lparr>idl_name = ''Binding'', idl_code = 30, idl_attrs = [], idl_cmds = [], idl_structs = [], idl_events = []\<rparr> :: idl_cluster"
  have d0: "dec_of (0 :: u64) = ''0''" and d1: "dec_of (65531 :: u64) = ''65531''"
    by (simp_all add: dec_of_def dec_of_nat.simps digit_chars)
  have w: "attribute_words [] [''access(write:'', ''manage)''] [] ''TargetStruct'' ''binding[]''"
    "attribute_words [''readonly''] [] [] ''attrib_id'' ''attributeList[]''" by code_simp+
  have l: "attribute_decl [] [''access(write:'', ''manage)''] [] ''TargetStruct'' ''binding[]'' 0 =
      ''attribute access(write: manage) TargetStruct binding[] = 0;''"
    "attribute_decl [''readonly''] [] [] ''attrib_id'' ''attributeList[]'' 65531 =
      ''readonly attribute attrib_id attributeList[] = 65531;''"
    by (simp_all add: attribute_decl_def declared_part_def d0 d1)
  have t: "trim ''  attribute access(write: manage) TargetStruct binding[] = 0;'' =
      attribute_decl [] [''access(write:'', ''manage)''] [] ''TargetStruct'' ''binding[]'' 0"
    "trim ''  readonly attribute attrib_id attributeList[] = 65531;'' =
      attribute_decl [''readonly''] [] [] ''attrib_id'' ''attributeList[]'' 65531"
    unfolding l by code_simp+
  have f: "find_sub ''attribute'' (declared_part [''access(write:'', ''manage)''] [] ''TargetStruct'' ''binding[]'' 0) = None"
    "find_sub ''attribute'' (declared_part [] [] ''attrib_id'' ''attributeList[]'' 65531) \<noteq> None"
    by (simp_all add: declared_part_def d0 d1 starts_with_def)
  have n: "trim_end_brackets ''binding[]'' = ''binding''" by code_simp
  show ?thesis
    using attribute_declaration_scanned[OF w(1) t(1), of "idl_start\<lparr>is_cur := Some ?c\<rparr>" ?c]
      attribute_declaration_scanned[OF w(2) t(2), of "idl_start\<lparr>is_cur := Some ?c\<rparr>" ?c] f n
    by (simp add: idl_start_def ends_with_def starts_with_def)
qed

subsection \<open>The rendered literals\<close>

text \<open>
  A string literal of Rust after its opening quote, up to the escapes the rendering writes: the
  name written is the name read, when it has no backslash.
\<close>

fun read_literal :: "rstring \<Rightarrow> (rstring \<times> rstring) option" where
  "read_literal [] = None"
| "read_literal (c # s) =
     (if c = CHR 0x22 then Some ([], s)
      else if c = CHR 0x5C
      then (case s of [] \<Rightarrow> None
            | d # t \<Rightarrow> if d = CHR 0x22 then map_option (apfst (Cons d)) (read_literal t) else None)
      else map_option (apfst (Cons c)) (read_literal s))"

lemma literal_reads_back:
  "CHR 0x5C \<notin> set s \<Longrightarrow> read_literal (tl (quoted s @ t)) = Some (s, t)"
  by (induction s) (auto simp: quoted_def esc_def)

subsection \<open>The table and its lookup\<close>

text \<open>Sorting is stable and of clusters with one code the first stays.\<close>

lemma dedup_subset: "set (dedup_codes cs) \<subseteq> set cs"
  by (induction cs rule: dedup_codes.induct) (auto split: if_splits)

lemma dedup_ascending:
  "sorted_wrt (\<le>) (map idl_code cs) \<Longrightarrow> sorted_wrt (<) (map idl_code (dedup_codes cs))"
proof (induction cs rule: dedup_codes.induct)
  case (3 c d cs)
  show ?case
  proof (cases "idl_code d = idl_code c")
    case False
    with 3 have IH: "sorted_wrt (<) (map idl_code (dedup_codes (d # cs)))" and "idl_code c < idl_code d"
      by auto
    moreover have "idl_code d \<le> idl_code k" if "k \<in> set (dedup_codes (d # cs))" for k
      using that dedup_subset[of "d # cs"] 3(3) by auto
    ultimately show ?thesis using False by (auto intro: less_le_trans)
  qed (use 3 in auto)
qed auto

lemma find_dedup: "List.find (\<lambda>k. idl_code k = n) (dedup_codes cs) = List.find (\<lambda>k. idl_code k = n) cs"
  by (induction cs rule: dedup_codes.induct) auto

lemma find_filter: "List.find P xs = (case filter P xs of [] \<Rightarrow> None | x # _ \<Rightarrow> Some x)"
  by (induction xs) auto

lemma find_sorted: "List.find (\<lambda>k. idl_code k = n) (sort_key idl_code cs) = List.find (\<lambda>k. idl_code k = n) cs"
  by (simp add: find_filter sort_key_stable)

lemma fits32_unat: "fits32 n \<Longrightarrow> unat (ucast n :: u32) = unat n"
  by (simp add: fits32_def unsigned_ucast_eq take_bit_nat_eq_self)

lemma u64_of_u32: "unat (ucast (c :: u32) :: u64) = unat c"
  by (simp add: unsigned_ucast_eq take_bit_nat_eq_self_iff) (use unsigned_less[of c, where ?'a = nat] in simp)

lemma fits32_less: "fits32 m \<Longrightarrow> fits32 n \<Longrightarrow> (ucast m :: u32) < ucast n \<longleftrightarrow> m < n"
  by (simp add: word_less_nat_alt fits32_unat)

lemma fits32_ucast: "fits32 n \<Longrightarrow> (ucast n :: u32) = c \<longleftrightarrow> n = ucast c"
proof -
  assume n: "fits32 n"
  from fits32_unat[OF n] u64_of_u32[of c] show "(ucast n :: u32) = c \<longleftrightarrow> n = ucast c" by (metis word_unat_eq_iff)
qed

lemma table_ascending:
  assumes "sorted_wrt (<) (map idl_code cs)" and "list_all (\<lambda>c. fits32 (idl_code c)) cs"
  shows "sorted_wrt (<) (map cl_code (map static_cluster cs))"
  using assms by (induction cs) (auto simp: static_cluster_def fits32_less list_all_iff)

lemma find_map: "List.find P (map f xs) = map_option f (List.find (P \<circ> f) xs)"
  by (induction xs) auto

lemma find_congI: "(\<And>x. x \<in> set xs \<Longrightarrow> P x = Q x) \<Longrightarrow> List.find P xs = List.find Q xs"
  by (induction xs) auto

text \<open>On an ascending table the binary search is the linear one.\<close>

lemma cluster_find:
  assumes asc: "sorted_wrt (<) (map cl_code ts)"
  shows "cluster ts c = List.find (\<lambda>k. cl_code k = c) ts"
proof -
  let ?xs = "map (\<lambda>k. (cl_code k, ())) ts"
  have srt: "sorted_wrt (<) (map fst ?xs)" using asc by (simp add: comp_def)
  show ?thesis
  proof (cases "bsearch c ?xs 0 (length ts)")
    case None
    have "cl_code k \<noteq> c" if "k \<in> set ts" for k
    proof
      assume "cl_code k = c"
      with that obtain i where "i < length ts" "cl_code (ts ! i) = c" by (auto simp: in_set_conv_nth)
      with bsearch_complete[OF srt, of "length ts" 0 i c] None show False by simp
    qed
    then have "List.find (\<lambda>k. cl_code k = c) ts = None" by (simp add: find_None_iff)
    with None show ?thesis by (simp add: cluster_def)
  next
    case (Some i)
    from bsearch_sound[OF Some] have i: "i < length ts" "cl_code (ts ! i) = c" by auto
    have "\<not> cl_code (ts ! j) = c" if "j < i" for j
      using sorted_wrt_nth_less[OF asc, of j i] that i by simp
    with i have "List.find (\<lambda>k. cl_code k = c) ts = Some (ts ! i)" by (auto simp: find_Some_iff)
    with Some show ?thesis by (simp add: cluster_def)
  qed
qed

lemma find_kept:
  "List.find (\<lambda>k. idl_code k = ucast (c :: u32)) (filter (\<lambda>k. idl_code k \<noteq> - 1) cs) =
   List.find (\<lambda>k. idl_code k = ucast c) cs"
proof -
  have "(ucast c :: u64) \<noteq> - 1"
  proof
    assume "(ucast c :: u64) = - 1"
    then have "unat c = unat (- 1 :: u64)" using u64_of_u32[of c] by simp
    moreover have "unat c < 2 ^ 32" using unsigned_less[of c, where ?'a = nat] by simp
    ultimately show False by (simp add: unsigned_minus_1_eq_mask mask_eq_exp_minus_1)
  qed
  then show ?thesis by (induction cs) auto
qed

text \<open>
  C29: When the build goes through, looking a cluster up in the generated table gives the first
  cluster of the interface definition with that code, and nothing exactly when it has none,
  whatever the order of the clusters there and however often a code occurs.
\<close>
theorem lookup_finds_first_declared:
  assumes "static_tables src = Some ts" and "idl_lines (lines_of src) idl_start = Some st"
  shows "cluster ts c = map_option static_cluster
           (List.find (\<lambda>k. idl_code k = ucast c) (is_clusters (finish_cluster st)))"
proof -
  let ?cs = "dedup_codes (sort_key idl_code (filter (\<lambda>k. idl_code k \<noteq> - 1) (is_clusters (finish_cluster st))))"
  have ts: "ts = map static_cluster ?cs" and fit: "list_all (\<lambda>k. fits32 (idl_code k)) ?cs"
    using assms by (auto simp: static_tables_def idl_parse_def cluster_fits_def list_all_iff split: if_splits)
  have asc: "sorted_wrt (<) (map cl_code ts)"
    unfolding ts by (rule table_ascending[OF dedup_ascending fit]) simp
  have "cluster ts c = map_option static_cluster (List.find ((\<lambda>k. cl_code k = c) \<circ> static_cluster) ?cs)"
    unfolding cluster_find[OF asc] by (simp add: ts find_map)
  also have "List.find ((\<lambda>k. cl_code k = c) \<circ> static_cluster) ?cs = List.find (\<lambda>k. idl_code k = ucast c) ?cs"
    using fit by (intro find_congI) (auto simp: static_cluster_def list_all_iff fits32_ucast)
  finally show ?thesis by (simp add: find_dedup find_sorted find_kept)
qed

text \<open>Two clusters with one code, out of order with a third.\<close>

definition sample_idl :: rstring where
  "sample_idl = ''cluster B = 6 {'' @ CHR 0x0A # ''}'' @ CHR 0x0A # ''cluster A = 3 {'' @ CHR 0x0A # ''}''
     @ CHR 0x0A # ''cluster C = 6 {'' @ CHR 0x0A # ''}'' @ [CHR 0x0A]"

lemma sample_lines:
  "lines_of sample_idl = [''cluster B = 6 {'', ''}'', ''cluster A = 3 {'', ''}'', ''cluster C = 6 {'', ''}'']"
  by code_simp

definition bare_cluster :: "rstring \<Rightarrow> u64 \<Rightarrow> idl_cluster" where
  "bare_cluster name n =
     \<lparr>idl_name = name, idl_code = n, idl_attrs = [], idl_cmds = [], idl_structs = [], idl_events = []\<rparr>"

lemma sample_words:
  "words_of ''}'' = [''}'']" "words_of ''cluster B = 6 {'' = [''cluster'', ''B'', ''='', ''6'', ''{'']"
  "words_of ''cluster A = 3 {'' = [''cluster'', ''A'', ''='', ''3'', ''{'']"
  "words_of ''cluster C = 6 {'' = [''cluster'', ''C'', ''='', ''6'', ''{'']"
  by code_simp+

lemma sample_trims:
  "trim ''}'' = ''}''" "trim ''cluster B = 6 {'' = ''cluster B = 6 {''"
  "trim ''cluster A = 3 {'' = ''cluster A = 3 {''" "trim ''cluster C = 6 {'' = ''cluster C = 6 {''"
  by code_simp+

lemma sample_numbers: "parse_uint ''6'' = Some (6 :: u64)" "parse_uint ''3'' = Some (3 :: u64)"
  by (simp_all add: parse_uint_def parse_dec_def digits_value_def is_digit_def byte_def)

lemma sample_scanned:
  "idl_lines (lines_of sample_idl) idl_start =
     Some \<lparr>is_clusters = [bare_cluster ''B'' 6, bare_cluster ''A'' 3, bare_cluster ''C'' 6],
           is_cur = None, is_block = None, is_depth = 0\<rparr>"
  by (simp add: sample_lines idl_line_def sample_words sample_trims sample_numbers idl_start_def starts_with_def
      ends_with_def open_brace_def cluster_header_def finish_cluster_def cluster_line_def bare_cluster_def)

lemma sample_built:
  "static_tables sample_idl = Some (map static_cluster [bare_cluster ''A'' 3, bare_cluster ''B'' 6])"
proof -
  have "idl_parse sample_idl = Some [bare_cluster ''A'' 3, bare_cluster ''B'' 6]"
    by (simp add: idl_parse_def sample_scanned finish_cluster_def bare_cluster_def)
  moreover have "CHR 0x5C \<notin> set sample_idl" by (simp add: sample_idl_def)
  ultimately show ?thesis
    by (simp add: static_tables_def bare_cluster_def cluster_fits_def fits32_def fields_fit_def)
qed

theorem lookup_finds_first_declared_witness:
  "cluster (map static_cluster [bare_cluster ''A'' 3, bare_cluster ''B'' 6]) 6 = Some (static_cluster (bare_cluster ''B'' 6))
 \<and> cluster (map static_cluster [bare_cluster ''A'' 3, bare_cluster ''B'' 6]) 4 = None"
  using lookup_finds_first_declared[OF sample_built sample_scanned, of 6]
    lookup_finds_first_declared[OF sample_built sample_scanned, of 4]
  by (simp add: finish_cluster_def bare_cluster_def)

end
