(* ===== verification/Boot.thy ===== *)
theory Boot
  imports Handle Ws Jsdb
begin

section \<open>Start-up and shutdown (\<open>server/src/main.rs\<close>, \<open>config.rs\<close>, \<open>http.rs\<close>)\<close>

text \<open>
  The configuration, the boot sequence from the storage directory to the listeners, and the stop.
  Every way out of the process is a value: \<open>fatal\<close> with its message, or the exit code of an
  orderly stop. What the operating system answers is the record \<open>boot_env\<close>; the command line
  itself is read by the clap package, so the model begins with the configuration it gives. Log
  lines are not modelled, but for the warnings about flags that are ignored.
\<close>

subsection \<open>The configuration\<close>

record config =
  cf_port :: u16
  cf_listen_address :: "rstring list"
  cf_storage_path :: rstring
  cf_vendor_id :: u16
  cf_fabric_id :: u64
  cf_log_level :: rstring
  cf_log_file :: "rstring option"
  cf_primary_interface :: "rstring option"
  cf_default_fabric_label :: "rstring option"
  cf_bluetooth_adapter :: "u32 option"
  cf_ble_proxy :: bool
  cf_disable_ota :: bool
  cf_ota_provider_dir :: "rstring option"
  cf_disable_dashboard :: bool
  cf_enable_test_net_dcl :: bool
  cf_production_mode :: bool

text \<open>\<open>dirs_next_home\<close>, by the value of \<open>HOME\<close>, and the directory under it\<close>

definition dirs_next_home :: "rstring option \<Rightarrow> rstring" where
  "dirs_next_home home = (case home of None \<Rightarrow> ''.'' | Some h \<Rightarrow> h)"

definition default_storage_path :: "rstring option \<Rightarrow> rstring" where
  "default_storage_path home = join (dirs_next_home home) ''.matter_server''"

text \<open>The configuration without arguments and without environment variables\<close>

definition config_defaults :: "rstring option \<Rightarrow> config" where
  "config_defaults home =
     \<lparr>cf_port = 5580, cf_listen_address = [], cf_storage_path = default_storage_path home,
      cf_vendor_id = 0xFFF1, cf_fabric_id = 1, cf_log_level = ''info'', cf_log_file = None,
      cf_primary_interface = None, cf_default_fabric_label = None, cf_bluetooth_adapter = None,
      cf_ble_proxy = False, cf_disable_ota = False, cf_ota_provider_dir = None,
      cf_disable_dashboard = False, cf_enable_test_net_dcl = False, cf_production_mode = False\<rparr>"

definition ignored_flags :: "config \<Rightarrow> rstring list" where
  "ignored_flags c =
     (if cf_bluetooth_adapter c \<noteq> None then [''--bluetooth-adapter''] else [])
   @ (if cf_ble_proxy c then [''--ble-proxy''] else [])
   @ (if cf_disable_ota c then [''--disable-ota''] else [])
   @ (if cf_ota_provider_dir c \<noteq> None then [''--ota-provider-dir''] else [])
   @ (if cf_disable_dashboard c then [''--disable-dashboard''] else [])
   @ (if cf_enable_test_net_dcl c then [''--enable-test-net-dcl''] else [])
   @ (if cf_production_mode c then [''--production-mode''] else [])"

definition warn_ignored :: "config \<Rightarrow> rstring list" where
  "warn_ignored c =
     map (\<lambda>flag. flag @ '' is not supported by matter-rs-server v1 and is ignored'') (ignored_flags c)"

subsection \<open>What the operating system answers\<close>

text \<open>
  Texts of errors, for the calls that may fail. \<open>bo_dual_stack\<close> are the calls on the socket that
  serves both families, \<open>bo_bind\<close> tokio's bind of one address.
\<close>

datatype tcp_call = ParseAddr | NewTcpSocket | SetOnlyV6 bool | SetReuseAddress bool | BindAddr | Listen nat | SetNonblocking bool | FromStd

record 'm boot_env =
  bo_open_log :: "rstring \<Rightarrow> rstring option"
  bo_dir_exists :: bool
  bo_create_dir :: "rstring option"
  bo_open_storage :: "rstring option"
  bo_thread_starts :: bool
  bo_in_time :: bool
  bo_sys :: "socket_call \<Rightarrow> rs_error option"
  bo_startup :: "'m \<Rightarrow> (rs_error + unit) \<times> 'm"
  bo_dual_stack :: "rstring \<Rightarrow> tcp_call \<Rightarrow> rstring option"
  bo_bind :: "rstring \<Rightarrow> rstring option"
  bo_sigterm :: bool
  bo_pid :: u32

subsection \<open>Logging (\<open>logging.rs\<close>, \<open>init\<close>)\<close>

text \<open>An unknown level name means \<open>info\<close>, but is kept as the name to report.\<close>

definition log_init :: "(rstring \<Rightarrow> rstring option) \<Rightarrow> config \<Rightarrow> rstring + log_control" where
  "log_init open_log c =
     (let control = (\<lambda>has_file. \<lparr>lc_filter = (case map_level (cf_log_level c) of None \<Rightarrow> LvInfo | Some l \<Rightarrow> l),
                                 lc_console = cf_log_level c, lc_has_file = has_file\<rparr>)
      in case cf_log_file c of
           None \<Rightarrow> Ok (control False)
         | Some path \<Rightarrow>
             (case open_log path of
                Some e \<Rightarrow> Err (''cannot open --log-file '' @ path @ '': '' @ e)
              | None \<Rightarrow> Ok (control True)))"

subsection \<open>The storage directory\<close>

text \<open>The directory is made private only when this start created it.\<close>

datatype dir_call = CreateDirAll rstring | SetMode700 rstring

definition prepare_dir :: "'m boot_env \<Rightarrow> rstring \<Rightarrow> (rstring + unit) \<times> dir_call list" where
  "prepare_dir env path =
     (case bo_create_dir env of
        Some e \<Rightarrow> (Err (''cannot create --storage-path '' @ path @ '': '' @ e), [CreateDirAll path])
      | None \<Rightarrow>
          let calls = [CreateDirAll path] @ (if bo_dir_exists env then [] else [SetMode700 path])
          in case bo_open_storage env of
               Some e \<Rightarrow> (Err (''cannot open --storage-path '' @ path @ '': '' @ e), calls)
             | None \<Rightarrow> (Ok (), calls))"

subsection \<open>The label of the fabric\<close>

definition boot_label :: "u32 \<Rightarrow> rstring option \<Rightarrow> fs \<Rightarrow> rstring \<times> fs" where
  "boot_label pid pin s =
     (case pin of
        Some pinned \<Rightarrow>
          let label = normalize_fabric_label (Some pinned);
              (cfg, s) = load_config s
          in (label, if cfg_fabric_label cfg \<noteq> label
                     then snd (save_config pid (cfg\<lparr>cfg_fabric_label := label\<rparr>) s) else s)
      | None \<Rightarrow> (case load_config s of (cfg, s) \<Rightarrow> (cfg_fabric_label cfg, s)))"

subsection \<open>Waiting for the stack\<close>

definition STACK_START_TIMEOUT_SECS :: nat where "STACK_START_TIMEOUT_SECS = 60"

definition ready_or_fatal :: "bool \<Rightarrow> (rstring + ready_info) option \<Rightarrow> rstring + ready_info" where
  "ready_or_fatal in_time ready =
     (if \<not> in_time
      then Err (''the Matter stack did not finish starting within '' @ dec_of_nat STACK_START_TIMEOUT_SECS @ ''s'')
      else case ready of
             None \<Rightarrow> Err ''the Matter stack thread ended before it reported readiness''
           | Some (Inl e) \<Rightarrow> Err (''the Matter stack failed to start: '' @ e)
           | Some (Inr info) \<Rightarrow> Ok info)"

definition sdk_version :: rstring where
  "sdk_version = ''matter-rs-server/0.1.0 (rs-matter/03bc8f2)''"

text \<open>
  The relay of the stack's events: it ends with the controller's receiver, or reports the stack's
  death at the end of the stream. \<open>room\<close> is how many sends the controller still takes.
\<close>

fun relay :: "nat \<Rightarrow> stack_event list \<Rightarrow> stack_event list \<times> bool" where
  "relay room [] = ([], True)"
| "relay room (ev # evs) =
     (case room of 0 \<Rightarrow> ([], False) | Suc r \<Rightarrow> (case relay r evs of (sent, died) \<Rightarrow> (ev # sent, died)))"

subsection \<open>Listeners\<close>

definition listen_addrs :: "config \<Rightarrow> rstring list" where
  "listen_addrs c =
     (if cf_listen_address c = [] then [''[::]:'' @ dec_of (cf_port c)]
      else map (\<lambda>a. if CHR '':'' \<in> set a then ''['' @ a @ '']:'' @ dec_of (cf_port c)
                    else a @ '':'' @ dec_of (cf_port c)) (cf_listen_address c))"

text \<open>The calls of \<open>bind_dual_stack\<close>, the first failure of which is its error\<close>

definition dual_stack_calls :: "tcp_call list" where
  "dual_stack_calls =
     [ParseAddr, NewTcpSocket, SetOnlyV6 False, SetReuseAddress True, BindAddr, Listen 128, SetNonblocking True, FromStd]"

fun first_failure :: "('c \<Rightarrow> rstring option) \<Rightarrow> 'c list \<Rightarrow> rstring option" where
  "first_failure sys [] = None"
| "first_failure sys (c # cs) = (case sys c of Some e \<Rightarrow> Some e | None \<Rightarrow> first_failure sys cs)"

definition bind_dual_stack :: "'m boot_env \<Rightarrow> rstring \<Rightarrow> rstring option" where
  "bind_dual_stack env addr = first_failure (bo_dual_stack env addr) dual_stack_calls"

definition bind_one :: "'m boot_env \<Rightarrow> config \<Rightarrow> rstring \<Rightarrow> rstring option" where
  "bind_one env c addr =
     (if cf_listen_address c = [] then bind_dual_stack env addr else bo_bind env addr)"

text \<open>The addresses bound before the first that cannot be, and that one with its error\<close>

fun bind_all :: "(rstring \<Rightarrow> rstring option) \<Rightarrow> rstring list \<Rightarrow> rstring list \<times> (rstring \<times> rstring) option" where
  "bind_all bind [] = ([], None)"
| "bind_all bind (a # as) =
     (case bind a of
        Some e \<Rightarrow> ([], Some (a, e))
      | None \<Rightarrow> (case bind_all bind as of (bound, failed) \<Rightarrow> (a # bound, failed)))"

subsection \<open>Start\<close>

text \<open>
  A server that serves: its controller, whose world is the stack's, and its listeners. A start
  that ends in \<open>fatal\<close> leaves its message, the stack as it then is, and the process.
\<close>

record 'm server =
  sv_ctrl :: "'m stack_world ctrl"
  sv_listeners :: "rstring list"

definition stack_config_of :: "config \<Rightarrow> rstring \<Rightarrow> stack_config" where
  "stack_config_of c label =
     \<lparr>sc_fabric_id = cf_fabric_id c, sc_vendor_id = cf_vendor_id c, sc_fabric_label = label,
      sc_primary_interface = cf_primary_interface c\<rparr>"

definition start_listeners ::
  "'m boot_env \<Rightarrow> config \<Rightarrow> 'm stack_world ctrl \<Rightarrow> (rstring \<times> 'm stack_world ctrl) + 'm server" where
  "start_listeners env c ct =
     (case bind_all (bind_one env c) (listen_addrs c) of
        (bound, Some (addr, e)) \<Rightarrow>
          Inl (''cannot bind '' @ addr @ '': '' @ e, ct\<lparr>ct_world := shutdown (ct_world ct)\<rparr>)
      | (bound, None) \<Rightarrow> Inr \<lparr>sv_ctrl = ct, sv_listeners = bound\<rparr>)"

datatype 'm start_outcome =
    FatalBefore rstring                          \<comment> \<open>no controller yet\<close>
  | FatalBind rstring "'m stack_world ctrl"
  | Serving "'m server"

definition start ::
  "b64_codec \<Rightarrow> 'm rs_matter \<Rightarrow> 'm stack_world env \<Rightarrow> 'm boot_env \<Rightarrow> config \<Rightarrow> 'm process
   \<Rightarrow> 'm start_outcome \<times> 'm process" where
  "start b rs cenv env c p =
     (case log_init (bo_open_log env) c of
        Inl msg \<Rightarrow> (FatalBefore msg, p)
      | Inr log \<Rightarrow>
          (case prepare_dir env (cf_storage_path c) of
             (Inl msg, _) \<Rightarrow> (FatalBefore msg, p)
           | (Inr _, _) \<Rightarrow>
               let (label, s) = boot_label (bo_pid env) (cf_default_fabric_label c) (pr_fs p);
                   (ready, w, p) = spawn b (bo_pid env) rs (bo_sys env) (bo_startup env) (stack_config_of c label)
                                     (bo_thread_starts env) (p\<lparr>pr_fs := s\<rparr>)
               in case ready_or_fatal (bo_in_time env) ready of
                    Inl msg \<Rightarrow> (FatalBefore msg, p)
                  | Inr info \<Rightarrow>
                      let ct = controller_new cenv (pr_fs p) (bo_pid env) (ri_identity info) (ri_fabric_index info)
                                 sdk_version (cf_default_fabric_label c \<noteq> None) log w
                      in (case start_listeners env c ct of
                            Inl (msg, ct) \<Rightarrow> FatalBind msg ct
                          | Inr sv \<Rightarrow> Serving sv,
                          p)))"

subsection \<open>Stop\<close>

datatype stop_event = Sigterm | CtrlC | StreamEnded
datatype stop_reason = Signal | StackDied

text \<open>The first event the server waits for; without a handler for it SIGTERM is none of them.\<close>

fun wait_stop :: "bool \<Rightarrow> stop_event list \<Rightarrow> stop_reason option" where
  "wait_stop sigterm [] = None"
| "wait_stop sigterm (ev # evs) =
     (case ev of
        Sigterm \<Rightarrow> if sigterm then Some Signal else wait_stop sigterm evs
      | CtrlC \<Rightarrow> Some Signal
      | StreamEnded \<Rightarrow> Some StackDied)"

definition exit_code :: "stop_reason \<Rightarrow> nat" where
  "exit_code r = (case r of Signal \<Rightarrow> 0 | StackDied \<Rightarrow> 1)"

text \<open>
  The drain of the listeners, bounded by \<open>DRAIN_TIMEOUT\<close>, ends whatever they do; then the stack is
  shut down.
\<close>

definition DRAIN_TIMEOUT_SECS :: nat where "DRAIN_TIMEOUT_SECS = 3"

definition drain_secs :: "nat option \<Rightarrow> nat" where
  "drain_secs listeners_done = (case listeners_done of None \<Rightarrow> DRAIN_TIMEOUT_SECS | Some t \<Rightarrow> min t DRAIN_TIMEOUT_SECS)"

definition stop_server :: "stop_reason \<Rightarrow> 'm server \<Rightarrow> nat \<times> 'm stack_world ctrl" where
  "stop_server r sv = (exit_code r, (sv_ctrl sv)\<lparr>ct_world := shutdown (ct_world (sv_ctrl sv))\<rparr>)"

text \<open>
  The whole process, with everything that happens while it serves as \<open>work\<close>: the exit code (none
  while it serves on), and the controller if there came to be one.
\<close>

definition server_main ::
  "b64_codec \<Rightarrow> 'm rs_matter \<Rightarrow> 'm stack_world env \<Rightarrow> 'm boot_env \<Rightarrow> config \<Rightarrow> 'm process
   \<Rightarrow> ('m stack_world ctrl \<Rightarrow> 'm stack_world ctrl) \<Rightarrow> stop_event list
   \<Rightarrow> nat option \<times> 'm stack_world ctrl option" where
  "server_main b rs cenv env c p work evs =
     (case fst (start b rs cenv env c p) of
        FatalBefore msg \<Rightarrow> (Some 1, None)
      | FatalBind msg ct \<Rightarrow> (Some 1, Some ct)
      | Serving sv \<Rightarrow>
          let sv = sv\<lparr>sv_ctrl := work (sv_ctrl sv)\<rparr>
          in case wait_stop (bo_sigterm env) evs of
               None \<Rightarrow> (None, Some (sv_ctrl sv))
             | Some r \<Rightarrow> (case stop_server r sv of (exit, ct) \<Rightarrow> (Some exit, Some ct)))"

subsection \<open>HTTP\<close>

text \<open>
  The routes: what the handlers of this server answer, and \<open>Upgrade\<close> for the connections of
  \<open>Ws\<close>, when the request asks for one. A GET route also serves HEAD; any other request is
  answered by axum itself.
\<close>

datatype http_method = Get | Head | OtherMethod

datatype http_answer =
    HealthAnswer json
  | MethodNotAllowed "rstring \<times> rstring"       \<comment> \<open>status 405 with this header\<close>
  | Upgrade
  | AnsweredByAxum

definition health :: "'c controller_api \<Rightarrow> 'c \<Rightarrow> json" where
  "health api c =
     jobject [(''version'', JStr ''0.1.0''), (''node_count'', junsigned (of_nat (ap_node_count api c) :: u64))]"

definition http_answer_of :: "'c controller_api \<Rightarrow> http_method \<Rightarrow> rstring \<Rightarrow> 'c \<Rightarrow> http_answer" where
  "http_answer_of api meth path c =
     (if path = ''/health''
      then (if meth = OtherMethod then MethodNotAllowed (''allow'', ''GET'') else HealthAnswer (health api c))
      else if path = ''/ws'' \<and> meth = Get then Upgrade
      else AnsweredByAxum)"

end
