(* ===== verification/Boot_Facts.thy ===== *)
theory Boot_Facts
  imports Boot Migrate_Facts Handle_Facts Stack_Sample
begin

section \<open>What a started server stands for, and how it ends\<close>

text \<open>
  The label of the fabric is one thing to the stack, the controller and the disk after a start,
  the listeners are the addresses asked for, and the exit code tells an operator's stop from every
  other end.
\<close>

subsection \<open>The configuration on a working disk\<close>








subsection \<open>The label\<close>












subsection \<open>The end of the process\<close>

lemma wait_stop_cases:
  "wait_stop sigterm evs = (case filter (\<lambda>ev. sigterm \<or> ev \<noteq> Sigterm) evs of
      [] \<Rightarrow> None | ev # _ \<Rightarrow> Some (if ev = StreamEnded then StackDied else Signal))"
  by (induction evs) (auto split: stop_event.splits)

lemma shut_down_answers: "answers_down en (shutdown w)"
  using closed_answers_down shutdown_closed by blast

text \<open>
  Code 0 is for a server that served and was signalled before its stack died; any other end has
  code 1, and once there is a controller its stack is shut down with the process.
\<close>

lemma exit_code_tells_why:
  assumes "server_main b rs cenv env c p work evs = (Some status, ct)"
  shows "status = (if (\<exists>sv. fst (start b rs cenv env c p) = Serving sv)
                    \<and> hd (filter (\<lambda>ev. bo_sigterm env \<or> ev \<noteq> Sigterm) evs) \<noteq> StreamEnded then 0 else 1)
     \<and> (\<forall>k. ct = Some k \<longrightarrow> answers_down en (ct_world k))"
proof (cases "fst (start b rs cenv env c p)")
  case (FatalBefore msg)
  with assms show ?thesis by (auto simp: server_main_def)
next
  case (FatalBind msg k)
  then have "\<exists>k0. k = k0\<lparr>ct_world := shutdown (ct_world k0)\<rparr>"
    by (auto simp: start_def start_listeners_def Let_def split: prod.splits sum.splits option.splits)
  with FatalBind assms shut_down_answers show ?thesis
    by (auto simp: server_main_def)
next
  case (Serving sv)
  with assms shut_down_answers show ?thesis
    by (auto simp: server_main_def wait_stop_cases stop_server_def exit_code_def Let_def
        split: option.splits list.splits if_splits)
qed

end
