(* ===== verification/Spec2Isabelle.thy ===== *)
theory Spec2Isabelle
  imports Storage_Facts Writers Vendors NodeManager_Facts Commands_Frame Admin_Facts Node_Facts
    Ws_Facts Jsdb_Facts Supervisor_Facts Migrate_Facts
    Stack_Facts Requests_Facts ConfigLock_Facts Idl_Facts Boot_Facts
begin

text \<open>
  A verification library for matter-rs-server: a Matter controller in Rust that serves the
  WebSocket protocol of the Python and Node Matter servers, on top of the rs-matter package.

  \<^bold>\<open>The program.\<close> A WebSocket connection (\<open>server/src/ws.rs\<close>) reads commands as JSON and
  hands them to the controller (\<open>controller/src/real.rs\<close>, the handlers in
  \<open>controller/src/commands\<close>). The controller keeps the node registry
  (\<open>registry.rs\<close>), the configuration and the files that make both survive a restart
  (\<open>storage.rs\<close>), and calls the Matter stack through the trait \<open>Stack\<close>
  (\<open>stack_api.rs\<close>). The stack reports back through a channel that the node manager
  (\<open>node_manager.rs\<close>) consumes: it updates the registry, decides with a grace timer when a
  node counts as unavailable, and broadcasts every change; each connection that listens forwards
  the broadcasts. Behind the trait, the stack crate (\<open>crates/stack\<close>) converts between JSON
  and Matter TLV (\<open>tlv_json.rs\<close>), merges the attribute reports of a subscription
  (\<open>reports.rs\<close>), keeps one subscription per node alive (\<open>supervisor.rs\<close>) and the
  controller's own keys on disk (\<open>identity.rs\<close>). \<open>crates/migrate\<close> converts the store
  of the matter.js server once, offline.

  \<^bold>\<open>The theories, bottom up.\<close>
  \<^item> \<open>Prelude\<close>: machine integers, results, the ordered map that stands for \<open>BTreeMap\<close> and
    \<open>serde_json::Map\<close>, the locale \<open>keyed_store\<close> with its laws and the map's interpretation.
  \<^item> \<open>Strings\<close>: the standard library's string functions on UTF-8 bytes. \<open>Json\<close>:
    \<open>serde_json::Value\<close>. \<open>Wire\<close>: \<open>crates/wire\<close>. \<open>Addr\<close>: \<open>addr.rs\<close>.
  \<^item> \<open>Files\<close>, \<open>Storage\<close>, \<open>Writers\<close>: \<open>storage.rs\<close>. A write is the list of its
    system calls (open, write, sync, permissions, rename), each of which the fault plan of the
    file system may fail; a crash is a prefix of that list, concurrent writers are an interleaving
    of such lists.
  \<^item> \<open>Registry\<close>: \<open>registry.rs\<close>. \<open>StackApi\<close>: the trait \<open>Stack\<close> as a record of functions
    on a stack world of any type, and \<open>FakeStack\<close>, the instance the witnesses use.
  \<^item> \<open>NodeManager\<close>: the state \<open>shared\<close> by manager and controller (registry, disk, everything
    broadcast so far, the event history) and the manager's own \<open>grace\<close> (timer entries, sleeping
    tasks, the queue of expiry signals, a clock). The consumer loop, the timer tasks and the passing
    of time are the step relation \<open>nm_step\<close>.
  \<^item> \<open>Ctrl\<close>: \<open>MatterController\<close> as a record that extends \<open>shared\<close>; construction from disk,
    \<open>update_config\<close>, the argument helpers; \<open>NodeCommands\<close> and \<open>AdminCommands\<close>: one
    definition per handler; \<open>Dispatch\<close>: \<open>handle_command\<close>; \<open>Vendors\<close>: the vendor table.
    \<open>ConfigLock\<close>: \<open>update_config\<close> of many tasks, step by step, under its lock.
  \<^item> \<open>Server\<close>: commands of any connection, manager steps and closing connections in any order.
  \<^item> \<open>Ws\<close>: \<open>ws.rs\<close> over any \<open>Controller\<close> (\<open>api.rs\<close>), with the real controller and
    \<open>stub.rs\<close> as instances. A turn of the \<open>select!\<close> loop is a label of \<open>ws_step\<close>.
  \<^item> \<open>Floats\<close>, \<open>Tlv\<close>: \<open>stack/src/tlv_json.rs\<close>, both directions, with and without the
    schema; floats are bit patterns.
  \<^item> \<open>Reports\<close>: \<open>stack/src/reports.rs\<close> and \<open>stack/src/ctx.rs\<close>: the accumulator that a
    report's messages are absorbed into, the report sink, the shared state and the error mapping.
  \<^item> \<open>Supervisor\<close>: \<open>stack/src/supervisor.rs\<close> with the tasks of \<open>runtime.rs\<close> that drive
    it: one task per node (attempt, priming report, watch, back off), and the loop that starts and
    stops them.
  \<^item> \<open>Identity\<close>: \<open>stack/src/identity.rs\<close>: creating, loading and checking fabric and keys.
  \<^item> \<open>Jsdb\<close>, \<open>Decode\<close>, \<open>Convert\<close>, \<open>Migrate\<close>: the files of
    \<open>crates/migrate/src\<close>: the log reader; tagged values; fabric, nodes and configuration; the
    run with its checks, writes and exit code. \<open>Migrate_Sample\<close> is one complete store that migrates.
  \<^item> \<open>Interact\<close>: \<open>stack/src/ops/interact.rs\<close>: read, interview, write, invoke. \<open>Window\<close>:
    \<open>ops/window.rs\<close> and \<open>ops/fabrics.rs\<close>. \<open>Commissioning\<close>: \<open>ops/discovery.rs\<close> and
    \<open>ops/commission.rs\<close>. \<open>Mdns\<close>: \<open>mdns.rs\<close>.
  \<^item> \<open>Handle\<close>: \<open>stack/src/lib.rs\<close> and \<open>runtime.rs\<close>: the handle is an instance of
    \<open>stack\<close>, so the controller's theories hold for it; boot, shutdown, one stack per process.
    \<open>Stack_Sample\<close> is a small network it runs on. \<open>Requests\<close>: the request loop of
    \<open>runtime.rs\<close> in single steps: the channel, the turns of the loop, detached tasks that finish
    in any order or panic, the end of the thread.
  \<^item> \<open>Idl\<close>: \<open>gen/build.rs\<close>: the scan of the interface definition, the Rust source it writes,
    and the tables the compiler makes of that, in which \<open>Tlv\<close> looks clusters up.
  \<^item> \<open>Boot\<close>: \<open>server/src/main.rs\<close>, \<open>config.rs\<close>, \<open>http.rs\<close> and the set-up of
    \<open>logging.rs\<close>: from a configuration to the listeners, and from a stop to the exit code.

  \<^bold>\<open>What the lemmas show.\<close>
  \<^item> \<open>Storage_Facts\<close>, \<open>Writers\<close>: outcomes of a write under any fault, atomicity under crashes
    and concurrency, what a load returns after a save, the rules for labels, ids and credentials.
  \<^item> \<open>NodeManager_Facts\<close>: the broadcasts determine the registry (\<open>announced\<close>), the history is
    the last 25 events, and the life of the grace timers. The bound of 180 seconds is counted by the
    clock of \<open>grace\<close>.
  \<^item> \<open>Commands_Frame\<close>: which commands touch what (\<open>command_effect\<close>), from which
    \<open>Admin_Facts\<close> (configuration, credentials, labels, ACLs, commissioning), \<open>Node_Facts\<close>
    (attribute paths, device commands, removal) and \<open>Persist_Facts\<close> (disk and registry agree)
    follow.
  \<^item> \<open>Ws_Facts\<close>: the locale \<open>guaranteed_controller\<close> (an invariant, a guarantee between states,
    a broadcast that only grows) with the lemmas of a connection, interpreted on both controllers.
  \<^item> \<open>Tlv_Facts\<close>: what is written as TLV reads back as the same JSON, and what is refused.
    \<open>Report_Facts\<close>: a report split over messages is one batch, and acts only on its sender.
    \<open>Supervisor_Facts\<close>: one live task per node, reports only of watched nodes, and that a task
    always comes back to a new attempt.
  \<^item> \<open>Identity_Facts\<close>: a stored identity is never replaced, a failed creation is rolled back.
  \<^item> \<open>Jsdb_Facts\<close>: the log as one list of commits, and the operations of a commit.
    \<open>Migrate_Facts\<close>: what a migration writes and when, and that the server starts on it.
  \<^item> \<open>Interact_Facts\<close>: what the responses of a device mean for the caller, the secrets of a
    window, the bounds of a browse. \<open>Handle_Facts\<close>: commissioning, handles without a stack, the
    interface of mDNS. \<open>Stack_Facts\<close>: the controller's command on the real stack.
  \<^item> \<open>Requests_Facts\<close>, \<open>ConfigLock_Facts\<close>: interleaved requests amount to the one-step
    requests of \<open>Handle\<close>, each answered once; interleaved updates of the configuration amount to
    the one-step \<open>update_config\<close>, none lost.
  \<^item> \<open>Idl_Facts\<close>: what an attribute declaration adds, and that a lookup in the tables finds the
    first cluster declared. \<open>Boot_Facts\<close>: the label a started server stands for, exit codes.
  \<^item> this theory: restart after any run, and the client that replays all broadcasts.

  \<^bold>\<open>Conventions.\<close> A \<open>Result\<close> is a sum, the error left; a Rust string is the list of its
  bytes; \<open>u64\<close> and its kin are words, with release-build wrap-around; a panic or a loop that
  does not end is \<open>None\<close>, and that every command does answer is a
  property of \<open>Admin_Facts\<close>. The node id search is a \<open>partial_function\<close>, so no fuel is
  involved; so is the drain of a broadcast receiver, whose return is \<open>drain_returns\<close>, and so is
  the drawing of a passcode, which ends exactly when some draw is allowed. Ticks are microseconds.

  \<^bold>\<open>Parameters.\<close> Code outside the repository is an argument: the stack (rs-matter), the reader
  and printer of JSON text, base64, gzip, tokio's broadcast channel (with its documented behaviour
  as the hypothesis \<open>broadcast_contract\<close>), the system's \<open>ping\<close>, the clock and the texts of
  foreign errors. The elements of a TLV document arrive parsed, as a tree, and leave through a
  writer that is an argument; the messages of a subscription are the argument of the report loop;
  the executor's schedule is any sequence of the supervisor's labels, a cancelled task being dropped
  at any later point of it. Certificates, keys and fabrics of rs-matter are the record
  \<open>rs_matter\<close> with \<open>fabric_contract\<close> for what a fabric does with them; the codec of the
  matter.js store, hexadecimal and dates, and the answers of the operating system to a migration
  are \<open>migrate_env\<close>. An exchange with a device is an argument that yields the device's messages
  (\<open>im_client\<close>); the curve, the random source and the code printers are \<open>window_env\<close>; browsing,
  the phases of commissioning and the parsers of codes are \<open>onboard_env\<close>, with
  \<open>browse_contract\<close> for what a browse promises. What the operating system answers to a start is
  \<open>boot_env\<close>; the command line is read by clap, and the model begins with its result.

  \<^bold>\<open>Simplifications.\<close> A handler runs as one step: what other tasks do while it awaits the stack
  is interleaved before or after it, not inside. The read-modify-write of the configuration and a
  request to the stack thread with its reply are one step each in the controller's theories;
  \<open>ConfigLock\<close> and \<open>Requests\<close> take them apart, and their theorems show that the steps amount
  to it. A detached task of the stack thread acts at the moment it finishes; a caller that gives up
  waiting for the lock is one that takes no further step. The reply to a request whose passcode
  drawing never ends is unspecified. The stored documents are read
  from JSON objects only (a derived \<open>Deserialize\<close> would also take an array).

  \<^bold>\<open>Not modelled.\<close> The reading of the command line (clap's), the dispatch of HTTP requests beyond
  the two routes (axum's), the layers of the logging package; the hardware spike, an experiment
  outside the product; what is only logged. An interface definition with a backslash in it is
  outside \<open>static_tables\<close>, since the escapes of Rust literals are not modelled.
\<close>

section \<open>Properties of the whole server\<close>








end
